(* ===== verification/Prelude.thy ===== *)
theory Prelude
  imports Complex_Main "HOL-Library.Word"
begin

text \<open>
  Shared vocabulary of the TinyLlama development: the error kinds of
  \<open>include/tiny_llama/exceptions.hpp\<close> and of the standard library exceptions the
  code throws, the arithmetic of \<open>size_t\<close> (64-bit, wrapping), the model of
  \<open>std::exp\<close> on \<open>float\<close> (real exponential with float32 underflow to zero), and
  \<open>std::max_element\<close> (first index of a greatest element), with the generic
  list lemmas the component theories share.
\<close>

named_theorems model_defs \<open>definitions of the model unfolded by component proofs\<close>
named_theorems shape_simps \<open>shape facts of matrices and vectors\<close>

section \<open>Error kinds\<close>

text \<open>
  One constructor per exception class the code throws: \<open>std::out_of_range\<close>,
  \<open>std::invalid_argument\<close>, and the library's \<open>FileIOException\<close>,
  \<open>ModelException\<close>, \<open>ConfigurationException\<close>, \<open>TokenizerException\<close>.
  The kind is what callers and tests distinguish; the message, context, file
  and line an exception carries are modelled in \<open>Exceptions\<close>.
\<close>

datatype error =
    OutOfRange
  | InvalidArgument
  | FileIOError
  | ModelError
  | ConfigurationError
  | TokenizerError

type_synonym 'a result = "error + 'a"

text \<open>Sequencing of fallible steps: the first exception propagates, as a C++
  exception unwinds the rest of the function.\<close>

definition rbind :: "'a result \<Rightarrow> ('a \<Rightarrow> 'b result) \<Rightarrow> 'b result" where
  "rbind r f = (case r of Inl e \<Rightarrow> Inl e | Inr x \<Rightarrow> f x)"

lemma rbind_simps [simp]: "rbind (Inl e) f = Inl e" "rbind (Inr x) f = f x"
  by (simp_all add: rbind_def)

lemma rbind_eq_Inr: "rbind r f = Inr y \<longleftrightarrow> (\<exists>x. r = Inr x \<and> f x = Inr y)"
  by (cases r) simp_all

lemma rbind_eq_Inl: "rbind r f = Inl e \<longleftrightarrow> r = Inl e \<or> (\<exists>x. r = Inr x \<and> f x = Inl e)"
  by (cases r) simp_all

lemma rbind_cong [fundef_cong]:
  "r = r' \<Longrightarrow> (\<And>x. r' = Inr x \<Longrightarrow> f x = g x) \<Longrightarrow> rbind r f = rbind r' g"
  by (cases r') auto

text \<open>\<open>std::vector::resize(n, value)\<close>: keep the first \<open>n\<close> elements, pad with
  \<open>value\<close>.\<close>

definition list_resize :: "'a list \<Rightarrow> nat \<Rightarrow> 'a \<Rightarrow> 'a list" where
  "list_resize xs n d = take n xs @ replicate (n - length xs) d"

lemma length_list_resize [simp]: "length (list_resize xs n d) = n"
  by (simp add: list_resize_def)

lemma nth_list_resize:
  "i < n \<Longrightarrow> list_resize xs n d ! i = (if i < length xs then xs ! i else d)"
  by (auto simp add: list_resize_def nth_append)

section \<open>size_t arithmetic\<close>

text \<open>\<open>size_t\<close> is 64 bits wide on the hosts the weight format targets; its
  multiplication and addition wrap around.\<close>

definition size_t_limit :: nat where
  "size_t_limit = 2 ^ 64"

definition size_mul :: "nat \<Rightarrow> nat \<Rightarrow> nat" where
  "size_mul a b = (a * b) mod size_t_limit"

definition size_add :: "nat \<Rightarrow> nat \<Rightarrow> nat" where
  "size_add a b = (a + b) mod size_t_limit"

lemma size_mul_small [simp]: "a * b < size_t_limit \<Longrightarrow> size_mul a b = a * b"
  by (simp add: size_mul_def)

lemma size_add_small [simp]: "a + b < size_t_limit \<Longrightarrow> size_add a b = a + b"
  by (simp add: size_add_def)

lemma size_mul_bound: "size_mul a b < size_t_limit"
  by (simp add: size_mul_def size_t_limit_def)

section \<open>Accumulation loops\<close>

text \<open>The code's \<open>sum += f(k)\<close> loops are left folds from the initial value; over an
  associative addition they are the list sum.\<close>

lemma foldl_add_sum_list:
  "foldl (\<lambda>s k. s + f k) a xs = a + sum_list (map f xs)" for a :: "'a::monoid_add"
  by (induction xs arbitrary: a) (simp_all add: add.assoc)

lemma foldl_add_sum:
  "foldl (\<lambda>s k. s + f k) 0 [0..<n] = (\<Sum>k<n. f k)" for f :: "nat \<Rightarrow> 'a::comm_monoid_add"
  by (simp add: foldl_add_sum_list sum_list_sum_nth atLeast0LessThan)

lemma foldl_plus_sum_list: "foldl (+) a xs = a + sum_list xs" for a :: "'a::monoid_add"
  by (induction xs arbitrary: a) (simp_all add: add.assoc)

lemma sum_list_map_divide:
  "sum_list (map (\<lambda>x. f x / t) xs) = sum_list (map f xs) / t" for t :: "'a::field"
  by (induction xs) (simp_all add: add_divide_distrib)

text \<open>The running maximum \<open>m = max(m, x)\<close> started at the first element.\<close>

lemma foldl_max_init: "a \<le> foldl max a xs" for a :: "'a::linorder"
  by (induction xs arbitrary: a) (auto intro: order_trans [OF max.cobounded1])

lemma foldl_max_ge: "y \<in> set (a # xs) \<Longrightarrow> y \<le> foldl max a xs" for a :: "'a::linorder"
proof (induction xs arbitrary: a)
  case Nil
  then show ?case by simp
next
  case (Cons x xs)
  show ?case
  proof (cases "y \<in> set xs")
    case True
    then show ?thesis using Cons.IH [of "max a x"] by simp
  next
    case False
    with Cons.prems have "y \<le> max a x" by auto
    also have "\<dots> \<le> foldl max (max a x) xs" by (rule foldl_max_init)
    finally show ?thesis by simp
  qed
qed

lemma foldl_max_mem: "foldl max a xs \<in> set (a # xs)" for a :: "'a::linorder"
proof (induction xs arbitrary: a)
  case (Cons x xs)
  have "foldl max (max a x) xs \<in> set (max a x # xs)" by (rule Cons.IH)
  moreover have "max a x \<in> {a, x}" by (simp add: max_def)
  ultimately show ?case by auto
qed simp

section \<open>std::exp on float\<close>

text \<open>
  Float arithmetic is idealised as real arithmetic, with one exception that the
  attention mask depends on: \<open>std::exp\<close> on a \<open>float\<close> returns exactly \<open>0\<close> when the
  true value is at most half of the smallest positive subnormal, \<open>2 ^ -150\<close>
  (round to nearest, ties to even). \<open>expf\<close> keeps that underflow and nothing else
  of float rounding.
\<close>

definition expf :: "real \<Rightarrow> real" where
  "expf x = (if exp x * 2 ^ 150 \<le> 1 then 0 else exp x)"

lemma expf_nonneg [simp]: "0 \<le> expf x"
  by (simp add: expf_def)

lemma expf_zero [simp]: "expf 0 = 1"
  by (simp add: expf_def)

lemma expf_le_one: "x \<le> 0 \<Longrightarrow> expf x \<le> 1"
  by (simp add: expf_def)

lemma expf_pos_eq: "0 < expf x \<Longrightarrow> expf x = exp x"
  by (simp add: expf_def split: if_splits)

lemma expf_le_exp: "expf x \<le> exp x"
  by (simp add: expf_def)

lemma expf_mono: "x \<le> y \<Longrightarrow> expf x \<le> expf y"
proof -
  assume le: "x \<le> y"
  then have ex: "exp x \<le> exp y" by simp
  then have m: "exp x * 2 ^ 150 \<le> exp y * 2 ^ 150"
    by (rule mult_right_mono) simp
  show ?thesis
  proof (cases "exp y * 2 ^ 150 \<le> 1")
    case True
    then have "exp x * 2 ^ 150 \<le> 1" using m by (simp only: order_trans [OF m])
    with True show ?thesis by (simp add: expf_def)
  next
    case False
    then have "expf y = exp y" by (simp add: expf_def)
    with ex show ?thesis using expf_le_exp [of x] by linarith
  qed
qed

lemma expf_eq_one_iff: "x \<le> 0 \<Longrightarrow> expf x = 1 \<longleftrightarrow> x = 0"
  by (auto simp add: expf_def)

lemma exp_150_ge: "(2::real) ^ 150 \<le> exp 150"
proof -
  have "(2::real) \<le> exp 1"
    using exp_ge_add_one_self [of 1] by simp
  then have "(2::real) ^ 150 \<le> exp 1 ^ 150"
    by (rule power_mono) simp
  also have "exp (1::real) ^ 150 = exp (real 150 * 1)"
    by (simp only: exp_of_nat_mult)
  finally show ?thesis by simp
qed

text \<open>Below \<open>-150\<close> the float exponential is exactly zero.\<close>

lemma expf_underflow: "x \<le> -150 \<Longrightarrow> expf x = 0"
proof -
  assume x: "x \<le> -150"
  have "exp x \<le> exp (-150)" using x by simp
  also have "exp (-150::real) = inverse (exp 150)" by (simp add: exp_minus)
  finally have e: "exp x * exp 150 \<le> 1"
    by (simp add: field_simps)
  have "exp x * 2 ^ 150 \<le> exp x * exp 150"
    by (rule mult_left_mono [OF exp_150_ge]) simp
  then have "exp x * 2 ^ 150 \<le> 1"
    using e by (rule order_trans)
  then show ?thesis by (simp add: expf_def)
qed

section \<open>std::max_element\<close>

text \<open>
  \<open>std::max_element\<close> keeps the first element and replaces it only by a strictly
  greater one, so it returns the first index of a greatest element;
  \<open>max_element_from best bv i xs\<close> is that loop with \<open>best\<close> the index of the
  greatest element so far, \<open>bv\<close> its value and \<open>i\<close> the index of the head of
  \<open>xs\<close>. On an empty range it returns the end, index \<open>0\<close>.
\<close>

fun max_element_from :: "nat \<Rightarrow> 'a::linorder \<Rightarrow> nat \<Rightarrow> 'a list \<Rightarrow> nat" where
  "max_element_from best bv i [] = best"
| "max_element_from best bv i (x # xs) =
     (if bv < x then max_element_from i x (Suc i) xs else max_element_from best bv (Suc i) xs)"

definition max_element :: "'a::linorder list \<Rightarrow> nat" where
  "max_element xs = (case xs of [] \<Rightarrow> 0 | x # xs' \<Rightarrow> max_element_from 0 x 1 xs')"

lemma max_element_from_correct:
  assumes "best < length ps" "ps ! best = bv" "\<forall>y\<in>set ps. y \<le> bv" "\<forall>k<best. ps ! k < bv"
  shows "max_element_from best bv (length ps) xs < length (ps @ xs)
    \<and> (\<forall>y\<in>set (ps @ xs). y \<le> (ps @ xs) ! max_element_from best bv (length ps) xs)
    \<and> (\<forall>k<max_element_from best bv (length ps) xs.
          (ps @ xs) ! k < (ps @ xs) ! max_element_from best bv (length ps) xs)"
  using assms
proof (induction xs arbitrary: ps best bv)
  case Nil
  then show ?case by simp
next
  case (Cons x xs)
  show ?case
  proof (cases "bv < x")
    case True
    have "max_element_from (length ps) x (length (ps @ [x])) xs < length ((ps @ [x]) @ xs)
      \<and> (\<forall>y\<in>set ((ps @ [x]) @ xs). y \<le> ((ps @ [x]) @ xs) ! max_element_from (length ps) x (length (ps @ [x])) xs)
      \<and> (\<forall>k<max_element_from (length ps) x (length (ps @ [x])) xs.
          ((ps @ [x]) @ xs) ! k < ((ps @ [x]) @ xs) ! max_element_from (length ps) x (length (ps @ [x])) xs)"
      using Cons.prems True
      by (intro Cons.IH) (auto simp: nth_append, meson le_less_trans nth_mem)
    with True show ?thesis by simp
  next
    case False
    have "max_element_from best bv (length (ps @ [x])) xs < length ((ps @ [x]) @ xs)
      \<and> (\<forall>y\<in>set ((ps @ [x]) @ xs). y \<le> ((ps @ [x]) @ xs) ! max_element_from best bv (length (ps @ [x])) xs)
      \<and> (\<forall>k<max_element_from best bv (length (ps @ [x])) xs.
          ((ps @ [x]) @ xs) ! k < ((ps @ [x]) @ xs) ! max_element_from best bv (length (ps @ [x])) xs)"
      using Cons.prems False by (intro Cons.IH) (auto simp: nth_append)
    with False show ?thesis by simp
  qed
qed

lemma max_element_correct:
  assumes "xs \<noteq> []"
  shows "max_element xs < length xs \<and> (\<forall>y\<in>set xs. y \<le> xs ! max_element xs)
    \<and> (\<forall>k<max_element xs. xs ! k < xs ! max_element xs)"
proof -
  obtain x xs' where xs: "xs = x # xs'" using assms by (cases xs) auto
  have "max_element_from 0 x (length [x]) xs' < length ([x] @ xs')
    \<and> (\<forall>y\<in>set ([x] @ xs'). y \<le> ([x] @ xs') ! max_element_from 0 x (length [x]) xs')
    \<and> (\<forall>k<max_element_from 0 x (length [x]) xs'. ([x] @ xs') ! k < ([x] @ xs') ! max_element_from 0 x (length [x]) xs')"
    by (rule max_element_from_correct) auto
  then show ?thesis by (simp add: max_element_def xs)
qed

lemma max_element_less: "xs \<noteq> [] \<Longrightarrow> max_element xs < length xs"
  using max_element_correct by blast

lemma max_element_is_max: "xs \<noteq> [] \<Longrightarrow> y \<in> set xs \<Longrightarrow> y \<le> xs ! max_element xs"
  using max_element_correct by blast

lemma max_element_first: "xs \<noteq> [] \<Longrightarrow> k < max_element xs \<Longrightarrow> xs ! k < xs ! max_element xs"
  using max_element_correct by blast

text \<open>The first index of a greatest element is determined by the two facts above.\<close>

lemma max_element_unique:
  assumes "r < length xs" "\<forall>y\<in>set xs. y \<le> xs ! r" "\<forall>k<r. xs ! k < xs ! r"
  shows "max_element xs = r"
proof -
  have ne: "xs \<noteq> []" using assms(1) by auto
  let ?m = "max_element xs"
  have m: "?m < length xs" "\<forall>y\<in>set xs. y \<le> xs ! ?m" "\<forall>k<?m. xs ! k < xs ! ?m"
    using max_element_correct [OF ne] by auto
  have eq: "xs ! ?m = xs ! r"
    using m(1,2) assms(1,2) by (meson antisym nth_mem)
  show ?thesis
  proof (rule ccontr)
    assume "?m \<noteq> r"
    then consider "?m < r" | "r < ?m" by linarith
    then show False
      using eq m(3) assms(3) by cases auto
  qed
qed

end
