(* ===== verification/Matrix.thy ===== *)
theory Matrix
  imports Prelude
begin

text \<open>
  The numeric container of \<open>src/src/matrix.cpp\<close> (declared in the header that
  opens \<open>src/unnamed/part_008\<close>): \<open>Matrix<T>\<close>, a row-major buffer with its two
  dimensions, and \<open>Tensor<T>\<close>, a buffer with a shape. Both are templates, so the
  element type is a type variable with the operations the template uses
  (\<open>T{0}\<close>, \<open>+\<close>, \<open>*\<close>). Dimensions are \<open>size_t\<close>: products that size buffers
  wrap at \<open>2 ^ 64\<close>. Every checked access returns an error value where the code
  throws.
\<close>

section \<open>Matrix<T>\<close>

record 'a matrix =
  m_data :: "'a list"
  m_rows :: nat
  m_cols :: nat

text \<open>The unchecked read \<open>data_[row * cols_ + col]\<close> behind the checked accessor.\<close>

definition mat_at :: "'a matrix \<Rightarrow> nat \<Rightarrow> nat \<Rightarrow> 'a" where
  "mat_at m i j = m_data m ! (i * m_cols m + j)"

text \<open>
  \<open>matrix_tab r c f\<close> is the result of the code's recurring pattern
  \<open>Matrix<T> result(r, c); for i: for j: result(i, j) = f(i, j)\<close>: every cell is
  written, row by row.
\<close>

definition tab :: "nat \<Rightarrow> nat \<Rightarrow> (nat \<Rightarrow> nat \<Rightarrow> 'a) \<Rightarrow> 'a list" where
  "tab r c f = concat (map (\<lambda>i. map (f i) [0..<c]) [0..<r])"

definition matrix_tab :: "nat \<Rightarrow> nat \<Rightarrow> (nat \<Rightarrow> nat \<Rightarrow> 'a) \<Rightarrow> 'a matrix" where
  "matrix_tab r c f = \<lparr>m_data = tab r c f, m_rows = r, m_cols = c\<rparr>"

text \<open>\<open>Matrix(rows, cols)\<close>: \<open>data_.resize(rows * cols)\<close> value-initialises, so
  the buffer is zeros of the wrapped product's length.\<close>

definition matrix_new :: "nat \<Rightarrow> nat \<Rightarrow> 'a::zero matrix" where
  "matrix_new r c = \<lparr>m_data = replicate (size_mul r c) 0, m_rows = r, m_cols = c\<rparr>"

text \<open>\<open>Matrix()\<close>: no rows, no columns, no storage.\<close>

definition matrix_empty :: "'a matrix" where
  "matrix_empty = \<lparr>m_data = [], m_rows = 0, m_cols = 0\<rparr>"

text \<open>\<open>Matrix(rows, cols, data)\<close> throws \<open>std::invalid_argument\<close> unless the data
  has exactly \<open>rows * cols\<close> elements.\<close>

definition matrix_of_list :: "nat \<Rightarrow> nat \<Rightarrow> 'a list \<Rightarrow> 'a matrix result" where
  "matrix_of_list r c d =
     (if length d \<noteq> size_mul r c then Inl InvalidArgument
      else Inr \<lparr>m_data = d, m_rows = r, m_cols = c\<rparr>)"

text \<open>\<open>operator()(row, col)\<close>, read and write: \<open>std::out_of_range\<close> when either
  index is not below its dimension.\<close>

definition matrix_get :: "'a matrix \<Rightarrow> nat \<Rightarrow> nat \<Rightarrow> 'a result" where
  "matrix_get m i j =
     (if i \<ge> m_rows m \<or> j \<ge> m_cols m then Inl OutOfRange else Inr (mat_at m i j))"

definition matrix_set :: "'a matrix \<Rightarrow> nat \<Rightarrow> nat \<Rightarrow> 'a \<Rightarrow> 'a matrix result" where
  "matrix_set m i j v =
     (if i \<ge> m_rows m \<or> j \<ge> m_cols m then Inl OutOfRange
      else Inr (m\<lparr>m_data := (m_data m)[i * m_cols m + j := v]\<rparr>))"

text \<open>\<open>size()\<close> returns \<open>rows_ * cols_\<close> as a \<open>size_t\<close>.\<close>

definition matrix_size :: "'a matrix \<Rightarrow> nat" where
  "matrix_size m = size_mul (m_rows m) (m_cols m)"

text \<open>\<open>operator*\<close>: \<open>std::invalid_argument\<close> unless \<open>cols_ == other.rows_\<close>;
  otherwise each cell accumulates \<open>sum += (*this)(i, k) * other(k, j)\<close> from
  \<open>T{0}\<close> for \<open>k = 0, ..., cols_ - 1\<close> (all accesses are in range there).\<close>

definition dot_acc :: "'a::{zero,plus,times} matrix \<Rightarrow> 'a matrix \<Rightarrow> nat \<Rightarrow> nat \<Rightarrow> 'a" where
  "dot_acc a b i j = foldl (\<lambda>s k. s + mat_at a i k * mat_at b k j) 0 [0..<m_cols a]"

definition matrix_mul :: "'a::{zero,plus,times} matrix \<Rightarrow> 'a matrix \<Rightarrow> 'a matrix result" where
  "matrix_mul a b =
     (if m_cols a \<noteq> m_rows b then Inl InvalidArgument
      else Inr (matrix_tab (m_rows a) (m_cols b) (dot_acc a b)))"

text \<open>\<open>operator+\<close>: \<open>std::invalid_argument\<close> unless the shapes agree; otherwise
  \<open>result.data_[i] = data_[i] + other.data_[i]\<close> over this buffer's indices.\<close>

definition matrix_add :: "'a::plus matrix \<Rightarrow> 'a matrix \<Rightarrow> 'a matrix result" where
  "matrix_add a b =
     (if m_rows a \<noteq> m_rows b \<or> m_cols a \<noteq> m_cols b then Inl InvalidArgument
      else Inr \<lparr>m_data = map (\<lambda>k. m_data a ! k + m_data b ! k) [0..<length (m_data a)],
                m_rows = m_rows a, m_cols = m_cols a\<rparr>)"

text \<open>\<open>transpose()\<close>: \<open>result(j, i) = (*this)(i, j)\<close> into a \<open>cols_ x rows_\<close>
  matrix.\<close>

definition matrix_transpose :: "'a matrix \<Rightarrow> 'a matrix" where
  "matrix_transpose m = matrix_tab (m_cols m) (m_rows m) (\<lambda>j i. mat_at m i j)"

text \<open>\<open>resize(rows, cols)\<close>: new dimensions; \<open>std::vector::resize\<close> keeps the
  prefix of the old buffer and value-initialises the rest.\<close>

definition vec_resize :: "'a::zero list \<Rightarrow> nat \<Rightarrow> 'a list" where
  "vec_resize xs n = list_resize xs n 0"

definition matrix_resize :: "'a::zero matrix \<Rightarrow> nat \<Rightarrow> nat \<Rightarrow> 'a matrix" where
  "matrix_resize m r c =
     \<lparr>m_data = vec_resize (m_data m) (size_mul r c), m_rows = r, m_cols = c\<rparr>"

text \<open>\<open>fill(value)\<close>: every element of the buffer.\<close>

definition matrix_fill :: "'a matrix \<Rightarrow> 'a \<Rightarrow> 'a matrix" where
  "matrix_fill m v = m\<lparr>m_data := replicate (length (m_data m)) v\<rparr>"

text \<open>The invariant the spec states for \<open>Matrix\<close>: the buffer holds exactly
  \<open>rows * cols\<close> elements, a number a \<open>size_t\<close> can count.\<close>

definition wf_matrix :: "'a matrix \<Rightarrow> bool" where
  "wf_matrix m \<longleftrightarrow> m_rows m * m_cols m < size_t_limit \<and> length (m_data m) = m_rows m * m_cols m"

section \<open>Row-major tabulation\<close>

lemma length_tab [simp]: "length (tab r c f) = r * c"
proof (induction r)
  case 0
  then show ?case by (simp add: tab_def)
next
  case (Suc r)
  then show ?case by (simp add: tab_def)
qed

lemma tab_Suc: "tab (Suc r) c f = tab r c f @ map (f r) [0..<c]"
  by (simp add: tab_def)

lemma index_bound: "(i::nat) < r \<Longrightarrow> j < c \<Longrightarrow> i * c + j < r * c"
proof -
  assume i: "i < r" and j: "j < c"
  have "i * c + j < i * c + c" using j by simp
  also have "\<dots> = Suc i * c" by simp
  also have "\<dots> \<le> r * c" using i by (intro mult_right_mono) simp_all
  finally show ?thesis .
qed

lemma nth_tab [simp]: "i < r \<Longrightarrow> j < c \<Longrightarrow> tab r c f ! (i * c + j) = f i j"
proof (induction r)
  case 0
  then show ?case by simp
next
  case (Suc r)
  show ?case
  proof (cases "i < r")
    case True
    have "i * c + j < r * c" using True Suc.prems(2) by (rule index_bound)
    with True Suc show ?thesis by (simp add: tab_Suc nth_append)
  next
    case False
    with Suc.prems have "i = r" by simp
    then show ?thesis using Suc.prems by (simp add: tab_Suc nth_append)
  qed
qed

lemma mat_at_tab [simp]:
  "i < r \<Longrightarrow> j < c \<Longrightarrow> mat_at (matrix_tab r c f) i j = f i j"
  by (simp add: mat_at_def matrix_tab_def)

lemma matrix_tab_shape [simp, shape_simps]:
  "m_rows (matrix_tab r c f) = r" "m_cols (matrix_tab r c f) = c"
  "length (m_data (matrix_tab r c f)) = r * c"
  by (simp_all add: matrix_tab_def)

lemma matrix_tab_cong:
  "(\<And>i j. i < r \<Longrightarrow> j < c \<Longrightarrow> f i j = g i j) \<Longrightarrow> matrix_tab r c f = matrix_tab r c g"
  unfolding matrix_tab_def tab_def by (auto intro!: arg_cong [where f = concat] map_cong)

lemma wf_matrix_tab: "r * c < size_t_limit \<Longrightarrow> wf_matrix (matrix_tab r c f)"
  by (simp add: wf_matrix_def)

text \<open>Two well-formed matrices with the same shape and the same cells are equal.\<close>

lemma matrix_eqI:
  assumes "wf_matrix a" "wf_matrix b" "m_rows a = m_rows b" "m_cols a = m_cols b"
    "\<And>i j. i < m_rows a \<Longrightarrow> j < m_cols a \<Longrightarrow> mat_at a i j = mat_at b i j"
    "more a = more b"
  shows "a = b"
proof -
  have len: "length (m_data a) = length (m_data b)"
    using assms(1-4) by (simp add: wf_matrix_def)
  have "m_data a ! k = m_data b ! k" if k: "k < length (m_data a)" for k
  proof -
    let ?c = "m_cols a"
    have pos: "0 < ?c" using k assms(1) by (cases "?c = 0") (auto simp: wf_matrix_def)
    have "k div ?c < m_rows a"
      using k assms(1) pos by (simp add: wf_matrix_def less_mult_imp_div_less)
    moreover have "k mod ?c < ?c" using pos by simp
    ultimately have "mat_at a (k div ?c) (k mod ?c) = mat_at b (k div ?c) (k mod ?c)"
      by (rule assms(5))
    then show ?thesis using assms(4) by (simp add: mat_at_def)
  qed
  with len have "m_data a = m_data b" by (simp add: nth_equalityI)
  then show ?thesis using assms(3,4,6) by simp
qed

section \<open>Properties of the matrix operations\<close>

lemma matrix_new_shape [shape_simps]:
  "m_rows (matrix_new r c) = r" "m_cols (matrix_new r c) = c"
  by (simp_all add: matrix_new_def)

lemma wf_matrix_new: "r * c < size_t_limit \<Longrightarrow> wf_matrix (matrix_new r c)"
  by (simp add: wf_matrix_def matrix_new_def)

lemma mat_at_new: "i < r \<Longrightarrow> j < c \<Longrightarrow> r * c < size_t_limit \<Longrightarrow> mat_at (matrix_new r c) i j = 0"
  by (simp add: mat_at_def matrix_new_def index_bound)

lemma matrix_get_ok:
  "i < m_rows m \<Longrightarrow> j < m_cols m \<Longrightarrow> matrix_get m i j = Inr (mat_at m i j)"
  by (simp add: matrix_get_def)

lemma matrix_get_out_of_range:
  "m_rows m \<le> i \<or> m_cols m \<le> j \<Longrightarrow> matrix_get m i j = Inl OutOfRange"
  by (auto simp add: matrix_get_def)

lemma matrix_set_shape:
  "matrix_set m i j v = Inr m' \<Longrightarrow> m_rows m' = m_rows m \<and> m_cols m' = m_cols m
     \<and> length (m_data m') = length (m_data m)"
  by (auto simp add: matrix_set_def split: if_splits)

lemma wf_matrix_set: "wf_matrix m \<Longrightarrow> matrix_set m i j v = Inr m' \<Longrightarrow> wf_matrix m'"
  by (auto simp add: wf_matrix_def dest: matrix_set_shape)

lemma mat_at_set:
  assumes "wf_matrix m" "matrix_set m i j v = Inr m'" "i' < m_rows m" "j' < m_cols m"
  shows "mat_at m' i' j' = (if i' = i \<and> j' = j then v else mat_at m i' j')"
proof -
  have ij: "i < m_rows m" "j < m_cols m" and m': "m' = m\<lparr>m_data := (m_data m)[i * m_cols m + j := v]\<rparr>"
    using assms(2) by (auto simp add: matrix_set_def split: if_splits)
  have len: "i' * m_cols m + j' < length (m_data m)"
    using assms(1,3,4) by (simp add: wf_matrix_def index_bound)
  have inj: "i' * m_cols m + j' = i * m_cols m + j \<longleftrightarrow> i' = i \<and> j' = j"
  proof
    assume eq: "i' * m_cols m + j' = i * m_cols m + j"
    have "(i' * m_cols m + j') div m_cols m = i'" "(i' * m_cols m + j') mod m_cols m = j'"
      using assms(4) by simp_all
    moreover have "(i * m_cols m + j) div m_cols m = i" "(i * m_cols m + j) mod m_cols m = j"
      using ij(2) by simp_all
    ultimately show "i' = i \<and> j' = j" using eq by metis
  qed simp
  show ?thesis
  proof (cases "i' = i \<and> j' = j")
    case True
    then show ?thesis using len by (simp add: m' mat_at_def)
  next
    case False
    then have "i' * m_cols m + j' \<noteq> i * m_cols m + j" using inj by simp
    with False show ?thesis by (auto simp add: m' mat_at_def)
  qed
qed

lemma matrix_mul_mismatch: "m_cols a \<noteq> m_rows b \<Longrightarrow> matrix_mul a b = Inl InvalidArgument"
  by (simp add: matrix_mul_def)

lemma matrix_mul_ok:
  "m_cols a = m_rows b \<Longrightarrow> matrix_mul a b = Inr (matrix_tab (m_rows a) (m_cols b) (dot_acc a b))"
  by (simp add: matrix_mul_def)

lemma dot_acc_sum:
  "dot_acc a b i j = (\<Sum>k<m_cols a. mat_at a i k * mat_at b k j)"
  for a :: "'a::comm_semiring_1 matrix"
  by (simp add: dot_acc_def foldl_add_sum)

lemma matrix_transpose_shape [shape_simps]:
  "m_rows (matrix_transpose m) = m_cols m" "m_cols (matrix_transpose m) = m_rows m"
  by (simp_all add: matrix_transpose_def)

lemma wf_matrix_transpose: "wf_matrix m \<Longrightarrow> wf_matrix (matrix_transpose m)"
  by (simp add: wf_matrix_def matrix_transpose_def mult.commute)

lemma mat_at_transpose [simp]:
  "i < m_cols m \<Longrightarrow> j < m_rows m \<Longrightarrow> mat_at (matrix_transpose m) i j = mat_at m j i"
  by (simp add: matrix_transpose_def)

lemma matrix_add_shape:
  "matrix_add a b = Inr c \<Longrightarrow> m_rows c = m_rows a \<and> m_cols c = m_cols a
     \<and> length (m_data c) = length (m_data a)"
  by (auto simp add: matrix_add_def split: if_splits)

lemma mat_at_add:
  assumes "wf_matrix a" "matrix_add a b = Inr c" "i < m_rows a" "j < m_cols a"
  shows "mat_at c i j = mat_at a i j + mat_at b i j"
proof -
  have "i * m_cols a + j < length (m_data a)"
    using assms(1,3,4) by (simp add: wf_matrix_def index_bound)
  then show ?thesis using assms(2)
    by (auto simp add: matrix_add_def mat_at_def split: if_splits)
qed

lemma wf_matrix_resize:
  "r * c < size_t_limit \<Longrightarrow> wf_matrix (matrix_resize m r c)"
  by (simp add: wf_matrix_def matrix_resize_def vec_resize_def)

lemma length_vec_resize [simp]: "length (vec_resize xs n) = n"
  by (simp add: vec_resize_def)

lemma wf_matrix_fill: "wf_matrix m \<Longrightarrow> wf_matrix (matrix_fill m v)"
  by (simp add: wf_matrix_def matrix_fill_def)

section \<open>Tensor<T>\<close>

record 'a tensor =
  t_data :: "'a list"
  t_shape :: "nat list"

text \<open>\<open>total_size()\<close> and the constructor: \<open>total *= dim\<close> over the shape, from 1, in
  \<open>size_t\<close>.\<close>

definition shape_total :: "nat list \<Rightarrow> nat" where
  "shape_total s = foldl size_mul 1 s"

definition tensor_new :: "nat list \<Rightarrow> 'a::zero tensor" where
  "tensor_new s = \<lparr>t_data = replicate (shape_total s) 0, t_shape = s\<rparr>"

text \<open>
  \<open>compute_index\<close>: \<open>std::invalid_argument\<close> unless there are as many indices as
  dimensions; then, for \<open>i\<close> from the last dimension down to the first,
  \<open>std::out_of_range\<close> if \<open>indices[i] >= shape_[i]\<close>, else
  \<open>index += indices[i] * stride; stride *= shape_[i]\<close>. \<open>index_loop\<close> runs that loop
  over the reversed index and shape lists.
\<close>

fun index_loop :: "nat list \<Rightarrow> nat list \<Rightarrow> nat \<Rightarrow> nat \<Rightarrow> nat result" where
  "index_loop (x # xs) (d # ds) idx stride =
     (if x \<ge> d then Inl OutOfRange
      else index_loop xs ds (size_add idx (size_mul x stride)) (size_mul stride d))"
| "index_loop _ _ idx stride = Inr idx"

definition compute_index :: "'a tensor \<Rightarrow> nat list \<Rightarrow> nat result" where
  "compute_index t idx =
     (if length idx \<noteq> length (t_shape t) then Inl InvalidArgument
      else index_loop (rev idx) (rev (t_shape t)) 0 1)"

text \<open>\<open>at(indices)\<close>: \<open>data_[compute_index(indices)]\<close>.\<close>

definition tensor_at :: "'a tensor \<Rightarrow> nat list \<Rightarrow> 'a result" where
  "tensor_at t idx = (case compute_index t idx of Inl e \<Rightarrow> Inl e | Inr k \<Rightarrow> Inr (t_data t ! k))"

text \<open>\<open>to_matrix()\<close>: \<open>std::invalid_argument\<close> unless the rank is 2, then the
  checked \<open>Matrix(rows, cols, data)\<close> constructor.\<close>

definition tensor_to_matrix :: "'a tensor \<Rightarrow> 'a matrix result" where
  "tensor_to_matrix t =
     (if length (t_shape t) \<noteq> 2 then Inl InvalidArgument
      else matrix_of_list (t_shape t ! 0) (t_shape t ! 1) (t_data t))"

definition tensor_resize :: "'a::zero tensor \<Rightarrow> nat list \<Rightarrow> 'a tensor" where
  "tensor_resize t s = \<lparr>t_data = vec_resize (t_data t) (shape_total s), t_shape = s\<rparr>"

definition tensor_fill :: "'a tensor \<Rightarrow> 'a \<Rightarrow> 'a tensor" where
  "tensor_fill t v = t\<lparr>t_data := replicate (length (t_data t)) v\<rparr>"

definition wf_tensor :: "'a tensor \<Rightarrow> bool" where
  "wf_tensor t \<longleftrightarrow> prod_list (t_shape t) < size_t_limit \<and> length (t_data t) = prod_list (t_shape t)"

subsection \<open>The row-major offset\<close>

text \<open>The reference: offset \<open>i\<^sub>0 * (d\<^sub>1 * ... * d\<^sub>n) + row_major rest\<close>.\<close>

fun row_major :: "nat list \<Rightarrow> nat list \<Rightarrow> nat" where
  "row_major (i # is) (d # ds) = i * prod_list ds + row_major is ds"
| "row_major _ _ = 0"

text \<open>The same offset read from the last dimension: least significant digit first.\<close>

fun rm_rev :: "nat list \<Rightarrow> nat list \<Rightarrow> nat" where
  "rm_rev (x # xs) (d # ds) = x + d * rm_rev xs ds"
| "rm_rev _ _ = 0"

definition in_shape :: "nat list \<Rightarrow> nat list \<Rightarrow> bool" where
  "in_shape idx s \<longleftrightarrow> length idx = length s \<and> (\<forall>k<length s. idx ! k < s ! k)"

lemma in_shape_Cons [simp]: "in_shape (x # xs) (d # ds) \<longleftrightarrow> x < d \<and> in_shape xs ds"
  by (auto simp add: in_shape_def nth_Cons split: nat.splits)

lemma in_shape_Nil [simp]: "in_shape [] ds \<longleftrightarrow> ds = []" "in_shape xs [] \<longleftrightarrow> xs = []"
  by (auto simp add: in_shape_def)

lemma in_shape_rev [simp]: "in_shape (rev xs) (rev ys) \<longleftrightarrow> in_shape xs ys"
  by (auto simp add: in_shape_def rev_nth) (metis diff_Suc_less length_greater_0_conv
      rev_nth length_rev not_less0 rev_rev_ident)

lemma rm_rev_snoc:
  "length xs = length ys \<Longrightarrow> rm_rev (xs @ [x]) (ys @ [d]) = rm_rev xs ys + prod_list ys * x"
  by (induction xs ys rule: list_induct2) (simp_all add: algebra_simps)

lemma rm_rev_row_major:
  "length is = length ds \<Longrightarrow> rm_rev (rev is) (rev ds) = row_major is ds"
  by (induction "is" ds rule: list_induct2) (simp_all add: rm_rev_snoc mult.commute)

lemma rm_rev_bound: "in_shape xs ys \<Longrightarrow> rm_rev xs ys < prod_list ys"
proof (induction xs ys rule: rm_rev.induct)
  case (1 x xs d ds)
  then have x: "x + 1 \<le> d" and r: "rm_rev xs ds + 1 \<le> prod_list ds" by simp_all
  have "x + d * rm_rev xs ds + 1 \<le> d + d * rm_rev xs ds" using x by simp
  also have "\<dots> = d * (rm_rev xs ds + 1)" by (simp add: algebra_simps)
  also have "\<dots> \<le> d * prod_list ds" using r by (rule mult_left_mono) simp
  finally show ?case by simp
qed (auto simp add: in_shape_def)

lemma prod_list_pos: "in_shape xs ys \<Longrightarrow> 0 < prod_list ys"
  using rm_rev_bound by fastforce

lemma index_loop_in_range:
  assumes "in_shape xs ys" "acc < st" "st * prod_list ys < size_t_limit"
  shows "index_loop xs ys acc st = Inr (acc + st * rm_rev xs ys)"
  using assms
proof (induction xs ys acc st rule: index_loop.induct)
  case (1 x xs d ds acc st)
  have xd: "x < d" and rest: "in_shape xs ds" using "1.prems" by simp_all
  have pos: "0 < prod_list ds" using rest by (rule prod_list_pos)
  have big: "st * d * prod_list ds < size_t_limit" using "1.prems"(3) by (simp add: mult.assoc)
  have sd: "st * d < size_t_limit"
    using big pos by (metis dual_order.strict_trans1 mult_le_cancel1 mult.right_neutral
        less_one not_le)
  have xst: "x * st < st * d" using xd "1.prems"(2) by simp
  have accx: "acc + x * st < st * d"
  proof -
    have "acc + x * st < st + x * st" using "1.prems"(2) by simp
    also have "\<dots> = st * (x + 1)" by (simp add: algebra_simps)
    also have "\<dots> \<le> st * d" using xd by (intro mult_left_mono) simp_all
    finally show ?thesis .
  qed
  have "x * st < size_t_limit" using xst sd by linarith
  then have sm: "size_mul x st = x * st" by simp
  have sa: "size_add acc (x * st) = acc + x * st" using accx sd by simp
  have sm2: "size_mul st d = st * d" using sd by simp
  have "index_loop xs ds (acc + x * st) (st * d) = Inr (acc + x * st + st * d * rm_rev xs ds)"
    using "1.IH" xd rest accx big sm sa sm2 by simp
  then show ?case using xd sm sa sm2 by (simp add: algebra_simps)
qed simp_all

lemma index_loop_out_of_range:
  "length xs = length ys \<Longrightarrow> \<not> in_shape xs ys \<Longrightarrow> index_loop xs ys acc st = Inl OutOfRange"
  by (induction xs ys acc st rule: index_loop.induct) auto

lemma compute_index_eq:
  assumes "prod_list (t_shape t) < size_t_limit"
  shows "compute_index t idx =
    (if length idx \<noteq> length (t_shape t) then Inl InvalidArgument
     else if in_shape idx (t_shape t) then Inr (row_major idx (t_shape t)) else Inl OutOfRange)"
proof (cases "length idx = length (t_shape t)")
  case True
  show ?thesis
  proof (cases "in_shape idx (t_shape t)")
    case ins: True
    have "index_loop (rev idx) (rev (t_shape t)) 0 1 = Inr (0 + 1 * rm_rev (rev idx) (rev (t_shape t)))"
      by (rule index_loop_in_range) (simp_all add: ins assms prod_list.rev)
    then show ?thesis using True ins by (simp add: compute_index_def rm_rev_row_major)
  next
    case False
    then show ?thesis using True
      by (simp add: compute_index_def index_loop_out_of_range)
  qed
qed (simp add: compute_index_def)

lemma row_major_bound: "in_shape idx s \<Longrightarrow> row_major idx s < prod_list s"
proof -
  assume a: "in_shape idx s"
  then have "in_shape (rev idx) (rev s)" by simp
  then have "rm_rev (rev idx) (rev s) < prod_list (rev s)" by (rule rm_rev_bound)
  moreover have "length idx = length s" using a by (simp add: in_shape_def)
  ultimately show ?thesis by (simp add: rm_rev_row_major prod_list.rev)
qed

section \<open>Claims about the numeric container\<close>

text \<open>
  Claim C3: matrix multiplication. For well-formed \<open>A : [m, k]\<close> and
  \<open>B : [k', n]\<close>, \<open>A * B\<close> fails with \<open>std::invalid_argument\<close> exactly when
  \<open>k \<noteq> k'\<close>; otherwise it returns a well-formed \<open>[m, n]\<close> matrix whose cell
  \<open>(i, j)\<close> is \<open>\<Sum>k. A(i, k) * B(k, j)\<close>.
\<close>

theorem matrix_mul_correct:
  fixes a b :: "'a::comm_semiring_1 matrix"
  assumes "wf_matrix a" "wf_matrix b" "m_rows a * m_cols b < size_t_limit"
  shows "(m_cols a \<noteq> m_rows b \<longrightarrow> matrix_mul a b = Inl InvalidArgument)
    \<and> (m_cols a = m_rows b \<longrightarrow> (\<exists>c. matrix_mul a b = Inr c \<and> wf_matrix c
         \<and> m_rows c = m_rows a \<and> m_cols c = m_cols b
         \<and> (\<forall>i<m_rows a. \<forall>j<m_cols b.
               mat_at c i j = (\<Sum>k<m_cols a. mat_at a i k * mat_at b k j))))"
  using assms by (simp add: matrix_mul_def wf_matrix_tab dot_acc_sum)

theorem matrix_mul_correct_witness:
  "matrix_mul \<lparr>m_data = [1, 2, 3, 4 :: int], m_rows = 2, m_cols = 2\<rparr>
              \<lparr>m_data = [5, 6 :: int], m_rows = 2, m_cols = 1\<rparr>
     = Inr \<lparr>m_data = [17, 39], m_rows = 2, m_cols = 1\<rparr>
   \<and> matrix_mul \<lparr>m_data = [1, 2, 3, 4 :: int], m_rows = 2, m_cols = 2\<rparr>
              \<lparr>m_data = [5, 6, 7 :: int], m_rows = 3, m_cols = 1\<rparr> = Inl InvalidArgument"
proof -
  let ?a = "\<lparr>m_data = [1, 2, 3, 4 :: int], m_rows = 2, m_cols = 2\<rparr>"
  let ?b = "\<lparr>m_data = [5, 6 :: int], m_rows = 2, m_cols = 1\<rparr>"
  let ?b' = "\<lparr>m_data = [5, 6, 7 :: int], m_rows = 3, m_cols = 1\<rparr>"
  have wf: "wf_matrix ?a" "wf_matrix ?b" "wf_matrix ?b'" "m_rows ?a * m_cols ?b < size_t_limit"
    by (simp_all add: wf_matrix_def size_t_limit_def)
  have e1: "matrix_mul ?a ?b' = Inl InvalidArgument"
    using matrix_mul_correct [OF wf(1,3)] wf(4) by simp
  have "matrix_mul ?a ?b = Inr (matrix_tab 2 1 (dot_acc ?a ?b))"
    using matrix_mul_correct [OF wf(1,2,4)] by (simp add: matrix_mul_def)
  also have "matrix_tab 2 1 (dot_acc ?a ?b) = \<lparr>m_data = [17, 39], m_rows = 2, m_cols = 1\<rparr>"
    by (simp add: matrix_tab_def tab_def dot_acc_def mat_at_def upt_rec)
  finally show ?thesis using e1 by simp
qed

text \<open>
  Claim C4: tensor indexing. \<open>compute_index\<close>, which walks the dimensions from
  the last to the first with a running stride, fails with
  \<open>std::invalid_argument\<close> when the number of indices differs from the rank, with
  \<open>std::out_of_range\<close> when an index reaches its dimension, and otherwise returns
  the row-major offset \<open>row_major\<close>, which lies below the number of elements.
\<close>

theorem tensor_compute_index:
  assumes "prod_list (t_shape t) < size_t_limit"
  shows "compute_index t idx =
      (if length idx \<noteq> length (t_shape t) then Inl InvalidArgument
       else if in_shape idx (t_shape t) then Inr (row_major idx (t_shape t)) else Inl OutOfRange)
    \<and> (in_shape idx (t_shape t) \<longrightarrow> row_major idx (t_shape t) < prod_list (t_shape t))"
  using compute_index_eq [OF assms] row_major_bound by blast

theorem tensor_compute_index_witness:
  "compute_index \<lparr>t_data = replicate 24 (0::int), t_shape = [2, 3, 4]\<rparr> [1, 2, 3] = Inr 23
   \<and> compute_index \<lparr>t_data = replicate 24 (0::int), t_shape = [2, 3, 4]\<rparr> [1, 3, 0] = Inl OutOfRange"
proof -
  let ?t = "\<lparr>t_data = replicate 24 (0::int), t_shape = [2, 3, 4]\<rparr>"
  have p: "prod_list (t_shape ?t) < size_t_limit" by (simp add: size_t_limit_def)
  have "compute_index ?t [1, 2, 3] = Inr (row_major [1, 2, 3] [2, 3, 4])"
    using tensor_compute_index [OF p, of "[1, 2, 3]"] by simp
  moreover have "compute_index ?t [1, 3, 0] = Inl OutOfRange"
    using tensor_compute_index [OF p, of "[1, 3, 0]"] by simp
  ultimately show ?thesis by simp
qed

end
