(* ===== verification/Bytes.thy ===== *)
theory Bytes
  imports Matrix
begin

text \<open>
  The byte level of the binary files: little-endian integers and \<open>float\<close> bit
  patterns (\<open>32 word\<close>) as byte lists (\<open>8 word list\<close>), input streams used
  without exceptions (a short read only clears \<open>good()\<close>; a scalar read that hits
  the end of the file keeps the indeterminate bytes of its uninitialised
  destination, the stream's \<open>s_junk\<close>), and the file persistence of \<open>Matrix\<close>
  (\<open>Matrix::load_from_file\<close>, \<open>Matrix::save_to_file\<close> in \<open>src/src/matrix.cpp\<close>)
  over a \<open>32 word matrix\<close>.
\<close>

type_synonym byte = "8 word"

section \<open>Little-endian encoding\<close>

fun le_bytes :: "nat \<Rightarrow> nat \<Rightarrow> byte list" where
  "le_bytes 0 v = []"
| "le_bytes (Suc n) v = word_of_nat (v mod 256) # le_bytes n (v div 256)"

fun le_val :: "byte list \<Rightarrow> nat" where
  "le_val [] = 0"
| "le_val (b # bs) = unat b + 256 * le_val bs"

definition float_bytes :: "32 word \<Rightarrow> byte list" where
  "float_bytes w = le_bytes 4 (unat w)"

definition floats_bytes :: "32 word list \<Rightarrow> byte list" where
  "floats_bytes ws = concat (map float_bytes ws)"

fun bytes_floats :: "byte list \<Rightarrow> 32 word list" where
  "bytes_floats (a # b # c # d # rest) = word_of_nat (le_val [a, b, c, d]) # bytes_floats rest"
| "bytes_floats bs = []"

section \<open>Streams\<close>

record istream =
  s_bytes :: "byte list"
  s_good :: bool
  s_junk :: nat

definition instream :: "byte list \<Rightarrow> nat \<Rightarrow> istream" where
  "instream bs j = \<lparr>s_bytes = bs, s_good = True, s_junk = j\<rparr>"

text \<open>\<open>file.read(buf, n)\<close>: nothing on a failed stream; otherwise the next \<open>n\<close>
  bytes, or all that is left with the failure flag set.\<close>

definition read_bytes :: "nat \<Rightarrow> istream \<Rightarrow> byte list \<times> istream" where
  "read_bytes n s =
     (if \<not> s_good s then ([], s)
      else if n \<le> length (s_bytes s) then (take n (s_bytes s), s\<lparr>s_bytes := drop n (s_bytes s)\<rparr>)
      else (s_bytes s, s\<lparr>s_bytes := [], s_good := False\<rparr>))"

text \<open>A read of an \<open>n\<close>-byte scalar into an uninitialised local: the bytes read
  overwrite the low end of its old content.\<close>

definition read_scalar :: "nat \<Rightarrow> istream \<Rightarrow> nat \<times> istream" where
  "read_scalar n s =
     (let (bs, s') = read_bytes n s in (le_val (bs @ drop (length bs) (le_bytes n (s_junk s))), s'))"

definition read_size :: "istream \<Rightarrow> nat \<times> istream" where
  "read_size s = read_scalar 8 s"

definition read_u32 :: "istream \<Rightarrow> nat \<times> istream" where
  "read_u32 s = read_scalar 4 s"

definition read_i32 :: "istream \<Rightarrow> int \<times> istream" where
  "read_i32 s = (let (v, s') = read_scalar 4 s in (sint (word_of_nat v :: 32 word), s'))"

definition read_f32 :: "istream \<Rightarrow> 32 word \<times> istream" where
  "read_f32 s = (let (v, s') = read_scalar 4 s in (word_of_nat v, s'))"

text \<open>A bulk read of \<open>n\<close> bytes into a float buffer: what is read overwrites the
  front of the buffer's bytes.\<close>

definition read_floats :: "nat \<Rightarrow> 32 word list \<Rightarrow> istream \<Rightarrow> 32 word list \<times> istream" where
  "read_floats n buf s =
     (let (bs, s') = read_bytes n s in (bytes_floats (bs @ drop (length bs) (floats_bytes buf)), s'))"

section \<open>Matrix files\<close>

text \<open>\<open>Matrix::load_from_file\<close>: \<open>FileIOException\<close> when the file cannot be opened
  or the stream fails on the dimensions or on the payload; the matrix is resized
  (keeping its buffer prefix) and its buffer overwritten by the payload.\<close>

definition matrix_load :: "byte list option \<Rightarrow> nat \<Rightarrow> 32 word matrix \<Rightarrow> 32 word matrix result" where
  "matrix_load f j m =
     (case f of None \<Rightarrow> Inl FileIOError
      | Some bs \<Rightarrow>
          (let (rows, s1) = read_size (instream bs j);
               (cols, s2) = read_size s1
           in if \<not> s_good s2 then Inl FileIOError
              else let m' = matrix_resize m rows cols;
                       (d, s3) = read_floats (size_mul (length (m_data m')) 4) (m_data m') s2
                   in if \<not> s_good s3 then Inl FileIOError else Inr (m'\<lparr>m_data := d\<rparr>)))"

text \<open>\<open>Matrix::save_to_file\<close>: the two dimensions as \<open>size_t\<close>, then the buffer
  (the stream of a file that could be created does not fail).\<close>

definition matrix_save :: "bool \<Rightarrow> 32 word matrix \<Rightarrow> byte list result" where
  "matrix_save ok m =
     (if \<not> ok then Inl FileIOError
      else Inr (le_bytes 8 (m_rows m) @ le_bytes 8 (m_cols m) @ floats_bytes (m_data m)))"

section \<open>Encoding lemmas\<close>

lemma length_le_bytes [simp]: "length (le_bytes n v) = n"
  by (induction n arbitrary: v) auto

lemma le_val_le_bytes [simp]: "le_val (le_bytes n v) = v mod 256 ^ n"
proof (induction n arbitrary: v)
  case (Suc n)
  have "unat (word_of_nat (v mod 256) :: byte) = v mod 256"
    by (simp add: unat_of_nat)
  then show ?case using Suc [of "v div 256"]
    by (simp add: mod_mult2_eq)
qed simp

lemma le_val_append: "le_val (xs @ ys) = le_val xs + 256 ^ length xs * le_val ys"
  by (induction xs) (simp_all add: algebra_simps)

lemma le_val_bound: "le_val bs < 256 ^ length bs"
proof (induction bs)
  case (Cons b bs)
  have "unat b < 2 ^ LENGTH(8)" by (rule unsigned_less)
  then have "unat b < 256" by simp
  then show ?case using Cons by simp
qed simp

lemma length_float_bytes [simp]: "length (float_bytes w) = 4"
  by (simp add: float_bytes_def)

lemma length_floats_bytes [simp]: "length (floats_bytes ws) = 4 * length ws"
  by (induction ws) (simp_all add: floats_bytes_def)

lemma float_bytes_val: "le_val (float_bytes w) = unat w"
proof -
  have "unat w < 2 ^ LENGTH(32)" by (rule unsigned_less)
  then have "unat w < 256 ^ 4" by simp
  then show ?thesis by (simp add: float_bytes_def)
qed

lemma length_4_conv: "length xs = 4 \<Longrightarrow> \<exists>a b c d. xs = [a, b, c, d]"
  by (auto simp add: eval_nat_numeral length_Suc_conv)

lemma bytes_floats_append:
  "bytes_floats (floats_bytes ws @ rest) = ws @ bytes_floats rest"
proof (induction ws)
  case (Cons w ws)
  obtain a b c d where e: "float_bytes w = [a, b, c, d]"
    using length_4_conv [OF length_float_bytes] by blast
  have "word_of_nat (le_val [a, b, c, d]) = w"
    using float_bytes_val [of w] e by simp
  then show ?case using Cons e by (simp add: floats_bytes_def)
qed (simp add: floats_bytes_def)

lemma bytes_floats_floats_bytes [simp]: "bytes_floats (floats_bytes ws) = ws"
  using bytes_floats_append [of ws "[]"] by simp

section \<open>Reading from a good stream\<close>

lemma read_bytes_good:
  "n = length xs \<Longrightarrow> read_bytes n (instream (xs @ rest) j) = (xs, instream rest j)"
  by (simp add: read_bytes_def instream_def)

lemma read_scalar_good:
  "v < 256 ^ n \<Longrightarrow> read_scalar n (instream (le_bytes n v @ rest) j) = (v, instream rest j)"
  by (simp add: read_scalar_def read_bytes_good)

lemma read_floats_good:
  "length buf = length ws \<Longrightarrow>
   read_floats (4 * length ws) buf (instream (floats_bytes ws @ rest) j) = (ws, instream rest j)"
  by (simp add: read_floats_def read_bytes_good)

section \<open>Reading what was written\<close>

lemma le_bytes_le_val: "le_bytes (length bs) (le_val bs) = bs"
proof (induction bs)
  case (Cons b bs)
  have u: "unat b < 256" using unsigned_less [of b] by simp
  then have "(unat b + 256 * le_val bs) mod 256 = unat b" "(unat b + 256 * le_val bs) div 256 = le_val bs"
    by simp_all
  then show ?case using Cons by simp
qed simp

lemma le_val_inj: "length xs = length ys \<Longrightarrow> le_val xs = le_val ys \<Longrightarrow> xs = ys"
  by (metis le_bytes_le_val)

lemma size_limit_4: "a < 2 ^ 31 \<Longrightarrow> b < 2 ^ 31 \<Longrightarrow> 4 * (a * b) < size_t_limit"
proof -
  assume "a < 2 ^ 31" "b < 2 ^ 31"
  then have "a * b < 2 ^ 31 * 2 ^ 31" by (intro mult_strict_mono) auto
  then show ?thesis by (simp add: size_t_limit_def)
qed

lemma size_limit_1: "a < 2 ^ 31 \<Longrightarrow> 4 * a < size_t_limit"
  by (simp add: size_t_limit_def)

lemma read_floats_good':
  "length buf = length ws \<Longrightarrow> n = 4 * length ws \<Longrightarrow>
   read_floats n buf (instream (floats_bytes ws @ rest) j) = (ws, instream rest j)"
  using read_floats_good by simp

section \<open>Reading header scalars\<close>

lemma sint_small: "v < 2 ^ 31 \<Longrightarrow> sint (word_of_nat v :: 32 word) = int v"
proof -
  assume a: "v < 2 ^ 31"
  have "uint (word_of_nat v :: 32 word) = int v"
    using a by (simp add: unsigned_of_nat take_bit_nat_eq_self)
  then show ?thesis
    using a by (simp add: sint_uint signed_take_bit_int_eq_self)
qed

lemma read_u32_good: "v < 2 ^ 32 \<Longrightarrow> read_u32 (instream (le_bytes 4 v @ rest) j) = (v, instream rest j)"
  by (simp add: read_u32_def read_scalar_good)

lemma read_i32_good: "v < 2 ^ 31 \<Longrightarrow> read_i32 (instream (le_bytes 4 v @ rest) j) = (int v, instream rest j)"
  by (simp add: read_i32_def read_scalar_good sint_small)

lemma read_f32_good: "read_f32 (instream (float_bytes d @ rest) j) = (d, instream rest j)"
proof -
  have "unat d < 2 ^ LENGTH(32)" by (rule unsigned_less)
  then show ?thesis by (simp add: read_f32_def float_bytes_def read_scalar_good)
qed

lemma read_u32_any:
  "4 \<le> length bs \<Longrightarrow> read_u32 (instream bs j) = (le_val (take 4 bs), instream (drop 4 bs) j)"
  by (simp add: read_u32_def read_scalar_def read_bytes_def instream_def)

lemma le_val_eq_le_bytes: "length xs = n \<Longrightarrow> le_val xs = v \<Longrightarrow> xs = le_bytes n v"
  using le_bytes_le_val [of xs] by simp

lemma instream_good [simp]: "s_good (instream bs j)"
  by (simp add: instream_def)

lemma read_size_good:
  "v < size_t_limit \<Longrightarrow> read_size (instream (le_bytes 8 v @ rest) j) = (v, instream rest j)"
  by (simp add: read_size_def read_scalar_good size_t_limit_def)

lemma load_matrix_good:
  assumes "wf_matrix m" "m_rows m < size_t_limit" "m_cols m < size_t_limit"
    "4 * length (m_data m) < size_t_limit"
  shows "matrix_load (Some (le_bytes 8 (m_rows m) @ le_bytes 8 (m_cols m) @ floats_bytes (m_data m))) j old
    = Inr m"
proof -
  have l: "length (m_data m) = m_rows m * m_cols m" using assms(1) by (simp add: wf_matrix_def)
  have r: "length (m_data (matrix_resize old (m_rows m) (m_cols m))) = length (m_data m)"
    using l assms(1) by (simp add: matrix_resize_def vec_resize_def wf_matrix_def)
  have "read_floats (size_mul (length (m_data m)) 4) (m_data (matrix_resize old (m_rows m) (m_cols m)))
      (instream (floats_bytes (m_data m)) j) = (m_data m, instream [] j)"
    using assms(4) r read_floats_good' [where rest = "[]"] by (simp add: mult.commute)
  moreover have "matrix_resize old (m_rows m) (m_cols m)\<lparr>m_data := m_data m\<rparr> = m"
    by (simp add: matrix_resize_def)
  ultimately show ?thesis
    using assms(2,3) r
    by (simp add: matrix_load_def read_size_good split_def Let_def)
qed

section \<open>Properties of matrix files\<close>

lemma read_bytes_bad: "\<not> s_good s \<Longrightarrow> \<not> s_good (snd (read_bytes n s))"
  by (simp add: read_bytes_def)

lemma read_bytes_short: "n > length (s_bytes s) \<Longrightarrow> \<not> s_good (snd (read_bytes n s))"
  by (simp add: read_bytes_def)

lemma read_size_bad: "\<not> s_good s \<or> length (s_bytes s) < 8 \<Longrightarrow> \<not> s_good (snd (read_size s))"
  using read_bytes_bad read_bytes_short
  by (auto simp add: read_size_def read_scalar_def split_def Let_def)

lemma matrix_load_prefix:
  assumes "wf_matrix m" "m_rows m < size_t_limit" "m_cols m < size_t_limit" "4 * length (m_data m) < size_t_limit"
    "k < 16 + 4 * length (m_data m)"
  shows "matrix_load (Some (take k (le_bytes 8 (m_rows m) @ le_bytes 8 (m_cols m) @ floats_bytes (m_data m)))) j old
    = Inl FileIOError"
proof (cases "k < 16")
  case True
  let ?s1 = "snd (read_size (instream (take k (le_bytes 8 (m_rows m) @ le_bytes 8 (m_cols m) @ floats_bytes (m_data m))) j))"
  have "\<not> s_good ?s1 \<or> length (s_bytes ?s1) < 8"
    using True by (simp add: read_size_def read_scalar_def read_bytes_def instream_def split_def Let_def) arith
  then have "\<not> s_good (snd (read_size ?s1))" by (rule read_size_bad)
  then show ?thesis by (simp add: matrix_load_def split_def Let_def)
next
  case False
  let ?p = "take (k - 16) (floats_bytes (m_data m))"
  have t: "take k (le_bytes 8 (m_rows m) @ le_bytes 8 (m_cols m) @ floats_bytes (m_data m))
      = le_bytes 8 (m_rows m) @ le_bytes 8 (m_cols m) @ ?p"
    using False by simp
  have l: "length (m_data (matrix_resize old (m_rows m) (m_cols m))) = length (m_data m)"
    using assms(1) by (simp add: matrix_resize_def vec_resize_def wf_matrix_def)
  have "\<not> s_good (snd (read_floats (size_mul (length (m_data m)) 4) buf (instream ?p j)))" for buf
    using assms(4,5) False by (simp add: read_floats_def read_bytes_def instream_def split_def mult.commute)
  then show ?thesis
    unfolding t using assms(2,3) l by (simp add: matrix_load_def read_size_good split_def Let_def)
qed

text \<open>Claim C17: \<open>Matrix::save_to_file\<close> followed by \<open>load_from_file\<close> gives back the
  matrix exactly (whatever the matrix loaded into held before), and loading any
  strict prefix of a saved file fails with \<open>FileIOException\<close>.\<close>

theorem matrix_save_load:
  assumes "wf_matrix m" "m_rows m < size_t_limit" "m_cols m < size_t_limit" "4 * length (m_data m) < size_t_limit"
    and "matrix_save True m = Inr bs"
  shows "matrix_load (Some bs) j old = Inr m
    \<and> (\<forall>k < length bs. matrix_load (Some (take k bs)) j old = Inl FileIOError)"
proof -
  have bs: "bs = le_bytes 8 (m_rows m) @ le_bytes 8 (m_cols m) @ floats_bytes (m_data m)"
    using assms(5) by (simp add: matrix_save_def)
  show ?thesis
    using load_matrix_good [OF assms(1-4)] matrix_load_prefix [OF assms(1-4)] by (simp add: bs)
qed

theorem matrix_save_load_witness:
  "matrix_save True \<lparr>m_data = [1, 2, 3, 4, 5, 6 :: 32 word], m_rows = 2, m_cols = 3\<rparr>
     = Inr (le_bytes 8 2 @ le_bytes 8 3 @ floats_bytes [1, 2, 3, 4, 5, 6])
   \<and> matrix_load (Some (le_bytes 8 2 @ le_bytes 8 3 @ floats_bytes [1, 2, 3, 4, 5, 6])) 0
       (matrix_new 1 1) = Inr \<lparr>m_data = [1, 2, 3, 4, 5, 6], m_rows = 2, m_cols = 3\<rparr>
   \<and> matrix_load (Some (take 39 (le_bytes 8 2 @ le_bytes 8 3 @ floats_bytes [1, 2, 3, 4, 5, 6]))) 0
       (matrix_new 1 1) = Inl FileIOError"
proof -
  let ?m = "\<lparr>m_data = [1, 2, 3, 4, 5, 6 :: 32 word], m_rows = 2, m_cols = 3\<rparr>"
  have s: "matrix_save True ?m = Inr (le_bytes 8 2 @ le_bytes 8 3 @ floats_bytes [1, 2, 3, 4, 5, 6])"
    by (simp add: matrix_save_def)
  have h: "wf_matrix ?m" "m_rows ?m < size_t_limit" "m_cols ?m < size_t_limit" "4 * length (m_data ?m) < size_t_limit"
    by (simp_all add: wf_matrix_def size_t_limit_def)
  have "(39::nat) < length (le_bytes 8 2 @ le_bytes 8 3 @ floats_bytes [1, 2, 3, 4, 5, 6 :: 32 word])" by simp
  then show ?thesis
    using matrix_save_load [OF h s, of 0 "matrix_new 1 1"] s by blast
qed

end
