(* ===== verification/Attention.thy ===== *)
theory Attention
  imports Matrix
begin

text \<open>
  \<open>MultiHeadAttention\<close> (declared in \<open>src/unnamed/part_007\<close>, implemented in the
  second half of \<open>src/unnamed/part_008\<close>): four \<open>model_dim x model_dim\<close>
  projections, \<open>num_heads\<close> heads of \<open>head_dim = model_dim / num_heads\<close> columns
  each, scaled dot-product attention per head with an optional mask, and the
  per-head column-slice copy in and out of a combined buffer. Elements are
  \<open>float\<close>: the record is generic in the element type (the weight codec stores
  32-bit patterns), the arithmetic is on \<open>real\<close> with \<open>expf\<close> for \<open>std::exp\<close>.
\<close>

record 'a mha =
  query_weights :: "'a matrix"
  key_weights :: "'a matrix"
  value_weights :: "'a matrix"
  output_weights :: "'a matrix"
  num_heads :: nat
  head_dim :: nat
  mha_model_dim :: nat

section \<open>Construction\<close>

text \<open>
  The constructor throws \<open>ConfigurationException\<close> unless \<open>num_heads\<close> divides
  \<open>model_dim\<close>, then fills the four matrices from the process-global \<open>rand()\<close>,
  interleaved (query, key, value, output for each buffer index in turn), scaled
  into \<open>[-scale, scale]\<close> with \<open>scale = sqrt(6 / (2 * model_dim))\<close>. \<open>rnd k\<close> is the
  \<open>k\<close>-th value of \<open>rand() / RAND_MAX\<close> drawn by this constructor.
  (\<open>num_heads = 0\<close> traps in the code; the callers pass the validated config.)
\<close>

definition xavier :: "nat \<Rightarrow> (nat \<Rightarrow> real) \<Rightarrow> nat \<Rightarrow> real matrix" where
  "xavier md rnd c =
     (let scale = sqrt (6 / real (md + md))
      in \<lparr>m_data = map (\<lambda>i. (rnd (4 * i + c) * 2 - 1) * scale) [0..<size_mul md md],
          m_rows = md, m_cols = md\<rparr>)"

definition mha_new :: "nat \<Rightarrow> nat \<Rightarrow> (nat \<Rightarrow> real) \<Rightarrow> real mha result" where
  "mha_new md nh rnd =
     (if md mod nh \<noteq> 0 then Inl ConfigurationError
      else Inr \<lparr>query_weights = xavier md rnd 0, key_weights = xavier md rnd 1,
                value_weights = xavier md rnd 2, output_weights = xavier md rnd 3,
                num_heads = nh, head_dim = md div nh, mha_model_dim = md\<rparr>)"

section \<open>Scaled dot-product attention\<close>

text \<open>Row softmax of the attention weights: the maximum starts at \<open>-inf\<close>, so it is
  the first element folded with \<open>max\<close>; then \<open>exp(x - max)\<close>, their sum, and the
  quotients.\<close>

definition row_max :: "real list \<Rightarrow> real" where
  "row_max xs = foldl max (hd xs) (tl xs)"

definition row_softmax :: "real list \<Rightarrow> real list" where
  "row_softmax xs =
     (let mx = row_max xs; es = map (\<lambda>x. expf (x - mx)) xs; total = foldl (+) 0 es
      in map (\<lambda>e. e / total) es)"

text \<open>The mask sentinel \<open>-1e9f\<close>.\<close>

definition mask_neg :: real where
  "mask_neg = - 1000000000"

text \<open>
  \<open>scaled_dot_product_attention(Q, K, V, mask)\<close>: \<open>scores = Q * K^T\<close>, every
  element times \<open>1 / sqrt(d_k)\<close>; a supplied mask must be \<open>seq_len x seq_len\<close>
  (else \<open>ModelException\<close>) and turns each score whose mask cell is \<open>0\<close> into the
  sentinel; then the row softmax over \<open>seq_len\<close> columns and the product with
  \<open>V\<close>. The score matrix is \<open>Q.rows x K.rows\<close>; the only caller passes
  \<open>K.rows = Q.rows = seq_len\<close>.
\<close>

definition scale_scores :: "nat \<Rightarrow> real matrix \<Rightarrow> real matrix" where
  "scale_scores dk s = s\<lparr>m_data := map (\<lambda>x. x * (1 / sqrt (real dk))) (m_data s)\<rparr>"

definition apply_mask :: "nat \<Rightarrow> real matrix \<Rightarrow> real matrix \<Rightarrow> real matrix" where
  "apply_mask n mk s =
     matrix_tab (m_rows s) (m_cols s)
       (\<lambda>i j. if i < n \<and> j < n \<and> mat_at mk i j = 0 then mask_neg else mat_at s i j)"

definition softmax_rows :: "nat \<Rightarrow> real matrix \<Rightarrow> real matrix" where
  "softmax_rows n s = matrix_tab n n (\<lambda>i j. row_softmax (map (mat_at s i) [0..<n]) ! j)"

definition sdpa :: "real matrix \<Rightarrow> real matrix \<Rightarrow> real matrix \<Rightarrow> real matrix option \<Rightarrow> real matrix result" where
  "sdpa q k v msk =
     (let n = m_rows q; dk = m_cols q
      in rbind (matrix_mul q (matrix_transpose k)) (\<lambda>s0.
         let s1 = scale_scores dk s0
         in rbind (case msk of None \<Rightarrow> Inr s1
                   | Some mk \<Rightarrow> if m_rows mk \<noteq> n \<or> m_cols mk \<noteq> n then Inl ModelError
                                else Inr (apply_mask n mk s1)) (\<lambda>s2.
            matrix_mul (softmax_rows n s2) v)))"

section \<open>Multi-head forward\<close>

text \<open>
  Head \<open>h\<close> reads columns \<open>[h * head_dim, (h + 1) * head_dim)\<close> of \<open>Q\<close>, \<open>K\<close>, \<open>V\<close>
  through the checked accessor (\<open>std::out_of_range\<close> as soon as one cell is
  outside), and writes its \<open>seq_len x head_dim\<close> output back into the same
  columns of the combined buffer, again through the checked accessor.
\<close>

definition col_slice :: "real matrix \<Rightarrow> nat \<Rightarrow> nat \<Rightarrow> nat \<Rightarrow> real matrix result" where
  "col_slice m n c0 w =
     (if 0 < n \<and> 0 < w \<and> (m_rows m < n \<or> m_cols m < c0 + w) then Inl OutOfRange
      else Inr (matrix_tab n w (\<lambda>i j. mat_at m i (c0 + j))))"

definition put_cols :: "real matrix \<Rightarrow> nat \<Rightarrow> nat \<Rightarrow> nat \<Rightarrow> real matrix \<Rightarrow> real matrix result" where
  "put_cols out n c0 w blk =
     (if 0 < n \<and> 0 < w \<and> (m_rows out < n \<or> m_cols out < c0 + w \<or> m_rows blk < n \<or> m_cols blk < w)
      then Inl OutOfRange
      else Inr (matrix_tab (m_rows out) (m_cols out)
                 (\<lambda>i j. if i < n \<and> c0 \<le> j \<and> j < c0 + w then mat_at blk i (j - c0) else mat_at out i j)))"

fun heads_loop :: "nat \<Rightarrow> nat \<Rightarrow> real matrix \<Rightarrow> real matrix \<Rightarrow> real matrix \<Rightarrow> real matrix option
    \<Rightarrow> nat list \<Rightarrow> real matrix \<Rightarrow> real matrix result" where
  "heads_loop hdim n q k v msk [] out = Inr out"
| "heads_loop hdim n q k v msk (h # hs) out =
     rbind (col_slice q n (h * hdim) hdim) (\<lambda>qh.
     rbind (col_slice k n (h * hdim) hdim) (\<lambda>kh.
     rbind (col_slice v n (h * hdim) hdim) (\<lambda>vh.
     rbind (sdpa qh kh vh msk) (\<lambda>ho.
     rbind (put_cols out n (h * hdim) hdim ho) (\<lambda>out'.
       heads_loop hdim n q k v msk hs out')))))"

text \<open>\<open>forward(input, mask)\<close>: the three projections, the zero-filled
  \<open>seq_len x model_dim\<close> buffer, the heads in order, the output projection.\<close>

definition mha_forward :: "real mha \<Rightarrow> real matrix \<Rightarrow> real matrix option \<Rightarrow> real matrix result" where
  "mha_forward a x msk =
     (let n = m_rows x
      in rbind (matrix_mul x (query_weights a)) (\<lambda>q.
         rbind (matrix_mul x (key_weights a)) (\<lambda>k.
         rbind (matrix_mul x (value_weights a)) (\<lambda>v.
         rbind (heads_loop (head_dim a) n q k v msk [0..<num_heads a]
                  (matrix_fill (matrix_new n (mha_model_dim a)) 0)) (\<lambda>out.
           matrix_mul out (output_weights a))))))"

section \<open>The row softmax\<close>

lemma row_max_ge: "xs \<noteq> [] \<Longrightarrow> x \<in> set xs \<Longrightarrow> x \<le> row_max xs"
  by (cases xs) (auto simp add: row_max_def intro: foldl_max_ge)

lemma row_max_mem: "xs \<noteq> [] \<Longrightarrow> row_max xs \<in> set xs"
  using foldl_max_mem [of "hd xs" "tl xs"] by (cases xs) (simp_all add: row_max_def)

lemma row_softmax_length [simp]: "length (row_softmax xs) = length xs"
  by (simp add: row_softmax_def Let_def)

text \<open>The sum of the exponentials includes \<open>exp(max - max) = 1\<close>, so it is at least 1.\<close>

lemma row_softmax_total_ge:
  assumes "xs \<noteq> []"
  shows "1 \<le> sum_list (map (\<lambda>x. expf (x - row_max xs)) xs)"
proof -
  let ?f = "\<lambda>x. expf (x - row_max xs)"
  have "?f (row_max xs) \<in> set (map ?f xs)"
    unfolding set_map using row_max_mem [OF assms] by (rule imageI)
  then have "?f (row_max xs) \<le> sum_list (map ?f xs)"
    by (rule member_le_sum_list) auto
  then show ?thesis by simp
qed

lemma row_softmax_nth:
  "k < length xs \<Longrightarrow> row_softmax xs ! k =
     expf (xs ! k - row_max xs) / sum_list (map (\<lambda>x. expf (x - row_max xs)) xs)"
  by (simp add: row_softmax_def Let_def foldl_plus_sum_list)

lemma row_softmax_nonneg: "p \<in> set (row_softmax xs) \<Longrightarrow> 0 \<le> p"
  by (auto simp add: row_softmax_def Let_def foldl_plus_sum_list intro!: divide_nonneg_nonneg sum_list_nonneg)

lemma row_softmax_sum: "xs \<noteq> [] \<Longrightarrow> sum_list (row_softmax xs) = 1"
proof -
  assume ne: "xs \<noteq> []"
  let ?t = "sum_list (map (\<lambda>x. expf (x - row_max xs)) xs)"
  have pos: "0 < ?t" using row_softmax_total_ge [OF ne] by linarith
  have "sum_list (row_softmax xs) = sum_list (map (\<lambda>x. expf (x - row_max xs) / ?t) xs)"
    by (simp add: row_softmax_def Let_def foldl_plus_sum_list comp_def)
  also have "\<dots> = ?t / ?t" by (rule sum_list_map_divide)
  finally show ?thesis using pos by simp
qed

text \<open>A score at least 150 below the row maximum gets weight exactly 0: the float
  exponential underflows.\<close>

lemma row_softmax_underflow:
  "k < length xs \<Longrightarrow> xs ! k \<le> row_max xs - 150 \<Longrightarrow> row_softmax xs ! k = 0"
  by (simp add: row_softmax_nth expf_underflow)

section \<open>Scaled dot-product attention, cell by cell\<close>

text \<open>The scores of query row \<open>i\<close> after scaling and masking, as the code leaves
  them before the softmax.\<close>

definition score_row :: "real matrix \<Rightarrow> real matrix \<Rightarrow> real matrix \<Rightarrow> nat \<Rightarrow> real list" where
  "score_row q k mk i =
     map (\<lambda>j. if mat_at mk i j = 0 then mask_neg
              else dot_acc q (matrix_transpose k) i j * (1 / sqrt (real (m_cols q))))
       [0..<m_rows q]"

lemma length_score_row [simp]: "length (score_row q k mk i) = m_rows q"
  by (simp add: score_row_def)

lemma sdpa_Some:
  assumes "wf_matrix q" "m_rows k = m_rows q" "m_cols k = m_cols q" "m_rows v = m_rows q"
    "m_rows mk = m_rows q" "m_cols mk = m_rows q"
  shows "sdpa q k v (Some mk) = Inr (matrix_tab (m_rows q) (m_cols v)
            (\<lambda>i c. \<Sum>j<m_rows q. row_softmax (score_row q k mk i) ! j * mat_at v j c))"
proof -
  let ?n = "m_rows q" and ?dk = "m_cols q"
  let ?s0 = "matrix_tab ?n ?n (dot_acc q (matrix_transpose k))"
  let ?s1 = "scale_scores ?dk ?s0"
  let ?s2 = "apply_mask ?n mk ?s1"
  have mul1: "matrix_mul q (matrix_transpose k) = Inr ?s0"
    using assms by (simp add: matrix_mul_def shape_simps)
  have s1: "mat_at ?s1 i j = dot_acc q (matrix_transpose k) i j * (1 / sqrt (real ?dk))"
    if "i < ?n" "j < ?n" for i j
    using that index_bound [OF that] by (simp add: scale_scores_def mat_at_def matrix_tab_def)
  have s2: "map (mat_at ?s2 i) [0..<?n] = score_row q k mk i" if "i < ?n" for i
    using that s1 by (simp add: apply_mask_def scale_scores_def score_row_def)
  have w: "mat_at (softmax_rows ?n ?s2) i j = row_softmax (score_row q k mk i) ! j"
    if "i < ?n" "j < ?n" for i j
    using that s2 by (simp add: softmax_rows_def)
  have "matrix_mul (softmax_rows ?n ?s2) v
          = Inr (matrix_tab ?n (m_cols v) (dot_acc (softmax_rows ?n ?s2) v))"
    using assms by (simp add: matrix_mul_def softmax_rows_def)
  also have "matrix_tab ?n (m_cols v) (dot_acc (softmax_rows ?n ?s2) v)
      = matrix_tab ?n (m_cols v) (\<lambda>i c. \<Sum>j<?n. row_softmax (score_row q k mk i) ! j * mat_at v j c)"
  proof (rule matrix_tab_cong)
    fix i c assume ic: "i < ?n" "c < m_cols v"
    have cols: "m_cols (softmax_rows ?n ?s2) = ?n" by (simp add: softmax_rows_def)
    show "dot_acc (softmax_rows ?n ?s2) v i c
        = (\<Sum>j<?n. row_softmax (score_row q k mk i) ! j * mat_at v j c)"
    proof -
      have "dot_acc (softmax_rows ?n ?s2) v i c
          = (\<Sum>j<?n. mat_at (softmax_rows ?n ?s2) i j * mat_at v j c)"
        by (simp only: dot_acc_sum cols)
      also have "\<dots> = (\<Sum>j<?n. row_softmax (score_row q k mk i) ! j * mat_at v j c)"
        using ic(1) w by (intro sum.cong) simp_all
      finally show ?thesis .
    qed
  qed
  finally show ?thesis
    using mul1 assms by (simp add: sdpa_def Let_def)
qed

text \<open>
  Causality of one query row: if the mask blanks exactly the later positions of
  row \<open>i\<close>, and the row's own (unmasked) score is not within 150 of the sentinel,
  then row \<open>i\<close> of the output does not depend on the keys and values of later
  positions: their scores are overwritten, and their weights underflow to 0.
\<close>

lemma sdpa_causal_row:
  assumes q: "wf_matrix q"
    and k: "m_rows k = m_rows q" "m_cols k = m_cols q" "m_rows k' = m_rows q" "m_cols k' = m_cols q"
    and v: "m_rows v = m_rows q" "m_rows v' = m_rows q" "m_cols v' = m_cols v"
    and mk: "m_rows mk = m_rows q" "m_cols mk = m_rows q"
    and i: "i < m_rows q"
    and causal: "\<And>j. j < m_rows q \<Longrightarrow> mat_at mk i j = 0 \<longleftrightarrow> i < j"
    and past_k: "\<And>j c. j \<le> i \<Longrightarrow> c < m_cols q \<Longrightarrow> mat_at k j c = mat_at k' j c"
    and past_v: "\<And>j c. j \<le> i \<Longrightarrow> c < m_cols v \<Longrightarrow> mat_at v j c = mat_at v' j c"
    and diag: "mask_neg + 150 \<le> dot_acc q (matrix_transpose k) i i * (1 / sqrt (real (m_cols q)))"
    and r: "sdpa q k v (Some mk) = Inr R" "sdpa q k' v' (Some mk) = Inr R'"
    and c: "c < m_cols v"
  shows "mat_at R i c = mat_at R' i c"
proof -
  let ?n = "m_rows q"
  have rows: "score_row q k mk i = score_row q k' mk i"
  proof (rule nth_equalityI)
    fix j assume "j < length (score_row q k mk i)"
    then have j: "j < ?n" by simp
    show "score_row q k mk i ! j = score_row q k' mk i ! j"
    proof (cases "mat_at mk i j = 0")
      case True
      then show ?thesis using j by (simp add: score_row_def)
    next
      case False
      then have "j \<le> i" using causal [OF j] by simp
      then have "dot_acc q (matrix_transpose k) i j = dot_acc q (matrix_transpose k') i j"
        using j k past_k by (simp add: dot_acc_sum shape_simps)
      then show ?thesis using j by (simp add: score_row_def)
    qed
  qed simp
  have zero: "row_softmax (score_row q k mk i) ! j = 0" if j: "j < ?n" "i < j" for j
  proof (rule row_softmax_underflow)
    have ne: "score_row q k mk i \<noteq> []" using i by (simp add: score_row_def)
    have "score_row q k mk i ! i \<le> row_max (score_row q k mk i)"
      using i by (intro row_max_ge [OF ne]) simp
    moreover have "score_row q k mk i ! j = mask_neg" using j causal by (simp add: score_row_def)
    moreover have "score_row q k mk i ! i = dot_acc q (matrix_transpose k) i i * (1 / sqrt (real (m_cols q)))"
      using i causal [OF i] by (simp add: score_row_def)
    ultimately show "score_row q k mk i ! j \<le> row_max (score_row q k mk i) - 150"
      using diag by linarith
  qed (use j in simp)
  have "(\<Sum>j<?n. row_softmax (score_row q k mk i) ! j * mat_at v j c)
      = (\<Sum>j<?n. row_softmax (score_row q k' mk i) ! j * mat_at v' j c)"
  proof (rule sum.cong)
    fix j assume "j \<in> {..<?n}"
    then have j: "j < ?n" by simp
    show "row_softmax (score_row q k mk i) ! j * mat_at v j c
        = row_softmax (score_row q k' mk i) ! j * mat_at v' j c"
    proof (cases "j \<le> i")
      case True
      then show ?thesis using rows past_v c by simp
    next
      case False
      then show ?thesis using zero [OF j] rows by simp
    qed
  qed simp
  moreover have "R = matrix_tab ?n (m_cols v) (\<lambda>i c. \<Sum>j<?n. row_softmax (score_row q k mk i) ! j * mat_at v j c)"
    using r(1) sdpa_Some [OF q k(1,2) v(1) mk] by simp
  moreover have "R' = matrix_tab ?n (m_cols v) (\<lambda>i c. \<Sum>j<?n. row_softmax (score_row q k' mk i) ! j * mat_at v' j c)"
    using r(2) sdpa_Some [OF q k(3,4) v(2) mk] v(3) by simp
  ultimately show ?thesis using i c by simp
qed

end
