(* ===== verification/FFN.thy ===== *)
theory FFN
  imports Matrix
begin

text \<open>
  \<open>FeedForwardNetwork\<close> (declared in \<open>src/unnamed/part_007\<close>, implemented in the
  second half of \<open>src/src/tiny_llama.cpp\<close>): \<open>hidden = input * W1 + b1\<close>, the
  tanh approximation of GELU on every hidden cell, \<open>output = hidden * W2 + b2\<close>.
  The record is generic in the element type; the arithmetic is on \<open>real\<close>.
\<close>

record 'a ffn =
  linear1_weights :: "'a matrix"
  linear1_bias :: "'a list"
  linear2_weights :: "'a matrix"
  linear2_bias :: "'a list"
  ffn_model_dim :: nat
  hidden_dim :: nat

text \<open>The constructor: zero matrices \<open>[model_dim, hidden]\<close> and \<open>[hidden, model_dim]\<close>,
  zero biases (\<open>resize(n, 0.0f)\<close> of empty vectors).\<close>

definition ffn_new :: "nat \<Rightarrow> nat \<Rightarrow> 'a::zero ffn" where
  "ffn_new md hdim =
     \<lparr>linear1_weights = matrix_new md hdim, linear1_bias = replicate hdim 0,
      linear2_weights = matrix_new hdim md, linear2_bias = replicate md 0,
      ffn_model_dim = md, hidden_dim = hdim\<rparr>"

text \<open>\<open>gelu_activation\<close>: \<open>0.5 x (1 + tanh(sqrt(2/pi) (x + 0.044715 x^3)))\<close> with the
  code's constants, elementwise.\<close>

definition sqrt_2_over_pi :: real where
  "sqrt_2_over_pi = 0.7978845608028654"

definition gelu_coeff :: real where
  "gelu_coeff = 0.044715"

definition gelu :: "real \<Rightarrow> real" where
  "gelu x = 0.5 * x * (1 + tanh (sqrt_2_over_pi * (x + gelu_coeff * (x * x * x))))"

definition gelu_activation :: "real list \<Rightarrow> real list" where
  "gelu_activation xs = map gelu xs"

text \<open>\<open>hidden(i, j) += bias[j]\<close> over every cell: the matrix access is checked and in
  range, the bias read \<open>bias[j]\<close> is unchecked.\<close>

definition add_bias :: "real matrix \<Rightarrow> real list \<Rightarrow> real matrix" where
  "add_bias h b = matrix_tab (m_rows h) (m_cols h) (\<lambda>i j. mat_at h i j + b ! j)"

text \<open>The GELU loop copies the first \<open>hidden_dim_\<close> cells of each row out through the
  checked accessor, activates them and writes them back.\<close>

definition gelu_rows :: "nat \<Rightarrow> real matrix \<Rightarrow> real matrix result" where
  "gelu_rows hdim h =
     (if 0 < m_rows h \<and> 0 < hdim \<and> m_cols h < hdim then Inl OutOfRange
      else Inr (matrix_tab (m_rows h) (m_cols h)
                 (\<lambda>i j. if j < hdim then gelu_activation (map (mat_at h i) [0..<hdim]) ! j
                        else mat_at h i j)))"

text \<open>\<open>forward(input)\<close>: \<open>ModelException\<close> unless \<open>input.cols() == model_dim_\<close>.\<close>

definition ffn_forward :: "real ffn \<Rightarrow> real matrix \<Rightarrow> real matrix result" where
  "ffn_forward f x =
     (if m_cols x \<noteq> ffn_model_dim f then Inl ModelError
      else rbind (matrix_mul x (linear1_weights f)) (\<lambda>h0.
           rbind (gelu_rows (hidden_dim f) (add_bias h0 (linear1_bias f))) (\<lambda>h.
           rbind (matrix_mul h (linear2_weights f)) (\<lambda>y.
             Inr (add_bias y (linear2_bias f))))))"

text \<open>The shapes a constructed or correctly loaded network has.\<close>

definition wf_ffn :: "'a ffn \<Rightarrow> bool" where
  "wf_ffn f \<longleftrightarrow> wf_matrix (linear1_weights f) \<and> wf_matrix (linear2_weights f)
     \<and> m_rows (linear1_weights f) = ffn_model_dim f \<and> m_cols (linear1_weights f) = hidden_dim f
     \<and> m_rows (linear2_weights f) = hidden_dim f \<and> m_cols (linear2_weights f) = ffn_model_dim f
     \<and> length (linear1_bias f) = hidden_dim f \<and> length (linear2_bias f) = ffn_model_dim f"

section \<open>Properties\<close>

lemma gelu_0 [simp]: "gelu 0 = 0"
  by (simp add: gelu_def)

text \<open>GELU lies between its input and 0: \<open>0 < 1 + tanh y < 2\<close>.\<close>

lemma gelu_between: "min x 0 \<le> gelu x \<and> gelu x \<le> max x 0"
proof -
  let ?t = "tanh (sqrt_2_over_pi * (x + gelu_coeff * (x * x * x)))"
  have t: "0 \<le> 1 + ?t" "1 + ?t \<le> 2"
    using tanh_real_lt_1 [of "sqrt_2_over_pi * (x + gelu_coeff * (x * x * x))"]
      tanh_real_gt_neg1 [of "sqrt_2_over_pi * (x + gelu_coeff * (x * x * x))"] by linarith+
  have g: "gelu x = x * ((1 + ?t) / 2)" by (simp add: gelu_def)
  have h: "0 \<le> (1 + ?t) / 2" "(1 + ?t) / 2 \<le> 1" using t by simp_all
  show ?thesis
  proof (cases "0 \<le> x")
    case True
    have a: "x * ((1 + ?t) / 2) \<le> x * 1" using True h by (intro mult_left_mono) simp_all
    have b: "0 \<le> x * ((1 + ?t) / 2)" using True h by simp
    from a b have "0 \<le> gelu x" "gelu x \<le> x" by (simp_all only: g mult_1_right)
    then show ?thesis using True by simp
  next
    case False
    have a: "x * 1 \<le> x * ((1 + ?t) / 2)" using False h by (intro mult_left_mono_neg) simp_all
    have b: "x * ((1 + ?t) / 2) \<le> 0" using False h by (simp add: mult_nonpos_nonneg)
    from a b have "x \<le> gelu x" "gelu x \<le> 0" by (simp_all only: g mult_1_right)
    then show ?thesis using False by simp
  qed
qed

lemma wf_ffn_new: "md * hdim < size_t_limit \<Longrightarrow> wf_ffn (ffn_new md hdim :: 'a::zero ffn)"
  by (simp add: wf_ffn_def ffn_new_def wf_matrix_new matrix_new_shape mult.commute)

lemma add_bias_shape [shape_simps]:
  "m_rows (add_bias h b) = m_rows h" "m_cols (add_bias h b) = m_cols h"
  by (simp_all add: add_bias_def)

lemma gelu_rows_ok:
  "hdim \<le> m_cols h \<Longrightarrow> gelu_rows hdim h = Inr (matrix_tab (m_rows h) (m_cols h)
     (\<lambda>i j. if j < hdim then gelu (mat_at h i j) else mat_at h i j))"
  by (auto simp add: gelu_rows_def gelu_activation_def intro!: matrix_tab_cong)

text \<open>On a well-formed network, an input with \<open>model_dim\<close> columns gives an output
  of the same shape, cell \<open>(i, j)\<close> being the two affine layers around GELU.\<close>

lemma ffn_forward_ok:
  assumes "wf_ffn f" "m_cols x = ffn_model_dim f"
  shows "ffn_forward f x = Inr (add_bias (matrix_tab (m_rows x) (ffn_model_dim f)
            (dot_acc (matrix_tab (m_rows x) (hidden_dim f)
                        (\<lambda>i j. gelu (mat_at (add_bias (matrix_tab (m_rows x) (hidden_dim f)
                                  (dot_acc x (linear1_weights f))) (linear1_bias f)) i j)))
                     (linear2_weights f))) (linear2_bias f))"
proof -
  let ?h0 = "matrix_tab (m_rows x) (hidden_dim f) (dot_acc x (linear1_weights f))"
  let ?h1 = "add_bias ?h0 (linear1_bias f)"
  have m1: "matrix_mul x (linear1_weights f) = Inr ?h0"
    using assms by (simp add: matrix_mul_def wf_ffn_def)
  have sh: "m_rows ?h1 = m_rows x" "m_cols ?h1 = hidden_dim f"
    by (simp_all add: add_bias_shape)
  have "gelu_rows (hidden_dim f) ?h1 = Inr (matrix_tab (m_rows x) (hidden_dim f)
      (\<lambda>i j. if j < hidden_dim f then gelu (mat_at ?h1 i j) else mat_at ?h1 i j))"
    using gelu_rows_ok [of "hidden_dim f" ?h1] sh by simp
  also have "matrix_tab (m_rows x) (hidden_dim f)
      (\<lambda>i j. if j < hidden_dim f then gelu (mat_at ?h1 i j) else mat_at ?h1 i j)
      = matrix_tab (m_rows x) (hidden_dim f) (\<lambda>i j. gelu (mat_at ?h1 i j))"
    by (rule matrix_tab_cong) simp
  finally have g: "gelu_rows (hidden_dim f) ?h1 = Inr (matrix_tab (m_rows x) (hidden_dim f)
             (\<lambda>i j. gelu (mat_at ?h1 i j)))" .
  show ?thesis
    using assms m1 g by (simp add: ffn_forward_def matrix_mul_def wf_ffn_def)
qed

end
