(* ===== verification/Block.thy ===== *)
theory Block
  imports Attention FFN
begin

text \<open>
  \<open>TransformerBlock\<close> (declared in \<open>src/unnamed/part_007\<close>, implemented at the end
  of \<open>src/src/tiny_llama.cpp\<close>): pre-normalisation, attention, residual,
  normalisation, feed-forward, residual. Layer normalisation works row by row with
  \<open>epsilon = 1e-5\<close>.
\<close>

record 'a block =
  attention :: "'a mha"
  feed_forward :: "'a ffn"
  layer_norm1_weight :: "'a list"
  layer_norm1_bias :: "'a list"
  layer_norm2_weight :: "'a list"
  layer_norm2_bias :: "'a list"
  block_model_dim :: nat

text \<open>The constructor builds the attention engine (which may throw) and the
  network, and sets the layer-norm weights to ones and the biases to zeros.\<close>

definition block_new :: "nat \<Rightarrow> nat \<Rightarrow> nat \<Rightarrow> (nat \<Rightarrow> real) \<Rightarrow> real block result" where
  "block_new md nh fh rnd =
     rbind (mha_new md nh rnd) (\<lambda>a.
       Inr \<lparr>attention = a, feed_forward = ffn_new md fh,
            layer_norm1_weight = replicate md 1, layer_norm1_bias = replicate md 0,
            layer_norm2_weight = replicate md 1, layer_norm2_bias = replicate md 0,
            block_model_dim = md\<rparr>)"

definition ln_epsilon :: real where
  "ln_epsilon = 1 / 100000"

text \<open>\<open>layer_norm(input, weight, bias)\<close>: \<open>ModelException\<close> unless the input has
  \<open>model_dim_\<close> columns and both vectors \<open>model_dim_\<close> entries; then per row the
  mean and the (population) variance accumulated from 0, and
  \<open>(x - mean) / sqrt(variance + epsilon) * weight[j] + bias[j]\<close>.\<close>

definition row_mean :: "real list \<Rightarrow> real" where
  "row_mean xs = foldl (+) 0 xs / real (length xs)"

definition row_variance :: "real list \<Rightarrow> real" where
  "row_variance xs = foldl (\<lambda>s y. s + (y - row_mean xs) * (y - row_mean xs)) 0 xs / real (length xs)"

definition layer_norm :: "nat \<Rightarrow> real matrix \<Rightarrow> real list \<Rightarrow> real list \<Rightarrow> real matrix result" where
  "layer_norm md x w b =
     (if m_cols x \<noteq> md then Inl ModelError
      else if length w \<noteq> md \<or> length b \<noteq> md then Inl ModelError
      else Inr (matrix_tab (m_rows x) (m_cols x)
        (\<lambda>i j. let row = map (mat_at x i) [0..<m_cols x]
               in (mat_at x i j - row_mean row) / sqrt (row_variance row + ln_epsilon) * w ! j + b ! j)))"

text \<open>\<open>residual(i, j) += other(i, j)\<close> over every cell of \<open>residual\<close>: the read of
  \<open>other\<close> is checked.\<close>

definition residual_add :: "real matrix \<Rightarrow> real matrix \<Rightarrow> real matrix result" where
  "residual_add r y =
     (if 0 < m_rows r \<and> 0 < m_cols r \<and> (m_rows y < m_rows r \<or> m_cols y < m_cols r)
      then Inl OutOfRange
      else Inr (matrix_tab (m_rows r) (m_cols r) (\<lambda>i j. mat_at r i j + mat_at y i j)))"

text \<open>\<open>forward(input, mask)\<close>: \<open>ModelException\<close> unless the input has \<open>model_dim_\<close>
  columns.\<close>

definition block_forward :: "real block \<Rightarrow> real matrix \<Rightarrow> real matrix option \<Rightarrow> real matrix result" where
  "block_forward bl x msk =
     (let md = block_model_dim bl
      in if m_cols x \<noteq> md then Inl ModelError
      else rbind (layer_norm md x (layer_norm1_weight bl) (layer_norm1_bias bl)) (\<lambda>n1.
           rbind (mha_forward (attention bl) n1 msk) (\<lambda>ao.
           rbind (residual_add x ao) (\<lambda>r1.
           rbind (layer_norm md r1 (layer_norm2_weight bl) (layer_norm2_bias bl)) (\<lambda>n2.
           rbind (ffn_forward (feed_forward bl) n2) (\<lambda>fo.
             residual_add r1 fo))))))"

section \<open>Layer normalisation\<close>

lemma row_mean_sum: "row_mean xs * real (length xs) = sum_list xs \<or> xs = []"
  by (cases "xs = []") (simp_all add: row_mean_def foldl_plus_sum_list)

text \<open>The centred values of a row sum to zero.\<close>

lemma sum_centred: "(\<Sum>j<length xs. xs ! j - row_mean xs) = 0"
proof (cases "xs = []")
  case False
  have "(\<Sum>j<length xs. xs ! j - row_mean xs) = sum_list xs - real (length xs) * row_mean xs"
    by (simp add: sum_subtractf sum_list_sum_nth atLeast0LessThan)
  also have "\<dots> = 0"
    using False by (simp add: row_mean_def foldl_plus_sum_list)
  finally show ?thesis .
qed simp

lemma layer_norm_ok:
  "m_cols x = md \<Longrightarrow> length w = md \<Longrightarrow> length b = md \<Longrightarrow>
   layer_norm md x w b = Inr (matrix_tab (m_rows x) md
     (\<lambda>i j. (mat_at x i j - row_mean (map (mat_at x i) [0..<md]))
              / sqrt (row_variance (map (mat_at x i) [0..<md]) + ln_epsilon) * w ! j + b ! j))"
  by (simp add: layer_norm_def Let_def)

end
