(* ===== verification/Tokenizer.thy ===== *)
theory Tokenizer
  imports Prelude
begin

text \<open>
  The tokenizer of \<open>src/src/tokenizer.cpp\<close> (declared at the start of
  \<open>src/unnamed/part_007\<close>): \<open>Vocabulary\<close>, a token/id map with four special
  tokens, and \<open>BPETokenizer\<close>, which lower-cases and splits text into words and
  spaces and merges the characters of each word by the ranked merge rules.
  Strings are byte strings (\<open>string\<close>); a file is its contents, or \<open>None\<close> when it
  cannot be opened; \<open>std::getline\<close> and the \<open>>>\<close> extractions are modelled on the
  contents.
\<close>

section \<open>Characters and stream extraction\<close>

text \<open>\<open>std::isspace\<close> in the C locale.\<close>

definition is_space :: "char \<Rightarrow> bool" where
  "is_space c \<longleftrightarrow> c \<in> set [CHR '' '', CHR 0x09, CHR 0x0A, CHR 0x0B,
                         CHR 0x0C, CHR 0x0D]"

text \<open>\<open>std::getline\<close> repeatedly: lines end at a newline; text after the last
  newline is a last line when it is not empty.\<close>

fun lines_from :: "string \<Rightarrow> string \<Rightarrow> string list" where
  "lines_from cur [] = (if cur = [] then [] else [cur])"
| "lines_from cur (c # cs) =
     (if c = CHR 0x0A then cur # lines_from [] cs else lines_from (cur @ [c]) cs)"

definition getlines :: "string \<Rightarrow> string list" where
  "getlines s = lines_from [] s"

text \<open>\<open>iss >> word\<close>: skip whitespace, read up to the next whitespace; fails
  (\<open>None\<close>) when only whitespace is left.\<close>

definition next_word :: "string \<Rightarrow> (string \<times> string) option" where
  "next_word s =
     (let s' = dropWhile is_space s
      in if s' = [] then None else Some (takeWhile (\<lambda>c. \<not> is_space c) s', dropWhile (\<lambda>c. \<not> is_space c) s'))"

text \<open>\<open>iss >> n\<close> for an \<open>int\<close>: skip whitespace, an optional sign, at least one
  decimal digit; a value outside the 32-bit range fails.\<close>

definition is_digit :: "char \<Rightarrow> bool" where
  "is_digit c \<longleftrightarrow> of_char CHR ''0'' \<le> (of_char c :: nat) \<and> (of_char c :: nat) \<le> of_char CHR ''9''"

definition digits_value :: "string \<Rightarrow> int" where
  "digits_value ds = foldl (\<lambda>n c. 10 * n + int (of_char c - of_char CHR ''0'')) 0 ds"

definition parse_int :: "string \<Rightarrow> (int \<times> string) option" where
  "parse_int s =
     (let s1 = dropWhile is_space s;
          (sgn, s2) = (case s1 of c # cs \<Rightarrow> if c = CHR ''-'' then (-1, cs)
                                           else if c = CHR ''+'' then (1, cs) else (1, s1)
                       | [] \<Rightarrow> (1, []));
          ds = takeWhile is_digit s2;
          v = sgn * digits_value ds
      in if ds = [] \<or> v < - (2 ^ 31) \<or> 2 ^ 31 - 1 < v then None
         else Some (v, dropWhile is_digit s2))"

text \<open>\<open>line.find(p) != npos\<close>.\<close>

definition has_substr :: "string \<Rightarrow> string \<Rightarrow> bool" where
  "has_substr p s \<longleftrightarrow> (\<exists>i\<in>{0..length s}. take (length p) (drop i s) = p)"

section \<open>Vocabulary\<close>

record vocabulary =
  token_to_id :: "string \<Rightarrow> int option"
  id_to_token :: "string list"
  unk_token_id :: int
  pad_token_id :: int
  bos_token_id :: int
  eos_token_id :: int

definition unk_token :: string where "unk_token = ''<unk>''"
definition pad_token :: string where "pad_token = ''<pad>''"
definition bos_token :: string where "bos_token = ''<bos>''"
definition eos_token :: string where "eos_token = ''<eos>''"

text \<open>\<open>add_token\<close>: the existing id, or the next index appended.\<close>

definition add_token :: "string \<Rightarrow> vocabulary \<Rightarrow> int \<times> vocabulary" where
  "add_token t v =
     (case token_to_id v t of
        Some i \<Rightarrow> (i, v)
      | None \<Rightarrow> (let i = int (length (id_to_token v))
                in (i, v\<lparr>token_to_id := (token_to_id v)(t \<mapsto> i),
                         id_to_token := id_to_token v @ [t]\<rparr>)))"

text \<open>The constructor: ids \<open>-1\<close>, then the four special tokens added in order.\<close>

definition vocab_new :: vocabulary where
  "vocab_new =
     (let v0 = \<lparr>token_to_id = Map.empty, id_to_token = [], unk_token_id = -1, pad_token_id = -1,
                bos_token_id = -1, eos_token_id = -1\<rparr>;
          (u, v1) = add_token unk_token v0; v1 = v1\<lparr>unk_token_id := u\<rparr>;
          (p, v2) = add_token pad_token v1; v2 = v2\<lparr>pad_token_id := p\<rparr>;
          (b, v3) = add_token bos_token v2; v3 = v3\<lparr>bos_token_id := b\<rparr>;
          (e, v4) = add_token eos_token v3
      in v4\<lparr>eos_token_id := e\<rparr>)"

text \<open>\<open>get_token_id\<close>: the mapped id, else the unknown token's id.\<close>

definition get_token_id :: "vocabulary \<Rightarrow> string \<Rightarrow> int" where
  "get_token_id v t = (case token_to_id v t of Some i \<Rightarrow> i | None \<Rightarrow> unk_token_id v)"

text \<open>\<open>get_token\<close>: ids outside \<open>[0, size)\<close> read the unknown token's entry.\<close>

definition get_token :: "vocabulary \<Rightarrow> int \<Rightarrow> string" where
  "get_token v i =
     (if i < 0 \<or> int (length (id_to_token v)) \<le> i then id_to_token v ! nat (unk_token_id v)
      else id_to_token v ! nat i)"

definition vocabulary_size :: "vocabulary \<Rightarrow> nat" where
  "vocabulary_size v = length (id_to_token v)"

definition has_token :: "vocabulary \<Rightarrow> string \<Rightarrow> bool" where
  "has_token v t \<longleftrightarrow> token_to_id v t \<noteq> None"

text \<open>
  \<open>load_from_file\<close>: \<open>FileIOException\<close> when the file cannot be opened; otherwise
  the map is cleared but for the four special tokens at their current ids, the
  id table is cleared and resized to the largest special id plus one with the
  special names at their ids, and each non-empty line is read: \<open>token id\<close> with
  \<open>id >= 0\<close> stores the token at that id (growing the table), any other line adds
  its first word (the empty string when the line is all blanks). Finally the four
  special ids are read back from the map.
\<close>

definition map_get0 :: "(string \<Rightarrow> int option) \<Rightarrow> string \<Rightarrow> int" where
  "map_get0 m t = (case m t of Some i \<Rightarrow> i | None \<Rightarrow> 0)"

definition vocab_reset :: "vocabulary \<Rightarrow> vocabulary" where
  "vocab_reset v =
     (let u = unk_token_id v; p = pad_token_id v; b = bos_token_id v; e = eos_token_id v;
          m = (Map.empty(unk_token \<mapsto> u))(pad_token \<mapsto> p, bos_token \<mapsto> b, eos_token \<mapsto> e);
          tbl = replicate (nat (max u (max p (max b e)) + 1)) [];
          tbl = tbl[nat u := unk_token, nat p := pad_token, nat b := bos_token, nat e := eos_token]
      in v\<lparr>token_to_id := m, id_to_token := tbl\<rparr>)"

definition vocab_line :: "vocabulary \<Rightarrow> string \<Rightarrow> vocabulary" where
  "vocab_line v line =
     (if line = [] then v
      else case next_word line of
        None \<Rightarrow> snd (add_token [] v)
      | Some (tok, rest) \<Rightarrow>
          (case parse_int rest of
             Some (i, _) \<Rightarrow>
               if 0 \<le> i then
                 (let tbl = id_to_token v;
                      tbl = (if int (length tbl) \<le> i then list_resize tbl (nat i + 1) [] else tbl)
                  in v\<lparr>id_to_token := tbl[nat i := tok], token_to_id := (token_to_id v)(tok \<mapsto> i)\<rparr>)
               else snd (add_token tok v)
           | None \<Rightarrow> snd (add_token tok v)))"

definition vocab_after_load :: "vocabulary \<Rightarrow> vocabulary" where
  "vocab_after_load v =
     v\<lparr>unk_token_id := map_get0 (token_to_id v) unk_token,
       pad_token_id := map_get0 (token_to_id v) pad_token,
       bos_token_id := map_get0 (token_to_id v) bos_token,
       eos_token_id := map_get0 (token_to_id v) eos_token\<rparr>"

definition vocab_load :: "string option \<Rightarrow> vocabulary \<Rightarrow> vocabulary result" where
  "vocab_load f v =
     (case f of None \<Rightarrow> Inl FileIOError
      | Some content \<Rightarrow> Inr (vocab_after_load (foldl vocab_line (vocab_reset v) (getlines content))))"

text \<open>The two tables agree: every mapped token is stored at its id.\<close>

definition vocab_consistent :: "vocabulary \<Rightarrow> bool" where
  "vocab_consistent v \<longleftrightarrow>
     (\<forall>t i. token_to_id v t = Some i \<longrightarrow>
        0 \<le> i \<and> i < int (length (id_to_token v)) \<and> id_to_token v ! nat i = t)"

section \<open>BPETokenizer\<close>

record bpe_tokenizer =
  vocab :: vocabulary
  bpe_merges :: "(string \<times> string) list"
  bpe_ranks :: "string \<Rightarrow> int option"

definition tokenizer_new :: bpe_tokenizer where
  "tokenizer_new = \<lparr>vocab = vocab_new, bpe_merges = [], bpe_ranks = Map.empty\<rparr>"

definition load_vocab :: "string option \<Rightarrow> bpe_tokenizer \<Rightarrow> bpe_tokenizer result" where
  "load_vocab f t = rbind (vocab_load f (vocab t)) (\<lambda>v. Inr (t\<lparr>vocab := v\<rparr>))"

text \<open>The key under which a merge rule is ranked: \<open>token1 + " " + token2\<close>.\<close>

definition pair_key :: "string \<Rightarrow> string \<Rightarrow> string" where
  "pair_key a b = a @ '' '' @ b"

text \<open>\<open>load_merges\<close>: \<open>FileIOException\<close> when the file cannot be opened; the merges
  are cleared; a first line containing \<open>#version\<close> is skipped (otherwise the
  stream is rewound); every non-empty line with two words adds a rule ranked by
  its position among such lines.\<close>

definition merge_line :: "bpe_tokenizer \<times> int \<Rightarrow> string \<Rightarrow> bpe_tokenizer \<times> int" where
  "merge_line tr line =
     (let (t, r) = tr
      in if line = [] then (t, r)
         else case next_word line of
           None \<Rightarrow> (t, r)
         | Some (a, rest) \<Rightarrow>
             (case next_word rest of
                None \<Rightarrow> (t, r)
              | Some (b, _) \<Rightarrow> (t\<lparr>bpe_merges := bpe_merges t @ [(a, b)],
                                  bpe_ranks := (bpe_ranks t)(pair_key a b \<mapsto> r)\<rparr>, r + 1)))"

definition merge_body :: "string list \<Rightarrow> string list" where
  "merge_body ls = (case ls of [] \<Rightarrow> [] | l # ls' \<Rightarrow> if has_substr ''#version'' l then ls' else ls)"

definition load_merges :: "string option \<Rightarrow> bpe_tokenizer \<Rightarrow> bpe_tokenizer result" where
  "load_merges f t =
     (case f of None \<Rightarrow> Inl FileIOError
      | Some content \<Rightarrow>
          Inr (fst (foldl merge_line (t\<lparr>bpe_merges := [], bpe_ranks := Map.empty\<rparr>, 0)
                      (merge_body (getlines content)))))"

text \<open>\<open>preprocess_text\<close>: ASCII upper case to lower case, tab, newline and carriage
  return to space.\<close>

definition preprocess_char :: "char \<Rightarrow> char" where
  "preprocess_char c =
     (let c' = (if of_char CHR ''A'' \<le> (of_char c :: nat) \<and> (of_char c :: nat) \<le> of_char CHR ''Z'' then char_of (of_char c + (32::nat)) else c)
      in if c' = CHR 0x09 \<or> c' = CHR 0x0A \<or> c' = CHR 0x0D then CHR '' '' else c')"

definition preprocess_text :: "string \<Rightarrow> string" where
  "preprocess_text s = map preprocess_char s"

text \<open>\<open>split_to_words\<close>: every whitespace character ends the current word and is
  itself the word \<open>" "\<close>.\<close>

fun split_from :: "string \<Rightarrow> string \<Rightarrow> string list" where
  "split_from cur [] = (if cur = [] then [] else [cur])"
| "split_from cur (c # cs) =
     (if is_space c then (if cur = [] then [] else [cur]) @ ['' ''] @ split_from [] cs
      else split_from (cur @ [c]) cs)"

definition split_to_words :: "string \<Rightarrow> string list" where
  "split_to_words s = (if s = [] then [] else split_from [] s)"

text \<open>
  \<open>bpe_encode\<close>: the characters of the word as one-character symbols; while there
  are adjacent pairs, the first pair of least rank (strictly below \<open>INT_MAX\<close>) is
  chosen and all its non-overlapping occurrences are merged from left to right;
  the loop stops when no adjacent pair is ranked.
\<close>

definition adj_pairs :: "string list \<Rightarrow> (string \<times> string) list" where
  "adj_pairs xs = zip xs (tl xs)"

fun best_from :: "(string \<Rightarrow> int option) \<Rightarrow> (string \<times> string) list \<Rightarrow> nat \<Rightarrow> int
    \<Rightarrow> (string \<times> string) option \<Rightarrow> (string \<times> string) option" where
  "best_from rk [] i br best = best"
| "best_from rk ((a, b) # ps) i br best =
     (case rk (pair_key a b) of
        Some r \<Rightarrow> if r < br then best_from rk ps (Suc i) r (Some (a, b)) else best_from rk ps (Suc i) br best
      | None \<Rightarrow> best_from rk ps (Suc i) br best)"

definition int_max :: int where
  "int_max = 2 ^ 31 - 1"

definition best_pair :: "(string \<Rightarrow> int option) \<Rightarrow> (string \<times> string) list \<Rightarrow> (string \<times> string) option" where
  "best_pair rk ps = best_from rk ps 0 int_max None"

fun merge_scan :: "string \<Rightarrow> string \<Rightarrow> string list \<Rightarrow> string list" where
  "merge_scan a b (x # y # rest) =
     (if x = a \<and> y = b then (a @ b) # merge_scan a b rest else x # merge_scan a b (y # rest))"
| "merge_scan a b xs = xs"

lemma merge_scan_length_le: "length (merge_scan a b xs) \<le> length xs"
  by (induction a b xs rule: merge_scan.induct) auto

lemma merge_scan_shorter:
  "(a, b) \<in> set (adj_pairs xs) \<Longrightarrow> length (merge_scan a b xs) < length xs"
proof (induction a b xs rule: merge_scan.induct)
  case (1 a b x y rest)
  show ?case
  proof (cases "x = a \<and> y = b")
    case True
    then show ?thesis using merge_scan_length_le [of a b rest] by simp
  next
    case False
    then have "(a, b) \<in> set (adj_pairs (y # rest))"
      using "1.prems" by (auto simp add: adj_pairs_def)
    then show ?thesis using "1.IH"(2) False by auto
  qed
qed (auto simp add: adj_pairs_def)

lemma best_from_mem:
  "best_from rk ps i br best = Some p \<Longrightarrow> p \<in> set ps \<or> best = Some p"
  by (induction rk ps i br best rule: best_from.induct) (auto split: option.splits if_splits)

lemma best_pair_mem: "best_pair rk ps = Some p \<Longrightarrow> p \<in> set ps"
  using best_from_mem [of rk ps 0 int_max None p] by (simp add: best_pair_def)

function bpe_loop :: "(string \<Rightarrow> int option) \<Rightarrow> string list \<Rightarrow> string list" where
  "bpe_loop rk xs =
     (if adj_pairs xs = [] then xs
      else case best_pair rk (adj_pairs xs) of
        None \<Rightarrow> xs
      | Some (a, b) \<Rightarrow> bpe_loop rk (merge_scan a b xs))"
  by pat_completeness auto
termination
  by (relation "measure (\<lambda>(rk, xs). length xs)") (auto dest!: best_pair_mem simp: merge_scan_shorter)

declare bpe_loop.simps [simp del]

definition bpe_encode :: "bpe_tokenizer \<Rightarrow> string \<Rightarrow> string list" where
  "bpe_encode t w =
     (if w = [] then []
      else let cs = map (\<lambda>c. [c]) w in if length cs = 1 then cs else bpe_loop (bpe_ranks t) cs)"

text \<open>\<open>encode\<close>: the empty text gives no ids; otherwise the preprocessed words,
  each split by BPE and looked up (unknown subwords give the unknown id).\<close>

definition encode :: "bpe_tokenizer \<Rightarrow> string \<Rightarrow> int list" where
  "encode t s =
     (if s = [] then []
      else concat (map (\<lambda>w. if w = [] then [] else map (get_token_id (vocab t)) (bpe_encode t w))
                      (split_to_words (preprocess_text s))))"

definition decode :: "bpe_tokenizer \<Rightarrow> int list \<Rightarrow> string" where
  "decode t ids = (if ids = [] then [] else concat (map (get_token (vocab t)) ids))"

definition encode_to_strings :: "bpe_tokenizer \<Rightarrow> string \<Rightarrow> string list" where
  "encode_to_strings t s = concat (map (bpe_encode t) (split_to_words (preprocess_text s)))"

definition tokenizer_vocab_size :: "bpe_tokenizer \<Rightarrow> nat" where
  "tokenizer_vocab_size t = vocabulary_size (vocab t)"

section \<open>Properties of the tokenizer\<close>

lemma add_token_consistent:
  assumes "vocab_consistent v"
  shows "vocab_consistent (snd (add_token t v))"
proof (cases "token_to_id v t")
  case None
  let ?n = "length (id_to_token v)"
  have old: "0 \<le> i \<and> nat i < ?n \<and> (id_to_token v @ [t]) ! nat i = t'"
    if "token_to_id v t' = Some i" for t' i
  proof -
    have "0 \<le> i \<and> i < int ?n \<and> id_to_token v ! nat i = t'"
      using assms that by (simp add: vocab_consistent_def)
    then show ?thesis by (simp add: nth_append nat_less_iff)
  qed
  show ?thesis
    unfolding vocab_consistent_def
  proof (intro allI impI)
    fix t' i assume "token_to_id (snd (add_token t v)) t' = Some i"
    then show "0 \<le> i \<and> i < int (length (id_to_token (snd (add_token t v))))
        \<and> id_to_token (snd (add_token t v)) ! nat i = t'"
      using None old [of t' i] by (cases "t' = t") (auto simp add: add_token_def Let_def)
  qed
qed (simp add: add_token_def assms)

lemma add_token_fst:
  "vocab_consistent v \<Longrightarrow> token_to_id (snd (add_token t v)) t = Some (fst (add_token t v))"
  by (simp add: add_token_def Let_def split: option.split)

lemma vocab_consistent_ids [simp]:
  "vocab_consistent (v\<lparr>unk_token_id := x\<rparr>) = vocab_consistent v"
  "vocab_consistent (v\<lparr>pad_token_id := x\<rparr>) = vocab_consistent v"
  "vocab_consistent (v\<lparr>bos_token_id := x\<rparr>) = vocab_consistent v"
  "vocab_consistent (v\<lparr>eos_token_id := x\<rparr>) = vocab_consistent v"
  by (simp_all add: vocab_consistent_def)

lemma vocab_new_consistent: "vocab_consistent vocab_new"
proof -
  let ?v0 = "\<lparr>token_to_id = Map.empty, id_to_token = [], unk_token_id = -1, pad_token_id = -1,
               bos_token_id = -1, eos_token_id = -1\<rparr> :: vocabulary"
  have "vocab_consistent ?v0" by (simp add: vocab_consistent_def)
  then show ?thesis
    unfolding vocab_new_def Let_def
    by (simp add: split_def add_token_consistent)
qed

lemma merge_scan_concat: "concat (merge_scan a b xs) = concat xs"
  by (induction a b xs rule: merge_scan.induct) auto

lemma merge_scan_nonempty:
  "\<forall>x\<in>set xs. x \<noteq> [] \<Longrightarrow> \<forall>x\<in>set (merge_scan a b xs). x \<noteq> []"
  by (induction a b xs rule: merge_scan.induct) auto

lemma bpe_loop_concat: "concat (bpe_loop rk xs) = concat xs"
proof (induction rk xs rule: bpe_loop.induct)
  case (1 rk xs)
  then show ?case
    by (subst bpe_loop.simps) (auto simp add: merge_scan_concat split: option.split)
qed

lemma bpe_loop_nonempty: "\<forall>x\<in>set xs. x \<noteq> [] \<Longrightarrow> \<forall>x\<in>set (bpe_loop rk xs). x \<noteq> []"
proof (induction rk xs rule: bpe_loop.induct)
  case (1 rk xs)
  then show ?case
    by (subst bpe_loop.simps) (auto simp add: merge_scan_nonempty split: option.split)
qed

lemma concat_split_from:
  "concat (split_from cur s) = cur @ map (\<lambda>c. if is_space c then CHR '' '' else c) s"
  by (induction cur s rule: split_from.induct) auto

text \<open>Claim C13: BPE segmentation is lossless: the subwords \<open>bpe_encode\<close> returns
  for a word are non-empty and concatenate back to the word, whatever the merge
  ranks.\<close>

theorem bpe_encode_concat:
  "concat (bpe_encode t w) = w \<and> (\<forall>x\<in>set (bpe_encode t w). x \<noteq> [])"
proof -
  have "\<forall>x\<in>set (map (\<lambda>c. [c]) w). x \<noteq> []" by simp
  moreover have "concat (map (\<lambda>c. [c]) w) = w" by (induction w) auto
  ultimately show ?thesis
    using bpe_loop_nonempty [of "map (\<lambda>c. [c]) w" "bpe_ranks t"]
    by (auto simp add: bpe_encode_def Let_def bpe_loop_concat)
qed

theorem bpe_encode_concat_witness:
  "concat (bpe_encode \<lparr>vocab = vocab_new, bpe_merges = [(''a'', ''b'')], bpe_ranks = [''a b'' \<mapsto> 0]\<rparr> ''abc'')
     = ''abc''
   \<and> [] \<notin> set (bpe_encode \<lparr>vocab = vocab_new, bpe_merges = [(''a'', ''b'')],
        bpe_ranks = [''a b'' \<mapsto> 0]\<rparr> ''abc'')"
  using bpe_encode_concat [of "\<lparr>vocab = vocab_new, bpe_merges = [(''a'', ''b'')],
      bpe_ranks = [''a b'' \<mapsto> 0]\<rparr>" "''abc''"] by blast

lemma concat_bpe_encode: "concat (bpe_encode t w) = w"
proof -
  have "concat (map (\<lambda>c. [c]) w) = w" by (induction w) auto
  then show ?thesis by (simp add: bpe_encode_def Let_def bpe_loop_concat)
qed

lemma encode_as_strings: "encode t s = map (get_token_id (vocab t)) (encode_to_strings t s)"
  by (auto simp add: encode_def encode_to_strings_def map_concat bpe_encode_def split_to_words_def
      preprocess_text_def intro: arg_cong [where f = concat])

lemma concat_encode_to_strings:
  "concat (encode_to_strings t s) = map (\<lambda>c. if is_space c then CHR '' '' else c) (preprocess_text s)"
proof -
  have "concat (split_to_words p) = map (\<lambda>c. if is_space c then CHR '' '' else c) p" for p
    using concat_split_from [of "[]" p] by (simp add: split_to_words_def)
  moreover have "concat (concat (map (bpe_encode t) ws)) = concat ws" for ws
    by (induction ws) (simp_all add: concat_bpe_encode)
  ultimately show ?thesis by (simp add: encode_to_strings_def)
qed

lemma decode_concat: "decode t ids = concat (map (get_token (vocab t)) ids)"
  by (simp add: decode_def)

lemma get_token_known:
  assumes "vocab_consistent v" "token_to_id v w \<noteq> None"
  shows "get_token v (get_token_id v w) = w"
proof -
  obtain i where i: "token_to_id v w = Some i" using assms(2) by auto
  then have "0 \<le> i \<and> i < int (length (id_to_token v)) \<and> id_to_token v ! nat i = w"
    using assms(1) by (simp add: vocab_consistent_def)
  then show ?thesis using i by (simp add: get_token_id_def get_token_def)
qed

lemma get_token_known_list:
  "vocab_consistent v \<Longrightarrow> \<forall>w\<in>set ws. token_to_id v w \<noteq> None \<Longrightarrow>
   map (get_token v) (map (get_token_id v) ws) = ws"
  by (induction ws) (simp_all add: get_token_known)

text \<open>Claim C12: decoding undoes encoding up to the normalisation \<open>preprocess_text\<close>
  and \<open>split_to_words\<close> apply (lower case, every whitespace character a space),
  when the vocabulary tables agree and every subword of the text is in the
  vocabulary.\<close>

theorem decode_encode:
  assumes "vocab_consistent (vocab t)"
    and "\<forall>w\<in>set (encode_to_strings t s). token_to_id (vocab t) w \<noteq> None"
  shows "decode t (encode t s) = map (\<lambda>c. if is_space c then CHR '' '' else c) (preprocess_text s)"
proof -
  have "map (get_token (vocab t)) (map (get_token_id (vocab t)) (encode_to_strings t s))
      = encode_to_strings t s"
    using get_token_known_list [OF assms] .
  then show ?thesis
    by (simp add: decode_concat encode_as_strings concat_encode_to_strings del: map_map)
qed

theorem decode_encode_witness:
  "decode \<lparr>vocab = snd (add_token ''i'' (snd (add_token ''h'' vocab_new))), bpe_merges = [],
      bpe_ranks = Map.empty\<rparr> (encode \<lparr>vocab = snd (add_token ''i'' (snd (add_token ''h'' vocab_new))),
      bpe_merges = [], bpe_ranks = Map.empty\<rparr> ''Hi'') = ''hi''"
proof -
  let ?t = "\<lparr>vocab = snd (add_token ''i'' (snd (add_token ''h'' vocab_new))), bpe_merges = [],
      bpe_ranks = Map.empty\<rparr>"
  have c: "vocab_consistent (vocab ?t)"
    by (simp add: add_token_consistent vocab_new_consistent)
  have w: "encode_to_strings ?t ''Hi'' = [''h'', ''i'']"
    by (simp add: encode_to_strings_def preprocess_text_def preprocess_char_def split_to_words_def Let_def char_of_def bit_0
        is_space_def bpe_encode_def bpe_loop.simps adj_pairs_def best_pair_def pair_key_def)
  have k: "\<forall>w\<in>set (encode_to_strings ?t ''Hi''). token_to_id (vocab ?t) w \<noteq> None"
    unfolding w by (simp add: add_token_def Let_def split: option.split)
  show ?thesis
    using decode_encode [OF c k]
    by (simp add: preprocess_text_def preprocess_char_def is_space_def Let_def char_of_def bit_0)
qed

lemma next_word_nonempty: "next_word s = Some w \<Longrightarrow> s \<noteq> []"
  by (auto simp: next_word_def)

text \<open>Claim C15: a vocabulary line \<open>token id\<close> with \<open>id >= 0\<close> stores the token
  at that id and maps it there, leaving every other token's id unchanged, and
  does not check that the id is free: when another token already held the id,
  a vocabulary whose two tables agreed no longer does (the other token still
  maps to the id, which now decodes to the new token). An id past the end grows
  the table to \<open>id + 1\<close> entries and leaves the skipped ids holding the empty
  string, so they decode to the empty string rather than to \<open><unk>\<close>.\<close>

theorem vocab_line_explicit_id:
  assumes "next_word line = Some (tok, rest)" "parse_int rest = Some (i, r)" "0 \<le> i"
  shows "token_to_id (vocab_line v line) tok = Some i \<and> get_token (vocab_line v line) i = tok
    \<and> (\<forall>t. t \<noteq> tok \<longrightarrow> token_to_id (vocab_line v line) t = token_to_id v t)
    \<and> (vocab_consistent v \<and> token_to_id v t' = Some i \<and> t' \<noteq> tok \<longrightarrow> \<not> vocab_consistent (vocab_line v line))
    \<and> (int (length (id_to_token v)) \<le> i \<longrightarrow> vocabulary_size (vocab_line v line) = nat i + 1
        \<and> (\<forall>k. int (length (id_to_token v)) \<le> k \<and> k < i \<longrightarrow> get_token (vocab_line v line) k = []))"
proof -
  let ?tbl = "id_to_token v"
  let ?T = "if int (length ?tbl) \<le> i then list_resize ?tbl (nat i + 1) [] else ?tbl"
  let ?v = "v\<lparr>id_to_token := ?T[nat i := tok], token_to_id := (token_to_id v)(tok \<mapsto> i)\<rparr>"
  have vl: "vocab_line v line = ?v"
    using assms next_word_nonempty [OF assms(1)] by (simp add: vocab_line_def)
  have len: "nat i < length ?T" using assms(3) by auto
  have a: "token_to_id ?v tok = Some i" "get_token ?v i = tok"
    using len assms(3) by (simp_all add: get_token_def)
  have b: "\<forall>t. t \<noteq> tok \<longrightarrow> token_to_id ?v t = token_to_id v t" by simp
  have c: "vocab_consistent v \<and> token_to_id v t' = Some i \<and> t' \<noteq> tok \<longrightarrow> \<not> vocab_consistent ?v"
  proof
    assume h: "vocab_consistent v \<and> token_to_id v t' = Some i \<and> t' \<noteq> tok"
    show "\<not> vocab_consistent ?v"
    proof
      assume "vocab_consistent ?v"
      then have "id_to_token ?v ! nat i = t'" using h unfolding vocab_consistent_def by auto
      then show False using h len by simp
    qed
  qed
  have d: "int (length ?tbl) \<le> i \<longrightarrow> vocabulary_size ?v = nat i + 1
      \<and> (\<forall>k. int (length ?tbl) \<le> k \<and> k < i \<longrightarrow> get_token ?v k = [])"
    by (auto simp: vocabulary_size_def get_token_def nth_list_resize)
  show ?thesis using a b c d by (simp only: vl)
qed

theorem vocab_line_explicit_id_witness:
  "vocab_consistent vocab_new \<and> token_to_id vocab_new bos_token = Some 2
   \<and> \<not> vocab_consistent (vocab_line vocab_new ''hello 2'')
   \<and> get_token (vocab_line vocab_new ''hello 2'') 2 = ''hello''
   \<and> vocabulary_size (vocab_line vocab_new ''hello 6'') = 7
   \<and> get_token (vocab_line vocab_new ''hello 6'') 5 = []"
proof -
  have w: "next_word ''hello 2'' = Some (''hello'', '' 2'')" "parse_int '' 2'' = Some (2, [])"
    "next_word ''hello 6'' = Some (''hello'', '' 6'')" "parse_int '' 6'' = Some (6, [])"
    by (simp_all add: next_word_def parse_int_def is_space_def is_digit_def digits_value_def)
  have n: "token_to_id vocab_new bos_token = Some 2" "length (id_to_token vocab_new) = 4"
    by (simp_all add: vocab_new_def add_token_def unk_token_def pad_token_def bos_token_def eos_token_def)
  have h: "bos_token \<noteq> ''hello''" by (simp add: bos_token_def)
  show ?thesis
    using vocab_line_explicit_id [OF w(1,2), of vocab_new bos_token]
      vocab_line_explicit_id [OF w(3,4), of vocab_new bos_token] vocab_new_consistent n h
    by simp
qed

lemma best_from_None:
  "best_from rk ps i br best = None \<Longrightarrow>
   best = None \<and> (\<forall>(a, b)\<in>set ps. \<forall>r. rk (pair_key a b) = Some r \<longrightarrow> br \<le> r)"
proof (induction rk ps i br best rule: best_from.induct)
  case (2 rk a b ps i br best)
  show ?case
  proof (cases "rk (pair_key a b)")
    case (Some r)
    then show ?thesis using 2 by (cases "r < br") force+
  qed (use 2 in auto)
qed simp

lemma bpe_loop_fixpoint:
  "best_pair rk (adj_pairs (bpe_loop rk xs)) = None"
proof (induction rk xs rule: bpe_loop.induct)
  case (1 rk xs)
  then show ?case
    by (subst bpe_loop.simps) (auto simp add: best_pair_def split: option.split)
qed

text \<open>Claim C14: \<open>bpe_encode\<close> stops only when no merge applies: no two adjacent
  subwords of its result form a merge rule of rank below \<open>INT_MAX\<close>.\<close>

theorem bpe_encode_no_ranked_pair:
  "\<forall>(a, b)\<in>set (adj_pairs (bpe_encode t w)). \<forall>r. bpe_ranks t (pair_key a b) = Some r \<longrightarrow> int_max \<le> r"
proof -
  have "best_pair (bpe_ranks t) (adj_pairs (bpe_encode t w)) = None
      \<or> adj_pairs (bpe_encode t w) = []"
  proof (cases "length w = 1")
    case True
    then obtain c where "w = [c]" by (auto simp add: length_Suc_conv)
    then show ?thesis by (simp add: bpe_encode_def adj_pairs_def)
  qed (auto simp add: bpe_encode_def Let_def bpe_loop_fixpoint adj_pairs_def [of "[]"])
  then show ?thesis
    using best_from_None [of "bpe_ranks t" "adj_pairs (bpe_encode t w)" 0 int_max None]
    by (auto simp add: best_pair_def)
qed

theorem bpe_encode_no_ranked_pair_witness:
  "bpe_encode \<lparr>vocab = vocab_new, bpe_merges = [(''a'', ''b''), (''ab'', ''c'')],
      bpe_ranks = [''a b'' \<mapsto> 0, ''ab c'' \<mapsto> int_max]\<rparr> ''abc'' = [''ab'', ''c'']
   \<and> [''a b'' \<mapsto> 0, ''ab c'' \<mapsto> int_max] (pair_key ''ab'' ''c'') = Some int_max
   \<and> int_max \<le> int_max"
proof -
  let ?t = "\<lparr>vocab = vocab_new, bpe_merges = [(''a'', ''b''), (''ab'', ''c'')],
      bpe_ranks = [''a b'' \<mapsto> 0, ''ab c'' \<mapsto> int_max]\<rparr>"
  have e: "bpe_encode ?t ''abc'' = [''ab'', ''c'']"
    by (simp add: bpe_encode_def bpe_loop.simps adj_pairs_def best_pair_def pair_key_def int_max_def)
  have r: "bpe_ranks ?t (pair_key ''ab'' ''c'') = Some int_max" by (simp add: pair_key_def)
  have "(''ab'', ''c'') \<in> set (adj_pairs (bpe_encode ?t ''abc''))" by (simp add: e adj_pairs_def)
  then have "int_max \<le> int_max"
    using bpe_encode_no_ranked_pair [of ?t "''abc''"] r by blast
  then show ?thesis using e r by simp
qed

end
