(* ===== verification/Model.thy ===== *)
theory Model
  imports Block Tokenizer
begin

text \<open>
  \<open>TinyLlamaModel\<close> (declared in \<open>src/unnamed/part_007\<close>, implemented in
  \<open>src/unnamed/part_009\<close>): the configuration, the owned tokenizer, token and
  position embeddings, the stack of transformer blocks, the output projection and
  the sampling temperature; the forward pass over a token sequence, the causal
  mask, the temperature softmax, greedy sampling and the generation loop. The
  state record is generic in the float type; the numeric operations are on
  \<open>real\<close>.
\<close>

section \<open>State\<close>

record 'a model_config =
  model_dim :: nat
  num_layers :: nat
  num_heads :: nat
  ffn_hidden_dim :: nat
  max_sequence_length :: nat
  vocab_size :: nat
  dropout_rate :: 'a

text \<open>The member initialisers of \<open>ModelConfig\<close>.\<close>

definition default_config :: "real model_config" where
  "default_config = \<lparr>model_dim = 512, num_layers = 6, num_heads = 8, ffn_hidden_dim = 2048,
     max_sequence_length = 1024, vocab_size = 32000, dropout_rate = 1 / 10\<rparr>"

record 'a tl_model =
  tokenizer :: bpe_tokenizer
  embedding_weights :: "'a matrix"
  position_embeddings :: "'a matrix"
  transformer_blocks :: "'a block list"
  output_projection :: "'a matrix"
  config :: "'a model_config"
  temperature :: 'a

text \<open>
  \<open>TinyLlamaModel(config)\<close>: a fresh tokenizer, zero embedding tables, one block
  per layer (each attention engine drawing \<open>4 * model_dim ^ 2\<close> values from the
  global \<open>rand()\<close> stream \<open>rnd\<close>; the first block that throws aborts the
  construction), a zero output projection and temperature 1.
\<close>

fun blocks_new :: "nat \<Rightarrow> nat \<Rightarrow> nat \<Rightarrow> (nat \<Rightarrow> real) \<Rightarrow> nat \<Rightarrow> nat \<Rightarrow> real block list result" where
  "blocks_new md nh fh rnd i 0 = Inr []"
| "blocks_new md nh fh rnd i (Suc k) =
     rbind (block_new md nh fh (\<lambda>r. rnd (i * (4 * size_mul md md) + r))) (\<lambda>b.
     rbind (blocks_new md nh fh rnd (Suc i) k) (\<lambda>bs. Inr (b # bs)))"

definition model_new :: "real model_config \<Rightarrow> (nat \<Rightarrow> real) \<Rightarrow> real tl_model result" where
  "model_new cfg rnd =
     rbind (blocks_new (model_dim cfg) (num_heads cfg) (ffn_hidden_dim cfg) rnd 0 (num_layers cfg)) (\<lambda>bs.
       Inr \<lparr>tokenizer = tokenizer_new,
            embedding_weights = matrix_fill (matrix_new (vocab_size cfg) (model_dim cfg)) 0,
            position_embeddings = matrix_fill (matrix_new (max_sequence_length cfg) (model_dim cfg)) 0,
            transformer_blocks = bs,
            output_projection = matrix_fill (matrix_new (model_dim cfg) (vocab_size cfg)) 0,
            config = cfg, temperature = 1\<rparr>)"

text \<open>\<open>is_initialized()\<close>: the tokenizer exists and its vocabulary is not empty.\<close>

definition is_initialized :: "'a tl_model \<Rightarrow> bool" where
  "is_initialized m \<longleftrightarrow> tokenizer_vocab_size (tokenizer m) \<noteq> 0"

text \<open>\<open>load_tokenizer\<close>: the vocabulary, then the merges; any failure is rethrown as
  \<open>FileIOException\<close> (the vocabulary stays loaded when the merges fail).\<close>

definition load_tokenizer :: "string option \<Rightarrow> string option \<Rightarrow> 'a tl_model \<Rightarrow> 'a tl_model result" where
  "load_tokenizer vf mf m =
     (case load_vocab vf (tokenizer m) of
        Inl _ \<Rightarrow> Inl FileIOError
      | Inr t \<Rightarrow> (case load_merges mf t of
                   Inl _ \<Rightarrow> Inl FileIOError
                 | Inr t' \<Rightarrow> Inr (m\<lparr>tokenizer := t'\<rparr>)))"

definition model_tokenize :: "'a tl_model \<Rightarrow> string \<Rightarrow> int list result" where
  "model_tokenize m s = Inr (encode (tokenizer m) s)"

definition model_detokenize :: "'a tl_model \<Rightarrow> int list \<Rightarrow> string result" where
  "model_detokenize m ids = Inr (decode (tokenizer m) ids)"

section \<open>Forward pass\<close>

text \<open>\<open>create_attention_mask(n)\<close>: \<open>mask(i, j) = 1\<close> for \<open>j <= i\<close>, else \<open>0\<close>.\<close>

definition create_attention_mask :: "nat \<Rightarrow> real matrix" where
  "create_attention_mask n = matrix_tab n n (\<lambda>i j. if j \<le> i then 1 else 0)"

text \<open>
  The embedding of position \<open>i\<close> is \<open>0 + token_embedding[id] + position[i]\<close>;
  token ids are checked against \<open>[0, vocab_size)\<close> (\<open>ModelException\<close>). The table
  reads go through the checked accessor and are in range in every state the
  constructor and the loader produce (\<open>wf_model\<close>), where they are the plain reads
  written here.
\<close>

definition embed_tokens :: "real tl_model \<Rightarrow> int list \<Rightarrow> real matrix result" where
  "embed_tokens m toks =
     (if list_ex (\<lambda>t. t < 0 \<or> int (vocab_size (config m)) \<le> t) toks then Inl ModelError
      else Inr (matrix_tab (length toks) (model_dim (config m))
                 (\<lambda>i j. 0 + mat_at (embedding_weights m) (nat (toks ! i)) j
                          + mat_at (position_embeddings m) i j)))"

fun blocks_forward :: "real block list \<Rightarrow> real matrix \<Rightarrow> real matrix \<Rightarrow> real matrix result" where
  "blocks_forward [] msk h = Inr h"
| "blocks_forward (b # bs) msk h = rbind (block_forward b h (Some msk)) (blocks_forward bs msk)"

text \<open>\<open>forward(tokens)\<close>: \<open>ModelException\<close> when the model is not initialised, the
  sequence is empty or longer than \<open>max_sequence_length\<close>; otherwise the logits of
  the last position, read through the checked accessor.\<close>

definition last_row :: "nat \<Rightarrow> nat \<Rightarrow> real matrix \<Rightarrow> real list result" where
  "last_row n vs lg =
     (if 0 < vs \<and> (m_rows lg < n \<or> m_cols lg < vs) then Inl OutOfRange
      else Inr (map (mat_at lg (n - 1)) [0..<vs]))"

definition model_forward :: "real tl_model \<Rightarrow> int list \<Rightarrow> real list result" where
  "model_forward m toks =
     (if \<not> is_initialized m then Inl ModelError
      else if toks = [] then Inl ModelError
      else if max_sequence_length (config m) < length toks then Inl ModelError
      else rbind (embed_tokens m toks) (\<lambda>e.
           rbind (blocks_forward (transformer_blocks m) (create_attention_mask (length toks)) e) (\<lambda>h.
           rbind (matrix_mul h (output_projection m)) (\<lambda>lg.
             last_row (length toks) (vocab_size (config m)) lg))))"

section \<open>Sampling and generation\<close>

text \<open>\<open>softmax(logits, temperature)\<close>: empty for empty logits; a non-positive
  temperature falls back to the stored one; \<open>exp((x - max) / T)\<close>, normalised.\<close>

definition model_softmax :: "real tl_model \<Rightarrow> real list \<Rightarrow> real \<Rightarrow> real list" where
  "model_softmax m logits t =
     (if logits = [] then []
      else let temp = (if 0 < t then t else temperature m);
               mx = logits ! max_element logits;
               es = map (\<lambda>x. expf ((x - mx) / temp)) logits;
               total = foldl (+) 0 es
           in map (\<lambda>e. e / total) es)"

text \<open>\<open>sample_token\<close>: \<open>ModelException\<close> on an empty distribution, else the index
  \<open>std::max_element\<close> finds (greedy).\<close>

definition sample_token :: "real list \<Rightarrow> int result" where
  "sample_token ps = (if ps = [] then Inl ModelError else Inr (int (max_element ps)))"

text \<open>The id the generation loop stops at (\<open>next_token == 2\<close>).\<close>

definition gen_stop_id :: int where
  "gen_stop_id = 2"

text \<open>The loop of \<open>generate_text\<close>: at most \<open>k\<close> more iterations; stop when the
  sequence has \<open>max_sequence_length\<close> tokens; otherwise run the forward pass on
  the whole sequence, append the greedy token, and stop after the stop id.\<close>

fun gen_loop :: "real tl_model \<Rightarrow> real \<Rightarrow> nat \<Rightarrow> int list \<Rightarrow> int list result" where
  "gen_loop m t 0 toks = Inr toks"
| "gen_loop m t (Suc k) toks =
     (if max_sequence_length (config m) \<le> length toks then Inr toks
      else rbind (model_forward m toks) (\<lambda>logits.
           rbind (sample_token (model_softmax m logits (if 0 < t then t else temperature m))) (\<lambda>nxt.
             if nxt = gen_stop_id then Inr (toks @ [nxt]) else gen_loop m t k (toks @ [nxt]))))"

text \<open>
  \<open>generate_text(prompt, max_tokens, temperature)\<close>: \<open>ModelException\<close> when not
  initialised or \<open>max_tokens <= 0\<close>; the prompt's tokens (the placeholder
  \<open>{1, 2, 3}\<close> if tokenizing throws a \<open>TokenizerException\<close>), cut to
  \<open>max_sequence_length - 1\<close> tokens when they reach the limit; the loop; the prompt
  followed by the detokenized new tokens (a placeholder text if that throws a
  \<open>TokenizerException\<close>).
\<close>

definition generate_text :: "real tl_model \<Rightarrow> string \<Rightarrow> int \<Rightarrow> real \<Rightarrow> string result" where
  "generate_text m prompt max_tokens t =
     (if \<not> is_initialized m then Inl ModelError
      else if max_tokens \<le> 0 then Inl ModelError
      else let toks0 = (case model_tokenize m prompt of Inr ts \<Rightarrow> ts | Inl _ \<Rightarrow> [1, 2, 3]);
               lim = max_sequence_length (config m);
               toks1 = (if lim \<le> length toks0 then list_resize toks0 (lim - 1) 0 else toks0);
               plen = length toks1
           in rbind (gen_loop m t (nat max_tokens) toks1) (\<lambda>toks.
                if plen < length toks then
                  (case model_detokenize m (drop plen toks) of
                     Inr s \<Rightarrow> Inr (prompt @ s)
                   | Inl TokenizerError \<Rightarrow> Inr (prompt @ '' in a land far away...'')
                   | Inl e \<Rightarrow> Inl e)
                else Inr prompt))"

section \<open>Well-formed states\<close>

text \<open>The shapes a constructed or correctly loaded state has, component by
  component.\<close>

definition wf_mha :: "nat \<Rightarrow> 'a mha \<Rightarrow> bool" where
  "wf_mha md a \<longleftrightarrow>
     wf_matrix (query_weights a) \<and> wf_matrix (key_weights a) \<and> wf_matrix (value_weights a)
     \<and> wf_matrix (output_weights a)
     \<and> m_rows (query_weights a) = md \<and> m_cols (query_weights a) = md
     \<and> m_rows (key_weights a) = md \<and> m_cols (key_weights a) = md
     \<and> m_rows (value_weights a) = md \<and> m_cols (value_weights a) = md
     \<and> m_rows (output_weights a) = md \<and> m_cols (output_weights a) = md
     \<and> mha.num_heads a * head_dim a = md \<and> mha_model_dim a = md"

definition wf_block :: "nat \<Rightarrow> 'a block \<Rightarrow> bool" where
  "wf_block md b \<longleftrightarrow>
     block_model_dim b = md \<and> wf_mha md (attention b) \<and> wf_ffn (feed_forward b)
     \<and> ffn_model_dim (feed_forward b) = md
     \<and> length (layer_norm1_weight b) = md \<and> length (layer_norm1_bias b) = md
     \<and> length (layer_norm2_weight b) = md \<and> length (layer_norm2_bias b) = md"

definition wf_model :: "'a tl_model \<Rightarrow> bool" where
  "wf_model m \<longleftrightarrow>
     (let c = config m
      in wf_matrix (embedding_weights m) \<and> m_rows (embedding_weights m) = vocab_size c
         \<and> m_cols (embedding_weights m) = model_dim c
         \<and> wf_matrix (position_embeddings m) \<and> m_rows (position_embeddings m) = max_sequence_length c
         \<and> m_cols (position_embeddings m) = model_dim c
         \<and> wf_matrix (output_projection m) \<and> m_rows (output_projection m) = model_dim c
         \<and> m_cols (output_projection m) = vocab_size c
         \<and> length (transformer_blocks m) = num_layers c
         \<and> (\<forall>b\<in>set (transformer_blocks m). wf_block (model_dim c) b
              \<and> mha.num_heads (attention b) = num_heads c \<and> hidden_dim (feed_forward b) = ffn_hidden_dim c))"

definition config_fits :: "'a model_config \<Rightarrow> bool" where
  "config_fits c \<longleftrightarrow> model_dim c * model_dim c < size_t_limit
     \<and> model_dim c * ffn_hidden_dim c < size_t_limit \<and> vocab_size c * model_dim c < size_t_limit
     \<and> max_sequence_length c * model_dim c < size_t_limit"

section \<open>Softmax and greedy sampling\<close>

lemma model_softmax_nth:
  assumes "logits \<noteq> []" "k < length logits" "0 < t"
  shows "model_softmax m logits t ! k =
    expf ((logits ! k - logits ! max_element logits) / t)
      / sum_list (map (\<lambda>x. expf ((x - logits ! max_element logits) / t)) logits)"
  using assms by (simp add: model_softmax_def Let_def foldl_plus_sum_list)

lemma model_softmax_length [simp]: "length (model_softmax m logits t) = length logits"
  by (simp add: model_softmax_def Let_def)

lemma softmax_total_ge:
  assumes "logits \<noteq> []" "0 < t"
  shows "1 \<le> sum_list (map (\<lambda>x. expf ((x - logits ! max_element logits) / t)) logits)"
proof -
  let ?f = "\<lambda>x. expf ((x - logits ! max_element logits) / t)"
  have "?f (logits ! max_element logits) \<in> set (map ?f logits)"
    unfolding set_map using max_element_less [OF assms(1)] by (intro imageI nth_mem)
  then have "?f (logits ! max_element logits) \<le> sum_list (map ?f logits)"
    by (rule member_le_sum_list) auto
  then show ?thesis by simp
qed

text \<open>Each exponent is at most 0, and exactly 0 at a greatest logit.\<close>

lemma softmax_exponent_le:
  "logits \<noteq> [] \<Longrightarrow> 0 < t \<Longrightarrow> x \<in> set logits \<Longrightarrow> (x - logits ! max_element logits) / t \<le> 0"
  for logits :: "real list"
proof -
  assume a: "logits \<noteq> []" "0 < t" "x \<in> set logits"
  have "x \<le> logits ! max_element logits" using max_element_is_max [OF a(1,3)] .
  then show ?thesis using a(2) by (simp add: divide_nonpos_pos)
qed

text \<open>Claim C7: the probabilities \<open>softmax\<close> returns for a non-empty logit vector
  and a positive temperature form a distribution: none is negative and they sum
  to 1.\<close>

lemma model_softmax_distribution:
  assumes "logits \<noteq> []" "0 < t"
  shows "sum_list (model_softmax m logits t) = 1 \<and> (\<forall>p\<in>set (model_softmax m logits t). 0 \<le> p)"
proof -
  let ?f = "\<lambda>x. expf ((x - logits ! max_element logits) / t)"
  let ?s = "sum_list (map ?f logits)"
  have pos: "0 < ?s" using softmax_total_ge [OF assms] by linarith
  have eq: "model_softmax m logits t = map (\<lambda>x. ?f x / ?s) logits"
    using assms by (simp add: model_softmax_def Let_def foldl_plus_sum_list)
  have "sum_list (map (\<lambda>x. ?f x / ?s) logits) = ?s / ?s" by (rule sum_list_map_divide)
  then show ?thesis using pos eq by auto
qed

theorem model_softmax_distribution_witness:
  "\<forall>m. sum_list (model_softmax m [1, 3] 2) = 1 \<and> (\<forall>p\<in>set (model_softmax m [1, 3] 2). 0 \<le> p)"
  using model_softmax_distribution [of "[1, 3]" 2] by simp

text \<open>The greatest probability is at the first greatest logit, and every earlier
  probability is strictly smaller.\<close>

lemma model_softmax_argmax:
  assumes ne: "logits \<noteq> []" and t: "0 < t"
  shows "max_element (model_softmax m logits t) = max_element logits"
proof (rule max_element_unique)
  let ?r = "max_element logits"
  let ?f = "\<lambda>x. expf ((x - logits ! ?r) / t)"
  let ?s = "sum_list (map ?f logits)"
  let ?p = "model_softmax m logits t"
  have s: "0 < ?s" using softmax_total_ge [OF ne t] by linarith
  have r: "?r < length logits" by (rule max_element_less [OF ne])
  have pr: "?p ! ?r = 1 / ?s" using model_softmax_nth [OF ne r t] by simp
  have pj: "?p ! j = ?f (logits ! j) / ?s" if "j < length logits" for j
    using model_softmax_nth [OF ne that t] .
  show "?r < length ?p" using r by simp
  show "\<forall>y\<in>set ?p. y \<le> ?p ! ?r"
  proof
    fix y assume "y \<in> set ?p"
    then obtain j where j: "j < length logits" "y = ?p ! j" by (auto simp: in_set_conv_nth)
    have "?f (logits ! j) \<le> 1"
      using softmax_exponent_le [OF ne t nth_mem [OF j(1)]] by (rule expf_le_one)
    then show "y \<le> ?p ! ?r" using j pj pr s by (simp add: divide_right_mono)
  qed
  show "\<forall>k<?r. ?p ! k < ?p ! ?r"
  proof (intro allI impI)
    fix k assume k: "k < ?r"
    then have kl: "k < length logits" using r by simp
    have lt: "logits ! k < logits ! ?r" using max_element_first [OF ne k] .
    have le: "(logits ! k - logits ! ?r) / t \<le> 0"
      using softmax_exponent_le [OF ne t nth_mem [OF kl]] .
    have ne0: "(logits ! k - logits ! ?r) / t \<noteq> 0" using lt t by simp
    have "?f (logits ! k) \<le> 1" using le by (rule expf_le_one)
    moreover have "?f (logits ! k) \<noteq> 1" using expf_eq_one_iff [OF le] ne0 by simp
    ultimately have "?f (logits ! k) < 1" by simp
    then show "?p ! k < ?p ! ?r" using kl pj pr s by (simp add: divide_strict_right_mono)
  qed
qed

text \<open>Raising the temperature never raises the probability of the most likely
  token.\<close>

lemma softmax_total_mono:
  assumes ne: "logits \<noteq> []" and t: "0 < t1" "t1 \<le> t2"
  shows "sum_list (map (\<lambda>x. expf ((x - logits ! max_element logits) / t1)) logits)
       \<le> sum_list (map (\<lambda>x. expf ((x - logits ! max_element logits) / t2)) logits)"
proof (rule sum_list_mono)
  fix x assume x: "x \<in> set logits"
  have "x - logits ! max_element logits \<le> 0" using max_element_is_max [OF ne x] by simp
  then have "(x - logits ! max_element logits) / t1 \<le> (x - logits ! max_element logits) / t2"
    using t by (intro divide_left_mono_neg) simp_all
  then show "expf ((x - logits ! max_element logits) / t1) \<le> expf ((x - logits ! max_element logits) / t2)"
    by (rule expf_mono)
qed

section \<open>Shapes through the forward pass\<close>

lemma scale_scores_shape [simp]:
  "m_rows (scale_scores d s) = m_rows s" "m_cols (scale_scores d s) = m_cols s"
  by (simp_all add: scale_scores_def)

lemma sdpa_shape:
  assumes "m_cols k = m_cols q" "m_rows v = m_rows q" "m_rows mk = m_rows q" "m_cols mk = m_rows q"
  shows "\<exists>r. sdpa q k v (Some mk) = Inr r \<and> m_rows r = m_rows q \<and> m_cols r = m_cols v"
  using assms by (simp add: sdpa_def Let_def matrix_mul_def apply_mask_def softmax_rows_def shape_simps)

lemma heads_loop_shape:
  assumes "m_rows q = n" "m_cols q = md" "m_rows k = n" "m_cols k = md" "m_rows v = n" "m_cols v = md"
    "m_rows mk = n" "m_cols mk = n" "\<forall>h\<in>set hs. (h + 1) * hdim \<le> md"
    "m_rows out = n" "m_cols out = md"
  shows "\<exists>out'. heads_loop hdim n q k v (Some mk) hs out = Inr out' \<and> m_rows out' = n \<and> m_cols out' = md"
  using assms(9-11)
proof (induction hs arbitrary: out)
  case Nil
  then show ?case by simp
next
  case (Cons h hs)
  have fit: "h * hdim + hdim \<le> md" using Cons.prems(1) by (simp add: algebra_simps)
  let ?sl = "\<lambda>m. matrix_tab n hdim (\<lambda>i j. mat_at m i (h * hdim + j))"
  have sq: "col_slice q n (h * hdim) hdim = Inr (?sl q)"
    "col_slice k n (h * hdim) hdim = Inr (?sl k)" "col_slice v n (h * hdim) hdim = Inr (?sl v)"
    using assms(1-6) fit by (auto simp add: col_slice_def)
  obtain r where r: "sdpa (?sl q) (?sl k) (?sl v) (Some mk) = Inr r" "m_rows r = n" "m_cols r = hdim"
    using sdpa_shape [of "?sl k" "?sl q" "?sl v" mk] assms(7,8) by auto
  let ?out = "matrix_tab (m_rows out) (m_cols out)
       (\<lambda>i j. if i < n \<and> h * hdim \<le> j \<and> j < h * hdim + hdim then mat_at r i (j - h * hdim) else mat_at out i j)"
  have p: "put_cols out n (h * hdim) hdim r = Inr ?out"
    using Cons.prems(2,3) r(2,3) fit by (auto simp add: put_cols_def)
  obtain out' where "heads_loop hdim n q k v (Some mk) hs ?out = Inr out'" "m_rows out' = n" "m_cols out' = md"
    using Cons.IH [of ?out] Cons.prems by auto
  then show ?case using sq r p by simp
qed

lemma mha_forward_shape:
  assumes "wf_mha md a" "m_cols x = md" "m_rows mk = m_rows x" "m_cols mk = m_rows x"
  shows "\<exists>y. mha_forward a x (Some mk) = Inr y \<and> m_rows y = m_rows x \<and> m_cols y = md"
proof -
  let ?n = "m_rows x"
  let ?q = "matrix_tab ?n md (dot_acc x (query_weights a))"
  let ?k = "matrix_tab ?n md (dot_acc x (key_weights a))"
  let ?v = "matrix_tab ?n md (dot_acc x (value_weights a))"
  have nh: "mha.num_heads a * head_dim a = md" using assms(1) by (simp add: wf_mha_def)
  have heads: "\<forall>h\<in>set [0..<mha.num_heads a]. (h + 1) * head_dim a \<le> md"
  proof
    fix h assume "h \<in> set [0..<mha.num_heads a]"
    then have "h + 1 \<le> mha.num_heads a" by simp
    then have "(h + 1) * head_dim a \<le> mha.num_heads a * head_dim a" by (rule mult_le_mono1)
    then show "(h + 1) * head_dim a \<le> md" using nh by simp
  qed
  obtain out where o: "heads_loop (head_dim a) ?n ?q ?k ?v (Some mk) [0..<mha.num_heads a]
        (matrix_fill (matrix_new ?n (mha_model_dim a)) 0) = Inr out" "m_rows out = ?n" "m_cols out = md"
    using heads_loop_shape [of ?q ?n md ?k ?v mk "[0..<mha.num_heads a]" "head_dim a"
        "matrix_fill (matrix_new ?n (mha_model_dim a)) 0"] assms heads
    by (auto simp add: wf_mha_def matrix_fill_def matrix_new_shape)
  show ?thesis
    using assms(1,2) o by (simp add: mha_forward_def Let_def matrix_mul_def wf_mha_def)
qed

lemma residual_add_shape:
  "m_rows y = m_rows r \<Longrightarrow> m_cols y = m_cols r \<Longrightarrow>
   residual_add r y = Inr (matrix_tab (m_rows r) (m_cols r) (\<lambda>i j. mat_at r i j + mat_at y i j))"
  by (simp add: residual_add_def)

lemma ffn_forward_shape:
  assumes "wf_ffn f" "m_cols x = ffn_model_dim f"
  shows "\<exists>y. ffn_forward f x = Inr y \<and> m_rows y = m_rows x \<and> m_cols y = ffn_model_dim f"
  using ffn_forward_ok [OF assms] by (simp add: add_bias_shape)

lemma block_forward_shape:
  assumes "wf_block md b" "m_cols x = md" "m_rows mk = m_rows x" "m_cols mk = m_rows x"
  shows "\<exists>y. block_forward b x (Some mk) = Inr y \<and> m_rows y = m_rows x \<and> m_cols y = md"
proof -
  have b: "block_model_dim b = md" "wf_mha md (attention b)" "wf_ffn (feed_forward b)"
    "ffn_model_dim (feed_forward b) = md"
    "length (layer_norm1_weight b) = md" "length (layer_norm1_bias b) = md"
    "length (layer_norm2_weight b) = md" "length (layer_norm2_bias b) = md"
    using assms(1) by (simp_all add: wf_block_def)
  let ?n1 = "matrix_tab (m_rows x) md (\<lambda>i j. (mat_at x i j - row_mean (map (mat_at x i) [0..<md]))
     / sqrt (row_variance (map (mat_at x i) [0..<md]) + ln_epsilon) * layer_norm1_weight b ! j + layer_norm1_bias b ! j)"
  have n1: "layer_norm md x (layer_norm1_weight b) (layer_norm1_bias b) = Inr ?n1"
    using layer_norm_ok [OF assms(2) b(5,6)] .
  obtain ao where ao: "mha_forward (attention b) ?n1 (Some mk) = Inr ao" "m_rows ao = m_rows x" "m_cols ao = md"
    using mha_forward_shape [OF b(2), of ?n1 mk] assms(3,4) by auto
  let ?r1 = "matrix_tab (m_rows x) (m_cols x) (\<lambda>i j. mat_at x i j + mat_at ao i j)"
  have r1: "residual_add x ao = Inr ?r1" using ao assms(2) by (simp add: residual_add_shape)
  let ?n2 = "matrix_tab (m_rows x) md (\<lambda>i j. (mat_at ?r1 i j - row_mean (map (mat_at ?r1 i) [0..<md]))
     / sqrt (row_variance (map (mat_at ?r1 i) [0..<md]) + ln_epsilon) * layer_norm2_weight b ! j + layer_norm2_bias b ! j)"
  have n2: "layer_norm md ?r1 (layer_norm2_weight b) (layer_norm2_bias b) = Inr ?n2"
    using layer_norm_ok [of ?r1 md, OF _ b(7,8)] assms(2) by simp
  obtain fo where fo: "ffn_forward (feed_forward b) ?n2 = Inr fo" "m_rows fo = m_rows x" "m_cols fo = md"
    using ffn_forward_shape [OF b(3), of ?n2] b(4) by auto
  have out: "residual_add ?r1 fo = Inr (matrix_tab (m_rows x) (m_cols x) (\<lambda>i j. mat_at ?r1 i j + mat_at fo i j))"
    using fo assms(2) by (simp add: residual_add_shape)
  show ?thesis using assms(2) b(1) n1 ao(1) r1 n2 fo(1) out by (simp add: block_forward_def Let_def)
qed

lemma blocks_forward_shape:
  assumes "\<forall>b\<in>set bs. wf_block md b" "m_cols h = md" "m_rows mk = m_rows h" "m_cols mk = m_rows h"
  shows "\<exists>y. blocks_forward bs mk h = Inr y \<and> m_rows y = m_rows h \<and> m_cols y = md"
  using assms
proof (induction bs arbitrary: h)
  case (Cons b bs)
  obtain y where y: "block_forward b h (Some mk) = Inr y" "m_rows y = m_rows h" "m_cols y = md"
    using block_forward_shape [of md b h mk] Cons.prems by auto
  then show ?case using Cons.IH [of y] Cons.prems by simp
qed simp

lemma create_attention_mask_shape [simp]:
  "m_rows (create_attention_mask n) = n" "m_cols (create_attention_mask n) = n"
  by (simp_all add: create_attention_mask_def)

lemma embed_tokens_ok:
  "\<forall>t\<in>set toks. 0 \<le> t \<and> t < int (vocab_size (config m)) \<Longrightarrow>
   embed_tokens m toks = Inr (matrix_tab (length toks) (model_dim (config m))
     (\<lambda>i j. 0 + mat_at (embedding_weights m) (nat (toks ! i)) j + mat_at (position_embeddings m) i j))"
  by (auto simp add: embed_tokens_def list_ex_iff)

lemma model_forward_shape:
  assumes "wf_model m" "is_initialized m" "toks \<noteq> []" "length toks \<le> max_sequence_length (config m)"
    "\<forall>t\<in>set toks. 0 \<le> t \<and> t < int (vocab_size (config m))"
  shows "\<exists>ls. model_forward m toks = Inr ls \<and> length ls = vocab_size (config m)"
proof -
  let ?c = "config m" and ?n = "length toks"
  let ?e = "matrix_tab ?n (model_dim ?c)
     (\<lambda>i j. 0 + mat_at (embedding_weights m) (nat (toks ! i)) j + mat_at (position_embeddings m) i j)"
  have e: "embed_tokens m toks = Inr ?e" using assms(5) by (rule embed_tokens_ok)
  have bs: "\<forall>b\<in>set (transformer_blocks m). wf_block (model_dim ?c) b"
    using assms(1) by (simp add: wf_model_def Let_def)
  obtain h where h: "blocks_forward (transformer_blocks m) (create_attention_mask ?n) ?e = Inr h"
      "m_rows h = ?n" "m_cols h = model_dim ?c"
    using blocks_forward_shape [OF bs, of ?e "create_attention_mask ?n"] by auto
  have out: "m_rows (output_projection m) = model_dim ?c" "m_cols (output_projection m) = vocab_size ?c"
    using assms(1) by (simp_all add: wf_model_def Let_def)
  show ?thesis
    using assms(2-4) e h out
    by (simp add: model_forward_def matrix_mul_def last_row_def)
qed

section \<open>Construction\<close>

lemma wf_mha_new:
  assumes "mha_new md nh rnd = Inr a" "md * md < size_t_limit"
  shows "wf_mha md a \<and> mha.num_heads a = nh"
proof -
  have d: "md mod nh = 0" and a: "a = \<lparr>query_weights = xavier md rnd 0, key_weights = xavier md rnd 1,
      value_weights = xavier md rnd 2, output_weights = xavier md rnd 3,
      num_heads = nh, head_dim = md div nh, mha_model_dim = md\<rparr>"
    using assms(1) by (auto simp add: mha_new_def split: if_splits)
  have "nh * (md div nh) = md" using d mult_div_mod_eq [of nh md] by simp
  then show ?thesis using assms(2) by (simp add: a wf_mha_def xavier_def wf_matrix_def Let_def)
qed

lemma wf_block_new:
  assumes "block_new md nh fh rnd = Inr b" "md * md < size_t_limit" "md * fh < size_t_limit"
  shows "wf_block md b \<and> mha.num_heads (attention b) = nh \<and> hidden_dim (feed_forward b) = fh"
proof -
  obtain a where a: "mha_new md nh rnd = Inr a" and b: "b = \<lparr>attention = a, feed_forward = ffn_new md fh,
      layer_norm1_weight = replicate md 1, layer_norm1_bias = replicate md 0,
      layer_norm2_weight = replicate md 1, layer_norm2_bias = replicate md 0, block_model_dim = md\<rparr>"
    using assms(1) by (auto simp add: block_new_def rbind_eq_Inr)
  show ?thesis
    using wf_mha_new [OF a assms(2)] wf_ffn_new [OF assms(3)]
    by (simp add: b wf_block_def ffn_new_def)
qed

lemma blocks_new_wf:
  "blocks_new md nh fh rnd i k = Inr bs \<Longrightarrow> md * md < size_t_limit \<Longrightarrow> md * fh < size_t_limit \<Longrightarrow>
   length bs = k \<and> (\<forall>b\<in>set bs. wf_block md b \<and> mha.num_heads (attention b) = nh \<and> hidden_dim (feed_forward b) = fh)"
proof (induction k arbitrary: i bs)
  case (Suc k)
  then obtain b bs' where "block_new md nh fh (\<lambda>r. rnd (i * (4 * size_mul md md) + r)) = Inr b"
      "blocks_new md nh fh rnd (Suc i) k = Inr bs'" "bs = b # bs'"
    by (auto simp add: rbind_eq_Inr)
  then show ?case using Suc.IH [of "Suc i" bs'] Suc.prems(2,3) wf_block_new by fastforce
qed simp

lemma vocab_new_ids:
  "unk_token_id vocab_new = 0 \<and> pad_token_id vocab_new = 1 \<and> bos_token_id vocab_new = 2
   \<and> eos_token_id vocab_new = 3 \<and> vocabulary_size vocab_new = 4"
  by (simp add: vocab_new_def add_token_def vocabulary_size_def unk_token_def pad_token_def
      bos_token_def eos_token_def)

lemma matrix_fill_new:
  "r * c < size_t_limit \<Longrightarrow> wf_matrix (matrix_fill (matrix_new r c) v)
     \<and> m_rows (matrix_fill (matrix_new r c) v) = r \<and> m_cols (matrix_fill (matrix_new r c) v) = c"
  using wf_matrix_fill [OF wf_matrix_new] by (simp add: matrix_fill_def matrix_new_shape)

lemma model_new_state:
  assumes "model_new cfg rnd = Inr m" "config_fits cfg"
  shows "wf_model m \<and> config m = cfg \<and> tokenizer m = tokenizer_new"
proof -
  obtain bs where bs: "blocks_new (model_dim cfg) (num_heads cfg) (ffn_hidden_dim cfg) rnd 0 (num_layers cfg) = Inr bs"
    and m: "m = \<lparr>tokenizer = tokenizer_new,
            embedding_weights = matrix_fill (matrix_new (vocab_size cfg) (model_dim cfg)) 0,
            position_embeddings = matrix_fill (matrix_new (max_sequence_length cfg) (model_dim cfg)) 0,
            transformer_blocks = bs,
            output_projection = matrix_fill (matrix_new (model_dim cfg) (vocab_size cfg)) 0,
            config = cfg, temperature = 1\<rparr>"
    using assms(1) by (auto simp add: model_new_def rbind_eq_Inr)
  have "length bs = num_layers cfg \<and> (\<forall>b\<in>set bs. wf_block (model_dim cfg) b
      \<and> mha.num_heads (attention b) = num_heads cfg \<and> hidden_dim (feed_forward b) = ffn_hidden_dim cfg)"
    using blocks_new_wf [OF bs] assms(2) by (simp add: config_fits_def)
  moreover have "model_dim cfg * vocab_size cfg < size_t_limit"
    using assms(2) by (simp add: config_fits_def mult.commute)
  ultimately show ?thesis using assms(2)
    by (simp add: m wf_model_def config_fits_def matrix_fill_new)
qed

section \<open>The generation loop\<close>

text \<open>Claim C8: one run of the generation loop only appends: it adds at most \<open>k\<close>
  tokens, never grows the sequence past \<open>max_sequence_length\<close> (nor shrinks it),
  and stops right after the first stop id it samples.\<close>

lemma gen_loop_bounds:
  "gen_loop m t k toks = Inr toks' \<Longrightarrow>
   \<exists>gen. toks' = toks @ gen \<and> length gen \<le> k
     \<and> length toks' \<le> max (length toks) (max_sequence_length (config m))
     \<and> gen_stop_id \<notin> set (butlast gen)"
proof (induction m t k toks arbitrary: toks' rule: gen_loop.induct)
  case (1 m t toks)
  then show ?case by simp
next
  case (2 m t k toks)
  show ?case
  proof (cases "max_sequence_length (config m) \<le> length toks")
    case True
    then show ?thesis using "2.prems" by simp
  next
    case False
    then obtain logits nxt where
      f: "model_forward m toks = Inr logits"
      and s: "sample_token (model_softmax m logits (if 0 < t then t else temperature m)) = Inr nxt"
      and r: "(if nxt = gen_stop_id then Inr (toks @ [nxt]) else gen_loop m t k (toks @ [nxt])) = Inr toks'"
      using "2.prems" by (auto simp add: rbind_eq_Inr)
    show ?thesis
    proof (cases "nxt = gen_stop_id")
      case True
      then show ?thesis using r False by auto
    next
      case stop: False
      then have "gen_loop m t k (toks @ [nxt]) = Inr toks'" using r by simp
      then obtain gen where g: "toks' = (toks @ [nxt]) @ gen" "length gen \<le> k"
          "length toks' \<le> max (length (toks @ [nxt])) (max_sequence_length (config m))"
          "gen_stop_id \<notin> set (butlast gen)"
        using "2.IH" [OF False f s] stop by blast
      have "gen_stop_id \<notin> set (butlast (nxt # gen))"
        using g(4) stop by (cases gen) auto
      moreover have "length toks' \<le> max (length toks) (max_sequence_length (config m))"
        using g(3) False by simp
      ultimately show ?thesis using g(1,2) by (intro exI [of _ "nxt # gen"]) simp
    qed
  qed
qed

section \<open>Properties of the model\<close>

lemma is_initialized_new_tokenizer: "tokenizer m = tokenizer_new \<Longrightarrow> is_initialized m"
  by (simp add: is_initialized_def tokenizer_vocab_size_def tokenizer_new_def vocab_new_ids)

text \<open>Claim C1: a model built by the constructor from a configuration whose tables
  fit in memory runs the forward pass on every non-empty sequence of in-range token
  ids no longer than \<open>max_sequence_length\<close>, and returns one logit per vocabulary
  entry. The repository's tests expect the opposite: \<open>src/tests/test_model.cpp\<close>
  (lines 65 to 94 and 245 to 266) asserts that \<open>forward({1, 2, 3})\<close> on a freshly
  constructed model throws \<open>ModelException\<close> because no tokenizer was loaded.
  It does not: the constructor's vocabulary already holds the four special
  tokens, so \<open>is_initialized()\<close> holds (\<open>model_new_initialized\<close>) and the forward
  pass runs.\<close>

theorem model_new_forward:
  assumes "model_new cfg rnd = Inr m" "config_fits cfg"
    and "toks \<noteq> []" "length toks \<le> max_sequence_length cfg"
    and "\<forall>t\<in>set toks. 0 \<le> t \<and> t < int (vocab_size cfg)"
  shows "\<exists>ls. model_forward m toks = Inr ls \<and> length ls = vocab_size cfg"
proof -
  have s: "wf_model m" "config m = cfg" "tokenizer m = tokenizer_new"
    using model_new_state [OF assms(1,2)] by simp_all
  have "is_initialized m" using is_initialized_new_tokenizer [OF s(3)] .
  then show ?thesis using model_forward_shape [OF s(1)] assms(3-5) s(2) by simp
qed

theorem model_new_forward_witness:
  "\<exists>m ls. model_new \<lparr>model_dim = 2, num_layers = 1, num_heads = 1, ffn_hidden_dim = 3,
      max_sequence_length = 4, vocab_size = 5, dropout_rate = 0\<rparr> (\<lambda>_. 0) = Inr m
    \<and> model_forward m [1, 4] = Inr ls \<and> length ls = 5"
proof -
  let ?c = "\<lparr>model_dim = 2, num_layers = 1, num_heads = 1, ffn_hidden_dim = 3,
      max_sequence_length = 4, vocab_size = 5, dropout_rate = 0 :: real\<rparr>"
  have "\<exists>m. model_new ?c (\<lambda>_. 0) = Inr m"
    by (simp add: model_new_def block_new_def mha_new_def)
  then obtain m where m: "model_new ?c (\<lambda>_. 0) = Inr m" ..
  have "\<exists>ls. model_forward m [1, 4] = Inr ls \<and> length ls = 5"
    using model_new_forward [OF m] by (simp add: config_fits_def size_t_limit_def)
  then show ?thesis using m by blast
qed

text \<open>Claim C9: the constructor already leaves the model initialised: the fresh
  tokenizer holds the four special tokens, so \<open>is_initialized()\<close> is true before any
  weights or vocabulary are loaded; and the id the generation loop stops at is the
  id of \<open><bos>\<close>, not that of \<open><eos>\<close>.\<close>

theorem model_new_initialized:
  assumes "model_new cfg rnd = Inr m"
  shows "is_initialized m \<and> bos_token_id (vocab (tokenizer m)) = gen_stop_id
    \<and> eos_token_id (vocab (tokenizer m)) = 3"
proof -
  have "tokenizer m = tokenizer_new"
    using assms by (auto simp add: model_new_def rbind_eq_Inr)
  then show ?thesis using is_initialized_new_tokenizer [of m]
    by (simp add: tokenizer_new_def vocab_new_ids gen_stop_id_def)
qed

theorem model_new_initialized_witness:
  "\<exists>m. model_new \<lparr>model_dim = 2, num_layers = 0, num_heads = 1, ffn_hidden_dim = 3,
      max_sequence_length = 4, vocab_size = 5, dropout_rate = 0\<rparr> (\<lambda>_. 0) = Inr m
    \<and> is_initialized m \<and> bos_token_id (vocab (tokenizer m)) = gen_stop_id"
proof -
  have "\<exists>m. model_new \<lparr>model_dim = 2, num_layers = 0, num_heads = 1, ffn_hidden_dim = 3,
      max_sequence_length = 4, vocab_size = 5, dropout_rate = 0 :: real\<rparr> (\<lambda>_. 0) = Inr m"
    by (simp add: model_new_def)
  then obtain m where m: "model_new \<lparr>model_dim = 2, num_layers = 0, num_heads = 1, ffn_hidden_dim = 3,
      max_sequence_length = 4, vocab_size = 5, dropout_rate = 0\<rparr> (\<lambda>_. 0) = Inr m" ..
  then show ?thesis using model_new_initialized [OF m] by blast
qed

text \<open>Claim C5: \<open>forward\<close> rejects, with \<open>ModelException\<close>, an uninitialised model,
  the empty sequence, a sequence longer than \<open>max_sequence_length\<close>, and any token
  id outside \<open>[0, vocab_size)\<close>.\<close>

theorem model_forward_errors:
  "(\<not> is_initialized m \<longrightarrow> model_forward m toks = Inl ModelError)
   \<and> (toks = [] \<longrightarrow> model_forward m toks = Inl ModelError)
   \<and> (max_sequence_length (config m) < length toks \<longrightarrow> model_forward m toks = Inl ModelError)
   \<and> ((\<exists>t\<in>set toks. t < 0 \<or> int (vocab_size (config m)) \<le> t) \<longrightarrow> model_forward m toks = Inl ModelError)"
  by (simp add: model_forward_def embed_tokens_def list_ex_iff)

theorem model_forward_errors_witness:
  "\<exists>m. model_new \<lparr>model_dim = 2, num_layers = 0, num_heads = 1, ffn_hidden_dim = 3,
      max_sequence_length = 2, vocab_size = 5, dropout_rate = 0\<rparr> (\<lambda>_. 0) = Inr m
    \<and> model_forward m [] = Inl ModelError \<and> model_forward m [1, 2, 3] = Inl ModelError
    \<and> model_forward m [1, 5] = Inl ModelError"
proof -
  have "\<exists>m. model_new \<lparr>model_dim = 2, num_layers = 0, num_heads = 1, ffn_hidden_dim = 3,
      max_sequence_length = 2, vocab_size = 5, dropout_rate = 0 :: real\<rparr> (\<lambda>_. 0) = Inr m"
    by (simp add: model_new_def)
  then obtain m where m: "model_new \<lparr>model_dim = 2, num_layers = 0, num_heads = 1, ffn_hidden_dim = 3,
      max_sequence_length = 2, vocab_size = 5, dropout_rate = 0\<rparr> (\<lambda>_. 0) = Inr m" ..
  then have c: "config m = \<lparr>model_dim = 2, num_layers = 0, num_heads = 1, ffn_hidden_dim = 3,
      max_sequence_length = 2, vocab_size = 5, dropout_rate = 0\<rparr>"
    by (auto simp add: model_new_def)
  show ?thesis
    using m model_forward_errors [of m "[]"] model_forward_errors [of m "[1, 2, 3]"]
      model_forward_errors [of m "[1, 5]"] c by auto
qed

text \<open>Claim C6: sampling is greedy: for a non-empty logit vector and a positive
  temperature, \<open>sample_token(softmax(logits, T))\<close> returns the first index of a
  greatest logit, whatever the temperature.\<close>

theorem sample_token_greedy:
  "logits \<noteq> [] \<Longrightarrow> 0 < t \<Longrightarrow> sample_token (model_softmax m logits t) = Inr (int (max_element logits))"
  by (simp add: sample_token_def model_softmax_argmax del: model_softmax_length)
    (metis length_0_conv model_softmax_length)

theorem sample_token_greedy_witness:
  "\<forall>m. sample_token (model_softmax m [1, 3, 3, 2] (1 / 2)) = Inr 1"
  using sample_token_greedy [of "[1, 3, 3, 2]" "1 / 2"] by (simp add: max_element_def)

text \<open>Claim C11: raising the temperature never makes the most likely token more
  likely: for \<open>0 < T1 <= T2\<close> the probability of the greatest logit under \<open>T2\<close> is
  at most that under \<open>T1\<close>.\<close>

theorem softmax_peak_antimono:
  assumes ne: "logits \<noteq> []" and t: "0 < t1" "t1 \<le> t2"
  shows "model_softmax m logits t2 ! max_element logits \<le> model_softmax m logits t1 ! max_element logits"
proof -
  let ?r = "max_element logits"
  let ?S = "\<lambda>t. sum_list (map (\<lambda>x. expf ((x - logits ! ?r) / t)) logits)"
  have t2: "0 < t2" using t by simp
  have r: "?r < length logits" using max_element_less [OF ne] .
  have p: "model_softmax m logits t ! ?r = 1 / ?S t" if "0 < t" for t
    using model_softmax_nth [OF ne r that] by (simp add: expf_zero)
  have "1 / ?S t2 \<le> 1 / ?S t1"
    using softmax_total_mono [OF ne t] softmax_total_ge [OF ne t(1)]
    by (intro divide_left_mono) auto
  then show ?thesis using p [OF t2] p [OF t(1)] by simp
qed

theorem softmax_peak_antimono_witness:
  "\<forall>m. model_softmax m [0, 1] 2 ! 1 \<le> model_softmax m [0, 1] 1 ! 1"
  using softmax_peak_antimono [of "[0, 1]" 1 2] by (simp add: max_element_def)

text \<open>Claim C2: the mask \<open>create_attention_mask\<close> makes attention causal: row \<open>i\<close>
  of the attention output depends only on the key and value rows \<open>0 .. i\<close>. This
  holds because the masked scores \<open>-1e9\<close> underflow to exactly \<open>0\<close> in \<open>expf\<close>,
  which needs the query's own score to exceed \<open>-1e9 + 150\<close>.\<close>

theorem sdpa_causal_mask:
  assumes "wf_matrix q"
    and "m_rows k = m_rows q" "m_cols k = m_cols q" "m_rows k' = m_rows q" "m_cols k' = m_cols q"
    and "m_rows v = m_rows q" "m_rows v' = m_rows q" "m_cols v' = m_cols v"
    and i: "i < m_rows q"
    and "\<And>j c. j \<le> i \<Longrightarrow> c < m_cols q \<Longrightarrow> mat_at k j c = mat_at k' j c"
    and "\<And>j c. j \<le> i \<Longrightarrow> c < m_cols v \<Longrightarrow> mat_at v j c = mat_at v' j c"
    and "mask_neg + 150 \<le> dot_acc q (matrix_transpose k) i i * (1 / sqrt (real (m_cols q)))"
    and "sdpa q k v (Some (create_attention_mask (m_rows q))) = Inr R"
    and "sdpa q k' v' (Some (create_attention_mask (m_rows q))) = Inr R'"
    and "c < m_cols v"
  shows "mat_at R i c = mat_at R' i c"
proof -
  have cm: "\<And>j. j < m_rows q \<Longrightarrow> mat_at (create_attention_mask (m_rows q)) i j = 0 \<longleftrightarrow> i < j"
    using i by (simp add: create_attention_mask_def)
  show ?thesis by (rule sdpa_causal_row [OF assms(1-8) _ _ i cm assms(10-15)]) simp_all
qed

theorem sdpa_causal_mask_witness:
  "\<exists>R R'. sdpa \<lparr>m_data = [1, 1], m_rows = 2, m_cols = 1\<rparr> \<lparr>m_data = [1, 1], m_rows = 2, m_cols = 1\<rparr>
       \<lparr>m_data = [1, 2], m_rows = 2, m_cols = 1\<rparr> (Some (create_attention_mask 2)) = Inr R
    \<and> sdpa \<lparr>m_data = [1, 1], m_rows = 2, m_cols = 1\<rparr> \<lparr>m_data = [1, 5], m_rows = 2, m_cols = 1\<rparr>
       \<lparr>m_data = [1, 7], m_rows = 2, m_cols = 1\<rparr> (Some (create_attention_mask 2)) = Inr R'
    \<and> mat_at R 0 0 = mat_at R' 0 0"
proof -
  let ?q = "\<lparr>m_data = [1, 1], m_rows = 2, m_cols = 1\<rparr> :: real matrix"
  let ?k' = "\<lparr>m_data = [1, 5], m_rows = 2, m_cols = 1\<rparr> :: real matrix"
  let ?v = "\<lparr>m_data = [1, 2], m_rows = 2, m_cols = 1\<rparr> :: real matrix"
  let ?v' = "\<lparr>m_data = [1, 7], m_rows = 2, m_cols = 1\<rparr> :: real matrix"
  let ?mk = "Some (create_attention_mask 2)"
  have "\<exists>R. sdpa ?q ?q ?v ?mk = Inr R" "\<exists>R'. sdpa ?q ?k' ?v' ?mk = Inr R'"
    by (simp_all add: sdpa_def matrix_mul_def matrix_transpose_def Let_def softmax_rows_def)
  then obtain R R' where r: "sdpa ?q ?q ?v ?mk = Inr R" "sdpa ?q ?k' ?v' ?mk = Inr R'" by blast
  then have r': "sdpa ?q ?q ?v (Some (create_attention_mask (m_rows ?q))) = Inr R"
      "sdpa ?q ?k' ?v' (Some (create_attention_mask (m_rows ?q))) = Inr R'" by simp_all
  have k: "\<And>j c. j \<le> 0 \<Longrightarrow> c < m_cols ?q \<Longrightarrow> mat_at ?q j c = mat_at ?k' j c"
    and v: "\<And>j c. j \<le> 0 \<Longrightarrow> c < m_cols ?v \<Longrightarrow> mat_at ?v j c = mat_at ?v' j c"
    by (simp_all add: mat_at_def)
  have d: "mask_neg + 150 \<le> dot_acc ?q (matrix_transpose ?q) 0 0 * (1 / sqrt (real (m_cols ?q)))"
    by (simp add: dot_acc_def matrix_transpose_def mat_at_def mask_neg_def tab_def matrix_tab_def)
  have w: "wf_matrix ?q" by (simp add: wf_matrix_def size_t_limit_def)
  have "mat_at R 0 0 = mat_at R' 0 0"
    by (rule sdpa_causal_mask [OF w _ _ _ _ _ _ _ _ k v d r'(1) r'(2)]) simp_all
  then show ?thesis using r by blast
qed

text \<open>Claim C10: with \<open>max_sequence_length = 1\<close> generation always fails: the prompt
  is cut to \<open>max_sequence_length - 1 = 0\<close> tokens, and the forward pass on the
  empty sequence throws \<open>ModelException\<close>, for every prompt.\<close>

theorem generate_text_max_length_one:
  assumes "is_initialized m" "max_sequence_length (config m) = 1" "0 < max_tokens"
  shows "generate_text m prompt max_tokens t = Inl ModelError"
proof -
  obtain k where k: "nat max_tokens = Suc k" using assms(3) by (cases "nat max_tokens") auto
  have "gen_loop m t (nat max_tokens) [] = Inl ModelError"
    using assms(2) by (simp add: k model_forward_def)
  moreover have "(if max_sequence_length (config m) \<le> length ts
      then list_resize ts (max_sequence_length (config m) - 1) 0 else ts) = []" for ts :: "int list"
    using assms(2) by (cases ts) (simp_all add: list_resize_def)
  ultimately show ?thesis using assms(1,3)
    by (simp only: generate_text_def Let_def) simp
qed

theorem generate_text_max_length_one_witness:
  "\<exists>m. model_new \<lparr>model_dim = 2, num_layers = 0, num_heads = 1, ffn_hidden_dim = 3,
      max_sequence_length = 1, vocab_size = 5, dropout_rate = 0\<rparr> (\<lambda>_. 0) = Inr m
    \<and> generate_text m ''once upon a time'' 10 1 = Inl ModelError"
proof -
  have "\<exists>m. model_new \<lparr>model_dim = 2, num_layers = 0, num_heads = 1, ffn_hidden_dim = 3,
      max_sequence_length = 1, vocab_size = 5, dropout_rate = 0 :: real\<rparr> (\<lambda>_. 0) = Inr m"
    by (simp add: model_new_def)
  then obtain m where m: "model_new \<lparr>model_dim = 2, num_layers = 0, num_heads = 1, ffn_hidden_dim = 3,
      max_sequence_length = 1, vocab_size = 5, dropout_rate = 0\<rparr> (\<lambda>_. 0) = Inr m" ..
  then have "tokenizer m = tokenizer_new" "max_sequence_length (config m) = 1"
    by (auto simp add: model_new_def)
  then show ?thesis
    using m generate_text_max_length_one [OF is_initialized_new_tokenizer] by simp
qed

theorem gen_loop_bounds_witness:
  "\<exists>m. model_new \<lparr>model_dim = 1, num_layers = 0, num_heads = 1, ffn_hidden_dim = 1,
      max_sequence_length = 3, vocab_size = 3, dropout_rate = 0\<rparr> (\<lambda>_. 0) = Inr m
    \<and> gen_loop m 1 (Suc (Suc 0)) [1] = Inr [1, 0, 0] \<and> length [1, 0, 0 :: int] \<le> max 1 3"
proof -
  let ?z = "\<lparr>m_data = [0, 0, 0], m_rows = 3, m_cols = Suc 0\<rparr> :: real matrix"
  let ?m = "\<lparr>tokenizer = tokenizer_new, embedding_weights = ?z, position_embeddings = ?z,
    transformer_blocks = [], output_projection = \<lparr>m_data = [0, 0, 0], m_rows = Suc 0, m_cols = 3\<rparr>,
    config = \<lparr>model_dim = Suc 0, num_layers = 0, num_heads = Suc 0, ffn_hidden_dim = Suc 0,
      max_sequence_length = 3, vocab_size = 3, dropout_rate = 0\<rparr>, temperature = 1 :: real\<rparr>"
  have r: "replicate 3 (0::real) = [0, 0, 0]" by (simp add: numeral_3_eq_3)
  have m: "model_new \<lparr>model_dim = 1, num_layers = 0, num_heads = 1, ffn_hidden_dim = 1,
      max_sequence_length = 3, vocab_size = 3, dropout_rate = 0\<rparr> (\<lambda>_. 0) = Inr ?m"
    by (simp add: model_new_def matrix_fill_def matrix_new_def size_mul_def size_t_limit_def r)
  have f1: "model_forward ?m [1] = Inr [0, 0, 0]"
    apply (simp add: model_forward_def is_initialized_new_tokenizer embed_tokens_def matrix_mul_def
        last_row_def dot_acc_def upt_rec)
    apply (simp add: mat_at_def)
    done
  have f2: "model_forward ?m [1, 0] = Inr [0, 0, 0]"
    apply (simp add: model_forward_def is_initialized_new_tokenizer embed_tokens_def matrix_mul_def
        last_row_def dot_acc_def upt_rec)
    apply (simp add: mat_at_def)
    done
  have s: "sample_token (model_softmax ?m [0, 0, 0] 1) = Inr 0"
    by (simp add: model_softmax_def sample_token_def max_element_def expf_zero)
  have "gen_loop ?m 1 (Suc (Suc 0)) [1] = Inr [1, 0, 0]"
    by (simp add: f1 f2 s gen_stop_id_def)
  then show ?thesis using m gen_loop_bounds [of ?m 1 "Suc (Suc 0)" "[1]" "[1, 0, 0]"] by auto
qed

end
