(* ===== verification/Codec.thy ===== *)
theory Codec
  imports Bytes Model
begin

text \<open>
  The weight file of \<open>src/unnamed/part_009\<close>: \<open>TinyLlamaModel::load_model_weights\<close>
  with \<open>load_attention_weights\<close>, \<open>load_ffn_weights\<close> and
  \<open>load_layer_norm_weights\<close>, and \<open>save_model_weights\<close>, over the byte streams
  of \<open>Bytes\<close>. The float payloads are kept as bit patterns, so the weight state
  here is a \<open>32 word tl_model\<close>.
\<close>

section \<open>The weight file\<close>

definition magic_number :: nat where
  "magic_number = 0x544C4C4D"

definition weights_version :: nat where
  "weights_version = 1"

text \<open>The bit patterns of the \<open>float\<close> constants \<open>save_model_weights\<close> writes.\<close>

definition float_0_1 :: "32 word" where
  "float_0_1 = 0x3DCCCCCD"

definition float_1 :: "32 word" where
  "float_1 = 0x3F800000"

definition read_dims :: "istream \<Rightarrow> (nat \<times> nat) \<times> istream" where
  "read_dims s = (let (rows, s1) = read_size s; (cols, s2) = read_size s1 in ((rows, cols), s2))"

text \<open>A table of the model (embeddings, positions, output projection): its
  \<open>size_t\<close> dimensions must be the expected ones, then the existing matrix is
  resized and its buffer read.\<close>

definition load_table :: "nat \<Rightarrow> nat \<Rightarrow> 32 word matrix \<Rightarrow> istream \<Rightarrow> (32 word matrix \<times> istream) result" where
  "load_table r c m s =
     (let ((rows, cols), s1) = read_dims s
      in if rows \<noteq> r \<or> cols \<noteq> c then Inl FileIOError
         else let m' = matrix_resize m rows cols;
                  (d, s2) = read_floats (size_mul (size_mul rows cols) 4) (m_data m') s1
              in Inr (m'\<lparr>m_data := d\<rparr>, s2))"

text \<open>A layer matrix: checked dimensions, then a fresh zero matrix read in.\<close>

definition load_fresh :: "nat \<Rightarrow> nat \<Rightarrow> istream \<Rightarrow> (32 word matrix \<times> istream) result" where
  "load_fresh r c s =
     (let ((rows, cols), s1) = read_dims s
      in if rows \<noteq> r \<or> cols \<noteq> c then Inl FileIOError
         else let m' = matrix_new rows cols;
                  (d, s2) = read_floats (size_mul (size_mul rows cols) 4) (m_data m') s1
              in Inr (m'\<lparr>m_data := d\<rparr>, s2))"

text \<open>A layer vector: its \<open>size_t\<close> length must be the expected one, then a fresh
  zero vector read in.\<close>

definition load_vector :: "nat \<Rightarrow> istream \<Rightarrow> (32 word list \<times> istream) result" where
  "load_vector n s =
     (let (n', s1) = read_size s
      in if n' \<noteq> n then Inl FileIOError
         else let (d, s2) = read_floats (size_mul n' 4) (replicate n' 0) s1 in Inr (d, s2))"

definition load_attention_weights :: "32 word tl_model \<Rightarrow> nat \<Rightarrow> istream \<Rightarrow> (32 word tl_model \<times> istream) result" where
  "load_attention_weights m l s =
     (let md = model_dim (config m)
      in if num_layers (config m) \<le> l then Inl ModelError
         else rbind (load_fresh md md s) (\<lambda>(q, s1).
              rbind (load_fresh md md s1) (\<lambda>(k, s2).
              rbind (load_fresh md md s2) (\<lambda>(v, s3).
              rbind (load_fresh md md s3) (\<lambda>(ow, s4).
                let b = transformer_blocks m ! l; a = attention b
                in Inr (m\<lparr>transformer_blocks := (transformer_blocks m)[l := b\<lparr>attention :=
                          a\<lparr>query_weights := q, key_weights := k, value_weights := v,
                            output_weights := ow\<rparr>\<rparr>]\<rparr>, s4))))))"

definition load_ffn_weights :: "32 word tl_model \<Rightarrow> nat \<Rightarrow> istream \<Rightarrow> (32 word tl_model \<times> istream) result" where
  "load_ffn_weights m l s =
     (let md = model_dim (config m); fh = ffn_hidden_dim (config m)
      in if num_layers (config m) \<le> l then Inl ModelError
         else rbind (load_fresh md fh s) (\<lambda>(w1, s1).
              rbind (load_vector fh s1) (\<lambda>(b1, s2).
              rbind (load_fresh fh md s2) (\<lambda>(w2, s3).
              rbind (load_vector md s3) (\<lambda>(b2, s4).
                let b = transformer_blocks m ! l; f = feed_forward b
                in Inr (m\<lparr>transformer_blocks := (transformer_blocks m)[l := b\<lparr>feed_forward :=
                          f\<lparr>linear1_weights := w1, linear1_bias := b1, linear2_weights := w2,
                            linear2_bias := b2\<rparr>\<rparr>]\<rparr>, s4))))))"

definition load_layer_norm_weights :: "32 word tl_model \<Rightarrow> nat \<Rightarrow> istream \<Rightarrow> (32 word tl_model \<times> istream) result" where
  "load_layer_norm_weights m l s =
     (let md = model_dim (config m)
      in if num_layers (config m) \<le> l then Inl ModelError
         else rbind (load_vector md s) (\<lambda>(w1, s1).
              rbind (load_vector md s1) (\<lambda>(b1, s2).
              rbind (load_vector md s2) (\<lambda>(w2, s3).
              rbind (load_vector md s3) (\<lambda>(b2, s4).
                let b = transformer_blocks m ! l
                in Inr (m\<lparr>transformer_blocks := (transformer_blocks m)[l := b\<lparr>layer_norm1_weight := w1,
                          layer_norm1_bias := b1, layer_norm2_weight := w2, layer_norm2_bias := b2\<rparr>]\<rparr>,
                        s4))))))"

text \<open>The layer loop of \<open>load_model_weights\<close>: layers \<open>l, l + 1, ...\<close>, \<open>k\<close> of them.\<close>

fun load_layers :: "nat \<Rightarrow> nat \<Rightarrow> 32 word tl_model \<Rightarrow> istream \<Rightarrow> (32 word tl_model \<times> istream) result" where
  "load_layers l 0 m s = Inr (m, s)"
| "load_layers l (Suc k) m s =
     rbind (load_attention_weights m l s) (\<lambda>(m1, s1).
     rbind (load_ffn_weights m1 l s1) (\<lambda>(m2, s2).
     rbind (load_layer_norm_weights m2 l s2) (\<lambda>(m3, s3).
       load_layers (Suc l) k m3 s3)))"

text \<open>Every exception escaping the body of \<open>load_model_weights\<close> is rethrown as a
  \<open>FileIOException\<close>.\<close>

definition as_file_error :: "'a result \<Rightarrow> 'a result" where
  "as_file_error r = (case r of Inl _ \<Rightarrow> Inl FileIOError | Inr x \<Rightarrow> Inr x)"

text \<open>
  \<open>load_model_weights\<close>: the file must open; the magic number and the version must
  match; the seven configuration fields are read, and \<open>model_dim\<close>,
  \<open>num_layers\<close>, \<open>num_heads\<close> and \<open>vocab_size\<close> compared with the model's; then
  the two embedding tables, the layers and the output projection; finally a
  one-byte read that must fail.
\<close>

definition load_model_weights :: "byte list option \<Rightarrow> nat \<Rightarrow> 32 word tl_model \<Rightarrow> 32 word tl_model result" where
  "load_model_weights f j m =
     (case f of None \<Rightarrow> Inl FileIOError
      | Some bs \<Rightarrow> as_file_error
         (let (magic, s1) = read_u32 (instream bs j)
          in if magic \<noteq> magic_number then Inl FileIOError
          else let (ver, s2) = read_u32 s1
          in if ver \<noteq> weights_version then Inl FileIOError
          else let (fmd, s3) = read_i32 s2; (fnl, s4) = read_i32 s3; (fnh, s5) = read_i32 s4;
                   (ffh, s6) = read_i32 s5; (fml, s7) = read_i32 s6; (fvs, s8) = read_i32 s7;
                   (fdr, s9) = read_f32 s8; c = config m
          in if fmd \<noteq> int (model_dim c) \<or> fnl \<noteq> int (num_layers c) \<or> fnh \<noteq> int (num_heads c)
                \<or> fvs \<noteq> int (vocab_size c) then Inl FileIOError
          else rbind (load_table (vocab_size c) (model_dim c) (embedding_weights m) s9) (\<lambda>(e, s10).
               rbind (load_table (max_sequence_length c) (model_dim c) (position_embeddings m) s10) (\<lambda>(p, s11).
               rbind (load_layers 0 (num_layers c) (m\<lparr>embedding_weights := e, position_embeddings := p\<rparr>) s11)
                 (\<lambda>(m1, s12).
               rbind (load_table (model_dim c) (vocab_size c) (output_projection m1) s12) (\<lambda>(ow, s13).
                 let (_, s14) = read_bytes 1 s13
                 in if s_good s14 then Inl FileIOError else Inr (m1\<lparr>output_projection := ow\<rparr>)))))))"

text \<open>\<open>save_model_weights\<close>: the header from the configuration, the two
  embedding tables and the output projection from memory, and for every layer
  fixed data: attention and FFN matrices of \<open>0.1f\<close>, zero biases, layer-norm
  weights \<open>1.0f\<close> and biases \<open>0.0f\<close>.\<close>

definition write_table :: "32 word matrix \<Rightarrow> byte list" where
  "write_table m =
     le_bytes 8 (m_rows m) @ le_bytes 8 (m_cols m)
     @ take (size_mul (size_mul (m_rows m) (m_cols m)) 4) (floats_bytes (m_data m))"

definition dummy_table :: "nat \<Rightarrow> nat \<Rightarrow> 32 word \<Rightarrow> byte list" where
  "dummy_table r c x =
     le_bytes 8 r @ le_bytes 8 c @ take (size_mul (size_mul r c) 4) (floats_bytes (replicate (size_mul r c) x))"

definition dummy_vector :: "nat \<Rightarrow> 32 word \<Rightarrow> byte list" where
  "dummy_vector n x = le_bytes 8 n @ take (size_mul n 4) (floats_bytes (replicate n x))"

definition save_layer_bytes :: "32 word model_config \<Rightarrow> byte list" where
  "save_layer_bytes c =
     (let md = model_dim c; fh = ffn_hidden_dim c
      in concat (replicate 4 (dummy_table md md float_0_1))
         @ dummy_table md fh float_0_1 @ dummy_vector fh 0
         @ dummy_table fh md float_0_1 @ dummy_vector md 0
         @ dummy_vector md float_1 @ dummy_vector md 0 @ dummy_vector md float_1 @ dummy_vector md 0)"

definition save_model_weights :: "bool \<Rightarrow> 32 word tl_model \<Rightarrow> byte list result" where
  "save_model_weights ok m =
     (let c = config m
      in if \<not> ok then Inl FileIOError
         else Inr (le_bytes 4 magic_number @ le_bytes 4 weights_version
           @ le_bytes 4 (model_dim c) @ le_bytes 4 (num_layers c) @ le_bytes 4 (num_heads c)
           @ le_bytes 4 (ffn_hidden_dim c) @ le_bytes 4 (max_sequence_length c) @ le_bytes 4 (vocab_size c)
           @ float_bytes (dropout_rate c)
           @ write_table (embedding_weights m) @ write_table (position_embeddings m)
           @ concat (replicate (num_layers c) (save_layer_bytes c))
           @ write_table (output_projection m)))"

section \<open>What a saved file holds\<close>

text \<open>The configuration fields are C++ \<open>int\<close>s: the file format is for
  configurations whose fields are below \<open>2 ^ 31\<close>.\<close>

definition codec_fits :: "'a model_config \<Rightarrow> bool" where
  "codec_fits c \<longleftrightarrow> model_dim c < 2 ^ 31 \<and> num_layers c < 2 ^ 31 \<and> num_heads c < 2 ^ 31
     \<and> ffn_hidden_dim c < 2 ^ 31 \<and> max_sequence_length c < 2 ^ 31 \<and> vocab_size c < 2 ^ 31"

text \<open>A block after loading one layer written by \<open>save_model_weights\<close>.\<close>

definition dummy_block :: "32 word model_config \<Rightarrow> 32 word block \<Rightarrow> 32 word block" where
  "dummy_block c b =
     (let md = model_dim c; fh = ffn_hidden_dim c;
          t = (\<lambda>r k. \<lparr>m_data = replicate (r * k) float_0_1, m_rows = r, m_cols = k\<rparr>)
      in b\<lparr>attention := (attention b)\<lparr>query_weights := t md md, key_weights := t md md,
               value_weights := t md md, output_weights := t md md\<rparr>,
           feed_forward := (feed_forward b)\<lparr>linear1_weights := t md fh, linear1_bias := replicate fh 0,
               linear2_weights := t fh md, linear2_bias := replicate md 0\<rparr>,
           layer_norm1_weight := replicate md float_1, layer_norm1_bias := replicate md 0,
           layer_norm2_weight := replicate md float_1, layer_norm2_bias := replicate md 0\<rparr>)"

text \<open>Two configurations a file written for the first can be loaded into: every
  field the loader compares, directly or through a dimension, agrees.\<close>

definition weights_compatible :: "'a model_config \<Rightarrow> 'a model_config \<Rightarrow> bool" where
  "weights_compatible c c' \<longleftrightarrow>
     model_dim c = model_dim c' \<and> num_layers c = num_layers c' \<and> num_heads c = num_heads c'
     \<and> vocab_size c = vocab_size c' \<and> max_sequence_length c = max_sequence_length c'
     \<and> (num_layers c = 0 \<or> ffn_hidden_dim c = ffn_hidden_dim c')"

section \<open>Loading a saved weight file\<close>

lemma read_dims_good:
  "r < size_t_limit \<Longrightarrow> c < size_t_limit \<Longrightarrow>
   read_dims (instream (le_bytes 8 r @ le_bytes 8 c @ rest) j) = ((r, c), instream rest j)"
  by (simp add: read_dims_def read_size_def read_scalar_good size_t_limit_def)

lemma load_table_good:
  assumes "wf_matrix mt" "m_rows mt = r" "m_cols mt = c" "r < 2 ^ 31" "c < 2 ^ 31"
  shows "load_table r c old (instream (write_table mt @ rest) j) = Inr (mt, instream rest j)"
proof -
  have l: "length (m_data mt) = r * c" using assms(1-3) by (simp add: wf_matrix_def)
  have f: "4 * (r * c) < size_t_limit" using size_limit_4 [OF assms(4,5)] .
  have b: "r < size_t_limit" "c < size_t_limit" using assms(4,5) by (simp_all add: size_t_limit_def)
  have "r * c < size_t_limit" using f by simp
  then have w: "write_table mt = le_bytes 8 r @ le_bytes 8 c @ floats_bytes (m_data mt)"
    using assms(2,3) f l by (simp add: write_table_def mult.commute)
  have s: "size_mul (size_mul r c) 4 = 4 * length (m_data mt)"
    using f l by (simp add: mult.commute)
  have "length (m_data (matrix_resize old r c)) = length (m_data mt)"
    using l \<open>r * c < size_t_limit\<close> by (simp add: matrix_resize_def vec_resize_def)
  then have "read_floats (size_mul (size_mul r c) 4) (m_data (matrix_resize old r c))
      (instream (floats_bytes (m_data mt) @ rest) j) = (m_data mt, instream rest j)"
    using s by (simp only: read_floats_good')
  then show ?thesis
    using assms(2,3) by (simp add: load_table_def w read_dims_good b matrix_resize_def)
qed

lemma load_fresh_dummy:
  assumes "r < 2 ^ 31" "c < 2 ^ 31"
  shows "load_fresh r c (instream (dummy_table r c x @ rest) j)
    = Inr (\<lparr>m_data = replicate (r * c) x, m_rows = r, m_cols = c\<rparr>, instream rest j)"
proof -
  have f: "4 * (r * c) < size_t_limit" using size_limit_4 [OF assms] .
  have b: "r < size_t_limit" "c < size_t_limit" using assms by (simp_all add: size_t_limit_def)
  have "r * c < size_t_limit" using f by simp
  then have w: "dummy_table r c x = le_bytes 8 r @ le_bytes 8 c @ floats_bytes (replicate (r * c) x)"
    using f by (simp add: dummy_table_def mult.commute)
  have "read_floats (size_mul (size_mul r c) 4) (m_data (matrix_new r c :: 32 word matrix))
      (instream (floats_bytes (replicate (r * c) x) @ rest) j) = (replicate (r * c) x, instream rest j)"
    using f \<open>r * c < size_t_limit\<close> by (intro read_floats_good') (simp_all add: matrix_new_def mult.commute)
  then show ?thesis
    by (simp add: load_fresh_def w read_dims_good b matrix_new_def)
qed

lemma load_vector_dummy:
  assumes "n < 2 ^ 31"
  shows "load_vector n (instream (dummy_vector n x @ rest) j) = Inr (replicate n x, instream rest j)"
proof -
  have f: "4 * n < size_t_limit" using size_limit_1 [OF assms] .
  have w: "dummy_vector n x = le_bytes 8 n @ floats_bytes (replicate n x)"
    using f by (simp add: dummy_vector_def mult.commute)
  have "read_floats (size_mul n 4) (replicate n 0) (instream (floats_bytes (replicate n x) @ rest) j)
      = (replicate n x, instream rest j)"
    using f by (intro read_floats_good') (simp_all add: mult.commute)
  then show ?thesis
    using f by (simp add: load_vector_def w read_size_def read_scalar_good size_t_limit_def)
qed

lemma concat_replicate_4: "concat (replicate 4 xs) = xs @ xs @ xs @ xs"
  by (simp add: numeral_eq_Suc)

lemma load_attention_saved:
  assumes "l < num_layers (config m)" "model_dim (config m) = md" "md < 2 ^ 31"
  shows "load_attention_weights m l
      (instream (concat (replicate 4 (dummy_table md md float_0_1)) @ rest) j)
    = Inr (m\<lparr>transformer_blocks := (transformer_blocks m)[l := (transformer_blocks m ! l)\<lparr>attention :=
        (attention (transformer_blocks m ! l))\<lparr>
          query_weights := \<lparr>m_data = replicate (md * md) float_0_1,
            m_rows = md, m_cols = md\<rparr>,
          key_weights := \<lparr>m_data = replicate (md * md) float_0_1,
            m_rows = md, m_cols = md\<rparr>,
          value_weights := \<lparr>m_data = replicate (md * md) float_0_1,
            m_rows = md, m_cols = md\<rparr>,
          output_weights := \<lparr>m_data = replicate (md * md) float_0_1,
            m_rows = md, m_cols = md\<rparr>\<rparr>\<rparr>]\<rparr>, instream rest j)"
  using assms
  by (simp add: load_attention_weights_def concat_replicate_4 load_fresh_dummy Let_def)

lemma load_ffn_saved:
  assumes "l < num_layers (config m)" "model_dim (config m) = md" "ffn_hidden_dim (config m) = fh"
    "md < 2 ^ 31" "fh < 2 ^ 31"
  shows "load_ffn_weights m l
      (instream (dummy_table md fh float_0_1
         @ dummy_vector fh 0
         @ dummy_table fh md float_0_1
         @ dummy_vector md 0 @ rest) j)
    = Inr (m\<lparr>transformer_blocks := (transformer_blocks m)[l := (transformer_blocks m ! l)\<lparr>feed_forward :=
        (feed_forward (transformer_blocks m ! l))\<lparr>
          linear1_weights := \<lparr>m_data = replicate (md * fh) float_0_1,
            m_rows = md, m_cols = fh\<rparr>,
          linear1_bias := replicate fh 0,
          linear2_weights := \<lparr>m_data = replicate (fh * md) float_0_1,
            m_rows = fh, m_cols = md\<rparr>,
          linear2_bias := replicate md 0\<rparr>\<rparr>]\<rparr>, instream rest j)"
  using assms
  by (simp add: load_ffn_weights_def load_fresh_dummy load_vector_dummy Let_def)

lemma load_layer_norm_saved:
  assumes "l < num_layers (config m)" "model_dim (config m) = md" "md < 2 ^ 31"
  shows "load_layer_norm_weights m l
      (instream (dummy_vector md float_1 @ dummy_vector md 0
         @ dummy_vector md float_1 @ dummy_vector md 0 @ rest) j)
    = Inr (m\<lparr>transformer_blocks := (transformer_blocks m)[l := (transformer_blocks m ! l)\<lparr>
          layer_norm1_weight := replicate md float_1,
          layer_norm1_bias := replicate md 0,
          layer_norm2_weight := replicate md float_1,
          layer_norm2_bias := replicate md 0\<rparr>]\<rparr>, instream rest j)"
  using assms
  by (simp add: load_layer_norm_weights_def load_vector_dummy Let_def)

lemma load_layer_saved:
  assumes "l < num_layers (config m)" "l < length (transformer_blocks m)" "codec_fits (config m)"
  shows "load_layers l (Suc k) m (instream (save_layer_bytes (config m) @ rest) j)
    = load_layers (Suc l) k (m\<lparr>transformer_blocks := (transformer_blocks m)[l :=
        dummy_block (config m) (transformer_blocks m ! l)]\<rparr>) (instream rest j)"
  using assms
  by (simp add: save_layer_bytes_def Let_def codec_fits_def load_attention_saved load_ffn_saved
      load_layer_norm_saved dummy_block_def)

lemma take_drop_update_map:
  assumes "l < length bs"
  shows "take (Suc l) (bs[l := f (bs ! l)]) @ map f (drop (Suc l) (bs[l := f (bs ! l)]))
    = take l bs @ map f (drop l bs)"
proof -
  have "drop l bs = bs ! l # drop (Suc l) bs" using assms by (rule Cons_nth_drop_Suc [symmetric])
  then show ?thesis using assms by (simp add: take_Suc_conv_app_nth)
qed

lemma load_layers_saved:
  "l + k = num_layers (config m) \<Longrightarrow> length (transformer_blocks m) = num_layers (config m) \<Longrightarrow>
   codec_fits (config m) \<Longrightarrow>
   load_layers l k m (instream (concat (replicate k (save_layer_bytes (config m))) @ rest) j)
   = Inr (m\<lparr>transformer_blocks := take l (transformer_blocks m)
        @ map (dummy_block (config m)) (drop l (transformer_blocks m))\<rparr>, instream rest j)"
proof (induction k arbitrary: l m)
  case 0
  then show ?case by simp
next
  case (Suc k)
  let ?m' = "m\<lparr>transformer_blocks := (transformer_blocks m)[l :=
        dummy_block (config m) (transformer_blocks m ! l)]\<rparr>"
  have l: "l < num_layers (config m)" "l < length (transformer_blocks m)" using Suc.prems by simp_all
  have "load_layers l (Suc k) m (instream (concat (replicate (Suc k) (save_layer_bytes (config m))) @ rest) j)
      = load_layers (Suc l) k ?m' (instream (concat (replicate k (save_layer_bytes (config ?m'))) @ rest) j)"
    using load_layer_saved [OF l Suc.prems(3)] by simp
  also have "\<dots> = Inr (?m'\<lparr>transformer_blocks := take (Suc l) (transformer_blocks ?m')
        @ map (dummy_block (config ?m')) (drop (Suc l) (transformer_blocks ?m'))\<rparr>, instream rest j)"
    using Suc.prems by (intro Suc.IH) simp_all
  finally show ?case using take_drop_update_map [OF l(2)] by simp
qed

lemma read_bytes_end: "\<not> s_good (snd (read_bytes 1 (instream [] j)))"
  by (simp add: read_bytes_def instream_def)

lemma saved_layers_compatible:
  "weights_compatible c c' \<Longrightarrow>
   concat (replicate (num_layers c) (save_layer_bytes c)) = concat (replicate (num_layers c') (save_layer_bytes c'))"
  by (auto simp add: weights_compatible_def save_layer_bytes_def)

lemma load_layers_compatible:
  assumes "weights_compatible (config m) (config m')" "codec_fits (config m)"
    "length (transformer_blocks m') = num_layers (config m')"
  shows "load_layers 0 (num_layers (config m')) m'
      (instream (concat (replicate (num_layers (config m)) (save_layer_bytes (config m))) @ rest) j)
    = Inr (m'\<lparr>transformer_blocks := map (dummy_block (config m')) (transformer_blocks m')\<rparr>, instream rest j)"
proof (cases "num_layers (config m') = 0")
  case True
  then show ?thesis using assms by (simp add: weights_compatible_def)
next
  case False
  then have "codec_fits (config m')"
    using assms(1,2) False by (auto simp add: weights_compatible_def codec_fits_def)
  then show ?thesis
    using load_layers_saved [of 0 "num_layers (config m')" m' rest j] assms
    by (simp add: saved_layers_compatible [OF assms(1)])
qed

lemma load_saved_prefix:
  assumes "wf_model m" "codec_fits (config m)"
    and "weights_compatible (config m) (config m')" "length (transformer_blocks m') = num_layers (config m')"
  shows "load_model_weights (Some (le_bytes 4 magic_number @ le_bytes 4 weights_version
           @ le_bytes 4 (model_dim (config m)) @ le_bytes 4 (num_layers (config m)) @ le_bytes 4 (num_heads (config m))
           @ le_bytes 4 (ffn_hidden_dim (config m)) @ le_bytes 4 (max_sequence_length (config m))
           @ le_bytes 4 (vocab_size (config m)) @ float_bytes (dropout_rate (config m))
           @ write_table (embedding_weights m) @ write_table (position_embeddings m)
           @ concat (replicate (num_layers (config m)) (save_layer_bytes (config m))) @ tail)) j m'
    = as_file_error (rbind (load_table (model_dim (config m')) (vocab_size (config m')) (output_projection m')
          (instream tail j)) (\<lambda>(ow, s13).
         let (_, s14) = read_bytes 1 s13
         in if s_good s14 then Inl FileIOError
            else Inr (m'\<lparr>embedding_weights := embedding_weights m, position_embeddings := position_embeddings m,
              transformer_blocks := map (dummy_block (config m')) (transformer_blocks m'), output_projection := ow\<rparr>)))"
proof -
  let ?c = "config m" and ?c' = "config m'"
  have f: "model_dim ?c < 2 ^ 31" "num_layers ?c < 2 ^ 31" "num_heads ?c < 2 ^ 31" "ffn_hidden_dim ?c < 2 ^ 31"
      "max_sequence_length ?c < 2 ^ 31" "vocab_size ?c < 2 ^ 31"
    using assms(2) by (simp_all add: codec_fits_def)
  have w: "wf_matrix (embedding_weights m)" "m_rows (embedding_weights m) = vocab_size ?c'"
      "m_cols (embedding_weights m) = model_dim ?c'"
      "wf_matrix (position_embeddings m)" "m_rows (position_embeddings m) = max_sequence_length ?c'"
      "m_cols (position_embeddings m) = model_dim ?c'"
      "wf_matrix (output_projection m)" "m_rows (output_projection m) = model_dim ?c'"
      "m_cols (output_projection m) = vocab_size ?c'"
    using assms(1,3) by (simp_all add: wf_model_def Let_def weights_compatible_def)
  have c: "int (model_dim ?c) = int (model_dim ?c')" "int (num_layers ?c) = int (num_layers ?c')"
      "int (num_heads ?c) = int (num_heads ?c')" "int (vocab_size ?c) = int (vocab_size ?c')"
    using assms(3) by (simp_all add: weights_compatible_def)
  have f': "model_dim ?c' < 2 ^ 31" "max_sequence_length ?c' < 2 ^ 31" "vocab_size ?c' < 2 ^ 31"
    using f assms(3) by (simp_all add: weights_compatible_def)
  have e: "load_table (vocab_size ?c') (model_dim ?c') (embedding_weights m') (instream (write_table (embedding_weights m) @ r) j')
      = Inr (embedding_weights m, instream r j')" for r j'
    using w f' by (intro load_table_good) simp_all
  have p: "load_table (max_sequence_length ?c') (model_dim ?c') (position_embeddings m') (instream (write_table (position_embeddings m) @ r) j')
      = Inr (position_embeddings m, instream r j')" for r j'
    using w f' by (intro load_table_good) simp_all
  have l: "load_layers 0 (num_layers ?c') (m'\<lparr>embedding_weights := embedding_weights m, position_embeddings := position_embeddings m\<rparr>)
      (instream (concat (replicate (num_layers ?c) (save_layer_bytes ?c)) @ r) j')
    = Inr (m'\<lparr>embedding_weights := embedding_weights m, position_embeddings := position_embeddings m,
        transformer_blocks := map (dummy_block ?c') (transformer_blocks m')\<rparr>, instream r j')" for r j'
    using load_layers_compatible [of m "m'\<lparr>embedding_weights := embedding_weights m, position_embeddings := position_embeddings m\<rparr>"]
      assms(2-4) by simp
  have m: "magic_number < 2 ^ 32" "weights_version < 2 ^ 32"
    by (simp_all add: magic_number_def weights_version_def)
  show ?thesis
    unfolding load_model_weights_def
    by (simp add: read_u32_good m [simplified] read_i32_good f [simplified] read_f32_good c e p l
        split_def Let_def cong: if_cong)
qed

section \<open>Properties of the weight file\<close>

lemma weights_compatible_refl: "weights_compatible c c"
  by (simp add: weights_compatible_def)

lemma save_model_bytes:
  "save_model_weights True m = Inr bs \<Longrightarrow>
   bs = le_bytes 4 magic_number @ le_bytes 4 weights_version
           @ le_bytes 4 (model_dim (config m)) @ le_bytes 4 (num_layers (config m)) @ le_bytes 4 (num_heads (config m))
           @ le_bytes 4 (ffn_hidden_dim (config m)) @ le_bytes 4 (max_sequence_length (config m))
           @ le_bytes 4 (vocab_size (config m)) @ float_bytes (dropout_rate (config m))
           @ write_table (embedding_weights m) @ write_table (position_embeddings m)
           @ concat (replicate (num_layers (config m)) (save_layer_bytes (config m)))
           @ write_table (output_projection m)"
  by (simp add: save_model_weights_def Let_def)

lemma write_table_split:
  assumes "wf_matrix mt" "m_rows mt < 2 ^ 31" "m_cols mt < 2 ^ 31"
  shows "write_table mt = le_bytes 8 (m_rows mt) @ le_bytes 8 (m_cols mt) @ floats_bytes (m_data mt)"
proof -
  have "4 * (m_rows mt * m_cols mt) < size_t_limit" using size_limit_4 [OF assms(2,3)] .
  then show ?thesis using assms(1) by (simp add: write_table_def wf_matrix_def mult.commute)
qed

lemma load_table_truncated:
  assumes "wf_matrix mt" "m_rows mt = r" "m_cols mt = c" "r < 2 ^ 31" "c < 2 ^ 31" "0 < r * c"
  shows "\<exists>mt' s'. load_table r c old (instream (butlast (write_table mt)) j) = Inr (mt', s') \<and> \<not> s_good s'"
proof -
  have l: "length (m_data mt) = r * c" using assms(1-3) by (simp add: wf_matrix_def)
  have f: "4 * (r * c) < size_t_limit" using size_limit_4 [OF assms(4,5)] .
  have b: "r < size_t_limit" "c < size_t_limit" using assms(4,5) by (simp_all add: size_t_limit_def)
  have ne: "floats_bytes (m_data mt) \<noteq> []" using l assms(6) by (simp flip: length_greater_0_conv)
  have w: "butlast (write_table mt) = le_bytes 8 r @ le_bytes 8 c @ butlast (floats_bytes (m_data mt))"
    using write_table_split [OF assms(1)] assms(2-5) ne by (simp add: butlast_append)
  have "size_mul (size_mul r c) 4 = length (floats_bytes (m_data mt))"
    using f l by (simp add: mult.commute)
  moreover have "0 < length (m_data mt)" using l assms(6) by simp
  ultimately have short: "\<not> size_mul (size_mul r c) 4 \<le> length (butlast (floats_bytes (m_data mt)))"
    by (cases "m_data mt") simp_all
  have rd: "read_dims (instream (butlast (write_table mt)) j) = ((r, c), instream (butlast (floats_bytes (m_data mt))) j)"
    unfolding w by (rule read_dims_good [OF b])
  have rf: "\<not> s_good (snd (read_floats (size_mul (size_mul r c) 4) buf (instream (butlast (floats_bytes (m_data mt))) j)))"
    for buf
    using short by (simp add: read_floats_def read_bytes_def instream_def split_def)
  show ?thesis
    using rf by (simp add: load_table_def rd split_def Let_def)
qed

lemma butlast_append_nonempty: "ys \<noteq> [] \<Longrightarrow> butlast (xs @ ys) = xs @ butlast ys"
  by (simp add: butlast_append)

lemma write_table_ne: "write_table mt \<noteq> []"
proof -
  have "8 \<le> length (write_table mt)" by (simp add: write_table_def)
  then show ?thesis by auto
qed

lemma load_saved_model:
  assumes "save_model_weights True m = Inr bs" "wf_model m" "codec_fits (config m)"
    and "config m' = config m" "length (transformer_blocks m') = num_layers (config m)"
  shows "load_model_weights (Some bs) j m' = Inr (m'\<lparr>embedding_weights := embedding_weights m,
      position_embeddings := position_embeddings m, output_projection := output_projection m,
      transformer_blocks := map (dummy_block (config m)) (transformer_blocks m')\<rparr>)"
proof -
  have c: "weights_compatible (config m) (config m')" using assms(4) by (simp add: weights_compatible_refl)
  have len: "length (transformer_blocks m') = num_layers (config m')" using assms(4,5) by simp
  have o: "wf_matrix (output_projection m)" "m_rows (output_projection m) = model_dim (config m')"
      "m_cols (output_projection m) = vocab_size (config m')"
    using assms(2,4) by (simp_all add: wf_model_def Let_def)
  have f: "model_dim (config m') < 2 ^ 31" "vocab_size (config m') < 2 ^ 31"
    using assms(3,4) by (simp_all add: codec_fits_def)
  have "load_table (model_dim (config m')) (vocab_size (config m')) (output_projection m')
      (instream (write_table (output_projection m) @ []) j) = Inr (output_projection m, instream [] j)"
    using o f by (intro load_table_good) simp_all
  then show ?thesis
    using load_saved_prefix [OF assms(2,3) c, of "write_table (output_projection m)"] assms(4,5) read_bytes_end [of j]
    by (simp add: save_model_bytes [OF assms(1)] as_file_error_def split_def Let_def)
qed

text \<open>Claim C16: \<open>save_model_weights\<close> followed by \<open>load_model_weights\<close> into a model
  of the same configuration succeeds and restores the token embeddings, the
  position embeddings and the output projection; but every layer comes back with
  the fixed data \<open>save_model_weights\<close> writes in place of the layer weights, not
  with the weights the saved model held.\<close>

theorem weights_round_trip:
  assumes "save_model_weights True m = Inr bs" "wf_model m" "codec_fits (config m)"
    and "config m' = config m" "length (transformer_blocks m') = num_layers (config m)"
  shows "load_model_weights (Some bs) j m' = Inr (m'\<lparr>embedding_weights := embedding_weights m,
      position_embeddings := position_embeddings m, output_projection := output_projection m,
      transformer_blocks := map (dummy_block (config m)) (transformer_blocks m')\<rparr>)"
  using load_saved_model [OF assms] .

theorem weights_round_trip_witness:
  "\<exists>M bs. M = \<lparr>tokenizer = tokenizer_new,
        embedding_weights = \<lparr>m_data = [7 :: 32 word], m_rows = 1, m_cols = 1\<rparr>,
        position_embeddings = \<lparr>m_data = [8], m_rows = 1, m_cols = 1\<rparr>,
        transformer_blocks = [\<lparr>attention = \<lparr>query_weights = \<lparr>m_data = [5], m_rows = 1, m_cols = 1\<rparr>,
            key_weights = \<lparr>m_data = [5], m_rows = 1, m_cols = 1\<rparr>,
            value_weights = \<lparr>m_data = [5], m_rows = 1, m_cols = 1\<rparr>,
            output_weights = \<lparr>m_data = [5], m_rows = 1, m_cols = 1\<rparr>,
            num_heads = 1, head_dim = 1, mha_model_dim = 1\<rparr>,
          feed_forward = \<lparr>linear1_weights = \<lparr>m_data = [5], m_rows = 1, m_cols = 1\<rparr>, linear1_bias = [5],
            linear2_weights = \<lparr>m_data = [5], m_rows = 1, m_cols = 1\<rparr>, linear2_bias = [5],
            ffn_model_dim = 1, hidden_dim = 1\<rparr>,
          layer_norm1_weight = [5], layer_norm1_bias = [5], layer_norm2_weight = [5], layer_norm2_bias = [5],
          block_model_dim = 1\<rparr>],
        output_projection = \<lparr>m_data = [9], m_rows = 1, m_cols = 1\<rparr>,
        config = \<lparr>model_dim = 1, num_layers = 1, num_heads = 1, ffn_hidden_dim = 1,
          max_sequence_length = 1, vocab_size = 1, dropout_rate = 0\<rparr>, temperature = 1\<rparr>
    \<and> save_model_weights True M = Inr bs
    \<and> load_model_weights (Some bs) 0 M = Inr (M\<lparr>transformer_blocks := map (dummy_block (config M)) (transformer_blocks M)\<rparr>)"
proof -
  let ?T = "\<lparr>m_data = [5 :: 32 word], m_rows = 1, m_cols = 1\<rparr>"
  let ?M = "\<lparr>tokenizer = tokenizer_new,
        embedding_weights = \<lparr>m_data = [7 :: 32 word], m_rows = 1, m_cols = 1\<rparr>,
        position_embeddings = \<lparr>m_data = [8], m_rows = 1, m_cols = 1\<rparr>,
        transformer_blocks = [\<lparr>attention = \<lparr>query_weights = ?T, key_weights = ?T, value_weights = ?T,
            output_weights = ?T, num_heads = 1, head_dim = 1, mha_model_dim = 1\<rparr>,
          feed_forward = \<lparr>linear1_weights = ?T, linear1_bias = [5], linear2_weights = ?T, linear2_bias = [5],
            ffn_model_dim = 1, hidden_dim = 1\<rparr>,
          layer_norm1_weight = [5], layer_norm1_bias = [5], layer_norm2_weight = [5], layer_norm2_bias = [5],
          block_model_dim = 1\<rparr>],
        output_projection = \<lparr>m_data = [9], m_rows = 1, m_cols = 1\<rparr>,
        config = \<lparr>model_dim = 1, num_layers = 1, num_heads = 1, ffn_hidden_dim = 1,
          max_sequence_length = 1, vocab_size = 1, dropout_rate = 0\<rparr>, temperature = 1\<rparr>"
  obtain bs where s: "save_model_weights True ?M = Inr bs" by (simp add: save_model_weights_def)
  have w: "wf_model ?M"
    by (simp add: wf_model_def wf_block_def wf_mha_def wf_ffn_def wf_matrix_def size_t_limit_def)
  have f: "codec_fits (config ?M)" by (simp add: codec_fits_def)
  have "load_model_weights (Some bs) 0 ?M
      = Inr (?M\<lparr>transformer_blocks := map (dummy_block (config ?M)) (transformer_blocks ?M)\<rparr>)"
    using weights_round_trip [OF s w f, of ?M 0] by simp
  then show ?thesis using s by auto
qed

text \<open>Claim C18: a weight file cut short inside the output projection still loads:
  the short payload read only clears the stream's \<open>good()\<close> flag, nothing checks
  it, and the final one-byte read then fails as it does at a proper end of file.\<close>

theorem weights_truncated_accepted:
  assumes "save_model_weights True m = Inr bs" "wf_model m" "codec_fits (config m)"
    and "config m' = config m" "length (transformer_blocks m') = num_layers (config m)"
    and "0 < model_dim (config m) * vocab_size (config m)"
  shows "\<exists>m''. load_model_weights (Some (butlast bs)) j m' = Inr m''"
proof -
  have c: "weights_compatible (config m) (config m')" using assms(4) by (simp add: weights_compatible_refl)
  have len: "length (transformer_blocks m') = num_layers (config m')" using assms(4,5) by simp
  have o: "wf_matrix (output_projection m)" "m_rows (output_projection m) = model_dim (config m')"
      "m_cols (output_projection m) = vocab_size (config m')"
    using assms(2,4) by (simp_all add: wf_model_def Let_def)
  have f: "model_dim (config m') < 2 ^ 31" "vocab_size (config m') < 2 ^ 31"
    using assms(3,4) by (simp_all add: codec_fits_def)
  obtain mt s where t: "load_table (model_dim (config m')) (vocab_size (config m')) (output_projection m')
      (instream (butlast (write_table (output_projection m))) j) = Inr (mt, s)" "\<not> s_good s"
    using load_table_truncated [OF o f _, of "output_projection m'" j] assms(4,6) by auto
  have eq: "butlast bs = le_bytes 4 magic_number @ le_bytes 4 weights_version
           @ le_bytes 4 (model_dim (config m)) @ le_bytes 4 (num_layers (config m)) @ le_bytes 4 (num_heads (config m))
           @ le_bytes 4 (ffn_hidden_dim (config m)) @ le_bytes 4 (max_sequence_length (config m))
           @ le_bytes 4 (vocab_size (config m)) @ float_bytes (dropout_rate (config m))
           @ write_table (embedding_weights m) @ write_table (position_embeddings m)
           @ concat (replicate (num_layers (config m)) (save_layer_bytes (config m)))
           @ butlast (write_table (output_projection m))"
    using save_model_bytes [OF assms(1)] by (simp add: butlast_append_nonempty write_table_ne)
  have "\<not> s_good (snd (read_bytes 1 s))" using t(2) by (rule read_bytes_bad)
  then show ?thesis
    unfolding eq load_saved_prefix [OF assms(2,3) c len, of "butlast (write_table (output_projection m))"]
    using t(1) assms(4) by (simp add: as_file_error_def split_def Let_def)
qed

theorem weights_truncated_accepted_witness:
  "\<exists>M bs. M = \<lparr>tokenizer = tokenizer_new,
        embedding_weights = \<lparr>m_data = [7 :: 32 word], m_rows = 1, m_cols = 1\<rparr>,
        position_embeddings = \<lparr>m_data = [8], m_rows = 1, m_cols = 1\<rparr>,
        transformer_blocks = [\<lparr>attention = \<lparr>query_weights = \<lparr>m_data = [5], m_rows = 1, m_cols = 1\<rparr>,
            key_weights = \<lparr>m_data = [5], m_rows = 1, m_cols = 1\<rparr>,
            value_weights = \<lparr>m_data = [5], m_rows = 1, m_cols = 1\<rparr>,
            output_weights = \<lparr>m_data = [5], m_rows = 1, m_cols = 1\<rparr>,
            num_heads = 1, head_dim = 1, mha_model_dim = 1\<rparr>,
          feed_forward = \<lparr>linear1_weights = \<lparr>m_data = [5], m_rows = 1, m_cols = 1\<rparr>, linear1_bias = [5],
            linear2_weights = \<lparr>m_data = [5], m_rows = 1, m_cols = 1\<rparr>, linear2_bias = [5],
            ffn_model_dim = 1, hidden_dim = 1\<rparr>,
          layer_norm1_weight = [5], layer_norm1_bias = [5], layer_norm2_weight = [5], layer_norm2_bias = [5],
          block_model_dim = 1\<rparr>],
        output_projection = \<lparr>m_data = [9], m_rows = 1, m_cols = 1\<rparr>,
        config = \<lparr>model_dim = 1, num_layers = 1, num_heads = 1, ffn_hidden_dim = 1,
          max_sequence_length = 1, vocab_size = 1, dropout_rate = 0\<rparr>, temperature = 1\<rparr>
    \<and> save_model_weights True M = Inr bs
    \<and> (\<exists>m''. load_model_weights (Some (butlast bs)) 0 M = Inr m'')"
proof -
  let ?T = "\<lparr>m_data = [5 :: 32 word], m_rows = 1, m_cols = 1\<rparr>"
  let ?M = "\<lparr>tokenizer = tokenizer_new,
        embedding_weights = \<lparr>m_data = [7 :: 32 word], m_rows = 1, m_cols = 1\<rparr>,
        position_embeddings = \<lparr>m_data = [8], m_rows = 1, m_cols = 1\<rparr>,
        transformer_blocks = [\<lparr>attention = \<lparr>query_weights = ?T, key_weights = ?T, value_weights = ?T,
            output_weights = ?T, num_heads = 1, head_dim = 1, mha_model_dim = 1\<rparr>,
          feed_forward = \<lparr>linear1_weights = ?T, linear1_bias = [5], linear2_weights = ?T, linear2_bias = [5],
            ffn_model_dim = 1, hidden_dim = 1\<rparr>,
          layer_norm1_weight = [5], layer_norm1_bias = [5], layer_norm2_weight = [5], layer_norm2_bias = [5],
          block_model_dim = 1\<rparr>],
        output_projection = \<lparr>m_data = [9], m_rows = 1, m_cols = 1\<rparr>,
        config = \<lparr>model_dim = 1, num_layers = 1, num_heads = 1, ffn_hidden_dim = 1,
          max_sequence_length = 1, vocab_size = 1, dropout_rate = 0\<rparr>, temperature = 1\<rparr>"
  obtain bs where s: "save_model_weights True ?M = Inr bs" by (simp add: save_model_weights_def)
  have w: "wf_model ?M"
    by (simp add: wf_model_def wf_block_def wf_mha_def wf_ffn_def wf_matrix_def size_t_limit_def)
  have f: "codec_fits (config ?M)" by (simp add: codec_fits_def)
  have "\<exists>m''. load_model_weights (Some (butlast bs)) 0 ?M = Inr m''"
    using weights_truncated_accepted [OF s w f, of ?M 0] by simp
  then show ?thesis using s by auto
qed

text \<open>Claim C19: a weight file of at least eight bytes whose first four bytes are not
  the magic number \<open>0x544C4C4D\<close>, or whose next four are not version 1, is
  rejected with \<open>FileIOException\<close>.\<close>

theorem weights_header_gate:
  assumes "8 \<le> length bs"
    and "take 4 bs \<noteq> le_bytes 4 magic_number \<or> take 4 (drop 4 bs) \<noteq> le_bytes 4 weights_version"
  shows "load_model_weights (Some bs) j m = Inl FileIOError"
proof -
  have r1: "read_u32 (instream bs j) = (le_val (take 4 bs), instream (drop 4 bs) j)"
    using assms(1) by (intro read_u32_any) simp
  have r2: "read_u32 (instream (drop 4 bs) j) = (le_val (take 4 (drop 4 bs)), instream (drop 4 (drop 4 bs)) j)"
    using assms(1) by (intro read_u32_any) simp
  show ?thesis
  proof (cases "take 4 bs = le_bytes 4 magic_number")
    case False
    then have "le_val (take 4 bs) \<noteq> magic_number"
      using assms(1) le_val_eq_le_bytes [of "take 4 bs" 4] by auto
    then show ?thesis by (simp add: load_model_weights_def r1 as_file_error_def)
  next
    case True
    then have "le_val (take 4 (drop 4 bs)) \<noteq> weights_version"
      using assms le_val_eq_le_bytes [of "take 4 (drop 4 bs)" 4] by auto
    moreover have "le_val (take 4 bs) = magic_number" using True by (simp add: magic_number_def)
    ultimately show ?thesis by (simp add: load_model_weights_def r1 r2 as_file_error_def)
  qed
qed
theorem weights_header_gate_witness:
  "load_model_weights (Some (replicate 8 0)) 0
     (\<lparr>tokenizer = tokenizer_new, embedding_weights = matrix_new 1 1, position_embeddings = matrix_new 1 1,
       transformer_blocks = [], output_projection = matrix_new 1 1,
       config = \<lparr>model_dim = 1, num_layers = 0, num_heads = 1, ffn_hidden_dim = 1,
         max_sequence_length = 1, vocab_size = 1, dropout_rate = 0\<rparr>, temperature = 1\<rparr> :: 32 word tl_model)
   = Inl FileIOError"
proof -
  have "le_bytes (Suc 3) v = word_of_nat (v mod 256) # le_bytes 3 (v div 256)" for v
    by (rule le_bytes.simps(2))
  then have "hd (le_bytes 4 magic_number) = 77" by (simp add: magic_number_def)
  moreover have "hd (take 4 (replicate 8 (0 :: byte))) = 0" by simp
  moreover have "(0 :: byte) \<noteq> 77" by simp
  ultimately have "take 4 (replicate 8 (0 :: byte)) \<noteq> le_bytes 4 magic_number" by metis
  then show ?thesis by (intro weights_header_gate) simp_all
qed

end
