(* ===== verification/Loading.thy ===== *)
theory Loading
  imports Codec
begin

text \<open>
  What a successful load leaves behind, and when generation succeeds: the weight
  loader (\<open>load_model_weights\<close> and its layer loaders) keeps every table and layer
  at the shape the configuration names, the tokenizer loader leaves a non-empty
  vocabulary, and the generation loop of \<open>generate_text\<close> runs to completion on a
  well-formed model whenever the prompt's token ids are in range.
\<close>

section \<open>Shapes\<close>

text \<open>A block of the sizes the configuration names.\<close>

definition block_fits :: "'a model_config \<Rightarrow> 'b block \<Rightarrow> bool" where
  "block_fits c b \<longleftrightarrow> wf_block (model_dim c) b \<and> mha.num_heads (attention b) = num_heads c
     \<and> hidden_dim (feed_forward b) = ffn_hidden_dim c"

text \<open>The unknown token is mapped to a non-negative id.\<close>

definition unk_mapped :: "vocabulary \<Rightarrow> bool" where
  "unk_mapped v \<longleftrightarrow> (\<exists>i. token_to_id v unk_token = Some i \<and> 0 \<le> i)"

section \<open>Reading into buffers\<close>

lemma length_bytes_floats: "length (bytes_floats bs) = length bs div 4"
  by (induction bs rule: bytes_floats.induct) auto

lemma read_bytes_length: "length (fst (read_bytes n s)) \<le> n"
  by (simp add: read_bytes_def)

lemma read_floats_length:
  assumes "n \<le> 4 * length buf"
  shows "length (fst (read_floats n buf s)) = length buf"
proof -
  obtain bs s' where r: "read_bytes n s = (bs, s')" by (cases "read_bytes n s")
  have "length bs \<le> 4 * length buf" using read_bytes_length [of n s] r assms by simp
  then show ?thesis using r by (simp add: read_floats_def length_bytes_floats)
qed

lemma read_floats_length':
  "read_floats n buf s = (d, s') \<Longrightarrow> n \<le> 4 * length buf \<Longrightarrow> length d = length buf"
  using read_floats_length [of n buf s] by simp

lemma size_mul_le: "size_mul a b \<le> a * b"
  by (simp add: size_mul_def)

lemma size_mul_4_le: "size_mul x 4 \<le> 4 * x"
  using size_mul_le [of x 4] by simp

lemma load_table_shape:
  assumes "load_table r c m s = Inr (m', s')" "r * c < size_t_limit"
  shows "wf_matrix m' \<and> m_rows m' = r \<and> m_cols m' = c"
proof -
  obtain rows cols s1 where d: "read_dims s = ((rows, cols), s1)" by (metis prod.collapse)
  obtain dt s2 where f: "read_floats (size_mul (size_mul r c) 4) (m_data (matrix_resize m r c)) s1 = (dt, s2)"
    by (metis prod.collapse)
  have rc: "rows = r" "cols = c" and m': "m' = (matrix_resize m r c)\<lparr>m_data := dt\<rparr>"
    using assms(1) d f by (auto simp: load_table_def split: if_splits)
  have "size_mul (size_mul r c) 4 \<le> 4 * length (m_data (matrix_resize m r c))"
    by (simp add: matrix_resize_def size_mul_4_le)
  then have "length dt = size_mul r c"
    using read_floats_length' [OF f] by (simp add: matrix_resize_def)
  then show ?thesis using m' assms(2) by (simp add: matrix_resize_def wf_matrix_def)
qed

lemma load_fresh_shape:
  assumes "load_fresh r c s = Inr (m', s')" "r * c < size_t_limit"
  shows "wf_matrix m' \<and> m_rows m' = r \<and> m_cols m' = c"
proof -
  obtain rows cols s1 where d: "read_dims s = ((rows, cols), s1)" by (metis prod.collapse)
  obtain dt s2 where f: "read_floats (size_mul (size_mul r c) 4) (m_data (matrix_new r c :: 32 word matrix)) s1 = (dt, s2)"
    by (metis prod.collapse)
  have rc: "rows = r" "cols = c" and m': "m' = (matrix_new r c)\<lparr>m_data := dt\<rparr>"
    using assms(1) d f by (auto simp: load_fresh_def split: if_splits)
  have "size_mul (size_mul r c) 4 \<le> 4 * length (m_data (matrix_new r c :: 32 word matrix))"
    by (simp add: matrix_new_def size_mul_4_le)
  then have "length dt = size_mul r c"
    using read_floats_length' [OF f] by (simp add: matrix_new_def)
  then show ?thesis using m' assms(2) by (simp add: matrix_new_def wf_matrix_def)
qed

lemma load_vector_length:
  assumes "load_vector n s = Inr (v, s')"
  shows "length v = n"
proof -
  obtain n' s1 where d: "read_size s = (n', s1)" by (metis prod.collapse)
  obtain dt s2 where f: "read_floats (size_mul n 4) (replicate n 0) s1 = (dt, s2)"
    by (metis prod.collapse)
  have "n' = n" "v = dt" using assms d f by (auto simp: load_vector_def split: if_splits)
  then show ?thesis using read_floats_length' [OF f] size_mul_4_le [of n] by simp
qed

section \<open>The layer loaders\<close>

text \<open>Replacing one block of a well-formed model by a block of the configured
  sizes keeps it well-formed.\<close>

lemma wf_model_update_block:
  assumes "wf_model m" "l < length (transformer_blocks m)" "block_fits (config m) b"
  shows "wf_model (m\<lparr>transformer_blocks := (transformer_blocks m)[l := b]\<rparr>)"
  using assms set_update_subset_insert [of "transformer_blocks m" l b]
  by (auto simp: wf_model_def block_fits_def Let_def)

lemma block_fits_nth:
  "wf_model m \<Longrightarrow> l < length (transformer_blocks m) \<Longrightarrow> block_fits (config m) (transformer_blocks m ! l)"
  by (auto simp: wf_model_def block_fits_def Let_def)

lemma config_fits_dims:
  "config_fits c \<Longrightarrow> model_dim c * model_dim c < size_t_limit \<and> model_dim c * ffn_hidden_dim c < size_t_limit
     \<and> ffn_hidden_dim c * model_dim c < size_t_limit"
  by (simp add: config_fits_def mult.commute)

lemma load_attention_wf:
  assumes "load_attention_weights m l s = Inr (m', s')" "wf_model m" "config_fits (config m)"
  shows "wf_model m' \<and> config m' = config m \<and> tokenizer m' = tokenizer m"
proof -
  let ?md = "model_dim (config m)"
  have md: "?md * ?md < size_t_limit" using config_fits_dims [OF assms(3)] by simp
  have l: "l < length (transformer_blocks m)"
    using assms(1,2) by (auto simp: load_attention_weights_def wf_model_def Let_def split: if_splits)
  obtain q k v ow s1 s2 s3 where
    f: "load_fresh ?md ?md s = Inr (q, s1)" "load_fresh ?md ?md s1 = Inr (k, s2)"
       "load_fresh ?md ?md s2 = Inr (v, s3)" "load_fresh ?md ?md s3 = Inr (ow, s')"
    and m': "m' = m\<lparr>transformer_blocks := (transformer_blocks m)[l := (transformer_blocks m ! l)\<lparr>attention :=
               (attention (transformer_blocks m ! l))\<lparr>query_weights := q, key_weights := k, value_weights := v,
               output_weights := ow\<rparr>\<rparr>]\<rparr>"
    using assms(1) l by (auto simp: load_attention_weights_def rbind_eq_Inr Let_def split: if_splits)
  have "block_fits (config m) (transformer_blocks m ! l)" using block_fits_nth [OF assms(2) l] .
  then have "block_fits (config m) ((transformer_blocks m ! l)\<lparr>attention :=
               (attention (transformer_blocks m ! l))\<lparr>query_weights := q, key_weights := k, value_weights := v,
               output_weights := ow\<rparr>\<rparr>)"
    using f [THEN load_fresh_shape] md by (auto simp: block_fits_def wf_block_def wf_mha_def)
  then show ?thesis using wf_model_update_block [OF assms(2) l] m' by simp
qed

lemma load_ffn_wf:
  assumes "load_ffn_weights m l s = Inr (m', s')" "wf_model m" "config_fits (config m)"
  shows "wf_model m' \<and> config m' = config m \<and> tokenizer m' = tokenizer m"
proof -
  let ?md = "model_dim (config m)" and ?fh = "ffn_hidden_dim (config m)"
  have d: "?md * ?fh < size_t_limit" "?fh * ?md < size_t_limit" using config_fits_dims [OF assms(3)] by simp_all
  have l: "l < length (transformer_blocks m)"
    using assms(1,2) by (auto simp: load_ffn_weights_def wf_model_def Let_def split: if_splits)
  obtain w1 b1 w2 b2 s1 s2 s3 where
    f: "load_fresh ?md ?fh s = Inr (w1, s1)" "load_vector ?fh s1 = Inr (b1, s2)"
       "load_fresh ?fh ?md s2 = Inr (w2, s3)" "load_vector ?md s3 = Inr (b2, s')"
    and m': "m' = m\<lparr>transformer_blocks := (transformer_blocks m)[l := (transformer_blocks m ! l)\<lparr>feed_forward :=
               (feed_forward (transformer_blocks m ! l))\<lparr>linear1_weights := w1, linear1_bias := b1,
               linear2_weights := w2, linear2_bias := b2\<rparr>\<rparr>]\<rparr>"
    using assms(1) l by (auto simp: load_ffn_weights_def rbind_eq_Inr Let_def split: if_splits)
  have "block_fits (config m) (transformer_blocks m ! l)" using block_fits_nth [OF assms(2) l] .
  then have "block_fits (config m) ((transformer_blocks m ! l)\<lparr>feed_forward :=
               (feed_forward (transformer_blocks m ! l))\<lparr>linear1_weights := w1, linear1_bias := b1,
               linear2_weights := w2, linear2_bias := b2\<rparr>\<rparr>)"
    using load_fresh_shape [OF f(1) d(1)] load_fresh_shape [OF f(3) d(2)]
      load_vector_length [OF f(2)] load_vector_length [OF f(4)]
    by (auto simp: block_fits_def wf_block_def wf_ffn_def)
  then show ?thesis using wf_model_update_block [OF assms(2) l] m' by simp
qed

lemma load_layer_norm_wf:
  assumes "load_layer_norm_weights m l s = Inr (m', s')" "wf_model m"
  shows "wf_model m' \<and> config m' = config m \<and> tokenizer m' = tokenizer m"
proof -
  let ?md = "model_dim (config m)"
  have l: "l < length (transformer_blocks m)"
    using assms(1,2) by (auto simp: load_layer_norm_weights_def wf_model_def Let_def split: if_splits)
  obtain w1 b1 w2 b2 s1 s2 s3 where
    f: "load_vector ?md s = Inr (w1, s1)" "load_vector ?md s1 = Inr (b1, s2)"
       "load_vector ?md s2 = Inr (w2, s3)" "load_vector ?md s3 = Inr (b2, s')"
    and m': "m' = m\<lparr>transformer_blocks := (transformer_blocks m)[l := (transformer_blocks m ! l)\<lparr>
               layer_norm1_weight := w1, layer_norm1_bias := b1, layer_norm2_weight := w2,
               layer_norm2_bias := b2\<rparr>]\<rparr>"
    using assms(1) l by (auto simp: load_layer_norm_weights_def rbind_eq_Inr Let_def split: if_splits)
  have "block_fits (config m) (transformer_blocks m ! l)" using block_fits_nth [OF assms(2) l] .
  then have "block_fits (config m) ((transformer_blocks m ! l)\<lparr>
               layer_norm1_weight := w1, layer_norm1_bias := b1, layer_norm2_weight := w2,
               layer_norm2_bias := b2\<rparr>)"
    using f [THEN load_vector_length] by (auto simp: block_fits_def wf_block_def)
  then show ?thesis using wf_model_update_block [OF assms(2) l] m' by simp
qed

lemma load_layers_wf:
  assumes "load_layers l k m s = Inr (m', s')" "wf_model m" "config_fits (config m)"
  shows "wf_model m' \<and> config m' = config m \<and> tokenizer m' = tokenizer m"
  using assms
proof (induction l k m s rule: load_layers.induct)
  case (1 l m s)
  then show ?case by simp
next
  case (2 l k m s)
  from "2.prems"(1) obtain m1 s1 m2 s2 m3 s3 where
    a: "load_attention_weights m l s = Inr (m1, s1)" and f: "load_ffn_weights m1 l s1 = Inr (m2, s2)"
    and n: "load_layer_norm_weights m2 l s2 = Inr (m3, s3)" and r: "load_layers (Suc l) k m3 s3 = Inr (m', s')"
    by (auto simp: rbind_eq_Inr)
  note a' = load_attention_wf [OF a "2.prems"(2,3)]
  note f' = load_ffn_wf [OF f] a'
  note n' = load_layer_norm_wf [OF n] f' "2.prems"(3)
  show ?case using "2.IH" [OF a refl f refl n refl r] n' f' a' "2.prems"(3)
    by simp
qed

section \<open>The weight loader\<close>

lemma load_model_weights_parts:
  assumes "load_model_weights f j m = Inr m'"
  obtains s9 e s10 p s11 m1 s12 ow s13 where
    "load_table (vocab_size (config m)) (model_dim (config m)) (embedding_weights m) s9 = Inr (e, s10)"
    "load_table (max_sequence_length (config m)) (model_dim (config m)) (position_embeddings m) s10 = Inr (p, s11)"
    "load_layers 0 (num_layers (config m)) (m\<lparr>embedding_weights := e, position_embeddings := p\<rparr>) s11 = Inr (m1, s12)"
    "load_table (model_dim (config m)) (vocab_size (config m)) (output_projection m1) s12 = Inr (ow, s13)"
    "m' = m1\<lparr>output_projection := ow\<rparr>"
  using assms by (auto simp: load_model_weights_def as_file_error_def rbind_eq_Inr Let_def split_def
      split: option.splits sum.splits if_splits)

lemma load_model_weights_wf:
  assumes "load_model_weights f j m = Inr m'" "wf_model m" "config_fits (config m)"
  shows "wf_model m' \<and> config m' = config m \<and> tokenizer m' = tokenizer m"
proof -
  let ?c = "config m"
  obtain s9 e s10 p s11 m1 s12 ow s13 where
    t1: "load_table (vocab_size ?c) (model_dim ?c) (embedding_weights m) s9 = Inr (e, s10)"
    and t2: "load_table (max_sequence_length ?c) (model_dim ?c) (position_embeddings m) s10 = Inr (p, s11)"
    and ly: "load_layers 0 (num_layers ?c) (m\<lparr>embedding_weights := e, position_embeddings := p\<rparr>) s11 = Inr (m1, s12)"
    and t3: "load_table (model_dim ?c) (vocab_size ?c) (output_projection m1) s12 = Inr (ow, s13)"
    and m': "m' = m1\<lparr>output_projection := ow\<rparr>"
    using load_model_weights_parts [OF assms(1)] by metis
  have d: "vocab_size ?c * model_dim ?c < size_t_limit" "max_sequence_length ?c * model_dim ?c < size_t_limit"
    "model_dim ?c * vocab_size ?c < size_t_limit"
    using assms(3) by (simp_all add: config_fits_def mult.commute)
  have "wf_model (m\<lparr>embedding_weights := e, position_embeddings := p\<rparr>)"
    using assms(2) load_table_shape [OF t1 d(1)] load_table_shape [OF t2 d(2)] by (simp add: wf_model_def Let_def)
  then have "wf_model m1 \<and> config m1 = ?c \<and> tokenizer m1 = tokenizer m"
    using load_layers_wf [OF ly] assms(3) by simp
  then show ?thesis using load_table_shape [OF t3 d(3)] m' by (auto simp: wf_model_def Let_def)
qed

section \<open>The tokenizer loader\<close>

lemma vocab_line_size: "vocabulary_size v \<le> vocabulary_size (vocab_line v line)"
  by (auto simp: vocab_line_def vocabulary_size_def add_token_def Let_def
      split: option.splits prod.splits)

lemma foldl_vocab_line_size: "vocabulary_size v \<le> vocabulary_size (foldl vocab_line v ls)"
  by (induction ls arbitrary: v) (auto intro: le_trans [OF vocab_line_size])

lemma vocab_line_unk: "unk_mapped v \<Longrightarrow> unk_mapped (vocab_line v line)"
  by (auto simp: vocab_line_def unk_mapped_def add_token_def Let_def
      split: option.splits prod.splits)

lemma foldl_vocab_line_unk: "unk_mapped v \<Longrightarrow> unk_mapped (foldl vocab_line v ls)"
  by (induction ls arbitrary: v) (auto intro: vocab_line_unk)

lemma vocab_load_nonempty:
  assumes "vocab_load f v = Inr v'" "0 \<le> unk_token_id v"
  shows "0 < vocabulary_size v' \<and> 0 \<le> unk_token_id v'"
proof -
  obtain c where v': "v' = vocab_after_load (foldl vocab_line (vocab_reset v) (getlines c))"
    using assms(1) by (auto simp: vocab_load_def split: option.splits)
  have "0 < vocabulary_size (vocab_reset v)"
    using assms(2) by (simp add: vocab_reset_def vocabulary_size_def Let_def)
  moreover have "unk_mapped (vocab_reset v)"
    using assms(2) by (simp add: vocab_reset_def unk_mapped_def Let_def unk_token_def pad_token_def
      bos_token_def eos_token_def)
  ultimately show ?thesis
    using foldl_vocab_line_size [of "vocab_reset v" "getlines c"] foldl_vocab_line_unk [of "vocab_reset v" "getlines c"] v'
    by (auto simp: vocab_after_load_def vocabulary_size_def unk_mapped_def map_get0_def)
qed

lemma foldl_merge_line_vocab: "vocab (fst (foldl merge_line (t, r) ls)) = vocab t"
  by (induction ls arbitrary: t r) (auto simp: merge_line_def split: option.splits prod.splits)

lemma load_tokenizer_ok:
  assumes "load_tokenizer vf mf m = Inr m'" "0 \<le> unk_token_id (vocab (tokenizer m))"
  shows "is_initialized m' \<and> 0 \<le> unk_token_id (vocab (tokenizer m')) \<and> m' = m\<lparr>tokenizer := tokenizer m'\<rparr>"
  using assms vocab_load_nonempty foldl_merge_line_vocab
  by (auto simp: load_tokenizer_def load_vocab_def load_merges_def is_initialized_def
      tokenizer_vocab_size_def rbind_eq_Inr split: sum.splits option.splits)

section \<open>Generation runs to completion\<close>

lemma encode_nonempty: "s \<noteq> [] \<Longrightarrow> encode t s \<noteq> []"
  using concat_encode_to_strings [of t s]
  by (auto simp: encode_as_strings preprocess_text_def)

lemma gen_loop_ok:
  assumes "wf_model m" "is_initialized m" "0 < vocab_size (config m)"
    and "toks \<noteq> []" "length toks \<le> max_sequence_length (config m)"
    and "\<forall>x\<in>set toks. 0 \<le> x \<and> x < int (vocab_size (config m))"
  shows "\<exists>toks'. gen_loop m t k toks = Inr toks'"
  using assms(4-6)
proof (induction k arbitrary: toks)
  case 0
  then show ?case by simp
next
  case (Suc k)
  show ?case
  proof (cases "max_sequence_length (config m) \<le> length toks")
    case True
    then show ?thesis by simp
  next
    case False
    obtain ls where f: "model_forward m toks = Inr ls" "length ls = vocab_size (config m)"
      using model_forward_shape [OF assms(1,2) Suc.prems] by blast
    let ?ps = "model_softmax m ls (if 0 < t then t else temperature m)"
    have ne: "?ps \<noteq> []" using f(2) assms(3) by (auto simp flip: length_greater_0_conv)
    let ?nxt = "int (max_element ?ps)"
    have s: "sample_token ?ps = Inr ?nxt" using ne by (simp add: sample_token_def)
    have "0 \<le> ?nxt \<and> ?nxt < int (vocab_size (config m))" using max_element_less [OF ne] f(2) by simp
    then have "\<exists>toks'. gen_loop m t k (toks @ [?nxt]) = Inr toks'"
      using Suc.IH [of "toks @ [?nxt]"] Suc.prems False by auto
    then show ?thesis using f s False by (auto simp: rbind_eq_Inr)
  qed
qed

lemma generate_text_ok:
  assumes "wf_model m" "is_initialized m" "0 < vocab_size (config m)" "2 \<le> max_sequence_length (config m)"
    and "0 < n" "prompt \<noteq> []"
    and "\<forall>x\<in>set (encode (tokenizer m) prompt). 0 \<le> x \<and> x < int (vocab_size (config m))"
  shows "\<exists>s. generate_text m prompt n t = Inr (prompt @ s)"
proof -
  let ?lim = "max_sequence_length (config m)" and ?ts = "encode (tokenizer m) prompt"
  let ?ts1 = "if ?lim \<le> length ?ts then list_resize ?ts (?lim - 1) 0 else ?ts"
  have ts1: "?ts1 \<noteq> [] \<and> length ?ts1 \<le> ?lim \<and> (\<forall>x\<in>set ?ts1. 0 \<le> x \<and> x < int (vocab_size (config m)))"
    using encode_nonempty [OF assms(6)] assms(4,7)
    by (auto simp: list_resize_def dest: in_set_takeD)
  obtain toks where g: "gen_loop m t (nat n) ?ts1 = Inr toks"
    using gen_loop_ok [OF assms(1-3)] ts1 by blast
  show ?thesis
    using assms(2,5) g
    by (simp add: generate_text_def model_tokenize_def model_detokenize_def Let_def)
qed

end
