(* ===== verification/Facade.thy ===== *)
theory Facade
  imports Loading
begin

text \<open>
  The public API \<open>TinyLlama\<close> (\<open>src/unnamed/part_006\<close>, \<open>src/src/tiny_llama.cpp\<close>):
  the validation helpers, the facade state (the owned \<open>TinyLlamaModel\<close> and the
  \<open>is_initialized_\<close> flag), every public operation as a function of the state
  and the file system, a datatype of API calls with one step function, and the
  states reachable from the constructor by any sequence of calls. The model the
  facade owns holds its floats as their 32-bit patterns, as the weight loader
  reads them; the generation path computes on their real values.
\<close>

section \<open>Single-precision values\<close>

text \<open>The value an IEEE-754 binary32 pattern denotes: sign, 8-bit biased exponent,
  23-bit fraction; exponent 255 is an infinity or NaN, exponent 0 a subnormal.\<close>

datatype f32_value = F32Finite real | F32PosInf | F32NegInf | F32NaN

definition f32_decode :: "32 word \<Rightarrow> f32_value" where
  "f32_decode w =
     (let n = unat w; neg = (2 ^ 31 \<le> n); e = n div 2 ^ 23 mod 2 ^ 8; f = n mod 2 ^ 23;
          sgn = (if neg then - 1 else 1 :: real)
      in if e = 255 then (if f = 0 then (if neg then F32NegInf else F32PosInf) else F32NaN)
         else if e = 0 then F32Finite (sgn * real f / 2 ^ 149)
         else F32Finite (sgn * real (2 ^ 23 + f) * 2 ^ e / 2 ^ 150))"

text \<open>The float comparison \<open><\<close>: false whenever a NaN is involved.\<close>

fun f32_less :: "f32_value \<Rightarrow> f32_value \<Rightarrow> bool" where
  "f32_less (F32Finite x) (F32Finite y) = (x < y)"
| "f32_less F32NegInf (F32Finite y) = True"
| "f32_less F32NegInf F32PosInf = True"
| "f32_less (F32Finite x) F32PosInf = True"
| "f32_less _ _ = False"

fun f32_is_finite :: "f32_value \<Rightarrow> bool" where
  "f32_is_finite (F32Finite x) = True"
| "f32_is_finite _ = False"

text \<open>The real a stored float contributes to the forward pass (which computes on
  reals); a non-finite value, outside that model, reads as \<open>0\<close>.\<close>

definition f32_real :: "32 word \<Rightarrow> real" where
  "f32_real w = (case f32_decode w of F32Finite x \<Rightarrow> x | _ \<Rightarrow> 0)"

text \<open>The float literals of \<open>tiny_llama.cpp\<close>: \<open>0.01f\<close> and \<open>1000.0f\<close>.\<close>

definition float_0_01 :: "32 word" where
  "float_0_01 = 0x3C23D70A"

definition float_1000 :: "32 word" where
  "float_1000 = 0x447A0000"

section \<open>The model seen through its floats\<close>

definition map_matrix :: "('a \<Rightarrow> 'b) \<Rightarrow> 'a matrix \<Rightarrow> 'b matrix" where
  "map_matrix f m = \<lparr>m_data = map f (m_data m), m_rows = m_rows m, m_cols = m_cols m\<rparr>"

definition map_mha :: "('a \<Rightarrow> 'b) \<Rightarrow> 'a mha \<Rightarrow> 'b mha" where
  "map_mha f a = \<lparr>query_weights = map_matrix f (query_weights a),
     key_weights = map_matrix f (key_weights a), value_weights = map_matrix f (value_weights a),
     output_weights = map_matrix f (output_weights a), mha.num_heads = mha.num_heads a,
     head_dim = head_dim a, mha_model_dim = mha_model_dim a\<rparr>"

definition map_ffn :: "('a \<Rightarrow> 'b) \<Rightarrow> 'a ffn \<Rightarrow> 'b ffn" where
  "map_ffn f n = \<lparr>linear1_weights = map_matrix f (linear1_weights n),
     linear1_bias = map f (linear1_bias n), linear2_weights = map_matrix f (linear2_weights n),
     linear2_bias = map f (linear2_bias n), ffn_model_dim = ffn_model_dim n,
     hidden_dim = hidden_dim n\<rparr>"

definition map_block :: "('a \<Rightarrow> 'b) \<Rightarrow> 'a block \<Rightarrow> 'b block" where
  "map_block f b = \<lparr>attention = map_mha f (attention b), feed_forward = map_ffn f (feed_forward b),
     layer_norm1_weight = map f (layer_norm1_weight b), layer_norm1_bias = map f (layer_norm1_bias b),
     layer_norm2_weight = map f (layer_norm2_weight b), layer_norm2_bias = map f (layer_norm2_bias b),
     block_model_dim = block_model_dim b\<rparr>"

definition map_config :: "('a \<Rightarrow> 'b) \<Rightarrow> 'a model_config \<Rightarrow> 'b model_config" where
  "map_config f c = \<lparr>model_dim = model_dim c, num_layers = num_layers c, num_heads = num_heads c,
     ffn_hidden_dim = ffn_hidden_dim c, max_sequence_length = max_sequence_length c,
     vocab_size = vocab_size c, dropout_rate = f (dropout_rate c)\<rparr>"

definition map_model :: "('a \<Rightarrow> 'b) \<Rightarrow> 'a tl_model \<Rightarrow> 'b tl_model" where
  "map_model f m = \<lparr>tokenizer = tokenizer m, embedding_weights = map_matrix f (embedding_weights m),
     position_embeddings = map_matrix f (position_embeddings m),
     transformer_blocks = map (map_block f) (transformer_blocks m),
     output_projection = map_matrix f (output_projection m), config = map_config f (config m),
     temperature = f (temperature m)\<rparr>"

text \<open>The model the generation path computes with.\<close>

abbreviation real_model :: "32 word tl_model \<Rightarrow> real tl_model" where
  "real_model m \<equiv> map_model f32_real m"

text \<open>\<open>ModelConfig{}\<close> as stored: \<open>dropout_rate\<close> is the float \<open>0.1f\<close>.\<close>

definition default_config_f32 :: "32 word model_config" where
  "default_config_f32 = map_config (\<lambda>_. float_0_1) default_config"

section \<open>Files\<close>

text \<open>What \<open>stat\<close> and the file streams see: a path names a regular file with its
  bytes or a directory. Text files are read byte by byte as characters.\<close>

datatype fs_entry = RegularFile "byte list" | Directory

type_synonym file_system = "string \<Rightarrow> fs_entry option"

definition file_exists :: "file_system \<Rightarrow> string \<Rightarrow> bool" where
  "file_exists fs p \<longleftrightarrow> fs p \<noteq> None"

definition is_directory :: "file_system \<Rightarrow> string \<Rightarrow> bool" where
  "is_directory fs p \<longleftrightarrow> fs p = Some Directory"

definition file_bytes :: "file_system \<Rightarrow> string \<Rightarrow> byte list option" where
  "file_bytes fs p = (case fs p of Some (RegularFile bs) \<Rightarrow> Some bs | _ \<Rightarrow> None)"

definition file_text :: "file_system \<Rightarrow> string \<Rightarrow> string option" where
  "file_text fs p = map_option (map (\<lambda>b. char_of (unat b))) (file_bytes fs p)"

section \<open>Validation helpers\<close>

definition max_string_length :: nat where
  "max_string_length = 1000000"

text \<open>\<open>validate_string_input\<close>: empty (unless allowed), a NUL character, or more
  than \<open>MAX_STRING_LENGTH\<close> characters is a \<open>ConfigurationException\<close>.\<close>

definition validate_string_input :: "string \<Rightarrow> bool \<Rightarrow> unit result" where
  "validate_string_input s allow_empty =
     (if \<not> allow_empty \<and> s = [] then Inl ConfigurationError
      else if CHR 0x00 \<in> set s then Inl ConfigurationError
      else if max_string_length < length s then Inl ConfigurationError
      else Inr ())"

text \<open>\<open>validate_file_path\<close>: the same checks as \<open>FileIOException\<close>s, then the path
  must exist and not be a directory.\<close>

definition validate_file_path :: "file_system \<Rightarrow> string \<Rightarrow> unit result" where
  "validate_file_path fs p =
     (if p = [] then Inl FileIOError
      else if CHR 0x00 \<in> set p then Inl FileIOError
      else if max_string_length < length p then Inl FileIOError
      else if \<not> file_exists fs p then Inl FileIOError
      else if is_directory fs p then Inl FileIOError
      else Inr ())"

definition validate_directory_path :: "file_system \<Rightarrow> string \<Rightarrow> unit result" where
  "validate_directory_path fs p =
     (if p = [] then Inl FileIOError
      else if CHR 0x00 \<in> set p then Inl FileIOError
      else if max_string_length < length p then Inl FileIOError
      else if \<not> file_exists fs p then Inl FileIOError
      else if \<not> is_directory fs p then Inl FileIOError
      else Inr ())"

text \<open>\<open>validate_positive_integer(value, name, min)\<close>: below \<open>min\<close> or above
  \<open>1000000\<close> is a \<open>ConfigurationException\<close>.\<close>

definition validate_positive_integer :: "int \<Rightarrow> int \<Rightarrow> unit result" where
  "validate_positive_integer v mn =
     (if v < mn then Inl ConfigurationError
      else if 1000000 < v then Inl ConfigurationError
      else Inr ())"

text \<open>\<open>validate_positive_float(value, name, min)\<close>: \<open>value < min\<close>, a value that is
  not finite, or \<open>value > 1000.0f\<close>, compared as floats.\<close>

definition validate_positive_float :: "32 word \<Rightarrow> 32 word \<Rightarrow> unit result" where
  "validate_positive_float v mn =
     (if f32_less (f32_decode v) (f32_decode mn) then Inl ConfigurationError
      else if \<not> f32_is_finite (f32_decode v) then Inl ConfigurationError
      else if f32_less (f32_decode float_1000) (f32_decode v) then Inl ConfigurationError
      else Inr ())"

text \<open>\<open>validate_token_ids\<close>: empty is accepted; more than \<open>100000\<close> ids or a
  negative id is a \<open>ConfigurationException\<close>.\<close>

definition validate_token_ids :: "int list \<Rightarrow> unit result" where
  "validate_token_ids ids =
     (if ids = [] then Inr ()
      else if 100000 < length ids then Inl ConfigurationError
      else if list_ex (\<lambda>t. t < 0) ids then Inl ConfigurationError
      else Inr ())"

text \<open>The facade's handlers: a \<open>TinyLlamaException\<close> is rethrown as it is; any other
  \<open>std::exception\<close> (here \<open>std::out_of_range\<close> and \<open>std::invalid_argument\<close>)
  becomes the exception the handler names.\<close>

definition rethrow_as :: "error \<Rightarrow> 'a result \<Rightarrow> 'a result" where
  "rethrow_as e r =
     (case r of Inl OutOfRange \<Rightarrow> Inl e | Inl InvalidArgument \<Rightarrow> Inl e | _ \<Rightarrow> r)"

section \<open>Model queries used by the facade\<close>

definition model_tokenize_to_strings :: "'a tl_model \<Rightarrow> string \<Rightarrow> string list result" where
  "model_tokenize_to_strings m s = Inr (encode_to_strings (tokenizer m) s)"

definition model_get_vocab_size :: "'a tl_model \<Rightarrow> nat" where
  "model_get_vocab_size m = vocab_size (config m)"

section \<open>The facade\<close>

record tiny_llama =
  api_model :: "32 word tl_model"
  api_initialized :: bool

text \<open>\<open>TinyLlama()\<close>: a \<open>TinyLlamaModel()\<close> of the default configuration, not
  initialised. The constructor computes its random attention weights in float
  arithmetic; \<open>fl\<close> stands for the float each computed real is stored as.
  Temperature and dropout are the literals \<open>1.0f\<close> and \<open>0.1f\<close>.\<close>

definition tiny_llama_new :: "(real \<Rightarrow> 32 word) \<Rightarrow> (nat \<Rightarrow> real) \<Rightarrow> tiny_llama result" where
  "tiny_llama_new fl rnd =
     rbind (model_new default_config rnd) (\<lambda>m.
       Inr \<lparr>api_model = (map_model fl m)\<lparr>config := default_config_f32, temperature := float_1\<rparr>,
            api_initialized = False\<rparr>)"

text \<open>\<open>initialize_with_config\<close>: the three paths are validated, a second
  initialisation is a \<open>ModelException\<close>; then the tokenizer and the weights are
  loaded and the flag set. A failure clears the flag and is rethrown.\<close>

definition initialize_with_config ::
  "file_system \<Rightarrow> nat \<Rightarrow> string \<Rightarrow> string \<Rightarrow> string \<Rightarrow> tiny_llama \<Rightarrow> unit result \<times> tiny_llama" where
  "initialize_with_config fs j vocab_file merges_file weights_file st =
     (case rbind (validate_file_path fs vocab_file) (\<lambda>_. rbind (validate_file_path fs merges_file) (\<lambda>_.
             validate_file_path fs weights_file)) of
        Inl e \<Rightarrow> (Inl e, st)
      | Inr _ \<Rightarrow>
          if api_initialized st then (Inl ModelError, st)
          else case rbind (load_tokenizer (file_text fs vocab_file) (file_text fs merges_file) (api_model st))
                      (load_model_weights (file_bytes fs weights_file) j) of
                 Inl e \<Rightarrow> (rethrow_as ModelError (Inl e), st\<lparr>api_initialized := False\<rparr>)
               | Inr m \<Rightarrow> (Inr (), st\<lparr>api_model := m, api_initialized := True\<rparr>))"

text \<open>\<open>initialize(model_path)\<close>: the directory is validated, a second
  initialisation refused, the three file names built and validated, then
  \<open>initialize_with_config\<close>.\<close>

definition initialize :: "file_system \<Rightarrow> nat \<Rightarrow> string \<Rightarrow> tiny_llama \<Rightarrow> unit result \<times> tiny_llama" where
  "initialize fs j path st =
     (case validate_directory_path fs path of
        Inl e \<Rightarrow> (Inl e, st)
      | Inr _ \<Rightarrow>
          if api_initialized st then (Inl ModelError, st)
          else let vocab_file = path @ ''/vocab.txt''; merges_file = path @ ''/merges.txt''; weights_file = path @ ''/weights.bin''
          in case rbind (validate_file_path fs vocab_file) (\<lambda>_. rbind (validate_file_path fs merges_file) (\<lambda>_.
                     validate_file_path fs weights_file)) of
               Inl e \<Rightarrow> (Inl e, st)
             | Inr _ \<Rightarrow> initialize_with_config fs j vocab_file merges_file weights_file st)"

text \<open>\<open>generate(prompt, max_tokens)\<close>: not initialised is a \<open>ModelException\<close>; the
  prompt must be a valid non-empty string, \<open>max_tokens\<close> in \<open>[1, 1000000]\<close>, at
  most \<open>10000\<close> and at most the configured \<open>max_sequence_length\<close>
  (\<open>ConfigurationException\<close>); then \<open>generate_text(prompt, max_tokens)\<close> with its
  default temperature \<open>1.0f\<close>.\<close>

definition generate :: "string \<Rightarrow> int \<Rightarrow> tiny_llama \<Rightarrow> string result" where
  "generate prompt max_tokens st =
     (if \<not> api_initialized st then Inl ModelError
      else rbind (validate_string_input prompt False) (\<lambda>_.
           rbind (validate_positive_integer max_tokens 1) (\<lambda>_.
             if 10000 < max_tokens then Inl ConfigurationError
             else if int (max_sequence_length (config (api_model st))) < max_tokens
             then Inl ConfigurationError
             else rethrow_as ModelError
                    (generate_text (real_model (api_model st)) prompt max_tokens 1))))"

definition tokenize_to_strings :: "string \<Rightarrow> tiny_llama \<Rightarrow> string list result" where
  "tokenize_to_strings text st =
     (if \<not> api_initialized st then Inl TokenizerError
      else rbind (validate_string_input text True) (\<lambda>_.
             rethrow_as TokenizerError (model_tokenize_to_strings (api_model st) text)))"

definition tokenize_to_ids :: "string \<Rightarrow> tiny_llama \<Rightarrow> int list result" where
  "tokenize_to_ids text st =
     (if \<not> api_initialized st then Inl TokenizerError
      else rbind (validate_string_input text True) (\<lambda>_.
             rethrow_as TokenizerError (model_tokenize (api_model st) text)))"

definition detokenize :: "int list \<Rightarrow> tiny_llama \<Rightarrow> string result" where
  "detokenize ids st =
     (if \<not> api_initialized st then Inl TokenizerError
      else rbind (validate_token_ids ids) (\<lambda>_.
             rethrow_as TokenizerError (model_detokenize (api_model st) ids)))"

text \<open>\<open>set_temperature\<close>: validated against \<open>[0.01f, 1000.0f]\<close>, then stored in
  the model, initialised or not.\<close>

definition set_temperature :: "32 word \<Rightarrow> tiny_llama \<Rightarrow> unit result \<times> tiny_llama" where
  "set_temperature t st =
     (case validate_positive_float t float_0_01 of
        Inl e \<Rightarrow> (Inl e, st)
      | Inr _ \<Rightarrow> (Inr (), st\<lparr>api_model := (api_model st)\<lparr>temperature := t\<rparr>\<rparr>))"

text \<open>\<open>set_max_sequence_length\<close>: validated, then refused in every case.\<close>

definition set_max_sequence_length :: "int \<Rightarrow> unit result" where
  "set_max_sequence_length ml =
     rbind (validate_positive_integer ml 1) (\<lambda>_.
       if 100000 < ml then Inl ConfigurationError else Inl ConfigurationError)"

definition get_vocab_size :: "tiny_llama \<Rightarrow> nat result" where
  "get_vocab_size st =
     (if \<not> api_initialized st then Inl ModelError
      else rethrow_as ModelError (Inr (model_get_vocab_size (api_model st))))"

definition is_ready :: "tiny_llama \<Rightarrow> bool" where
  "is_ready st = api_initialized st"

section \<open>Calls on the facade\<close>

datatype api_call =
    Initialize string
  | InitializeWithConfig string string string
  | Generate string int
  | TokenizeToStrings string
  | TokenizeToIds string
  | Detokenize "int list"
  | SetTemperature "32 word"
  | SetMaxSequenceLength int
  | GetVocabSize
  | IsReady

datatype api_value = VUnit | VString string | VStrings "string list" | VIds "int list"
  | VSize nat | VBool bool

definition rmap :: "('a \<Rightarrow> 'b) \<Rightarrow> 'a result \<Rightarrow> 'b result" where
  "rmap f r = rbind r (\<lambda>x. Inr (f x))"

text \<open>One call, against the file system as it is at the time of the call; \<open>j\<close>
  is the indeterminate content of the loader's uninitialised locals.\<close>

fun api_step :: "file_system \<Rightarrow> nat \<Rightarrow> api_call \<Rightarrow> tiny_llama \<Rightarrow> api_value result \<times> tiny_llama" where
  "api_step fs j (Initialize p) st = apfst (rmap (\<lambda>_. VUnit)) (initialize fs j p st)"
| "api_step fs j (InitializeWithConfig vocab_file merges_file weights_file) st =
     apfst (rmap (\<lambda>_. VUnit)) (initialize_with_config fs j vocab_file merges_file weights_file st)"
| "api_step fs j (Generate p n) st = (rmap VString (generate p n st), st)"
| "api_step fs j (TokenizeToStrings s) st = (rmap VStrings (tokenize_to_strings s st), st)"
| "api_step fs j (TokenizeToIds s) st = (rmap VIds (tokenize_to_ids s st), st)"
| "api_step fs j (Detokenize ids) st = (rmap VString (detokenize ids st), st)"
| "api_step fs j (SetTemperature t) st = apfst (rmap (\<lambda>_. VUnit)) (set_temperature t st)"
| "api_step fs j (SetMaxSequenceLength n) st = (rmap (\<lambda>_. VUnit) (set_max_sequence_length n), st)"
| "api_step fs j GetVocabSize st = (rmap VSize (get_vocab_size st), st)"
| "api_step fs j IsReady st = (Inr (VBool (is_ready st)), st)"

text \<open>The states a program can bring a \<open>TinyLlama\<close> object into: constructed,
  then any sequence of calls, each against any file system.\<close>

inductive api_reachable :: "tiny_llama \<Rightarrow> bool" where
  api_init: "tiny_llama_new fl rnd = Inr st \<Longrightarrow> api_reachable st"
| api_call: "api_reachable st \<Longrightarrow> api_step fs j c st = (r, st') \<Longrightarrow> api_reachable st'"


section \<open>Invariants of the facade\<close>

definition api_inv :: "tiny_llama \<Rightarrow> bool" where
  "api_inv st \<longleftrightarrow> config (api_model st) = default_config_f32 \<and> wf_model (api_model st)
     \<and> is_initialized (api_model st) \<and> 0 \<le> unk_token_id (vocab (tokenizer (api_model st)))"

text \<open>The calls that initialise.\<close>

fun is_init_call :: "api_call \<Rightarrow> bool" where
  "is_init_call (Initialize p) = True"
| "is_init_call (InitializeWithConfig a b c) = True"
| "is_init_call c = False"

section \<open>The model seen through its floats: lemmas\<close>

lemma map_matrix_simps [simp]:
  "m_rows (map_matrix f m) = m_rows m" "m_cols (map_matrix f m) = m_cols m"
  "wf_matrix (map_matrix f m) = wf_matrix m"
  by (simp_all add: map_matrix_def wf_matrix_def)

lemma map_config_simps [simp]:
  "model_dim (map_config f c) = model_dim c" "num_layers (map_config f c) = num_layers c"
  "model_config.num_heads (map_config f c) = model_config.num_heads c"
  "ffn_hidden_dim (map_config f c) = ffn_hidden_dim c"
  "max_sequence_length (map_config f c) = max_sequence_length c"
  "vocab_size (map_config f c) = vocab_size c"
  by (simp_all add: map_config_def)

lemma map_model_simps [simp]:
  "tokenizer (map_model f m) = tokenizer m" "config (map_model f m) = map_config f (config m)"
  "map_model f (m\<lparr>temperature := x\<rparr>) = (map_model f m)\<lparr>temperature := f x\<rparr>"
  by (simp_all add: map_model_def)

lemma wf_block_map: "wf_block md (map_block f b) = wf_block md b"
  by (simp add: wf_block_def map_block_def wf_mha_def map_mha_def wf_ffn_def map_ffn_def)

lemma map_block_simps [simp]:
  "mha.num_heads (attention (map_block f b)) = mha.num_heads (attention b)"
  "hidden_dim (feed_forward (map_block f b)) = hidden_dim (feed_forward b)"
  by (simp_all add: map_block_def map_mha_def map_ffn_def)

lemma wf_model_map: "wf_model (map_model f m) = wf_model m"
  by (simp add: wf_model_def map_model_def Let_def wf_block_map)

lemma is_initialized_map: "is_initialized (map_model f m) = is_initialized m"
  by (simp add: is_initialized_def)

lemma wf_model_config:
  assumes "model_dim c = model_dim (config m)" "num_layers c = num_layers (config m)"
    "model_config.num_heads c = model_config.num_heads (config m)"
    "ffn_hidden_dim c = ffn_hidden_dim (config m)"
    "max_sequence_length c = max_sequence_length (config m)" "vocab_size c = vocab_size (config m)"
  shows "wf_model (m\<lparr>config := c, temperature := x\<rparr>) = wf_model m"
  using assms by (simp add: wf_model_def Let_def)

lemma default_config_f32_simps [simp]:
  "model_dim default_config_f32 = 512" "num_layers default_config_f32 = 6"
  "model_config.num_heads default_config_f32 = 8" "ffn_hidden_dim default_config_f32 = 2048"
  "max_sequence_length default_config_f32 = 1024" "vocab_size default_config_f32 = 32000"
  by (simp_all add: default_config_f32_def default_config_def)

lemma config_fits_default: "config_fits default_config" "config_fits default_config_f32"
  by (simp_all add: config_fits_def default_config_def size_t_limit_def)

lemma api_inv_new: "tiny_llama_new fl rnd = Inr st \<Longrightarrow> api_inv st"
proof -
  assume "tiny_llama_new fl rnd = Inr st"
  then obtain m where m: "model_new default_config rnd = Inr m"
    and st: "st = \<lparr>api_model = (map_model fl m)\<lparr>config := default_config_f32, temperature := float_1\<rparr>,
                    api_initialized = False\<rparr>"
    by (auto simp: tiny_llama_new_def rbind_eq_Inr)
  have s: "wf_model m" "config m = default_config" "tokenizer m = tokenizer_new"
    using model_new_state [OF m config_fits_default(1)] by simp_all
  have "wf_model ((map_model fl m)\<lparr>config := default_config_f32, temperature := float_1\<rparr>)"
    by (subst wf_model_config) (simp_all add: s wf_model_map default_config_def)
  moreover have "is_initialized m" using is_initialized_new_tokenizer [OF s(3)] .
  ultimately show "api_inv st"
    using st s(3) by (simp add: api_inv_def is_initialized_def tokenizer_new_def vocab_new_ids)
qed

lemma wf_model_tokenizer [simp]: "wf_model (m\<lparr>tokenizer := t\<rparr>) = wf_model m"
  by (simp add: wf_model_def)

lemma load_both_inv:
  assumes "rbind (load_tokenizer vt mt m) (load_model_weights wb j) = Inr m'"
    and "config m = default_config_f32" "wf_model m" "0 \<le> unk_token_id (vocab (tokenizer m))"
  shows "config m' = default_config_f32 \<and> wf_model m' \<and> is_initialized m'
    \<and> 0 \<le> unk_token_id (vocab (tokenizer m'))"
proof -
  obtain m1 where t: "load_tokenizer vt mt m = Inr m1" and w: "load_model_weights wb j m1 = Inr m'"
    using assms(1) by (auto simp: rbind_eq_Inr)
  have m1: "is_initialized m1" "0 \<le> unk_token_id (vocab (tokenizer m1))" "m1 = m\<lparr>tokenizer := tokenizer m1\<rparr>"
    using load_tokenizer_ok [OF t assms(4)] by simp_all
  have "wf_model m1" "config m1 = default_config_f32"
    using assms(2,3) m1(3) by (metis wf_model_tokenizer, metis tl_model.select_convs(6) tl_model.surjective tl_model.update_convs(1))
  then have "wf_model m' \<and> config m' = config m1 \<and> tokenizer m' = tokenizer m1"
    using load_model_weights_wf [OF w] config_fits_default(2) by simp
  then show ?thesis using m1 \<open>config m1 = default_config_f32\<close> by (simp add: is_initialized_def)
qed

lemma initialize_with_config_inv:
  assumes "api_inv st" "initialize_with_config fs j a b c st = (r, st')"
  shows "api_inv st'"
  using assms load_both_inv [of _ _ "api_model st"]
  by (auto simp: initialize_with_config_def api_inv_def split: sum.splits if_splits)

lemma initialize_inv:
  assumes "api_inv st" "initialize fs j p st = (r, st')"
  shows "api_inv st'"
  using assms initialize_with_config_inv [OF assms(1)]
  by (auto simp: initialize_def Let_def split: sum.splits if_splits)

lemma wf_model_temperature [simp]: "wf_model (m\<lparr>temperature := t\<rparr>) = wf_model m"
  by (simp add: wf_model_def)

lemma set_temperature_inv: "api_inv st \<Longrightarrow> set_temperature t st = (r, st') \<Longrightarrow> api_inv st'"
  by (auto simp: set_temperature_def api_inv_def is_initialized_def split: sum.splits)

lemma api_step_inv:
  assumes "api_inv st" "api_step fs j c st = (r, st')"
  shows "api_inv st'"
proof (cases c)
  case (Initialize p)
  then show ?thesis using assms(2) initialize_inv [OF assms(1)] by (cases "initialize fs j p st") auto
next
  case (InitializeWithConfig a b d)
  then show ?thesis using assms(2) initialize_with_config_inv [OF assms(1)]
    by (cases "initialize_with_config fs j a b d st") auto
next
  case (SetTemperature t)
  then show ?thesis using assms(2) set_temperature_inv [OF assms(1)] by (cases "set_temperature t st") auto
qed (use assms in auto)

lemma api_reachable_inv: "api_reachable st \<Longrightarrow> api_inv st"
  by (induction rule: api_reachable.induct) (auto intro: api_inv_new api_step_inv)

section \<open>Construction and initialisation\<close>

lemma blocks_new_ok: "md mod nh = 0 \<Longrightarrow> \<exists>bs. blocks_new md nh fh rnd i k = Inr bs"
proof (induction k arbitrary: i)
  case (Suc k)
  obtain bs where "blocks_new md nh fh rnd (Suc i) k = Inr bs" using Suc.IH [OF Suc.prems, of "Suc i"] by blast
  then show ?case using Suc.prems by (simp add: block_new_def mha_new_def)
qed simp

lemma tiny_llama_new_ok:
  "\<exists>st. tiny_llama_new fl rnd = Inr st \<and> \<not> api_initialized st \<and> tokenizer (api_model st) = tokenizer_new"
  using blocks_new_ok [of 512 8 2048 rnd 0 6]
  by (auto simp: tiny_llama_new_def model_new_def default_config_def)

lemma load_tokenizer_empty: "\<exists>m'. load_tokenizer (Some []) (Some []) m = Inr m'"
  by (simp add: load_tokenizer_def load_vocab_def vocab_load_def load_merges_def)

lemma validate_file_path_ok:
  "p \<noteq> [] \<Longrightarrow> CHR 0x00 \<notin> set p \<Longrightarrow> length p \<le> max_string_length \<Longrightarrow> fs p = Some (RegularFile bs)
   \<Longrightarrow> validate_file_path fs p = Inr ()"
  by (simp add: validate_file_path_def file_exists_def is_directory_def)

lemma initialize_in_dir:
  assumes "api_inv st" "\<not> api_initialized st"
    and "p \<noteq> []" "CHR 0x00 \<notin> set p" "length p + 12 \<le> max_string_length"
    and "save_model_weights True (api_model st) = Inr bs"
    and "fs p = Some Directory" "fs (p @ ''/vocab.txt'') = Some (RegularFile [])"
    "fs (p @ ''/merges.txt'') = Some (RegularFile [])" "fs (p @ ''/weights.bin'') = Some (RegularFile bs)"
  shows "\<exists>st' m1. initialize fs j p st = (Inr (), st') \<and> api_initialized st'
    \<and> load_tokenizer (Some []) (Some []) (api_model st) = Inr m1 \<and> tokenizer (api_model st') = tokenizer m1"
proof -
  let ?m = "api_model st"
  have i: "config ?m = default_config_f32" "wf_model ?m" using assms(1) by (simp_all add: api_inv_def)
  obtain m1 where t: "load_tokenizer (Some []) (Some []) ?m = Inr m1" using load_tokenizer_empty by blast
  have m1eq: "m1 = ?m\<lparr>tokenizer := tokenizer m1\<rparr>"
    using t by (auto simp: load_tokenizer_def split: sum.splits)
  then have m1: "config m1 = config ?m" "transformer_blocks m1 = transformer_blocks ?m"
    by (metis tl_model.select_convs(6) tl_model.surjective tl_model.update_convs(1),
        metis tl_model.select_convs(4) tl_model.surjective tl_model.update_convs(1))
  have "\<exists>m'. load_model_weights (Some bs) j m1 = Inr m'"
    using load_saved_model [OF assms(6) i(2), of m1 j] i m1
    by (simp add: codec_fits_def wf_model_def Let_def)
  then obtain m' where w: "load_model_weights (Some bs) j m1 = Inr m'" ..
  have "wf_model m1" using i(2) m1eq by (metis wf_model_tokenizer)
  moreover have "config m1 = default_config_f32" using i m1 by simp
  ultimately have "wf_model m1" "config m1 = default_config_f32" by simp_all
  then have tm: "tokenizer m' = tokenizer m1"
    using load_model_weights_wf [OF w] config_fits_default(2) by simp
  have v: "validate_directory_path fs p = Inr ()"
    using assms(3-5,7) by (simp add: validate_directory_path_def file_exists_def is_directory_def)
  have f: "validate_file_path fs (p @ ''/vocab.txt'') = Inr ()" "validate_file_path fs (p @ ''/merges.txt'') = Inr ()"
    "validate_file_path fs (p @ ''/weights.bin'') = Inr ()"
    using assms(4,5,8-10) by (auto intro!: validate_file_path_ok)
  have ft: "file_text fs (p @ ''/vocab.txt'') = Some []" "file_text fs (p @ ''/merges.txt'') = Some []"
    "file_bytes fs (p @ ''/weights.bin'') = Some bs"
    using assms(8-10) by (simp_all add: file_text_def file_bytes_def)
  have "initialize fs j p st = (Inr (), st\<lparr>api_model := m', api_initialized := True\<rparr>)"
    using v f ft t w assms(2) by (simp add: initialize_def initialize_with_config_def)
  then show ?thesis using t tm by fastforce
qed

text \<open>The directory \<open>initialize_in_dir\<close> asks for, at \<open>p\<close> and nowhere else.\<close>

lemma initialize_saved:
  assumes "api_inv st" "\<not> api_initialized st"
    and "p \<noteq> []" "CHR 0x00 \<notin> set p" "length p + 12 \<le> max_string_length"
  shows "\<exists>fs st' m1. initialize fs j p st = (Inr (), st') \<and> api_initialized st'
    \<and> load_tokenizer (Some []) (Some []) (api_model st) = Inr m1 \<and> tokenizer (api_model st') = tokenizer m1"
proof -
  obtain bs where bs: "save_model_weights True (api_model st) = Inr bs"
    by (simp add: save_model_weights_def Let_def)
  let ?fs = "\<lambda>q. if q = p then Some Directory
     else if q = p @ ''/vocab.txt'' \<or> q = p @ ''/merges.txt'' then Some (RegularFile [])
     else if q = p @ ''/weights.bin'' then Some (RegularFile bs) else None"
  have "\<exists>st' m1. initialize ?fs j p st = (Inr (), st') \<and> api_initialized st'
      \<and> load_tokenizer (Some []) (Some []) (api_model st) = Inr m1 \<and> tokenizer (api_model st') = tokenizer m1"
    by (rule initialize_in_dir [OF assms bs]) simp_all
  then show ?thesis by blast
qed

lemma empty_files_tokenizer:
  assumes "load_tokenizer (Some []) (Some []) m = Inr m1" "tokenizer m = tokenizer_new"
  shows "encode (tokenizer m1) ''hi'' = [0, 0] \<and> tokenizer_vocab_size (tokenizer m1) = 4"
  using assms
  by (auto simp: load_tokenizer_def load_vocab_def vocab_load_def load_merges_def tokenizer_new_def
      getlines_def merge_body_def encode_def vocab_after_load_def vocab_reset_def vocab_new_def
      add_token_def map_get0_def get_token_id_def unk_token_def pad_token_def bos_token_def
      eos_token_def preprocess_text_def preprocess_char_def split_to_words_def bpe_encode_def
      bpe_loop.simps best_pair_def adj_pairs_def tokenizer_vocab_size_def vocabulary_size_def
      split: sum.splits)


lemma ready_state_exists:
  "\<exists>st. api_reachable st \<and> api_initialized st \<and> encode (tokenizer (api_model st)) ''hi'' = [0, 0]
     \<and> tokenizer_vocab_size (tokenizer (api_model st)) = 4"
proof -
  obtain st where st: "tiny_llama_new (\<lambda>_. 0) (\<lambda>_. 0) = Inr st" "\<not> api_initialized st"
      "tokenizer (api_model st) = tokenizer_new"
    using tiny_llama_new_ok by blast
  have r: "api_reachable st" using st(1) by (rule api_init)
  obtain fs st' m1 where i: "initialize fs 0 ''model'' st = (Inr (), st')" "api_initialized st'"
    "load_tokenizer (Some []) (Some []) (api_model st) = Inr m1" "tokenizer (api_model st') = tokenizer m1"
    using initialize_saved [OF api_inv_new [OF st(1)] st(2), of "''model''" 0]
    by (auto simp: max_string_length_def)
  have "api_step fs 0 (Initialize ''model'') st = (Inr VUnit, st')" using i(1) by (simp add: rmap_def)
  then have "api_reachable st'" by (rule api_call [OF r])
  then show ?thesis using i empty_files_tokenizer [OF i(3) st(3)] by auto
qed

section \<open>Generation through the facade\<close>

lemma model_forward_error:
  assumes "wf_model m" "model_forward m toks = Inl e"
  shows "e = ModelError"
proof (cases "\<not> is_initialized m \<or> toks = [] \<or> max_sequence_length (config m) < length toks")
  case True
  then show ?thesis using assms(2) by (auto simp: model_forward_def cong: if_cong)
next
  case False
  show ?thesis
  proof (cases "\<forall>t\<in>set toks. 0 \<le> t \<and> t < int (vocab_size (config m))")
    case True
    have "toks \<noteq> []" "length toks \<le> max_sequence_length (config m)" "is_initialized m"
      using False by auto
    then obtain ls where "model_forward m toks = Inr ls"
      using model_forward_shape [OF assms(1)] True by blast
    then show ?thesis using assms(2) by simp
  next
    case nr: False
    then have "list_ex (\<lambda>t. t < 0 \<or> int (vocab_size (config m)) \<le> t) toks"
      by (auto simp: list_ex_iff not_le not_less)
    then have "embed_tokens m toks = Inl ModelError" by (simp add: embed_tokens_def)
    then show ?thesis using False assms(2) by (simp add: model_forward_def)
  qed
qed

lemma gen_loop_error: "wf_model m \<Longrightarrow> gen_loop m t k toks = Inl e \<Longrightarrow> e = ModelError"
proof (induction k arbitrary: toks)
  case (Suc k)
  then show ?case
    by (auto simp: rbind_eq_Inl sample_token_def dest: model_forward_error split: if_splits)
qed simp

lemma generate_text_error: "wf_model m \<Longrightarrow> generate_text m p n t = Inl e \<Longrightarrow> e = ModelError"
  by (auto simp: generate_text_def model_tokenize_def model_detokenize_def Let_def rbind_eq_Inl
      dest: gen_loop_error split: if_splits)

lemma model_forward_temperature: "model_forward (m\<lparr>temperature := x\<rparr>) toks = model_forward m toks"
  by (simp add: model_forward_def embed_tokens_def is_initialized_def)

lemma gen_loop_temperature: "0 < t \<Longrightarrow> gen_loop (m\<lparr>temperature := x\<rparr>) t k toks = gen_loop m t k toks"
  by (induction k arbitrary: toks) (simp_all add: model_forward_temperature model_softmax_def cong: if_cong)

lemma generate_text_temperature:
  "generate_text (m\<lparr>temperature := x\<rparr>) p n 1 = generate_text m p n 1"
  by (simp add: generate_text_def gen_loop_temperature is_initialized_def model_tokenize_def
      model_detokenize_def Let_def cong: if_cong)

section \<open>Validation\<close>

lemma f32_literals:
  "f32_decode float_0_01 = F32Finite (10737418 / 2 ^ 30)" "f32_decode float_1000 = F32Finite 1000"
  by (simp_all add: f32_decode_def float_0_01_def float_1000_def)

lemma validate_string_input_cases: "validate_string_input s b = Inr () \<or> validate_string_input s b = Inl ConfigurationError"
  by (simp add: validate_string_input_def)

lemma validate_positive_integer_cases:
  "validate_positive_integer v mn = Inr () \<or> validate_positive_integer v mn = Inl ConfigurationError"
  by (simp add: validate_positive_integer_def)

lemma real_model_state:
  assumes "api_inv st"
  shows "wf_model (real_model (api_model st)) \<and> is_initialized (real_model (api_model st))
    \<and> max_sequence_length (config (real_model (api_model st))) = 1024
    \<and> vocab_size (config (real_model (api_model st))) = 32000
    \<and> tokenizer (real_model (api_model st)) = tokenizer (api_model st)"
  using assms by (simp add: api_inv_def wf_model_map is_initialized_map)

section \<open>Properties of the facade\<close>

text \<open>Claim C20: every state a \<open>TinyLlama\<close> object can reach, from its constructor
  through any sequence of API calls against any files, keeps the default
  configuration, tables and layers of exactly the configured shapes, and a
  non-empty vocabulary.\<close>

theorem api_reachable_wf:
  assumes "api_reachable st"
  shows "config (api_model st) = default_config_f32 \<and> wf_model (api_model st) \<and> is_initialized (api_model st)"
  using api_reachable_inv [OF assms] by (simp add: api_inv_def)

theorem api_reachable_wf_witness:
  "\<exists>st. tiny_llama_new (\<lambda>_. 0) (\<lambda>_. 0) = Inr st \<and> api_reachable st
     \<and> config (api_model st) = default_config_f32 \<and> wf_model (api_model st) \<and> is_initialized (api_model st)"
proof -
  obtain st where st: "tiny_llama_new (\<lambda>_. 0) (\<lambda>_. 0) = Inr st" using tiny_llama_new_ok by blast
  have r: "api_reachable st" using st by (rule api_init)
  show ?thesis using st r api_reachable_wf [OF r] by blast
qed

text \<open>Claim C23: initialisation can always succeed: from every reachable state that is
  not yet initialised, \<open>initialize(path)\<close> on a valid path succeeds against
  every file system in which \<open>path\<close> is a directory holding an empty
  \<open>vocab.txt\<close>, an empty \<open>merges.txt\<close> and as \<open>weights.bin\<close> the bytes
  \<open>save_model_weights\<close> writes for the current model; the result is initialised
  and reachable.\<close>

theorem initialize_progress:
  assumes "api_reachable st" "\<not> api_initialized st"
    and "p \<noteq> []" "CHR 0x00 \<notin> set p" "length p + 12 \<le> max_string_length"
    and "save_model_weights True (api_model st) = Inr bs"
    and "fs p = Some Directory" "fs (p @ ''/vocab.txt'') = Some (RegularFile [])"
    "fs (p @ ''/merges.txt'') = Some (RegularFile [])" "fs (p @ ''/weights.bin'') = Some (RegularFile bs)"
  shows "\<exists>st'. initialize fs j p st = (Inr (), st') \<and> api_initialized st' \<and> api_reachable st'"
proof -
  obtain st' where i: "initialize fs j p st = (Inr (), st')" "api_initialized st'"
    using initialize_in_dir [OF api_reachable_inv [OF assms(1)] assms(2-10)] by blast
  have "api_step fs j (Initialize p) st = (Inr VUnit, st')" using i(1) by (simp add: rmap_def)
  then have "api_reachable st'" by (rule api_call [OF assms(1)])
  then show ?thesis using i by blast
qed

theorem initialize_progress_witness:
  "\<exists>st bs. api_reachable st \<and> \<not> api_initialized st \<and> ''model'' \<noteq> [] \<and> CHR 0x00 \<notin> set ''model''
     \<and> length ''model'' + 12 \<le> max_string_length \<and> save_model_weights True (api_model st) = Inr bs
     \<and> (\<exists>st'. initialize (\<lambda>q. if q = ''model'' then Some Directory
              else if q = ''model/vocab.txt'' \<or> q = ''model/merges.txt'' then Some (RegularFile [])
              else if q = ''model/weights.bin'' then Some (RegularFile bs) else None) 0 ''model'' st = (Inr (), st')
          \<and> api_initialized st' \<and> api_reachable st')"
proof -
  obtain st where st: "tiny_llama_new (\<lambda>_. 0) (\<lambda>_. 0) = Inr st" "\<not> api_initialized st"
    using tiny_llama_new_ok by blast
  have r: "api_reachable st" using st(1) by (rule api_init)
  obtain bs where bs: "save_model_weights True (api_model st) = Inr bs"
    by (simp add: save_model_weights_def Let_def)
  let ?fs = "\<lambda>q. if q = ''model'' then Some Directory
              else if q = ''model/vocab.txt'' \<or> q = ''model/merges.txt'' then Some (RegularFile [])
              else if q = ''model/weights.bin'' then Some (RegularFile bs) else None"
  have c: "''model'' \<noteq> []" "CHR 0x00 \<notin> set ''model''" "length ''model'' + 12 \<le> max_string_length"
    by (simp_all add: max_string_length_def)
  have f: "?fs ''model'' = Some Directory" "?fs (''model'' @ ''/vocab.txt'') = Some (RegularFile [])"
    "?fs (''model'' @ ''/merges.txt'') = Some (RegularFile [])"
    "?fs (''model'' @ ''/weights.bin'') = Some (RegularFile bs)"
    by simp_all
  show ?thesis using initialize_progress [OF r st(2) c bs f, of 0] r st(2) c bs by auto
qed

text \<open>Claim C21: initialisation is final: on an initialised object every call leaves
  it initialised and changes its model at most in the stored temperature; a
  second \<open>initialize\<close> or \<open>initialize_with_config\<close> fails and changes nothing.\<close>

theorem ready_is_final:
  assumes "api_initialized st" "api_step fs j c st = (r, st')"
  shows "api_initialized st' \<and> api_model st' = (api_model st)\<lparr>temperature := temperature (api_model st')\<rparr>
    \<and> (is_init_call c \<longrightarrow> st' = st \<and> r \<noteq> Inr VUnit)"
proof (cases c)
  case (Initialize p)
  then show ?thesis using assms
    by (auto simp: initialize_def rmap_def split: sum.splits)
next
  case (InitializeWithConfig a b d)
  then show ?thesis using assms
    by (auto simp: initialize_with_config_def rmap_def split: sum.splits)
next
  case (SetTemperature t)
  then show ?thesis using assms
    by (auto simp: set_temperature_def split: sum.splits)
qed (use assms in auto)

theorem ready_is_final_witness:
  "\<exists>st st'. tiny_llama_new (\<lambda>_. 0) (\<lambda>_. 0) = Inr st
     \<and> api_step (\<lambda>_. None) 0 (Initialize ''model'') (st\<lparr>api_initialized := True\<rparr>) = (Inl FileIOError, st')
     \<and> api_initialized st' \<and> api_model st' = (api_model st)\<lparr>temperature := temperature (api_model st')\<rparr>
     \<and> st' = st\<lparr>api_initialized := True\<rparr>"
proof -
  obtain st where st: "tiny_llama_new (\<lambda>_. 0) (\<lambda>_. 0) = Inr st" using tiny_llama_new_ok by blast
  let ?s = "st\<lparr>api_initialized := True\<rparr>"
  have e: "api_step (\<lambda>_. None) 0 (Initialize ''model'') ?s = (Inl FileIOError, ?s)"
    by (simp add: initialize_def validate_directory_path_def file_exists_def rmap_def)
  have "api_initialized ?s \<and> api_model ?s = (api_model st)\<lparr>temperature := temperature (api_model ?s)\<rparr>
    \<and> (is_init_call (Initialize ''model'') \<longrightarrow> ?s = ?s \<and> Inl FileIOError \<noteq> Inr VUnit)"
    using ready_is_final [OF _ e] by simp
  then show ?thesis using st e by auto
qed




text \<open>Claim C25: on an initialised object, \<open>generate(prompt, max_tokens)\<close> throws a
  \<open>ConfigurationException\<close> exactly when the prompt is empty, holds a NUL or is
  too long, or \<open>max_tokens\<close> lies outside \<open>[1, 1024]\<close>: the configured
  \<open>max_sequence_length = 1024\<close> is the binding bound, so the
  \<open>MAX_GENERATION_TOKENS = 10000\<close> check never decides; every other failure is
  a \<open>ModelException\<close>. This contradicts \<open>src/tests/test_tiny_llama_api.cpp\<close>
  (lines 396 to 412), which expects a \<open>ModelException\<close> for an empty prompt and
  for \<open>max_tokens\<close> 0 and -1: the code validates these before generating and
  throws \<open>ConfigurationException\<close>.\<close>

theorem generate_config_errors:
  assumes "api_reachable st" "api_initialized st"
  shows "(generate prompt n st = Inl ConfigurationError \<longleftrightarrow>
      validate_string_input prompt False \<noteq> Inr () \<or> n < 1 \<or> 1024 < n)
    \<and> (generate prompt n st = Inl e \<longrightarrow> e = ConfigurationError \<or> e = ModelError)"
proof -
  have i: "api_inv st" using api_reachable_inv [OF assms(1)] .
  note rm = real_model_state [OF i]
  have c: "max_sequence_length (config (api_model st)) = 1024" using i by (simp add: api_inv_def)
  have g: "generate_text (real_model (api_model st)) prompt n 1 \<noteq> Inl ConfigurationError"
    using generate_text_error [OF conjunct1 [OF rm]] by blast
  have r: "rethrow_as ModelError (generate_text (real_model (api_model st)) prompt n 1) \<noteq> Inl ConfigurationError"
    using g by (auto simp: rethrow_as_def split: sum.splits error.splits)
  have m: "rethrow_as ModelError (generate_text (real_model (api_model st)) prompt n 1) = Inl e' \<Longrightarrow> e' = ModelError"
    for e'
    using generate_text_error [OF conjunct1 [OF rm]]
    by (auto simp: rethrow_as_def split: sum.splits error.splits)
  show ?thesis
  proof (cases "validate_string_input prompt False = Inr ()")
    case True
    then show ?thesis using assms(2) c r m validate_positive_integer_cases [of n 1]
      by (auto simp: generate_def validate_positive_integer_def)
  next
    case False
    then show ?thesis using assms(2) validate_string_input_cases [of prompt False]
      by (auto simp: generate_def)
  qed
qed

theorem generate_config_errors_witness:
  "\<exists>st. api_reachable st \<and> api_initialized st
     \<and> generate ''hi'' 1025 st = Inl ConfigurationError \<and> generate ''hi'' 5 st \<noteq> Inl ConfigurationError"
proof -
  obtain st where st: "api_reachable st" "api_initialized st" using ready_state_exists by blast
  have v: "validate_string_input ''hi'' False = Inr ()" by (simp add: validate_string_input_def max_string_length_def)
  show ?thesis
    using st generate_config_errors [OF st, of "''hi''" 1025 ConfigurationError]
      generate_config_errors [OF st, of "''hi''" 5 ConfigurationError] v
    by auto
qed

text \<open>Claim C24: on an initialised object, \<open>generate\<close> returns for every valid prompt
  and every \<open>max_tokens\<close> in \<open>[1, 1024]\<close> whose tokens the loaded vocabulary
  numbers below \<open>vocab_size = 32000\<close>; the text returned starts with the prompt.\<close>

theorem generate_succeeds:
  assumes "api_reachable st" "api_initialized st" "validate_string_input prompt False = Inr ()"
    and "1 \<le> n" "n \<le> 1024"
    and "\<forall>t\<in>set (encode (tokenizer (api_model st)) prompt). 0 \<le> t \<and> t < 32000"
  shows "\<exists>s. generate prompt n st = Inr (prompt @ s)"
proof -
  have i: "api_inv st" using api_reachable_inv [OF assms(1)] .
  note rm = real_model_state [OF i]
  have p: "prompt \<noteq> []" using assms(3) by (auto simp: validate_string_input_def)
  obtain s where s: "generate_text (real_model (api_model st)) prompt n 1 = Inr (prompt @ s)"
    using generate_text_ok [of "real_model (api_model st)" n prompt 1] rm assms(4,6) p by auto
  have c: "max_sequence_length (config (api_model st)) = 1024" using i by (simp add: api_inv_def)
  show ?thesis using assms(2-5) s c by (simp add: generate_def validate_positive_integer_def rethrow_as_def)
qed

theorem generate_succeeds_witness:
  "\<exists>st. api_reachable st \<and> api_initialized st \<and> encode (tokenizer (api_model st)) ''hi'' = [0, 0]
     \<and> (\<exists>s. generate ''hi'' 5 st = Inr (''hi'' @ s))"
proof -
  obtain st where st: "api_reachable st" "api_initialized st" "encode (tokenizer (api_model st)) ''hi'' = [0, 0]"
    using ready_state_exists by blast
  have v: "validate_string_input ''hi'' False = Inr ()" by (simp add: validate_string_input_def max_string_length_def)
  have "\<exists>s. generate ''hi'' 5 st = Inr (''hi'' @ s)" using generate_succeeds [OF st(1,2) v, of 5] st(3) by simp
  then show ?thesis using st by blast
qed

text \<open>Claim C26: \<open>set_temperature(t)\<close> accepts exactly the finite floats from
  \<open>0.01f\<close> (the float \<open>10737418 / 2 ^ 30\<close>) to \<open>1000.0f\<close>, storing them; NaN,
  the infinities and every other value are a \<open>ConfigurationException\<close> and leave the
  object unchanged. Yet the setting, documented as the generation temperature,
  has no effect on what \<open>generate\<close> returns: \<open>generate\<close> calls
  \<open>generate_text\<close> with its default temperature \<open>1.0f\<close>, so the stored
  temperature is never read.\<close>

theorem temperature_semantics:
  "set_temperature t st =
     (if \<exists>x. f32_decode t = F32Finite x \<and> 10737418 / 2 ^ 30 \<le> x \<and> x \<le> 1000
      then (Inr (), st\<lparr>api_model := (api_model st)\<lparr>temperature := t\<rparr>\<rparr>)
      else (Inl ConfigurationError, st))
   \<and> generate prompt n (snd (set_temperature t st)) = generate prompt n st"
proof
  show "set_temperature t st =
     (if \<exists>x. f32_decode t = F32Finite x \<and> 10737418 / 2 ^ 30 \<le> x \<and> x \<le> 1000
      then (Inr (), st\<lparr>api_model := (api_model st)\<lparr>temperature := t\<rparr>\<rparr>)
      else (Inl ConfigurationError, st))"
    by (cases "f32_decode t")
       (auto simp: set_temperature_def validate_positive_float_def f32_literals not_less)
  show "generate prompt n (snd (set_temperature t st)) = generate prompt n st"
    by (simp add: set_temperature_def generate_def generate_text_temperature split: sum.splits)
qed

text \<open>Claim C27: \<open>get_vocab_size()\<close> of an initialised object is the configured
  \<open>vocab_size\<close> \<open>32000\<close>, whatever vocabulary was loaded.\<close>

theorem get_vocab_size_config:
  assumes "api_reachable st" "api_initialized st"
  shows "get_vocab_size st = Inr 32000"
  using api_reachable_inv [OF assms(1)] assms(2)
  by (simp add: get_vocab_size_def api_inv_def model_get_vocab_size_def rethrow_as_def)

theorem get_vocab_size_config_witness:
  "\<exists>st. api_reachable st \<and> api_initialized st \<and> tokenizer_vocab_size (tokenizer (api_model st)) \<noteq> 32000
     \<and> get_vocab_size st = Inr 32000"
proof -
  obtain st where st: "api_reachable st" "api_initialized st" "tokenizer_vocab_size (tokenizer (api_model st)) = 4"
    using ready_state_exists by blast
  show ?thesis using get_vocab_size_config [OF st(1,2)] st by auto
qed

end
