(* ===== verification/Layer_Files.thy ===== *)
theory Layer_Files
  imports Facade
begin

text \<open>
  The per-component weight files: \<open>MultiHeadAttention::load_weights\<close>
  (\<open>src/unnamed/part_008\<close>), \<open>FeedForwardNetwork::load_weights\<close> and
  \<open>TransformerBlock::load_weights\<close> (\<open>src/src/tiny_llama.cpp\<close>). Each mutates
  its object member by member and may throw after some members were replaced,
  so each is modelled as the pair of its outcome and the object it leaves
  behind, normal return or exception. \<open>Matrix::load_from_file\<close> is restated in
  the same style (\<open>matrix_load_st\<close>) and agrees with \<open>matrix_load\<close> on the
  outcome.
\<close>

section \<open>Matrix files, with the state an exception leaves\<close>

text \<open>\<open>Matrix::load_from_file\<close>: the matrix is unchanged when the file cannot be
  opened or the dimensions cannot be read; otherwise it is resized and its buffer
  overwritten by what the payload read delivers, also when that read fails.\<close>

definition matrix_load_st :: "byte list option \<Rightarrow> nat \<Rightarrow> 32 word matrix \<Rightarrow> unit result \<times> 32 word matrix" where
  "matrix_load_st f j m =
     (case f of None \<Rightarrow> (Inl FileIOError, m)
      | Some bs \<Rightarrow>
          (let (rows, s1) = read_size (instream bs j);
               (cols, s2) = read_size s1
           in if \<not> s_good s2 then (Inl FileIOError, m)
              else let m' = matrix_resize m rows cols;
                       (d, s3) = read_floats (size_mul (length (m_data m')) 4) (m_data m') s2
                   in (if \<not> s_good s3 then Inl FileIOError else Inr (), m'\<lparr>m_data := d\<rparr>)))"

section \<open>MultiHeadAttention::load_weights\<close>

text \<open>The four matrices from \<open>file.query\<close>, \<open>.key\<close>, \<open>.value\<close> and \<open>.output\<close>,
  each stored as soon as it is read; then the four shapes are checked against
  \<open>model_dim\<close>. Every exception is rethrown as a \<open>FileIOException\<close>.\<close>

definition mha_load_weights :: "file_system \<Rightarrow> nat \<Rightarrow> string \<Rightarrow> 32 word mha \<Rightarrow> unit result \<times> 32 word mha" where
  "mha_load_weights fs j p a =
     (let (rq, q) = matrix_load_st (file_bytes fs (p @ ''.query'')) j (query_weights a);
          a1 = a\<lparr>query_weights := q\<rparr>
      in if rq \<noteq> Inr () then (Inl FileIOError, a1)
      else let (rk, k) = matrix_load_st (file_bytes fs (p @ ''.key'')) j (key_weights a1);
               a2 = a1\<lparr>key_weights := k\<rparr>
      in if rk \<noteq> Inr () then (Inl FileIOError, a2)
      else let (rv, v) = matrix_load_st (file_bytes fs (p @ ''.value'')) j (value_weights a2);
               a3 = a2\<lparr>value_weights := v\<rparr>
      in if rv \<noteq> Inr () then (Inl FileIOError, a3)
      else let (ro, ow) = matrix_load_st (file_bytes fs (p @ ''.output'')) j (output_weights a3);
               a4 = a3\<lparr>output_weights := ow\<rparr>; md = mha_model_dim a4
      in if ro \<noteq> Inr () then (Inl FileIOError, a4)
      else if m_rows (query_weights a4) \<noteq> md \<or> m_cols (query_weights a4) \<noteq> md
           \<or> m_rows (key_weights a4) \<noteq> md \<or> m_cols (key_weights a4) \<noteq> md
           \<or> m_rows (value_weights a4) \<noteq> md \<or> m_cols (value_weights a4) \<noteq> md
           \<or> m_rows (output_weights a4) \<noteq> md \<or> m_cols (output_weights a4) \<noteq> md
      then (Inl FileIOError, a4)
      else (Inr (), a4))"

section \<open>FeedForwardNetwork::load_weights\<close>

text \<open>A \<open>size_t\<close> read into a local that already holds \<open>old\<close>: the bytes read
  overwrite its low end (the second matrix of the file reuses \<open>rows\<close> and
  \<open>cols\<close>).\<close>

definition read_size_into :: "nat \<Rightarrow> istream \<Rightarrow> nat \<times> istream" where
  "read_size_into old s =
     (let (bs, s') = read_bytes 8 s in (le_val (bs @ drop (length bs) (le_bytes 8 old)), s'))"

text \<open>One file: \<open>[model_dim, hidden]\<close> weights, the \<open>hidden\<close> bias,
  \<open>[hidden, model_dim]\<close> weights, the \<open>model_dim\<close> bias, each size checked
  before its payload is read into the resized member; the stream is never
  checked after a payload read.\<close>

definition ffn_load_weights :: "file_system \<Rightarrow> nat \<Rightarrow> string \<Rightarrow> 32 word ffn \<Rightarrow> unit result \<times> 32 word ffn" where
  "ffn_load_weights fs j p f =
     (case file_bytes fs p of
        None \<Rightarrow> (Inl FileIOError, f)
      | Some bs \<Rightarrow>
          (let md = ffn_model_dim f; hd = hidden_dim f;
               (rows, s1) = read_size (instream bs j); (cols, s2) = read_size s1
           in if rows \<noteq> md \<or> cols \<noteq> hd then (Inl FileIOError, f)
           else let w1 = matrix_resize (linear1_weights f) rows cols;
                    (d1, s3) = read_floats (size_mul (size_mul rows cols) 4) (m_data w1) s2;
                    f1 = f\<lparr>linear1_weights := w1\<lparr>m_data := d1\<rparr>\<rparr>;
                    (n1, s4) = read_size s3
           in if n1 \<noteq> hd then (Inl FileIOError, f1)
           else let (b1, s5) = read_floats (size_mul n1 4) (vec_resize (linear1_bias f1) n1) s4;
                    f2 = f1\<lparr>linear1_bias := b1\<rparr>;
                    (rows2, s6) = read_size_into rows s5; (cols2, s7) = read_size_into cols s6
           in if rows2 \<noteq> hd \<or> cols2 \<noteq> md then (Inl FileIOError, f2)
           else let w2 = matrix_resize (linear2_weights f2) rows2 cols2;
                    (d2, s8) = read_floats (size_mul (size_mul rows2 cols2) 4) (m_data w2) s7;
                    f3 = f2\<lparr>linear2_weights := w2\<lparr>m_data := d2\<rparr>\<rparr>;
                    (n2, s9) = read_size s8
           in if n2 \<noteq> md then (Inl FileIOError, f3)
           else let (b2, s10) = read_floats (size_mul n2 4) (vec_resize (linear2_bias f3) n2) s9
           in (Inr (), f3\<lparr>linear2_bias := b2\<rparr>)))"

section \<open>TransformerBlock::load_weights\<close>

text \<open>A layer-norm vector of the \<open>.layernorm\<close> file: its \<open>size_t\<close> length must be
  \<open>model_dim\<close>, then the member is resized and read.\<close>

definition ln_vector :: "nat \<Rightarrow> 32 word list \<Rightarrow> istream \<Rightarrow> (32 word list \<times> istream) result" where
  "ln_vector md v s =
     (let (n, s1) = read_size s
      in if n \<noteq> md then Inl FileIOError
         else Inr (read_floats (size_mul n 4) (vec_resize v n) s1))"

text \<open>The attention engine from \<open>file.attention\<close>, the network from
  \<open>file.ffn\<close>, then the four layer-norm vectors from \<open>file.layernorm\<close>. Every
  exception is rethrown as a \<open>FileIOException\<close>; what was loaded before it
  stays in the block.\<close>

definition block_load_weights :: "file_system \<Rightarrow> nat \<Rightarrow> string \<Rightarrow> 32 word block \<Rightarrow> unit result \<times> 32 word block" where
  "block_load_weights fs j p b =
     (let (ra, a) = mha_load_weights fs j (p @ ''.attention'') (attention b); b1 = b\<lparr>attention := a\<rparr>
      in if ra \<noteq> Inr () then (Inl FileIOError, b1)
      else let (rf, f) = ffn_load_weights fs j (p @ ''.ffn'') (feed_forward b1); b2 = b1\<lparr>feed_forward := f\<rparr>
      in if rf \<noteq> Inr () then (Inl FileIOError, b2)
      else case file_bytes fs (p @ ''.layernorm'') of
        None \<Rightarrow> (Inl FileIOError, b2)
      | Some bs \<Rightarrow>
          (let md = block_model_dim b2
           in case ln_vector md (layer_norm1_weight b2) (instream bs j) of
                Inl e \<Rightarrow> (Inl FileIOError, b2)
              | Inr (w1, s1) \<Rightarrow>
                  let b3 = b2\<lparr>layer_norm1_weight := w1\<rparr>
                  in case ln_vector md (layer_norm1_bias b3) s1 of
                    Inl e \<Rightarrow> (Inl FileIOError, b3)
                  | Inr (c1, s2) \<Rightarrow>
                      let b4 = b3\<lparr>layer_norm1_bias := c1\<rparr>
                      in case ln_vector md (layer_norm2_weight b4) s2 of
                        Inl e \<Rightarrow> (Inl FileIOError, b4)
                      | Inr (w2, s3) \<Rightarrow>
                          let b5 = b4\<lparr>layer_norm2_weight := w2\<rparr>
                          in case ln_vector md (layer_norm2_bias b5) s3 of
                            Inl e \<Rightarrow> (Inl FileIOError, b5)
                          | Inr (c2, s4) \<Rightarrow> (Inr (), b5\<lparr>layer_norm2_bias := c2\<rparr>)))"

section \<open>Files holding matrices\<close>

text \<open>A matrix of the given shape, and a file holding the bytes
  \<open>Matrix::save_to_file\<close> writes for a matrix.\<close>

definition sized :: "nat \<Rightarrow> nat \<Rightarrow> 'a matrix \<Rightarrow> bool" where
  "sized r c m \<longleftrightarrow> wf_matrix m \<and> m_rows m = r \<and> m_cols m = c"

definition saved_as :: "file_system \<Rightarrow> string \<Rightarrow> 32 word matrix \<Rightarrow> bool" where
  "saved_as fs p m \<longleftrightarrow> (case matrix_save True m of Inr bs \<Rightarrow> file_bytes fs p = Some bs | Inl e \<Rightarrow> False)"

section \<open>Properties of the component loaders\<close>

lemma matrix_load_st_agrees:
  "matrix_load f j m = (case matrix_load_st f j m of (r, m') \<Rightarrow> rbind r (\<lambda>_. Inr m'))"
  by (simp add: matrix_load_def matrix_load_st_def split_def Let_def split: option.splits)

lemma matrix_load_st_saved:
  assumes "saved_as fs p m" "sized r c m" "r < 2 ^ 31" "c < 2 ^ 31"
  shows "matrix_load_st (file_bytes fs p) j old = (Inr (), m)"
proof -
  have w: "wf_matrix m" "m_rows m = r" "m_cols m = c" using assms(2) by (simp_all add: sized_def)
  have b: "m_rows m < size_t_limit" "m_cols m < size_t_limit" "4 * length (m_data m) < size_t_limit"
    using w assms(3,4) size_limit_4 [OF assms(3,4)] by (simp_all add: size_t_limit_def wf_matrix_def)
  have f: "file_bytes fs p = Some (le_bytes 8 (m_rows m) @ le_bytes 8 (m_cols m) @ floats_bytes (m_data m))"
    using assms(1) by (simp add: saved_as_def matrix_save_def)
  have "matrix_load (file_bytes fs p) j old = Inr m" using load_matrix_good [OF w(1) b] f by simp
  then show ?thesis
    by (cases "matrix_load_st (file_bytes fs p) j old") (auto simp: matrix_load_st_agrees rbind_eq_Inr)
qed

lemma mha_load_saved_files:
  assumes "saved_as fs (p @ ''.query'') q" "saved_as fs (p @ ''.key'') k"
    "saved_as fs (p @ ''.value'') v" "saved_as fs (p @ ''.output'') ow"
    and "sized md md q" "sized md md k" "sized md md v" "sized md md ow"
    and "md = mha_model_dim a" "md < 2 ^ 31"
  shows "mha_load_weights fs j p a = (Inr (), a\<lparr>query_weights := q, key_weights := k, value_weights := v,
    output_weights := ow\<rparr>)"
  using matrix_load_st_saved [OF assms(1,5) assms(10,10)] matrix_load_st_saved [OF assms(2,6) assms(10,10)]
    matrix_load_st_saved [OF assms(3,7) assms(10,10)] matrix_load_st_saved [OF assms(4,8) assms(10,10)]
    assms(5-9)
  by (simp add: mha_load_weights_def sized_def)

lemma read_size_into_good:
  "v < size_t_limit \<Longrightarrow> read_size_into old (instream (le_bytes 8 v @ rest) j) = (v, instream rest j)"
  by (simp add: read_size_into_def read_bytes_good size_t_limit_def)

lemma read_table_good:
  assumes "sized r c w" "r < 2 ^ 31" "c < 2 ^ 31" "length buf = r * c"
  shows "read_floats (size_mul (size_mul r c) 4) buf (instream (floats_bytes (m_data w) @ rest) j)
    = (m_data w, instream rest j)"
proof -
  have "4 * (r * c) < size_t_limit" using size_limit_4 [OF assms(2,3)] .
  then show ?thesis using assms(1,4) by (intro read_floats_good') (simp_all add: sized_def wf_matrix_def mult.commute)
qed

lemma read_vector_good:
  assumes "length b = n" "n < 2 ^ 31" "length buf = n"
  shows "read_floats (size_mul n 4) buf (instream (floats_bytes b @ rest) j) = (b, instream rest j)"
  using size_limit_1 [OF assms(2)] assms(1,3) by (intro read_floats_good') (simp_all add: mult.commute)

lemma resize_length: "r * c < size_t_limit \<Longrightarrow> length (m_data (matrix_resize m r c)) = r * c"
  by (simp add: matrix_resize_def)

text \<open>Claim C29: \<open>FeedForwardNetwork::load_weights\<close> reads the layout its file is
  meant to have: the \<open>[model_dim, hidden]\<close> weights with their dimensions, the
  \<open>hidden\<close> bias with its length, the \<open>[hidden, model_dim]\<close> weights and the
  \<open>model_dim\<close> bias; on such a file it returns normally with exactly those four
  members.\<close>

theorem ffn_load_layout:
  assumes "file_bytes fs p = Some (le_bytes 8 md @ le_bytes 8 hdim @ floats_bytes (m_data w1)
      @ le_bytes 8 hdim @ floats_bytes b1 @ le_bytes 8 hdim @ le_bytes 8 md @ floats_bytes (m_data w2)
      @ le_bytes 8 md @ floats_bytes b2)"
    and "sized md hdim w1" "sized hdim md w2" "length b1 = hdim" "length b2 = md"
    and "md = ffn_model_dim f" "hdim = hidden_dim f" "md < 2 ^ 31" "hdim < 2 ^ 31"
  shows "ffn_load_weights fs j p f = (Inr (), f\<lparr>linear1_weights := w1, linear1_bias := b1,
    linear2_weights := w2, linear2_bias := b2\<rparr>)"
proof -
  have l: "md < size_t_limit" "hdim < size_t_limit" "md * hdim < size_t_limit" "hdim * md < size_t_limit"
    using assms(8,9) size_limit_4 [OF assms(8,9)] size_limit_4 [OF assms(9,8)] by (simp_all add: size_t_limit_def mult.commute)
  have w: "matrix_resize (linear1_weights f) md hdim\<lparr>m_data := m_data w1\<rparr> = w1"
    "matrix_resize (linear2_weights f) hdim md\<lparr>m_data := m_data w2\<rparr> = w2"
    using assms(2,3) by (simp_all add: matrix_resize_def sized_def)
  have r1: "read_floats (size_mul (md * hdim) 4) (m_data (matrix_resize (linear1_weights f) md hdim))
      (instream (floats_bytes (m_data w1) @ rest) j) = (m_data w1, instream rest j)" for rest
    using read_table_good [OF assms(2,8,9) resize_length [OF l(3)]] l(3) by simp
  have r2: "read_floats (size_mul (hdim * md) 4) (m_data (matrix_resize (linear2_weights f) hdim md))
      (instream (floats_bytes (m_data w2) @ rest) j) = (m_data w2, instream rest j)" for rest
    using read_table_good [OF assms(3,9,8) resize_length [OF l(4)]] l(4) by simp
  note v1 = read_vector_good [OF assms(4,9) length_vec_resize]
  note v2 = read_vector_good [OF assms(5,8) length_vec_resize, where rest = "[]", simplified]
  show ?thesis
    using assms(1) l w
    by (simp add: assms(6,7) [symmetric] ffn_load_weights_def read_size_good read_size_into_good r1 r2 v1 v2 split_def Let_def)
qed

theorem ffn_load_layout_witness:
  "ffn_load_weights (\<lambda>_. Some (RegularFile (le_bytes 8 1 @ le_bytes 8 1 @ floats_bytes [5]
      @ le_bytes 8 1 @ floats_bytes [6] @ le_bytes 8 1 @ le_bytes 8 1 @ floats_bytes [7]
      @ le_bytes 8 1 @ floats_bytes [8]))) 0 ''w.ffn'' (ffn_new 1 1)
   = (Inr (), (ffn_new 1 1)\<lparr>linear1_weights := \<lparr>m_data = [5], m_rows = 1, m_cols = 1\<rparr>, linear1_bias := [6],
       linear2_weights := \<lparr>m_data = [7], m_rows = 1, m_cols = 1\<rparr>, linear2_bias := [8]\<rparr>)"
  apply (rule ffn_load_layout)
  apply (simp_all add: file_bytes_def sized_def wf_matrix_def size_t_limit_def ffn_new_def)
  apply linarith+
  done

text \<open>Claim C30: \<open>TransformerBlock::load_weights\<close> is not atomic: when the four
  attention files hold valid \<open>[model_dim, model_dim]\<close> matrices and the \<open>.ffn\<close>
  file is missing, the call throws a \<open>FileIOException\<close> but the block keeps the
  newly loaded attention matrices.\<close>

theorem block_load_partial:
  assumes "saved_as fs (p @ ''.attention.query'') q" "saved_as fs (p @ ''.attention.key'') k"
    "saved_as fs (p @ ''.attention.value'') v" "saved_as fs (p @ ''.attention.output'') ow"
    and "sized md md q" "sized md md k" "sized md md v" "sized md md ow"
    and "md = mha_model_dim (attention b)" "md < 2 ^ 31" "file_bytes fs (p @ ''.ffn'') = None"
  shows "block_load_weights fs j p b = (Inl FileIOError, b\<lparr>attention := (attention b)\<lparr>query_weights := q,
    key_weights := k, value_weights := v, output_weights := ow\<rparr>\<rparr>)"
proof -
  have "mha_load_weights fs j (p @ ''.attention'') (attention b) = (Inr (), (attention b)\<lparr>query_weights := q,
    key_weights := k, value_weights := v, output_weights := ow\<rparr>)"
    by (rule mha_load_saved_files) (use assms in simp_all)
  then show ?thesis using assms(11) by (simp add: block_load_weights_def ffn_load_weights_def)
qed

theorem block_load_partial_witness:
  "let z = \<lparr>m_data = [0], m_rows = 1, m_cols = 1\<rparr> :: 32 word matrix;
       w = \<lparr>m_data = [5], m_rows = 1, m_cols = 1\<rparr> :: 32 word matrix;
       b = \<lparr>attention = \<lparr>query_weights = z, key_weights = z, value_weights = z, output_weights = z,
              num_heads = 1, head_dim = 1, mha_model_dim = 1\<rparr>,
            feed_forward = ffn_new 1 1, layer_norm1_weight = [1], layer_norm1_bias = [0],
            layer_norm2_weight = [1], layer_norm2_bias = [0], block_model_dim = 1\<rparr>;
       fs = (\<lambda>x. if x = ''w.attention.query'' \<or> x = ''w.attention.key'' \<or> x = ''w.attention.value''
                  \<or> x = ''w.attention.output''
               then Some (RegularFile (le_bytes 8 1 @ le_bytes 8 1 @ floats_bytes [5])) else None)
   in block_load_weights fs 0 ''w'' b = (Inl FileIOError, b\<lparr>attention := (attention b)\<lparr>query_weights := w,
        key_weights := w, value_weights := w, output_weights := w\<rparr>\<rparr>)"
  unfolding Let_def
  apply (rule block_load_partial)
  apply (simp_all add: saved_as_def matrix_save_def file_bytes_def sized_def wf_matrix_def size_t_limit_def)
  apply linarith
  done

end
