(* ===== verification/Exceptions.thy ===== *)
theory Exceptions
  imports Facade
begin

text \<open>The exception classes of \<open>exceptions.hpp\<close> with their payload (message,
  context, source file and line), \<open>what()\<close>, the \<open>TINY_LLAMA_THROW\<close> macro, and
  the facade's validation helpers and initialisation calls with the exception
  each one throws. The rest of the development records only the class of an
  exception (the datatype \<open>error\<close>); the lemmas here show that the payload
  versions agree with those on the class. \<open>src\<close> stands for the \<open>__FILE__\<close> the
  compiler expands in \<open>tiny_llama.cpp\<close>.\<close>

section \<open>Classes\<close>

datatype exn_class =
    StdException | StdLogicError | StdOutOfRange | StdInvalidArgument
  | TinyLlamaExc | TokenizerExc | ModelExc | FileIOExc | ConfigurationExc | MemoryExc

text \<open>The direct base class of each class.\<close>

fun base_class :: "exn_class \<Rightarrow> exn_class option" where
  "base_class StdException = None"
| "base_class StdLogicError = Some StdException"
| "base_class StdOutOfRange = Some StdLogicError"
| "base_class StdInvalidArgument = Some StdLogicError"
| "base_class TinyLlamaExc = Some StdException"
| "base_class c = Some TinyLlamaExc"

text \<open>\<open>derives_from C D\<close>: \<open>C\<close> is \<open>D\<close> or derives from it, so that
  \<open>catch (const D&)\<close> catches an exception of class \<open>C\<close>.\<close>

inductive derives_from :: "exn_class \<Rightarrow> exn_class \<Rightarrow> bool" where
  refl: "derives_from c c"
| base: "base_class c = Some b \<Longrightarrow> derives_from b d \<Longrightarrow> derives_from c d"

code_pred derives_from .

inductive_simps derives_from_simps: "derives_from c d"

fun class_of :: "error \<Rightarrow> exn_class" where
  "class_of OutOfRange = StdOutOfRange"
| "class_of InvalidArgument = StdInvalidArgument"
| "class_of FileIOError = FileIOExc"
| "class_of ModelError = ModelExc"
| "class_of ConfigurationError = ConfigurationExc"
| "class_of TokenizerError = TokenizerExc"

section \<open>Payload\<close>

record tl_exception =
  exn_kind :: error
  exn_message :: string
  exn_context :: string
  exn_file :: string
  exn_line :: int

text \<open>\<open>std::to_string\<close> on integers.\<close>

function digits :: "nat \<Rightarrow> string" where
  "digits n = (if n < 10 then [char_of (48 + n)] else digits (n div 10) @ [char_of (48 + n mod 10)])"
  by pat_completeness auto
termination
  by (relation "measure id") auto

declare digits.simps [simp del]

definition to_string :: "int \<Rightarrow> string" where
  "to_string i = (if i < 0 then ''-'' @ digits (nat (- i)) else digits (nat i))"

definition tinyllama_exception :: "error \<Rightarrow> string \<Rightarrow> string \<Rightarrow> string \<Rightarrow> int \<Rightarrow> tl_exception" where
  "tinyllama_exception k msg context file line =
     \<lparr>exn_kind = k, exn_message = msg, exn_context = context, exn_file = file, exn_line = line\<rparr>"

definition tokenizer_exception :: "string \<Rightarrow> string \<Rightarrow> string \<Rightarrow> int \<Rightarrow> tl_exception" where
  "tokenizer_exception msg context file line =
     tinyllama_exception TokenizerError (''Tokenizer Error: '' @ msg) context file line"

definition model_exception :: "string \<Rightarrow> string \<Rightarrow> string \<Rightarrow> int \<Rightarrow> tl_exception" where
  "model_exception msg context file line = tinyllama_exception ModelError (''Model Error: '' @ msg) context file line"

definition file_io_exception :: "string \<Rightarrow> string \<Rightarrow> string \<Rightarrow> int \<Rightarrow> tl_exception" where
  "file_io_exception msg filepath file line =
     tinyllama_exception FileIOError (''File I/O Error: '' @ msg)
       (if filepath = [] then [] else ''File: '' @ filepath) file line"

definition configuration_exception :: "string \<Rightarrow> string \<Rightarrow> string \<Rightarrow> int \<Rightarrow> tl_exception" where
  "configuration_exception msg param file line =
     tinyllama_exception ConfigurationError (''Configuration Error: '' @ msg)
       (if param = [] then [] else ''Parameter: '' @ param) file line"

text \<open>\<open>what()\<close>: the message, the context in brackets when there is one, and the
  location when the file is known (with its line when positive).\<close>

definition what :: "tl_exception \<Rightarrow> string" where
  "what e =
     exn_message e
     @ (if exn_context e = [] then [] else '' [Context: '' @ exn_context e @ '']'')
     @ (if exn_file e = [] then []
        else '' [Location: '' @ exn_file e @ (if 0 < exn_line e then '':'' @ to_string (exn_line e) else []) @ '']'')"

section \<open>The facade's helpers with their exceptions\<close>

text \<open>Sequencing of calls that throw a payload: the first exception propagates.\<close>

definition xbind :: "'e + 'a \<Rightarrow> ('a \<Rightarrow> 'e + 'b) \<Rightarrow> 'e + 'b" where
  "xbind r f = (case r of Inl e \<Rightarrow> Inl e | Inr x \<Rightarrow> f x)"

text \<open>Each \<open>TINY_LLAMA_THROW(E, msg, arg)\<close> is \<open>E(msg, arg, __FILE__, __LINE__)\<close>; the
  line is that of the macro's first line.\<close>

definition validate_string_input_exn :: "string \<Rightarrow> string \<Rightarrow> bool \<Rightarrow> string \<Rightarrow> tl_exception + unit" where
  "validate_string_input_exn input param_name allow_empty src =
     (if \<not> allow_empty \<and> input = [] then
        Inl (configuration_exception (param_name @ '' cannot be empty'') param_name src 30)
      else if CHR 0x00 \<in> set input then
        Inl (configuration_exception (param_name @ '' contains null characters'') param_name src 35)
      else if max_string_length < length input then
        Inl (configuration_exception (param_name @ '' is too long (max '' @ to_string (int max_string_length)
               @ '' characters)'') param_name src 41)
      else Inr ())"

definition validate_file_path_exn :: "file_system \<Rightarrow> string \<Rightarrow> string \<Rightarrow> string \<Rightarrow> tl_exception + unit" where
  "validate_file_path_exn fs path param_name src =
     (if path = [] then Inl (file_io_exception (param_name @ '' cannot be empty'') param_name src 50)
      else if CHR 0x00 \<in> set path then
        Inl (file_io_exception (param_name @ '' contains null characters'') param_name src 55)
      else if max_string_length < length path then
        Inl (file_io_exception (param_name @ '' is too long (max '' @ to_string (int max_string_length)
               @ '' characters)'') param_name src 61)
      else if \<not> file_exists fs path then Inl (file_io_exception (''File does not exist: '' @ path) path src 67)
      else if is_directory fs path then
        Inl (file_io_exception (''Path is a directory, not a file: '' @ path) path src 72)
      else Inr ())"

definition validate_directory_path_exn :: "file_system \<Rightarrow> string \<Rightarrow> string \<Rightarrow> string \<Rightarrow> tl_exception + unit" where
  "validate_directory_path_exn fs path param_name src =
     (if path = [] then Inl (file_io_exception (param_name @ '' cannot be empty'') param_name src 79)
      else if CHR 0x00 \<in> set path then
        Inl (file_io_exception (param_name @ '' contains null characters'') param_name src 84)
      else if max_string_length < length path then
        Inl (file_io_exception (param_name @ '' is too long (max '' @ to_string (int max_string_length)
               @ '' characters)'') param_name src 90)
      else if \<not> file_exists fs path then Inl (file_io_exception (''Directory does not exist: '' @ path) path src 96)
      else if \<not> is_directory fs path then Inl (file_io_exception (''Path is not a directory: '' @ path) path src 100)
      else Inr ())"

text \<open>\<open>initialize_with_config\<close> and \<open>initialize\<close> with their exceptions. The
  exceptions the model's loaders throw are not modelled below the facade: \<open>mexn\<close>
  gives the one each class stands for. A \<open>TinyLlamaException\<close> is rethrown as it
  is; any other \<open>std::exception\<close> becomes a \<open>ModelException\<close> quoting its
  \<open>what()\<close>, which for the standard exceptions is their message. The \<open>model_\<close> null check never fires: the constructor always
  creates the model.\<close>

definition initialize_with_config_exn ::
  "file_system \<Rightarrow> nat \<Rightarrow> string \<Rightarrow> (error \<Rightarrow> tl_exception) \<Rightarrow> string \<Rightarrow> string \<Rightarrow> string \<Rightarrow> tiny_llama
   \<Rightarrow> (tl_exception + unit) \<times> tiny_llama" where
  "initialize_with_config_exn fs j src mexn vocab_file merges_file weights_file st =
     (case xbind (validate_file_path_exn fs vocab_file ''vocab_file'' src) (\<lambda>_.
             xbind (validate_file_path_exn fs merges_file ''merges_file'' src) (\<lambda>_.
               validate_file_path_exn fs weights_file ''weights_file'' src)) of
        Inl e \<Rightarrow> (Inl e, st)
      | Inr _ \<Rightarrow>
          if api_initialized st then
            (Inl (model_exception ''Model is already initialized. Create a new instance to reinitialize.''
                    ''initialization_state'' src 212), st)
          else case rbind (load_tokenizer (file_text fs vocab_file) (file_text fs merges_file) (api_model st))
                      (load_model_weights (file_bytes fs weights_file) j) of
                 Inl k \<Rightarrow>
                   (Inl (if derives_from (class_of k) TinyLlamaExc then mexn k
                         else model_exception (''Failed to initialize model: '' @ exn_message (mexn k)) ''initialization'' src 232),
                    st\<lparr>api_initialized := False\<rparr>)
               | Inr m \<Rightarrow> (Inr (), st\<lparr>api_model := m, api_initialized := True\<rparr>))"

definition initialize_exn ::
  "file_system \<Rightarrow> nat \<Rightarrow> string \<Rightarrow> (error \<Rightarrow> tl_exception) \<Rightarrow> string \<Rightarrow> tiny_llama
   \<Rightarrow> (tl_exception + unit) \<times> tiny_llama" where
  "initialize_exn fs j src mexn model_path st =
     (case validate_directory_path_exn fs model_path ''model_path'' src of
        Inl e \<Rightarrow> (Inl e, st)
      | Inr _ \<Rightarrow>
          if api_initialized st then
            (Inl (model_exception ''Model is already initialized. Create a new instance to reinitialize.''
                    ''initialization_state'' src 186), st)
          else let vocab_file = model_path @ ''/vocab.txt''; merges_file = model_path @ ''/merges.txt'';
                   weights_file = model_path @ ''/weights.bin''
          in case xbind (validate_file_path_exn fs vocab_file ''vocab_file'' src) (\<lambda>_.
                    xbind (validate_file_path_exn fs merges_file ''merges_file'' src) (\<lambda>_.
                      validate_file_path_exn fs weights_file ''weights_file'' src)) of
               Inl e \<Rightarrow> (Inl e, st)
             | Inr _ \<Rightarrow> initialize_with_config_exn fs j src mexn vocab_file merges_file weights_file st)"

section \<open>The hierarchy: lemmas\<close>

lemma derives_from_root [simp]: "derives_from StdException d \<longleftrightarrow> d = StdException"
  by (subst derives_from_simps) auto

lemma derives_from_base [simp]:
  "c \<noteq> StdException \<Longrightarrow> derives_from c d \<longleftrightarrow> d = c \<or> derives_from (the (base_class c)) d"
  by (subst derives_from_simps) (cases c; auto)

lemma derives_from_class_of:
  "derives_from (class_of e) TinyLlamaExc \<longleftrightarrow> e \<noteq> OutOfRange \<and> e \<noteq> InvalidArgument"
  by (cases e) simp_all

lemma derives_from_std_exception: "derives_from c StdException"
  by (cases c) simp_all

text \<open>Every class an \<open>error\<close> stands for is a leaf of the hierarchy: \<open>catch (const T&)\<close>
  for the class of \<open>e\<close> catches exactly \<open>e\<close>.\<close>

lemma catches_class_of: "derives_from (class_of e') (class_of e) \<longleftrightarrow> e' = e"
  by (cases e; cases e') simp_all

text \<open>Results whose exception, if any, is a \<open>TinyLlamaException\<close>.\<close>

definition tl_result :: "'a result \<Rightarrow> bool" where
  "tl_result r \<longleftrightarrow> (case r of Inl e \<Rightarrow> derives_from (class_of e) TinyLlamaExc | Inr _ \<Rightarrow> True)"

lemma tl_result_simps [simp]:
  "tl_result (Inr x)" "tl_result (Inl e) \<longleftrightarrow> e \<noteq> OutOfRange \<and> e \<noteq> InvalidArgument"
  by (simp_all add: tl_result_def derives_from_class_of)

lemma tl_result_rbind [intro]: "tl_result r \<Longrightarrow> (\<And>x. tl_result (f x)) \<Longrightarrow> tl_result (rbind r f)"
  by (cases r) simp_all

lemma tl_result_rmap [intro]: "tl_result r \<Longrightarrow> tl_result (rmap f r)"
  by (cases r) (simp_all add: rmap_def)

lemma tl_result_rethrow_as [intro]:
  "e \<noteq> OutOfRange \<Longrightarrow> e \<noteq> InvalidArgument \<Longrightarrow> tl_result (rethrow_as e r)"
  by (auto simp: rethrow_as_def split: sum.split error.split)

lemma tl_result_validators [intro, simp]:
  "tl_result (validate_string_input s b)" "tl_result (validate_file_path fs p)"
  "tl_result (validate_directory_path fs p)" "tl_result (validate_positive_integer v mn)"
  "tl_result (validate_positive_float t f)" "tl_result (validate_token_ids ids)"
  by (simp_all add: validate_string_input_def validate_file_path_def validate_directory_path_def
      validate_positive_integer_def validate_positive_float_def validate_token_ids_def)

lemma tl_result_case:
  "tl_result r \<Longrightarrow> (\<And>x. r = Inr x \<Longrightarrow> tl_result (fst (g x)))
   \<Longrightarrow> tl_result (fst (case r of Inl e \<Rightarrow> (Inl e, s) | Inr x \<Rightarrow> g x))"
  by (cases r) simp_all

lemma tl_result_initialize_with_config: "tl_result (fst (initialize_with_config fs j a b c st))"
  unfolding initialize_with_config_def
  by (rule tl_result_case) (auto split: sum.split)

lemma tl_result_initialize: "tl_result (fst (initialize fs j p st))"
  unfolding initialize_def Let_def
  by (rule tl_result_case) (auto intro: tl_result_case tl_result_initialize_with_config)

section \<open>The payloads refine the classes\<close>

lemma validate_string_input_exn_kind:
  "map_sum exn_kind id (validate_string_input_exn s n b src) = validate_string_input s b"
  by (simp add: validate_string_input_exn_def validate_string_input_def configuration_exception_def
      tinyllama_exception_def)

lemma validate_file_path_exn_kind:
  "map_sum exn_kind id (validate_file_path_exn fs p n src) = validate_file_path fs p"
  by (simp add: validate_file_path_exn_def validate_file_path_def file_io_exception_def
      tinyllama_exception_def)

lemma validate_directory_path_exn_kind:
  "map_sum exn_kind id (validate_directory_path_exn fs p n src) = validate_directory_path fs p"
  by (simp add: validate_directory_path_exn_def validate_directory_path_def file_io_exception_def
      tinyllama_exception_def)

lemma xbind_kind:
  "map_sum exn_kind id (xbind r f) = rbind (map_sum exn_kind id r) (\<lambda>x. map_sum exn_kind id (f x))"
  by (cases r) (simp_all add: xbind_def)

lemmas exn_kind_simps = validate_string_input_exn_kind validate_file_path_exn_kind
  validate_directory_path_exn_kind xbind_kind

lemma initialize_with_config_exn_kind:
  assumes "\<And>k. exn_kind (mexn k) = k"
  shows "apfst (map_sum exn_kind id) (initialize_with_config_exn fs j src mexn a b c st)
    = initialize_with_config fs j a b c st"
proof -
  let ?v = "xbind (validate_file_path_exn fs a ''vocab_file'' src) (\<lambda>_.
              xbind (validate_file_path_exn fs b ''merges_file'' src) (\<lambda>_.
                validate_file_path_exn fs c ''weights_file'' src))"
  have v: "rbind (validate_file_path fs a) (\<lambda>_. rbind (validate_file_path fs b) (\<lambda>_.
      validate_file_path fs c)) = map_sum exn_kind id ?v"
    by (simp add: exn_kind_simps)
  show ?thesis
    unfolding initialize_with_config_exn_def initialize_with_config_def v
    using assms
    by (cases ?v) (auto simp: model_exception_def tinyllama_exception_def rethrow_as_def
        derives_from_class_of split: sum.split error.split)
qed

lemma initialize_exn_empty_path:
  "fst (initialize_exn fs j src mexn [] st)
   = Inl (file_io_exception ''model_path cannot be empty'' ''model_path'' src 79)"
  by (simp add: initialize_exn_def validate_directory_path_exn_def)

section \<open>Every exception of the facade is a \<open>TinyLlamaException\<close>\<close>

lemma tl_result_api_step: "tl_result (fst (api_step fs j c st))"
proof (cases c)
  case (SetTemperature t)
  then show ?thesis
    using tl_result_validators(5) [of t float_0_01]
    by (cases "validate_positive_float t float_0_01") (simp_all add: set_temperature_def rmap_def)
qed (auto intro!: tl_result_rmap tl_result_rbind simp: tl_result_initialize tl_result_initialize_with_config generate_def
      tokenize_to_strings_def tokenize_to_ids_def detokenize_def set_max_sequence_length_def
      get_vocab_size_def)

text \<open>Claim C28: the type of what the facade throws: every call of the \<open>TinyLlama\<close>
  facade either returns or throws an exception whose class derives from
  \<open>TinyLlamaException\<close>, never a bare \<open>std::out_of_range\<close> or
  \<open>std::invalid_argument\<close> from the layers below, so that a caller's
  \<open>catch (const TinyLlamaException&)\<close> catches every failure.\<close>

theorem api_errors_are_tinyllama_exceptions:
  "case fst (api_step fs j c st) of Inl e \<Rightarrow> derives_from (class_of e) TinyLlamaExc | Inr _ \<Rightarrow> True"
  using tl_result_api_step [of fs j c st] by (simp add: tl_result_def)

text \<open>\<open>initialize\<close> with the exceptions' payloads agrees with \<open>initialize\<close> on
  exception classes.\<close>

lemma initialize_exn_kind:
  assumes "\<And>k. exn_kind (mexn k) = k"
  shows "apfst (map_sum exn_kind id) (initialize_exn fs j src mexn p st) = initialize fs j p st"
proof -
  let ?v = "xbind (validate_file_path_exn fs (p @ ''/vocab.txt'') ''vocab_file'' src) (\<lambda>_.
              xbind (validate_file_path_exn fs (p @ ''/merges.txt'') ''merges_file'' src) (\<lambda>_.
                validate_file_path_exn fs (p @ ''/weights.bin'') ''weights_file'' src))"
  have v: "rbind (validate_file_path fs (p @ ''/vocab.txt'')) (\<lambda>_.
      rbind (validate_file_path fs (p @ ''/merges.txt'')) (\<lambda>_.
        validate_file_path fs (p @ ''/weights.bin''))) = map_sum exn_kind id ?v"
    by (simp add: exn_kind_simps)
  have d: "validate_directory_path fs p
      = map_sum exn_kind id (validate_directory_path_exn fs p ''model_path'' src)"
    by (simp add: exn_kind_simps)
  show ?thesis
    unfolding initialize_exn_def initialize_def Let_def v d
    using initialize_with_config_exn_kind [OF assms]
    by (cases "validate_directory_path_exn fs p ''model_path'' src"; cases ?v)
      (auto simp: model_exception_def tinyllama_exception_def)
qed

end
