(* ===== verification/Tests.thy ===== *)
theory Tests
  imports Exceptions
begin

text \<open>The API error-handling test program (\<open>src/unnamed/part_002\<close>), in its two
  versions: the first (lines 1 to 340) and the revised one (lines 341 to 673).
  The test helpers act on the file system of the facade; \<open>EXPECT_EXCEPTION\<close> and
  \<open>EXPECT_NO_EXCEPTION\<close> are checks on a call's result; each test is the list of
  its checks in order, and \<open>main\<close> reports the first test and check whose
  \<open>assert\<close> aborts the program. Every test constructs its own \<open>TinyLlama\<close>.\<close>

section \<open>Test helpers\<close>

text \<open>The bytes \<open>file << content\<close> writes.\<close>

definition bytes_of_string :: "string \<Rightarrow> byte list" where
  "bytes_of_string s = map (\<lambda>c. of_nat (of_char c)) s"

text \<open>\<open>std::string(const char* )\<close>: a literal is read up to its first NUL.\<close>

definition c_string :: "string \<Rightarrow> string" where
  "c_string s = takeWhile (\<lambda>c. c \<noteq> CHR 0x00) s"

text \<open>\<open>mkdir\<close> fails on a path that exists; \<open>std::ofstream\<close> creates or truncates
  a regular file and cannot open a directory; \<open>remove\<close> and \<open>rmdir\<close> delete a
  file and a directory. Parent directories are not tracked: the file system is
  a map from full paths to entries.\<close>

definition create_test_directory :: "string \<Rightarrow> file_system \<Rightarrow> file_system" where
  "create_test_directory p fs = (if fs p = None then fs(p \<mapsto> Directory) else fs)"

definition create_test_file :: "string \<Rightarrow> string \<Rightarrow> file_system \<Rightarrow> file_system" where
  "create_test_file p content fs =
     (if fs p = Some Directory then fs else fs(p \<mapsto> RegularFile (bytes_of_string content)))"

definition remove_test_file :: "string \<Rightarrow> file_system \<Rightarrow> file_system" where
  "remove_test_file p fs = (case fs p of Some (RegularFile _) \<Rightarrow> fs(p := None) | _ \<Rightarrow> fs)"

definition remove_test_directory :: "string \<Rightarrow> file_system \<Rightarrow> file_system" where
  "remove_test_directory p fs = (case fs p of Some Directory \<Rightarrow> fs(p := None) | _ \<Rightarrow> fs)"

text \<open>\<open>EXPECT_EXCEPTION(T, code)\<close> holds when the call throws \<open>T\<close>; the exception
  classes are leaves of the hierarchy, so \<open>catch (const T&)\<close> catches exactly
  \<open>T\<close> (\<open>expect_exception_catch\<close>). \<open>EXPECT_NO_EXCEPTION(code)\<close> holds when it returns.\<close>

definition expect_exception :: "error \<Rightarrow> 'a result \<Rightarrow> bool" where
  "expect_exception e r = (case r of Inl e' \<Rightarrow> e' = e | Inr _ \<Rightarrow> False)"

lemma expect_exception_catch:
  "expect_exception e r \<longleftrightarrow> (case r of Inl e' \<Rightarrow> derives_from (class_of e') (class_of e) | Inr _ \<Rightarrow> False)"
  by (simp add: expect_exception_def catches_class_of split: sum.split)

definition expect_no_exception :: "'a result \<Rightarrow> bool" where
  "expect_no_exception r = (case r of Inl _ \<Rightarrow> False | Inr _ \<Rightarrow> True)"

text \<open>The first failing check of a test, counted from 0; \<open>main\<close> runs the tests
  in order and stops at the first failing \<open>assert\<close>.\<close>

definition first_failure :: "bool list \<Rightarrow> nat option" where
  "first_failure cs = (if list_all id cs then None else Some (length (takeWhile id cs)))"

fun run_tests :: "(string \<times> bool list) list \<Rightarrow> (string \<times> nat) option" where
  "run_tests [] = None"
| "run_tests ((n, cs) # ts) = (case first_failure cs of Some k \<Rightarrow> Some (n, k) | None \<Rightarrow> run_tests ts)"

text \<open>\<open>TinyLlama llama;\<close> at the start of a test: a constructor that throws
  fails the test.\<close>

definition with_new_llama ::
  "(real \<Rightarrow> 32 word) \<Rightarrow> (nat \<Rightarrow> real) \<Rightarrow> (tiny_llama \<Rightarrow> bool list) \<Rightarrow> bool list" where
  "with_new_llama fl rnd body = (case tiny_llama_new fl rnd of Inl _ \<Rightarrow> [False] | Inr st \<Rightarrow> body st)"

section \<open>test_initialization_errors\<close>

text \<open>The checks both versions share: an empty path, a missing directory, a
  regular file, a directory without the files, one with \<open>vocab.txt\<close> only, and
  \<open>initialize_with_config\<close> with empty and missing paths. Returns the checks,
  the files the double-initialisation part creates, and the object.\<close>

definition init_test_prefix ::
  "file_system \<Rightarrow> nat \<Rightarrow> tiny_llama \<Rightarrow> bool list \<times> file_system \<times> tiny_llama" where
  "init_test_prefix fs0 j st0 =
     (let (r1, st1) = initialize fs0 j '''' st0;
          (r2, st2) = initialize fs0 j ''/non/existent/path'' st1;
          fs1 = create_test_file ''test_file.txt'' ''test'' fs0;
          (r3, st3) = initialize fs1 j ''test_file.txt'' st2;
          fs2 = remove_test_file ''test_file.txt'' fs1;
          fs3 = create_test_directory ''test_model_dir'' fs2;
          (r4, st4) = initialize fs3 j ''test_model_dir'' st3;
          fs4 = remove_test_directory ''test_model_dir'' fs3;
          fs5 = create_test_file ''test_model_dir/vocab.txt'' ''test''
                  (create_test_directory ''test_model_dir'' fs4);
          (r5, st5) = initialize fs5 j ''test_model_dir'' st4;
          fs6 = remove_test_directory ''test_model_dir'' (remove_test_file ''test_model_dir/vocab.txt'' fs5);
          (r6, st6) = initialize_with_config fs6 j '''' '''' '''' st5;
          (r7, st7) = initialize_with_config fs6 j ''nonexistent.txt'' ''nonexistent.txt'' ''nonexistent.txt'' st6;
          fs7 = create_test_file ''test_model_dir/weights.bin'' ''dummy_weights''
                  (create_test_file ''test_model_dir/merges.txt'' (''t e 100'' @ [CHR 0x0A])
                    (create_test_file ''test_model_dir/vocab.txt'' (''test_token 0'' @ [CHR 0x0A])
                      (create_test_directory ''test_model_dir'' fs6)))
      in (map (expect_exception FileIOError) [r1, r2, r3, r4, r5, r6, r7], fs7, st7))"

text \<open>First version: a first initialisation whose exception is caught, then a
  second one expected to throw \<open>ModelException\<close>.\<close>

definition test_initialization_errors_v1 :: "file_system \<Rightarrow> nat \<Rightarrow> tiny_llama \<Rightarrow> bool list" where
  "test_initialization_errors_v1 fs0 j st0 =
     (let (cs, fs7, st7) = init_test_prefix fs0 j st0;
          (_, st8) = initialize fs7 j ''test_model_dir'' st7;
          (r9, st9) = initialize fs7 j ''test_model_dir'' st8
      in cs @ [expect_exception ModelError r9])"

text \<open>Revised version: the second initialisation is checked only when the first
  succeeded.\<close>

definition test_initialization_errors_v2 :: "file_system \<Rightarrow> nat \<Rightarrow> tiny_llama \<Rightarrow> bool list" where
  "test_initialization_errors_v2 fs0 j st0 =
     (let (cs, fs7, st7) = init_test_prefix fs0 j st0;
          (r8, st8) = initialize fs7 j ''test_model_dir'' st7;
          first_init_succeeded = (case r8 of Inr _ \<Rightarrow> True | Inl _ \<Rightarrow> False)
      in if first_init_succeeded
         then cs @ [expect_exception ModelError (fst (initialize fs7 j ''test_model_dir'' st8))]
         else cs)"

section \<open>test_generation_errors\<close>

text \<open>The prompts of the test; \<open>generate\<close>'s default \<open>max_tokens\<close> is \<open>50\<close>.\<close>

definition null_prompt :: string where
  "null_prompt = c_string (''test'' @ [CHR 0x00] @ ''prompt'')"

definition long_prompt :: string where
  "long_prompt = replicate 2000000 (CHR ''a'')"

definition test_generation_errors_v1 :: "tiny_llama \<Rightarrow> bool list" where
  "test_generation_errors_v1 st =
     [expect_exception ModelError (generate ''test prompt'' 50 st),
      expect_exception ConfigurationError (generate '''' 50 st),
      expect_exception ConfigurationError (generate ''test'' 0 st),
      expect_exception ConfigurationError (generate ''test'' (- 1) st),
      expect_exception ConfigurationError (generate ''test'' 20000 st),
      expect_exception ConfigurationError (generate null_prompt 50 st),
      expect_exception ConfigurationError (generate long_prompt 50 st)]"

definition test_generation_errors_v2 :: "tiny_llama \<Rightarrow> bool list" where
  "test_generation_errors_v2 st =
     [expect_exception ModelError (generate ''test prompt'' 50 st),
      expect_exception ModelError (generate '''' 50 st),
      expect_exception ModelError (generate ''test'' 0 st),
      expect_exception ModelError (generate ''test'' (- 1) st),
      expect_exception ModelError (generate ''test'' 20000 st),
      expect_exception ModelError (generate null_prompt 50 st),
      expect_exception ModelError (generate long_prompt 50 st)]"

section \<open>test_tokenization_errors\<close>

definition null_text :: string where
  "null_text = c_string (''test'' @ [CHR 0x00] @ ''text'')"

definition long_text :: string where
  "long_text = replicate 2000000 (CHR ''a'')"

definition test_tokenization_errors_v1 :: "tiny_llama \<Rightarrow> bool list" where
  "test_tokenization_errors_v1 st =
     [expect_exception TokenizerError (tokenize_to_strings ''test'' st),
      expect_exception TokenizerError (tokenize_to_ids ''test'' st),
      expect_exception TokenizerError (detokenize [1, 2, 3] st),
      expect_exception ConfigurationError (tokenize_to_strings null_text st),
      expect_exception ConfigurationError (tokenize_to_ids null_text st),
      expect_exception ConfigurationError (tokenize_to_strings long_text st),
      expect_exception ConfigurationError (tokenize_to_ids long_text st),
      expect_exception ConfigurationError (detokenize [1, - 1, 3] st),
      expect_exception ConfigurationError (detokenize (replicate 200000 1) st),
      expect_no_exception (tokenize_to_strings '''' st),
      expect_no_exception (tokenize_to_ids '''' st),
      expect_no_exception (detokenize [] st)]"

definition test_tokenization_errors_v2 :: "tiny_llama \<Rightarrow> bool list" where
  "test_tokenization_errors_v2 st =
     [expect_exception TokenizerError (tokenize_to_strings ''test'' st),
      expect_exception TokenizerError (tokenize_to_ids ''test'' st),
      expect_exception TokenizerError (detokenize [1, 2, 3] st),
      expect_exception TokenizerError (tokenize_to_strings null_text st),
      expect_exception TokenizerError (tokenize_to_ids null_text st),
      expect_exception TokenizerError (tokenize_to_strings long_text st),
      expect_exception TokenizerError (tokenize_to_ids long_text st),
      expect_exception TokenizerError (detokenize [1, - 1, 3] st),
      expect_exception TokenizerError (detokenize (replicate 200000 1) st),
      expect_exception TokenizerError (tokenize_to_strings '''' st),
      expect_exception TokenizerError (tokenize_to_ids '''' st),
      expect_exception TokenizerError (detokenize [] st)]"

section \<open>test_configuration_errors\<close>

text \<open>The same in both versions. The float arguments as their binary32 patterns:
  \<open>0.0f\<close>, \<open>-1.0f\<close>, \<open>0.005f\<close>, \<open>2000.0f\<close>, infinity, the quiet NaN, then \<open>0.1f\<close>,
  \<open>1.0f\<close>, \<open>2.0f\<close>. Each \<open>set_temperature\<close> acts on the object the previous one
  left.\<close>

definition test_configuration_errors :: "tiny_llama \<Rightarrow> bool list" where
  "test_configuration_errors st0 =
     (let (r1, st1) = set_temperature 0x00000000 st0;
          (r2, st2) = set_temperature 0xBF800000 st1;
          (r3, st3) = set_temperature 0x3BA3D70A st2;
          (r4, st4) = set_temperature 0x44FA0000 st3;
          (r5, st5) = set_temperature 0x7F800000 st4;
          (r6, st6) = set_temperature 0x7FC00000 st5;
          (r7, st7) = set_temperature 0x3DCCCCCD st6;
          (r8, st8) = set_temperature 0x3F800000 st7;
          (r9, st9) = set_temperature 0x40000000 st8
      in map (expect_exception ConfigurationError) [r1, r2, r3, r4, r5, r6]
         @ map expect_no_exception [r7, r8, r9]
         @ map (expect_exception ConfigurationError)
             [set_max_sequence_length 0, set_max_sequence_length (- 1),
              set_max_sequence_length 200000, set_max_sequence_length 1024])"

section \<open>test_status_validation\<close>

definition test_status_validation :: "tiny_llama \<Rightarrow> bool list" where
  "test_status_validation st = [expect_exception ModelError (get_vocab_size st), \<not> is_ready st]"

section \<open>test_edge_cases\<close>

text \<open>Temperatures \<open>0.01f\<close>, \<open>1000.0f\<close> and \<open>1000.1f\<close>.\<close>

definition test_edge_cases_v1 :: "tiny_llama \<Rightarrow> bool list" where
  "test_edge_cases_v1 st0 =
     (let c1 = expect_exception ConfigurationError (generate ''test'' 1000001 st0);
          c2 = expect_no_exception (generate ''test'' 10000 st0);
          (r3, st1) = set_temperature 0x3C23D70A st0;
          (r4, st2) = set_temperature 0x447A0000 st1;
          (r5, st3) = set_temperature 0x447A0666 st2
      in [c1, c2, expect_no_exception r3, expect_no_exception r4, expect_exception ConfigurationError r5])"

definition test_edge_cases_v2 :: "tiny_llama \<Rightarrow> bool list" where
  "test_edge_cases_v2 st0 =
     (let c1 = expect_exception ModelError (generate ''test'' 1000001 st0);
          c2 = expect_exception ModelError (generate ''test'' 10000 st0);
          (r3, st1) = set_temperature 0x3C23D70A st0;
          (r4, st2) = set_temperature 0x447A0000 st1;
          (r5, st3) = set_temperature 0x447A0666 st2
      in [c1, c2, expect_no_exception r3, expect_no_exception r4, expect_exception ConfigurationError r5])"

section \<open>test_exception_context\<close>

text \<open>\<open>test_exception_context\<close> (lines 283 to 310, and 627 to 654 in the revised
  version): \<open>initialize("")\<close> must throw a \<open>TinyLlamaException\<close> whose message,
  context and file are not empty and whose line is positive. The four
  \<open>assert\<close>s follow the catch; the \<open>assert(false)\<close> after the call fails when it
  returns, and a \<open>std::exception\<close> of another class escapes to \<open>main\<close>, which
  reports the test failed: both are the failure of the first check. The call is
  made against the test program's file system; it fails before reading it.\<close>

definition test_exception_context ::
  "file_system \<Rightarrow> nat \<Rightarrow> string \<Rightarrow> (error \<Rightarrow> tl_exception) \<Rightarrow> tiny_llama \<Rightarrow> bool list" where
  "test_exception_context fs j src mexn st =
     (case fst (initialize_exn fs j src mexn [] st) of
        Inr _ \<Rightarrow> [False]
      | Inl e \<Rightarrow>
          if derives_from (class_of (exn_kind e)) TinyLlamaExc
          then [True, exn_message e \<noteq> [], exn_context e \<noteq> [], exn_file e \<noteq> [], 0 < exn_line e]
          else [False])"

section \<open>main\<close>

text \<open>The tests in the order \<open>main\<close> runs them, each on its own new object; \<open>src\<close>
  is the \<open>__FILE__\<close> of \<open>tiny_llama.cpp\<close> and \<open>mexn\<close> the exceptions of the
  model's loaders (see \<open>initialize_exn\<close>).\<close>

definition main_v1 ::
  "(real \<Rightarrow> 32 word) \<Rightarrow> (nat \<Rightarrow> real) \<Rightarrow> file_system \<Rightarrow> nat \<Rightarrow> string \<Rightarrow> (error \<Rightarrow> tl_exception)
   \<Rightarrow> (string \<times> nat) option" where
  "main_v1 fl rnd fs j src mexn =
     run_tests
       [(''test_initialization_errors'', with_new_llama fl rnd (test_initialization_errors_v1 fs j)),
        (''test_generation_errors'', with_new_llama fl rnd test_generation_errors_v1),
        (''test_tokenization_errors'', with_new_llama fl rnd test_tokenization_errors_v1),
        (''test_configuration_errors'', with_new_llama fl rnd test_configuration_errors),
        (''test_status_validation'', with_new_llama fl rnd test_status_validation),
        (''test_edge_cases'', with_new_llama fl rnd test_edge_cases_v1),
        (''test_exception_context'', with_new_llama fl rnd (test_exception_context fs j src mexn))]"

definition main_v2 ::
  "(real \<Rightarrow> 32 word) \<Rightarrow> (nat \<Rightarrow> real) \<Rightarrow> file_system \<Rightarrow> nat \<Rightarrow> string \<Rightarrow> (error \<Rightarrow> tl_exception)
   \<Rightarrow> (string \<times> nat) option" where
  "main_v2 fl rnd fs j src mexn =
     run_tests
       [(''test_initialization_errors'', with_new_llama fl rnd (test_initialization_errors_v2 fs j)),
        (''test_generation_errors'', with_new_llama fl rnd test_generation_errors_v2),
        (''test_tokenization_errors'', with_new_llama fl rnd test_tokenization_errors_v2),
        (''test_configuration_errors'', with_new_llama fl rnd test_configuration_errors),
        (''test_status_validation'', with_new_llama fl rnd test_status_validation),
        (''test_edge_cases'', with_new_llama fl rnd test_edge_cases_v2),
        (''test_exception_context'', with_new_llama fl rnd (test_exception_context fs j src mexn))]"

text \<open>The paths the tests create must not exist beforehand.\<close>

definition test_paths_absent :: "file_system \<Rightarrow> bool" where
  "test_paths_absent fs =
     list_all (\<lambda>p. fs p = None)
       [''/non/existent/path'', ''test_file.txt'', ''test_model_dir'', ''test_model_dir/vocab.txt'',
        ''test_model_dir/merges.txt'', ''test_model_dir/weights.bin'', ''nonexistent.txt'']"

text \<open>The files the double-initialisation check creates.\<close>

definition dummy_model_files :: "file_system \<Rightarrow> bool" where
  "dummy_model_files fs \<longleftrightarrow> fs ''test_model_dir'' = Some Directory
     \<and> fs ''test_model_dir/vocab.txt'' = Some (RegularFile (bytes_of_string (''test_token 0'' @ [CHR 0x0A])))
     \<and> fs ''test_model_dir/merges.txt'' = Some (RegularFile (bytes_of_string (''t e 100'' @ [CHR 0x0A])))
     \<and> fs ''test_model_dir/weights.bin'' = Some (RegularFile (bytes_of_string ''dummy_weights''))"

section \<open>Running the tests\<close>

lemma unready_calls:
  assumes "\<not> api_initialized st"
  shows "generate p n st = Inl ModelError" "tokenize_to_strings s st = Inl TokenizerError"
    "tokenize_to_ids s st = Inl TokenizerError" "detokenize ids st = Inl TokenizerError"
    "get_vocab_size st = Inl ModelError" "\<not> is_ready st"
  using assms by (simp_all add: generate_def tokenize_to_strings_def tokenize_to_ids_def
      detokenize_def get_vocab_size_def is_ready_def)

lemma load_tokenizer_some: "\<exists>m'. load_tokenizer (Some a) (Some b) m = Inr m'"
  by (simp add: load_tokenizer_def load_vocab_def vocab_load_def load_merges_def)

lemma dummy_weights_rejected: "load_model_weights (Some (bytes_of_string ''dummy_weights'')) j m = Inl FileIOError"
  by (simp add: load_model_weights_def bytes_of_string_def read_u32_def read_scalar_def read_bytes_def
      instream_def magic_number_def as_file_error_def)

lemma initialize_no_directory:
  "fs p \<noteq> Some Directory \<Longrightarrow> initialize fs j p st = (Inl FileIOError, st)"
  "initialize fs j [] st = (Inl FileIOError, st)"
  by (simp_all add: initialize_def validate_directory_path_def file_exists_def is_directory_def)

lemma validate_file_path_cases:
  "validate_file_path fs p = Inr () \<or> validate_file_path fs p = Inl FileIOError"
  by (simp add: validate_file_path_def)

lemma initialize_no_merges:
  assumes "\<not> api_initialized st" "fs (p @ ''/merges.txt'') = None"
  shows "initialize fs j p st = (Inl FileIOError, st)"
proof -
  have m: "validate_file_path fs (p @ ''/merges.txt'') = Inl FileIOError"
    using assms(2) by (simp add: validate_file_path_def file_exists_def)
  have "rbind (validate_file_path fs (p @ ''/vocab.txt'')) (\<lambda>_. rbind (validate_file_path fs (p @ ''/merges.txt''))
          (\<lambda>_. validate_file_path fs (p @ ''/weights.bin''))) = Inl FileIOError"
    using validate_file_path_cases [of fs "p @ ''/vocab.txt''"] m by (auto simp: rbind_def)
  moreover have "validate_directory_path fs p = Inr () \<or> validate_directory_path fs p = Inl FileIOError"
    by (simp add: validate_directory_path_def)
  ultimately show ?thesis
    using assms(1) by (auto simp: initialize_def Let_def)
qed

lemma initialize_with_config_missing:
  "fs v = None \<Longrightarrow> initialize_with_config fs j v m w st = (Inl FileIOError, st)"
  "initialize_with_config fs j [] m w st = (Inl FileIOError, st)"
  by (simp_all add: initialize_with_config_def validate_file_path_def file_exists_def)

lemma init_test_prefix_run:
  assumes "test_paths_absent fs" "\<not> api_initialized st"
  shows "\<exists>fs7. init_test_prefix fs j st = ([True, True, True, True, True, True, True], fs7, st)
     \<and> dummy_model_files fs7"
proof -
  have a: "fs ''/non/existent/path'' = None" "fs ''test_file.txt'' = None" "fs ''test_model_dir'' = None"
    "fs ''test_model_dir/vocab.txt'' = None" "fs ''test_model_dir/merges.txt'' = None"
    "fs ''test_model_dir/weights.bin'' = None" "fs ''nonexistent.txt'' = None"
    using assms(1) by (simp_all add: test_paths_absent_def)
  define fs1 where "fs1 = create_test_file ''test_file.txt'' ''test'' fs"
  define fs3 where "fs3 = create_test_directory ''test_model_dir'' (remove_test_file ''test_file.txt'' fs1)"
  define fs5 where "fs5 = create_test_file ''test_model_dir/vocab.txt'' ''test''
                  (create_test_directory ''test_model_dir'' (remove_test_directory ''test_model_dir'' fs3))"
  define fs6 where "fs6 = remove_test_directory ''test_model_dir'' (remove_test_file ''test_model_dir/vocab.txt'' fs5)"
  define fs7 where "fs7 = create_test_file ''test_model_dir/weights.bin'' ''dummy_weights''
                  (create_test_file ''test_model_dir/merges.txt'' (''t e 100'' @ [CHR 0x0A])
                    (create_test_file ''test_model_dir/vocab.txt'' (''test_token 0'' @ [CHR 0x0A])
                      (create_test_directory ''test_model_dir'' fs6)))"
  have f1: "fs1 = fs(''test_file.txt'' \<mapsto> RegularFile (bytes_of_string ''test''))"
    using a by (simp add: fs1_def create_test_file_def)
  have f3: "fs3 = fs(''test_model_dir'' \<mapsto> Directory)"
    using a by (simp add: fs3_def f1 create_test_directory_def remove_test_file_def fun_upd_idem)
  have f5: "fs5 = fs(''test_model_dir'' \<mapsto> Directory, ''test_model_dir/vocab.txt'' \<mapsto> RegularFile (bytes_of_string ''test''))"
    using a by (simp add: fs5_def f3 create_test_file_def create_test_directory_def remove_test_directory_def fun_upd_idem)
  have f6: "fs6 = fs"
    using a by (simp add: fs6_def f5 create_test_file_def remove_test_file_def remove_test_directory_def
        fun_upd_twist fun_upd_idem)
  have f7: "dummy_model_files fs7"
    using a by (simp add: fs7_def f6 dummy_model_files_def create_test_file_def create_test_directory_def)
  have i: "initialize fs j [] st = (Inl FileIOError, st)"
    "initialize fs j ''/non/existent/path'' st = (Inl FileIOError, st)"
    "initialize fs1 j ''test_file.txt'' st = (Inl FileIOError, st)"
    "initialize fs3 j ''test_model_dir'' st = (Inl FileIOError, st)"
    "initialize fs5 j ''test_model_dir'' st = (Inl FileIOError, st)"
    using a assms(2)
    by (simp_all add: initialize_no_directory f1 f3 f5 initialize_no_merges)
  have c: "initialize_with_config fs6 j [] [] [] st = (Inl FileIOError, st)"
    "initialize_with_config fs6 j ''nonexistent.txt'' ''nonexistent.txt'' ''nonexistent.txt'' st = (Inl FileIOError, st)"
    using a by (simp_all add: f6 initialize_with_config_missing)
  have "init_test_prefix fs j st = ([True, True, True, True, True, True, True], fs7, st)"
    unfolding init_test_prefix_def Let_def fs1_def [symmetric] fs3_def [symmetric] fs5_def [symmetric]
      fs6_def [symmetric] fs7_def [symmetric]
    by (simp only: i c prod.case list.map expect_exception_def sum.case simp_thms)
  then show ?thesis using f7 by blast
qed
lemma initialize_dummy_files:
  assumes "dummy_model_files fs" "\<not> api_initialized st"
  shows "initialize fs j ''test_model_dir'' st = (Inl FileIOError, st\<lparr>api_initialized := False\<rparr>)"
proof -
  obtain m' where t: "load_tokenizer (file_text fs ''test_model_dir/vocab.txt'') (file_text fs ''test_model_dir/merges.txt'') (api_model st) = Inr m'"
    using assms(1) load_tokenizer_some by (fastforce simp: dummy_model_files_def file_text_def file_bytes_def)
  have w: "file_bytes fs ''test_model_dir/weights.bin'' = Some (bytes_of_string ''dummy_weights'')"
    using assms(1) by (simp add: dummy_model_files_def file_bytes_def)
  show ?thesis
    using assms t
    by (simp add: initialize_def initialize_with_config_def validate_directory_path_def validate_file_path_def
        file_exists_def is_directory_def dummy_model_files_def max_string_length_def w dummy_weights_rejected
        rethrow_as_def)
qed

text \<open>The configuration test passes on any object: each temperature literal is
  decoded and compared as a float.\<close>

lemma configuration_test_passes:
  "test_configuration_errors st = [True, True, True, True, True, True, True, True, True, True, True, True, True]"
  by (simp add: test_configuration_errors_def set_temperature_def validate_positive_float_def f32_decode_def
      float_0_01_def float_1000_def set_max_sequence_length_def validate_positive_integer_def
      expect_exception_def expect_no_exception_def Let_def split_def)

lemma with_new_llama_unready:
  "\<exists>st. \<not> api_initialized st \<and> (\<forall>body. with_new_llama fl rnd body = body st)"
  using tiny_llama_new_ok [of fl rnd] by (auto simp: with_new_llama_def)

lemma edge_cases_v2_passes:
  "\<not> api_initialized st \<Longrightarrow> test_edge_cases_v2 st = [True, True, True, True, True]"
  by (simp add: test_edge_cases_v2_def unready_calls set_temperature_def validate_positive_float_def
      f32_decode_def float_0_01_def float_1000_def expect_exception_def expect_no_exception_def Let_def split_def)

lemma exception_context_test_passes:
  "src \<noteq> [] \<Longrightarrow> test_exception_context fs j src mexn st = [True, True, True, True, True]"
  by (simp add: test_exception_context_def initialize_exn_empty_path file_io_exception_def
      tinyllama_exception_def derives_from_class_of)

section \<open>Properties of the test programs\<close>

text \<open>Claim C31: run against a directory where none of the paths it creates
  exists, the revised API error-handling test program passes every check of
  every test it runs: each \<open>EXPECT_EXCEPTION\<close> sees the exception it names and
  each \<open>EXPECT_NO_EXCEPTION\<close> a normal return.\<close>

theorem revised_suite_passes:
  assumes "test_paths_absent fs" "src \<noteq> []"
  shows "main_v2 fl rnd fs j src mexn = None"
proof -
  obtain st where st: "\<not> api_initialized st" "\<forall>body. with_new_llama fl rnd body = body st"
    using with_new_llama_unready by blast
  obtain fs7 where p: "init_test_prefix fs j st = ([True, True, True, True, True, True, True], fs7, st)"
    "dummy_model_files fs7"
    using init_test_prefix_run [OF assms(1) st(1)] by blast
  show ?thesis
    using st p initialize_dummy_files [OF p(2)] unready_calls [OF st(1)] edge_cases_v2_passes [OF st(1)]
      configuration_test_passes exception_context_test_passes [OF assms(2)]
    by (simp add: main_v2_def test_initialization_errors_v2_def first_failure_def
        test_generation_errors_v2_def test_tokenization_errors_v2_def test_status_validation_def
        expect_exception_def Let_def split_def)
qed

theorem revised_suite_passes_witness:
  "test_paths_absent (\<lambda>_. None) \<and> ''tiny_llama.cpp'' \<noteq> []
   \<and> main_v2 (\<lambda>_. 0) (\<lambda>_. 0) (\<lambda>_. None) 0 ''tiny_llama.cpp'' (\<lambda>k. tinyllama_exception k [] [] [] 0) = None"
  using revised_suite_passes [of "\<lambda>_. None" "''tiny_llama.cpp''" "\<lambda>_. 0" "\<lambda>_. 0" 0
      "\<lambda>k. tinyllama_exception k [] [] [] 0"]
  by (simp add: test_paths_absent_def)

text \<open>On a new object the first version's generation, tokenization
  and edge-case tests fail every check that expects a validation error
  (\<open>ConfigurationException\<close>) or a normal return, because the facade checks
  initialisation first; the checks that expect the not-initialised exception
  pass. The ''null character'' inputs carry no NUL: the C string literal stops
  there.\<close>

lemma first_version_test_lists:
  "with_new_llama fl rnd test_generation_errors_v1 = [True, False, False, False, False, False, False]
   \<and> with_new_llama fl rnd test_tokenization_errors_v1
       = [True, True, True, False, False, False, False, False, False, False, False, False]
   \<and> with_new_llama fl rnd test_edge_cases_v1 = [False, False, True, True, True]
   \<and> null_prompt = ''test''"
proof -
  obtain st where st: "\<not> api_initialized st" "\<forall>body. with_new_llama fl rnd body = body st"
    using with_new_llama_unready by blast
  show ?thesis
    using st unready_calls [OF st(1)]
    by (simp add: test_generation_errors_v1_def test_tokenization_errors_v1_def test_edge_cases_v1_def
        null_prompt_def c_string_def set_temperature_def validate_positive_float_def f32_decode_def
        float_0_01_def float_1000_def expect_exception_def expect_no_exception_def Let_def split_def)
qed

text \<open>Claim C32: the first version of the program aborts in its first test, at
  the double-initialisation check (check 7, counted from 0): the dummy weight
  file fails the magic-number check, so the first \<open>initialize\<close> leaves the
  object uninitialised and the second throws \<open>FileIOException\<close> again instead
  of the \<open>ModelException\<close> the test expects. Had it gone on, its generation,
  tokenization and edge-case tests would fail every check that expects a
  validation error (\<open>ConfigurationException\<close>) or a normal return, because the
  facade checks initialisation first; only the checks that expect the
  not-initialised exception pass. The ''null character'' inputs carry no NUL: the
  C string literal stops there.\<close>

theorem first_suite_fails:
  assumes "test_paths_absent fs"
  shows "main_v1 fl rnd fs j src mexn = Some (''test_initialization_errors'', 7)
   \<and> with_new_llama fl rnd test_generation_errors_v1 = [True, False, False, False, False, False, False]
   \<and> with_new_llama fl rnd test_tokenization_errors_v1
       = [True, True, True, False, False, False, False, False, False, False, False, False]
   \<and> with_new_llama fl rnd test_edge_cases_v1 = [False, False, True, True, True]
   \<and> null_prompt = ''test''"
proof -
  obtain st where st: "\<not> api_initialized st" "\<forall>body. with_new_llama fl rnd body = body st"
    using with_new_llama_unready by blast
  obtain fs7 where p: "init_test_prefix fs j st = ([True, True, True, True, True, True, True], fs7, st)"
    "dummy_model_files fs7"
    using init_test_prefix_run [OF assms(1) st(1)] by blast
  have "main_v1 fl rnd fs j src mexn = Some (''test_initialization_errors'', 7)"
    using st p initialize_dummy_files [OF p(2)]
    by (simp add: main_v1_def test_initialization_errors_v1_def first_failure_def expect_exception_def split_def)
  then show ?thesis using first_version_test_lists by simp
qed

theorem first_suite_fails_witness:
  "test_paths_absent (\<lambda>_. None)
   \<and> main_v1 (\<lambda>_. 0) (\<lambda>_. 0) (\<lambda>_. None) 0 [] (\<lambda>k. tinyllama_exception k [] [] [] 0)
       = Some (''test_initialization_errors'', 7)
   \<and> with_new_llama (\<lambda>_. 0) (\<lambda>_. 0) test_generation_errors_v1 = [True, False, False, False, False, False, False]
   \<and> with_new_llama (\<lambda>_. 0) (\<lambda>_. 0) test_tokenization_errors_v1
       = [True, True, True, False, False, False, False, False, False, False, False, False]
   \<and> with_new_llama (\<lambda>_. 0) (\<lambda>_. 0) test_edge_cases_v1 = [False, False, True, True, True]
   \<and> null_prompt = ''test''"
  using first_suite_fails [of "\<lambda>_. None" "\<lambda>_. 0" "\<lambda>_. 0" 0 "[]"
      "\<lambda>k. tinyllama_exception k [] [] [] 0"] by (simp add: test_paths_absent_def)

text \<open>Claim C33: \<open>test_exception_context\<close> passes on every object whenever the
  compiler gives \<open>tiny_llama.cpp\<close> a file name: \<open>initialize("")\<close> throws, from
  \<open>validate_directory_path\<close> at line 79, the \<open>FileIOException\<close> whose message,
  context, file and line the test prints, and \<open>what()\<close> reads
  \<open>File I/O Error: model_path cannot be empty [Context: File: model_path]
  [Location: <file>:79]\<close>. The context labels the parameter name as a file: the
  validator passes its parameter name where the exception expects a path.\<close>

theorem exception_context_reported:
  assumes "src \<noteq> []"
  shows "with_new_llama fl rnd (test_exception_context fs j src mexn) = [True, True, True, True, True]
    \<and> (\<forall>st. fst (initialize_exn fs j src mexn [] st)
          = Inl (file_io_exception ''model_path cannot be empty'' ''model_path'' src 79))
    \<and> what (file_io_exception ''model_path cannot be empty'' ''model_path'' src 79)
      = ''File I/O Error: model_path cannot be empty [Context: File: model_path] [Location: ''
        @ src @ '':79]''"
proof -
  obtain st where st: "\<forall>body. with_new_llama fl rnd body = body st"
    using with_new_llama_unready by blast
  have n: "to_string 79 = ''79''"
    by code_simp
  show ?thesis
    using assms st exception_context_test_passes [OF assms]
    by (simp add: initialize_exn_empty_path what_def file_io_exception_def tinyllama_exception_def n)
qed

theorem exception_context_reported_witness:
  "''tiny_llama.cpp'' \<noteq> []
   \<and> with_new_llama (\<lambda>_. 0) (\<lambda>_. 0)
       (test_exception_context (\<lambda>_. None) 0 ''tiny_llama.cpp'' (\<lambda>k. tinyllama_exception k [] [] [] 0))
     = [True, True, True, True, True]
   \<and> what (file_io_exception ''model_path cannot be empty'' ''model_path'' ''tiny_llama.cpp'' 79)
     = ''File I/O Error: model_path cannot be empty [Context: File: model_path] [Location: tiny_llama.cpp:79]''"
  using exception_context_reported [of "''tiny_llama.cpp''" "\<lambda>_. 0" "\<lambda>_. 0" "\<lambda>_. None" 0
      "\<lambda>k. tinyllama_exception k [] [] [] 0"]
  by simp

end
