(* ===== verification/Tokenizer_Tests.thy ===== *)
theory Tokenizer_Tests
  imports Tests
begin

text \<open>The unit tests of the vocabulary and the BPE tokenizer
  (\<open>src/unnamed/part_000\<close>). Each test is the list of its \<open>assert\<close>s in order; a
  test that creates files takes the file system and returns it as it leaves
  it. An exception that escapes a test aborts it, which counts as a failed
  check. The helpers of \<open>Tests\<close> create and remove the temporary files.\<close>

section \<open>Temporary files\<close>

text \<open>\<open>file << line << std::endl\<close> for each line.\<close>

definition write_lines :: "string list \<Rightarrow> string" where
  "write_lines ls = concat (map (\<lambda>l. l @ [CHR 0x0A]) ls)"

definition temp_vocab_text :: string where
  "temp_vocab_text = write_lines [''hello'', ''world'', ''test 10'', ''example 15'', ''token'']"

definition create_temp_vocab_file :: "file_system \<Rightarrow> string \<times> file_system" where
  "create_temp_vocab_file fs =
     (''temp_vocab_test.txt'', create_test_file ''temp_vocab_test.txt'' temp_vocab_text fs)"

definition temp_merges_text :: string where
  "temp_merges_text =
     write_lines [''#version: 0.2'', ''h e'', ''he l'', ''hel l'', ''hell o'', ''w o'', ''wo r'', ''wor l'',
                  ''worl d'', ''t e'', ''te s'', ''tes t'']"

definition create_temp_merges_file :: "file_system \<Rightarrow> string \<times> file_system" where
  "create_temp_merges_file fs =
     (''temp_merges_test.txt'', create_test_file ''temp_merges_test.txt'' temp_merges_text fs)"

section \<open>Vocabulary tests\<close>

definition test_vocabulary_constructor :: "bool list" where
  "test_vocabulary_constructor =
     (let v = vocab_new
      in [has_token v ''<unk>'', has_token v ''<pad>'', has_token v ''<bos>'', has_token v ''<eos>'',
          0 \<le> unk_token_id v, 0 \<le> pad_token_id v, 0 \<le> bos_token_id v, 0 \<le> eos_token_id v,
          vocabulary_size v = 4])"

definition test_vocabulary_add_token :: "bool list" where
  "test_vocabulary_add_token =
     (let v = vocab_new; initial_size = vocabulary_size v;
          (id1, v1) = add_token ''test'' v; (id2, v2) = add_token ''example'' v1;
          cs = [has_token v2 ''test'', has_token v2 ''example'', id1 = int initial_size,
                id2 = int initial_size + 1, vocabulary_size v2 = initial_size + 2];
          (id3, v3) = add_token ''test'' v2
      in cs @ [id3 = id1, vocabulary_size v3 = initial_size + 2])"

definition test_vocabulary_token_lookup :: "bool list" where
  "test_vocabulary_token_lookup =
     (let v = vocab_new; (id1, v1) = add_token ''hello'' v; (id2, v2) = add_token ''world'' v1
      in [get_token_id v2 ''hello'' = id1, get_token_id v2 ''world'' = id2,
          get_token_id v2 ''unknown'' = unk_token_id v2,
          get_token v2 id1 = ''hello'', get_token v2 id2 = ''world'',
          get_token v2 (- 1) = get_token v2 (unk_token_id v2),
          get_token v2 1000 = get_token v2 (unk_token_id v2)])"

definition test_vocabulary_load_from_file :: "file_system \<Rightarrow> bool list \<times> file_system" where
  "test_vocabulary_load_from_file fs0 =
     (let (filename, fs1) = create_temp_vocab_file fs0
      in case vocab_load (file_text fs1 filename) vocab_new of
           Inl _ \<Rightarrow> ([False], fs1)
         | Inr v \<Rightarrow>
             ([has_token v ''hello'', has_token v ''world'', has_token v ''test'', has_token v ''example'',
               has_token v ''token'', get_token v 10 = ''test'', get_token v 15 = ''example'',
               has_token v ''<unk>'', has_token v ''<pad>'', has_token v ''<bos>'', has_token v ''<eos>''],
              remove_test_file filename fs1))"

definition test_vocabulary_error_handling :: "file_system \<Rightarrow> bool list" where
  "test_vocabulary_error_handling fs =
     [expect_exception FileIOError (vocab_load (file_text fs ''non_existent_file.txt'') vocab_new)]"

definition test_vocabulary :: "file_system \<Rightarrow> bool list \<times> file_system" where
  "test_vocabulary fs0 =
     (let (c4, fs1) = test_vocabulary_load_from_file fs0
      in (test_vocabulary_constructor @ test_vocabulary_add_token @ test_vocabulary_token_lookup @ c4
          @ test_vocabulary_error_handling fs1, fs1))"

section \<open>BPE tokenizer tests\<close>

text \<open>The set-up most tests repeat: both temporary files written, a new
  tokenizer, \<open>load_vocab\<close> and \<open>load_merges\<close>; then the checks; then both files
  removed.\<close>

definition with_loaded_tokenizer ::
  "file_system \<Rightarrow> (bpe_tokenizer \<Rightarrow> bool list) \<Rightarrow> bool list \<times> file_system" where
  "with_loaded_tokenizer fs0 checks =
     (let (vocab_file, fs1) = create_temp_vocab_file fs0; (merges_file, fs2) = create_temp_merges_file fs1
      in case rbind (load_vocab (file_text fs2 vocab_file) tokenizer_new) (load_merges (file_text fs2 merges_file)) of
           Inl _ \<Rightarrow> ([False], fs2)
         | Inr t \<Rightarrow> (checks t, remove_test_file merges_file (remove_test_file vocab_file fs2)))"

text \<open>\<open>const_cast<Vocabulary&>(tokenizer.get_vocab()).add_token(s)\<close>.\<close>

definition add_vocab_token :: "string \<Rightarrow> bpe_tokenizer \<Rightarrow> int \<times> bpe_tokenizer" where
  "add_vocab_token s t = (let (i, v) = add_token s (vocab t) in (i, t\<lparr>vocab := v\<rparr>))"

definition test_bpe_tokenizer_constructor :: "bool list" where
  "test_bpe_tokenizer_constructor = [tokenizer_vocab_size tokenizer_new = 4]"

definition test_bpe_tokenizer_load_files :: "file_system \<Rightarrow> bool list \<times> file_system" where
  "test_bpe_tokenizer_load_files fs0 =
     (let (vocab_file, fs1) = create_temp_vocab_file fs0; (merges_file, fs2) = create_temp_merges_file fs1
      in case load_vocab (file_text fs2 vocab_file) tokenizer_new of
           Inl _ \<Rightarrow> ([False], fs2)
         | Inr t \<Rightarrow>
             (let cs = [0 < tokenizer_vocab_size t, has_token (vocab t) ''hello'', has_token (vocab t) ''world'']
              in case load_merges (file_text fs2 merges_file) t of
                   Inl _ \<Rightarrow> (cs @ [False], fs2)
                 | Inr _ \<Rightarrow> (cs, remove_test_file merges_file (remove_test_file vocab_file fs2))))"

definition test_bpe_tokenizer_preprocess_text :: "bool list" where
  "test_bpe_tokenizer_preprocess_text =
     [preprocess_text ''Hello World'' = ''hello world'',
      preprocess_text (''Hello'' @ [CHR 0x09] @ ''World'' @ [CHR 0x0A] @ ''Test'') = ''hello world test'',
      preprocess_text '''' = '''']"

definition test_bpe_tokenizer_split_to_words :: "bool list" where
  "test_bpe_tokenizer_split_to_words =
     (let words1 = split_to_words ''hello world''; words2 = split_to_words ''hello  world'';
          words3 = split_to_words ''''
      in [length words1 = 3, words1 ! 0 = ''hello'', words1 ! 1 = '' '', words1 ! 2 = ''world'',
          length words2 = 4, words2 ! 0 = ''hello'', words2 ! 1 = '' '', words2 ! 2 = '' '',
          words2 ! 3 = ''world'', words3 = []])"

definition test_bpe_tokenizer_bpe_encode :: "file_system \<Rightarrow> bool list \<times> file_system" where
  "test_bpe_tokenizer_bpe_encode fs =
     with_loaded_tokenizer fs (\<lambda>t.
       let tokens1 = bpe_encode t ''hello''; tokens2 = bpe_encode t ''xyz''; tokens3 = bpe_encode t ''''
       in [length tokens1 = 1, tokens1 ! 0 = ''hello'', length tokens2 = 3, tokens2 ! 0 = ''x'',
           tokens2 ! 1 = ''y'', tokens2 ! 2 = ''z'', tokens3 = []])"

definition test_bpe_tokenizer_encode_to_strings :: "file_system \<Rightarrow> bool list \<times> file_system" where
  "test_bpe_tokenizer_encode_to_strings fs =
     with_loaded_tokenizer fs (\<lambda>t.
       let tokens1 = encode_to_strings t ''hello world''; tokens2 = encode_to_strings t ''''
       in [length tokens1 = 3, tokens1 ! 0 = ''hello'', tokens1 ! 1 = '' '', tokens1 ! 2 = ''world'',
           tokens2 = []])"

definition test_bpe_tokenizer_encode :: "file_system \<Rightarrow> bool list \<times> file_system" where
  "test_bpe_tokenizer_encode fs =
     with_loaded_tokenizer fs (\<lambda>t0.
       let (hello_id, t1) = add_vocab_token ''hello'' t0; (space_id, t2) = add_vocab_token '' '' t1;
           (world_id, t3) = add_vocab_token ''world'' t2;
           ids1 = encode t3 ''hello world''; ids2 = encode t3 ''''
       in [length ids1 = 3, ids1 ! 0 = hello_id, ids1 ! 1 = space_id, ids1 ! 2 = world_id, ids2 = []])"

definition test_bpe_tokenizer_error_handling :: "file_system \<Rightarrow> bool list" where
  "test_bpe_tokenizer_error_handling fs =
     [expect_exception FileIOError (load_vocab (file_text fs ''non_existent_file.txt'') tokenizer_new),
      expect_exception FileIOError (load_merges (file_text fs ''non_existent_file.txt'') tokenizer_new)]"

definition test_bpe_tokenizer_decode :: "file_system \<Rightarrow> bool list \<times> file_system" where
  "test_bpe_tokenizer_decode fs =
     with_loaded_tokenizer fs (\<lambda>t0.
       let (hello_id, t1) = add_vocab_token ''hello'' t0; (space_id, t2) = add_vocab_token '' '' t1;
           (world_id, t3) = add_vocab_token ''world'' t2; unk_id = unk_token_id (vocab t3)
       in [decode t3 [hello_id, space_id, world_id] = ''hello world'',
           decode t3 [hello_id, unk_id, world_id] = ''hello<unk>world'',
           decode t3 [] = '''',
           decode t3 [hello_id, 9999, world_id] = ''hello<unk>world'',
           decode t3 [hello_id, - 1, world_id] = ''hello<unk>world''])"

text \<open>\<open>"hello \<dots>"\<close> with two Chinese characters, as their six UTF-8 bytes.\<close>

definition test_bpe_tokenizer_encode_edge_cases :: "file_system \<Rightarrow> bool list \<times> file_system" where
  "test_bpe_tokenizer_encode_edge_cases fs =
     with_loaded_tokenizer fs (\<lambda>t0.
       let (_, t1) = add_vocab_token ''hello'' t0; (_, t2) = add_vocab_token '' '' t1;
           (_, t3) = add_vocab_token ''world'' t2;
           ids3 = encode t3 (''hello '' @ [CHR 0xE4, CHR 0xB8, CHR 0x96, CHR 0xE7, CHR 0x95, CHR 0x8C]);
           decoded4 = decode t3 (encode t3 (''hello'' @ [CHR 0x09, CHR 0x0A] @ ''world''));
           original = ''hello world''
       in [encode t3 '''' = [], length (encode t3 ''   '') = 3, 0 < length ids3,
           decoded4 = ''hello  world'', decode t3 (encode t3 original) = original])"

text \<open>One input of the round-trip loop: an empty input must give no ids and no
  text; any other input must decode to a text that contains its preprocessed
  form or is contained in it.\<close>

definition integration_check :: "bpe_tokenizer \<Rightarrow> string \<Rightarrow> bool list" where
  "integration_check t input =
     (let encoded = encode t input; decoded = decode t encoded
      in if input = [] then [encoded = [], decoded = []]
         else let preprocessed = preprocess_text input
              in [has_substr preprocessed decoded \<or> has_substr decoded preprocessed])"

definition test_bpe_tokenizer_encode_decode_integration :: "file_system \<Rightarrow> bool list \<times> file_system" where
  "test_bpe_tokenizer_encode_decode_integration fs =
     with_loaded_tokenizer fs (\<lambda>t0.
       let (_, t1) = add_vocab_token ''hello'' t0; (_, t2) = add_vocab_token '' '' t1;
           (_, t3) = add_vocab_token ''world'' t2; (_, t4) = add_vocab_token ''!'' t3
       in concat (map (integration_check t4)
            ['''', ''hello'', ''hello world'', ''hello world!'', ''   hello   world  '', ''HELLO WORLD'']))"

definition test_bpe_tokenizer :: "file_system \<Rightarrow> bool list \<times> file_system" where
  "test_bpe_tokenizer fs0 =
     (let (c2, fs1) = test_bpe_tokenizer_load_files fs0;
          (c5, fs2) = test_bpe_tokenizer_bpe_encode fs1;
          (c6, fs3) = test_bpe_tokenizer_encode_to_strings fs2;
          (c7, fs4) = test_bpe_tokenizer_encode fs3;
          (c8, fs5) = test_bpe_tokenizer_decode fs4;
          (c9, fs6) = test_bpe_tokenizer_encode_edge_cases fs5;
          (c10, fs7) = test_bpe_tokenizer_encode_decode_integration fs6
      in (test_bpe_tokenizer_constructor @ c2 @ test_bpe_tokenizer_preprocess_text
          @ test_bpe_tokenizer_split_to_words @ c5 @ c6 @ c7 @ c8 @ c9 @ c10
          @ test_bpe_tokenizer_error_handling fs7, fs7))"

text \<open>Where the tests run: the temporary file names are free to be written and
  the missing file is missing.\<close>

definition tokenizer_test_paths :: "file_system \<Rightarrow> bool" where
  "tokenizer_test_paths fs \<longleftrightarrow> fs ''temp_vocab_test.txt'' \<noteq> Some Directory
     \<and> fs ''temp_merges_test.txt'' \<noteq> Some Directory \<and> fs ''non_existent_file.txt'' = None"

section \<open>Running the tests\<close>

lemma file_text_bytes_of_string: "map (\<lambda>b. char_of (unat b)) (bytes_of_string s) = s"
  by (induction s) (simp_all add: bytes_of_string_def unat_of_nat)

lemma created_file:
  assumes "fs p \<noteq> Some Directory"
  shows "file_text (create_test_file p c fs) p = Some c"
    "remove_test_file p (create_test_file p c fs) = fs(p := None)"
  using assms by (simp_all add: file_text_def file_bytes_def create_test_file_def remove_test_file_def
      file_text_bytes_of_string)

lemma tokenizer_test_paths_update:
  "tokenizer_test_paths fs \<Longrightarrow> p \<noteq> ''non_existent_file.txt'' \<Longrightarrow> tokenizer_test_paths (fs(p \<mapsto> RegularFile bs))"
  "tokenizer_test_paths fs \<Longrightarrow> p \<noteq> ''non_existent_file.txt'' \<Longrightarrow> tokenizer_test_paths (fs(p := None))"
  by (auto simp: tokenizer_test_paths_def)

lemma temp_files:
  assumes "tokenizer_test_paths fs"
  shows "create_temp_vocab_file fs = (''temp_vocab_test.txt'', fs(''temp_vocab_test.txt'' \<mapsto> RegularFile (bytes_of_string temp_vocab_text)))"
    "create_temp_merges_file fs = (''temp_merges_test.txt'', fs(''temp_merges_test.txt'' \<mapsto> RegularFile (bytes_of_string temp_merges_text)))"
  using assms by (simp_all add: tokenizer_test_paths_def create_temp_vocab_file_def create_temp_merges_file_def
      create_test_file_def)

lemma temp_file_reads:
  "file_text (fs(p \<mapsto> RegularFile (bytes_of_string c))) p = Some c"
  "q \<noteq> p \<Longrightarrow> file_text (fs(p \<mapsto> e)) q = file_text fs q"
  "fs p = Some (RegularFile bs) \<Longrightarrow> remove_test_file p fs = fs(p := None)"
  by (simp_all add: file_text_def file_bytes_def remove_test_file_def file_text_bytes_of_string)

text \<open>A test built on the common set-up passes when its checks hold of the
  tokenizer the two files load, and leaves the paths as it found them.\<close>

lemma with_loaded_tokenizer_pass:
  assumes "tokenizer_test_paths fs"
    and "case rbind (load_vocab (Some temp_vocab_text) tokenizer_new) (load_merges (Some temp_merges_text)) of
           Inl _ \<Rightarrow> False | Inr t \<Rightarrow> list_all id (checks t)"
  shows "\<exists>cs fs'. with_loaded_tokenizer fs checks = (cs, fs') \<and> list_all id cs \<and> tokenizer_test_paths fs'"
  using assms
  by (auto simp: with_loaded_tokenizer_def temp_files temp_file_reads tokenizer_test_paths_update
      split: sum.split)

lemma vocabulary_load_test:
  assumes "tokenizer_test_paths fs"
  shows "\<exists>cs fs'. test_vocabulary_load_from_file fs = (cs, fs') \<and> list_all id cs \<and> tokenizer_test_paths fs'"
  using assms
  apply (simp add: test_vocabulary_load_from_file_def temp_files temp_file_reads tokenizer_test_paths_update
      sum.case_eq_if)
  apply code_simp
  done

lemma load_files_test:
  assumes "tokenizer_test_paths fs"
  shows "\<exists>cs fs'. test_bpe_tokenizer_load_files fs = (cs, fs') \<and> list_all id cs \<and> tokenizer_test_paths fs'"
proof -
  have "\<not> isl (load_vocab (Some temp_vocab_text) tokenizer_new)"
    "\<not> isl (load_merges (Some temp_merges_text) (projr (load_vocab (Some temp_vocab_text) tokenizer_new)))"
    by code_simp+
  then show ?thesis
    using assms
    apply (simp add: test_bpe_tokenizer_load_files_def temp_files temp_file_reads tokenizer_test_paths_update
        sum.case_eq_if)
    apply code_simp
    done
qed

lemma missing_file_tests:
  "tokenizer_test_paths fs \<Longrightarrow> list_all id (test_vocabulary_error_handling fs)"
  "tokenizer_test_paths fs \<Longrightarrow> list_all id (test_bpe_tokenizer_error_handling fs)"
  by (simp_all add: tokenizer_test_paths_def test_vocabulary_error_handling_def test_bpe_tokenizer_error_handling_def
      file_text_def file_bytes_def vocab_load_def load_vocab_def load_merges_def expect_exception_def rbind_def)

lemma bpe_encode_test:
  assumes "tokenizer_test_paths fs"
  shows "\<exists>cs fs'. test_bpe_tokenizer_bpe_encode fs = (cs, fs') \<and> list_all id cs \<and> tokenizer_test_paths fs'"
  unfolding test_bpe_tokenizer_bpe_encode_def by (rule with_loaded_tokenizer_pass [OF assms]) code_simp

lemma encode_to_strings_test:
  assumes "tokenizer_test_paths fs"
  shows "\<exists>cs fs'. test_bpe_tokenizer_encode_to_strings fs = (cs, fs') \<and> list_all id cs \<and> tokenizer_test_paths fs'"
  unfolding test_bpe_tokenizer_encode_to_strings_def by (rule with_loaded_tokenizer_pass [OF assms]) code_simp

lemma encode_test:
  assumes "tokenizer_test_paths fs"
  shows "\<exists>cs fs'. test_bpe_tokenizer_encode fs = (cs, fs') \<and> list_all id cs \<and> tokenizer_test_paths fs'"
  unfolding test_bpe_tokenizer_encode_def by (rule with_loaded_tokenizer_pass [OF assms]) code_simp

lemma decode_test:
  assumes "tokenizer_test_paths fs"
  shows "\<exists>cs fs'. test_bpe_tokenizer_decode fs = (cs, fs') \<and> list_all id cs \<and> tokenizer_test_paths fs'"
  unfolding test_bpe_tokenizer_decode_def by (rule with_loaded_tokenizer_pass [OF assms]) code_simp

lemma encode_edge_cases_test:
  assumes "tokenizer_test_paths fs"
  shows "\<exists>cs fs'. test_bpe_tokenizer_encode_edge_cases fs = (cs, fs') \<and> list_all id cs \<and> tokenizer_test_paths fs'"
  unfolding test_bpe_tokenizer_encode_edge_cases_def by (rule with_loaded_tokenizer_pass [OF assms]) code_simp

lemma encode_decode_integration_test:
  assumes "tokenizer_test_paths fs"
  shows "\<exists>cs fs'. test_bpe_tokenizer_encode_decode_integration fs = (cs, fs') \<and> list_all id cs \<and> tokenizer_test_paths fs'"
  unfolding test_bpe_tokenizer_encode_decode_integration_def by (rule with_loaded_tokenizer_pass [OF assms]) code_simp

lemma vocabulary_fixed_tests:
  "list_all id (test_vocabulary_constructor @ test_vocabulary_add_token @ test_vocabulary_token_lookup)"
  "list_all id (test_bpe_tokenizer_constructor @ test_bpe_tokenizer_preprocess_text @ test_bpe_tokenizer_split_to_words)"
  by code_simp+

section \<open>Properties of the tokenizer tests\<close>

lemma vocabulary_suite_passes:
  assumes "tokenizer_test_paths fs"
  shows "list_all id (fst (test_vocabulary fs))"
proof -
  obtain cs fs' where l: "test_vocabulary_load_from_file fs = (cs, fs')" "list_all id cs" "tokenizer_test_paths fs'"
    using vocabulary_load_test [OF assms] by blast
  show ?thesis
    using l vocabulary_fixed_tests(1) missing_file_tests(1) [OF l(3)] by (simp add: test_vocabulary_def)
qed

lemma bpe_tokenizer_suite_passes:
  assumes "tokenizer_test_paths fs"
  shows "list_all id (fst (test_bpe_tokenizer fs))"
proof -
  obtain c2 fs1 where 2: "test_bpe_tokenizer_load_files fs = (c2, fs1)" "list_all id c2" "tokenizer_test_paths fs1"
    using load_files_test [OF assms] by blast
  obtain c5 fs2 where 5: "test_bpe_tokenizer_bpe_encode fs1 = (c5, fs2)" "list_all id c5" "tokenizer_test_paths fs2"
    using bpe_encode_test [OF 2(3)] by blast
  obtain c6 fs3 where 6: "test_bpe_tokenizer_encode_to_strings fs2 = (c6, fs3)" "list_all id c6" "tokenizer_test_paths fs3"
    using encode_to_strings_test [OF 5(3)] by blast
  obtain c7 fs4 where 7: "test_bpe_tokenizer_encode fs3 = (c7, fs4)" "list_all id c7" "tokenizer_test_paths fs4"
    using encode_test [OF 6(3)] by blast
  obtain c8 fs5 where 8: "test_bpe_tokenizer_decode fs4 = (c8, fs5)" "list_all id c8" "tokenizer_test_paths fs5"
    using decode_test [OF 7(3)] by blast
  obtain c9 fs6 where 9: "test_bpe_tokenizer_encode_edge_cases fs5 = (c9, fs6)" "list_all id c9" "tokenizer_test_paths fs6"
    using encode_edge_cases_test [OF 8(3)] by blast
  obtain c10 fs7 where 10: "test_bpe_tokenizer_encode_decode_integration fs6 = (c10, fs7)" "list_all id c10"
    "tokenizer_test_paths fs7"
    using encode_decode_integration_test [OF 9(3)] by blast
  show ?thesis
    using 2 5 6 7 8 9 10 vocabulary_fixed_tests(2) missing_file_tests(2) [OF 10(3)]
    by (simp add: test_bpe_tokenizer_def)
qed

text \<open>Claim C34: the tokenizer unit tests pass every assertion, run where the
  temporary files can be written and the missing file is missing. The
  Vocabulary tests (\<open>test_vocabulary\<close>) check the constructor's four special
  tokens, \<open>add_token\<close> and its idempotence, lookups with the unknown-token
  fallback, loading a file with implicit and explicit ids, and the
  \<open>FileIOException\<close> of a missing file. The BPE tokenizer tests
  (\<open>test_bpe_tokenizer\<close>) check loading, preprocessing, word splitting, the
  merge loop on the test's merge rules, encoding to strings and to ids, decoding
  with unknown, out-of-range and negative ids, the edge cases, the round trip of
  six inputs, and the errors of missing files.\<close>

theorem tokenizer_unit_tests_pass:
  assumes "tokenizer_test_paths fs"
  shows "list_all id (fst (test_vocabulary fs)) \<and> list_all id (fst (test_bpe_tokenizer fs))"
  using vocabulary_suite_passes [OF assms] bpe_tokenizer_suite_passes [OF assms] by simp

theorem tokenizer_unit_tests_pass_witness:
  "tokenizer_test_paths (\<lambda>_. None) \<and> list_all id (fst (test_vocabulary (\<lambda>_. None)))
   \<and> list_all id (fst (test_bpe_tokenizer (\<lambda>_. None)))"
  using tokenizer_unit_tests_pass [of "\<lambda>_. None"] by (simp add: tokenizer_test_paths_def)

end
