(* ===== verification/Test_Data.thy ===== *)
theory Test_Data
  imports Tests
begin

text \<open>The program that creates the data of the integration tests
  (\<open>src/unnamed/part_001\<close>): a binary weight file, a vocabulary file and a merges
  file under \<open><cwd>/tiny_llama_cpp/data\<close>. The values \<open>dist(gen)\<close> draws from its
  normal distribution are a parameter \<open>g\<close>, indexed by the order of the draws.
  The program is checked against the loaders it feeds: the vocabulary it writes
  has more tokens than the configuration it writes, and the facade cannot load
  the directory.\<close>

section \<open>The weight file\<close>

text \<open>\<open>write_matrix(rows, cols)\<close>: the two \<open>size_t\<close> dimensions, then
  \<open>rows * cols\<close> drawn floats. The state is the number of values drawn so far
  and the bytes written.\<close>

definition write_matrix :: "(nat \<Rightarrow> 32 word) \<Rightarrow> nat \<Rightarrow> nat \<Rightarrow> nat \<times> byte list \<Rightarrow> nat \<times> byte list" where
  "write_matrix g rows cols st =
     (let (k, bs) = st; n = size_mul rows cols
      in (k + n, bs @ le_bytes 8 rows @ le_bytes 8 cols @ floats_bytes (map g [k..<k + n])))"

definition write_vector :: "(nat \<Rightarrow> 32 word) \<Rightarrow> nat \<Rightarrow> nat \<times> byte list \<Rightarrow> nat \<times> byte list" where
  "write_vector g n st =
     (let (k, bs) = st in (k + n, bs @ le_bytes 8 n @ floats_bytes (map g [k..<k + n])))"

text \<open>One transformer block: the four attention matrices, the network's two
  matrices and biases, and the four layer-norm vectors.\<close>

definition write_layer :: "(nat \<Rightarrow> 32 word) \<Rightarrow> nat \<Rightarrow> nat \<Rightarrow> nat \<times> byte list \<Rightarrow> nat \<times> byte list" where
  "write_layer g md fh st =
     (let st = write_matrix g md md st; st = write_matrix g md md st;
          st = write_matrix g md md st; st = write_matrix g md md st;
          st = write_matrix g md fh st; st = write_vector g fh st;
          st = write_matrix g fh md st; st = write_vector g md st;
          st = write_vector g md st; st = write_vector g md st;
          st = write_vector g md st
      in write_vector g md st)"

text \<open>The header: magic, version, the seven configuration fields (the six
  \<open>int\<close>s \<open>md\<close>, \<open>nl\<close>, \<open>nh\<close>, \<open>fh\<close>, \<open>msl\<close>, \<open>vs\<close> and the \<open>float\<close> \<open>0.1f\<close>); then
  the two tables, the layers and the output projection.\<close>

definition data_weights_bytes :: "(nat \<Rightarrow> 32 word) \<Rightarrow> byte list" where
  "data_weights_bytes g =
     (let md = 64; nl = 2; nh = 2; fh = 128; msl = 128;
          vs = 100;
          header = le_bytes 4 0x544C4C4D @ le_bytes 4 1 @ le_bytes 4 md @ le_bytes 4 nl
            @ le_bytes 4 nh @ le_bytes 4 fh @ le_bytes 4 msl
            @ le_bytes 4 vs @ float_bytes float_0_1;
          st = write_matrix g vs md (0, []);
          st = write_matrix g msl md st;
          st = foldl (\<lambda>st layer. write_layer g md fh st) st [0..<nl];
          st = write_matrix g md vs st
      in header @ snd st)"

section \<open>The vocabulary and merges files\<close>

definition common_words :: "string list" where
  "common_words =
     [''the'', ''of'', ''and'', ''to'', ''in'', ''a'', ''is'', ''that'', ''for'', ''it'',
      ''with'', ''as'', ''was'', ''on'', ''be'', ''at'', ''by'', ''this'', ''have'', ''from'',
      ''or'', ''had'', ''an'', ''but'', ''are'', ''not'', ''they'', ''which'', ''you'', ''one'']"

text \<open>The four special tokens, every printable ASCII character (32 to 126) on a
  line of its own, then the common words.\<close>

definition data_vocab_text :: string where
  "data_vocab_text =
     ''<unk>'' @ [CHR 0x0A] @ ''<pad>'' @ [CHR 0x0A] @ ''<bos>'' @ [CHR 0x0A] @ ''<eos>'' @ [CHR 0x0A]
     @ concat (map (\<lambda>i. [char_of i, CHR 0x0A]) [32::nat..<127])
     @ concat (map (\<lambda>w. w @ [CHR 0x0A]) common_words)"

definition basic_merges :: "string list" where
  "basic_merges =
     [''t h'', ''th e'', ''the'', ''a n'', ''an d'', ''and'', ''i n'', ''in'', ''i s'', ''is'',
      ''t o'', ''to'', ''f o'', ''fo r'', ''for'', ''i t'', ''it'']"

definition data_merges_text :: string where
  "data_merges_text = ''#version: 0.2'' @ [CHR 0x0A] @ concat (map (\<lambda>m. m @ [CHR 0x0A]) basic_merges)"

section \<open>The program\<close>

text \<open>\<open>main\<close> with the working directory \<open>cwd\<close>: each file is written in turn,
  and the program returns 1 as soon as one cannot be opened (here: the path is
  a directory). \<open>getcwd\<close> is taken to succeed.\<close>

definition create_test_data :: "string \<Rightarrow> (nat \<Rightarrow> 32 word) \<Rightarrow> file_system \<Rightarrow> int \<times> file_system" where
  "create_test_data cwd g fs =
     (let weights_path = cwd @ ''/tiny_llama_cpp/data/weights.bin''
      in if fs weights_path = Some Directory then (1, fs)
         else let fs = fs(weights_path \<mapsto> RegularFile (data_weights_bytes g));
                  vocab_path = cwd @ ''/tiny_llama_cpp/data/vocab.txt''
         in if fs vocab_path = Some Directory then (1, fs)
            else let fs = fs(vocab_path \<mapsto> RegularFile (bytes_of_string data_vocab_text));
                     merges_path = cwd @ ''/tiny_llama_cpp/data/merges.txt''
            in if fs merges_path = Some Directory then (1, fs)
               else (0, fs(merges_path \<mapsto> RegularFile (bytes_of_string data_merges_text))))"

section \<open>The data against its loaders\<close>

text \<open>The tokenizer a fresh model gets from the two text files.\<close>

lemma data_tokenizer:
  "\<not> isl (load_vocab (Some data_vocab_text) tokenizer_new)"
  "\<not> isl (load_merges (Some data_merges_text) (projr (load_vocab (Some data_vocab_text) tokenizer_new)))"
  "encode (projr (load_merges (Some data_merges_text) (projr (load_vocab (Some data_vocab_text) tokenizer_new)))) ''it''
     = [107]"
  "tokenizer_vocab_size (projr (load_merges (Some data_merges_text) (projr (load_vocab (Some data_vocab_text) tokenizer_new))))
     = 128"
  by code_simp+

lemma data_weights_header:
  "\<exists>rest. data_weights_bytes g = le_bytes 4 magic_number @ le_bytes 4 weights_version @ le_bytes 4 64
     @ le_bytes 4 2 @ le_bytes 4 2 @ le_bytes 4 128 @ le_bytes 4 128 @ le_bytes 4 100 @ float_bytes float_0_1 @ rest"
  by (simp add: data_weights_bytes_def magic_number_def weights_version_def Let_def)

lemma data_weights_wrong_dim:
  assumes "model_dim (config m) \<noteq> 64"
  shows "load_model_weights (Some (data_weights_bytes g)) j m = Inl FileIOError"
proof -
  obtain rest where r: "data_weights_bytes g = le_bytes 4 magic_number @ le_bytes 4 weights_version @ le_bytes 4 64
     @ le_bytes 4 2 @ le_bytes 4 2 @ le_bytes 4 128 @ le_bytes 4 128 @ le_bytes 4 100 @ float_bytes float_0_1 @ rest"
    using data_weights_header by blast
  show ?thesis
    using assms
    by (simp add: r load_model_weights_def read_u32_good read_i32_good read_f32_good magic_number_def
        weights_version_def as_file_error_def)
qed

lemma create_test_data_files:
  assumes "fst (create_test_data cwd g fs) = 0"
  shows "snd (create_test_data cwd g fs) (cwd @ ''/tiny_llama_cpp/data/weights.bin'') = Some (RegularFile (data_weights_bytes g))"
    "snd (create_test_data cwd g fs) (cwd @ ''/tiny_llama_cpp/data/vocab.txt'') = Some (RegularFile (bytes_of_string data_vocab_text))"
    "snd (create_test_data cwd g fs) (cwd @ ''/tiny_llama_cpp/data/merges.txt'') = Some (RegularFile (bytes_of_string data_merges_text))"
    "snd (create_test_data cwd g fs) (cwd @ ''/tiny_llama_cpp/data'') = fs (cwd @ ''/tiny_llama_cpp/data'')"
  using assms by (simp_all add: create_test_data_def Let_def split: if_split_asm)

section \<open>Properties of the test data\<close>

lemma generated_vocabulary:
  "case vocab_load (Some data_vocab_text) vocab_new of
     Inl _ \<Rightarrow> False
   | Inr v \<Rightarrow> vocabulary_size v = 128 \<and> get_token v 4 = [] \<and> get_token_id v '' '' = unk_token_id v
       \<and> get_token_id v ''the'' = 99 \<and> get_token_id v ''it'' = 107"
  by code_simp

text \<open>Claim C35: the vocabulary file the program writes gives 128 tokens, not
  the \<open>vocab_size = 100\<close> it writes into the weight file ''to match vocab.txt'':
  the line holding the space character becomes the empty token (id 4), so a
  space is not a token, and the common words take ids 99 to 127 (\<open>it\<close> is
  107). So a model of the written configuration whose tokenizer was loaded from
  the written files cannot generate from the prompt \<open>it\<close>: the merges make it
  the single token 107, which the forward pass rejects as out of range.\<close>

theorem generated_data_prompt_fails:
  assumes "tokenizer m = tokenizer_new" "vocab_size (config m) = 100" "2 \<le> max_sequence_length (config m)"
    and "0 < n"
  shows "(case vocab_load (Some data_vocab_text) vocab_new of
           Inl _ \<Rightarrow> False
         | Inr v \<Rightarrow> vocabulary_size v = 128 \<and> get_token v 4 = [] \<and> get_token_id v '' '' = unk_token_id v
             \<and> get_token_id v ''the'' = 99 \<and> get_token_id v ''it'' = 107)
    \<and> (case load_tokenizer (Some data_vocab_text) (Some data_merges_text) m of
           Inl _ \<Rightarrow> False
         | Inr m' \<Rightarrow> generate_text m' ''it'' n t = Inl ModelError)"
proof -
  let ?t = "projr (load_merges (Some data_merges_text) (projr (load_vocab (Some data_vocab_text) tokenizer_new)))"
  obtain t1 where t1: "load_vocab (Some data_vocab_text) tokenizer_new = Inr t1"
    using data_tokenizer(1) by (cases "load_vocab (Some data_vocab_text) tokenizer_new") simp_all
  obtain t2 where t2: "load_merges (Some data_merges_text) t1 = Inr t2"
    using data_tokenizer(2) t1 by (cases "load_merges (Some data_merges_text) t1") simp_all
  have l: "load_tokenizer (Some data_vocab_text) (Some data_merges_text) m = Inr (m\<lparr>tokenizer := ?t\<rparr>)"
    using assms(1) t1 t2 by (simp add: load_tokenizer_def)
  obtain k where k: "nat n = Suc k" using assms(4) by (cases "nat n") simp_all
  have "generate_text (m\<lparr>tokenizer := ?t\<rparr>) ''it'' n t = Inl ModelError"
    using assms(2-4) data_tokenizer(3,4) k
    by (simp add: generate_text_def is_initialized_def model_tokenize_def model_forward_def embed_tokens_def)
  then show ?thesis using generated_vocabulary by (simp add: l)
qed

theorem generated_data_prompt_fails_witness:
  "tokenizer (\<lparr>tokenizer = tokenizer_new, embedding_weights = matrix_new 0 0, position_embeddings = matrix_new 0 0,
       transformer_blocks = [], output_projection = matrix_new 0 0,
       config = default_config\<lparr>vocab_size := 100, max_sequence_length := 128\<rparr>, temperature = 1\<rparr> :: real tl_model)
     = tokenizer_new
   \<and> (case vocab_load (Some data_vocab_text) vocab_new of
         Inl _ \<Rightarrow> False
       | Inr v \<Rightarrow> vocabulary_size v = 128 \<and> get_token v 4 = [] \<and> get_token_id v '' '' = unk_token_id v
           \<and> get_token_id v ''the'' = 99 \<and> get_token_id v ''it'' = 107)
   \<and> (case load_tokenizer (Some data_vocab_text) (Some data_merges_text)
       (\<lparr>tokenizer = tokenizer_new, embedding_weights = matrix_new 0 0, position_embeddings = matrix_new 0 0,
         transformer_blocks = [], output_projection = matrix_new 0 0,
         config = default_config\<lparr>vocab_size := 100, max_sequence_length := 128\<rparr>, temperature = 1\<rparr> :: real tl_model) of
       Inl _ \<Rightarrow> False
     | Inr m' \<Rightarrow> generate_text m' ''it'' 1 1 = Inl ModelError)"
  using generated_data_prompt_fails [where m = "\<lparr>tokenizer = tokenizer_new, embedding_weights = matrix_new 0 0,
       position_embeddings = matrix_new 0 0, transformer_blocks = [], output_projection = matrix_new 0 0,
       config = default_config\<lparr>vocab_size := 100, max_sequence_length := 128\<rparr>, temperature = 1\<rparr>" and n = 1 and t = 1]
  by simp

text \<open>Claim C36: the program writes exactly the three files
  \<open>TinyLlama::initialize\<close> expects under \<open><cwd>/tiny_llama_cpp/data\<close>, yet an
  uninitialised facade can never load them: the tokenizer loads, but the weight
  file declares \<open>model_dim = 64\<close> while the facade's model has the default
  512, so \<open>initialize\<close> throws \<open>FileIOException\<close> and leaves the object
  uninitialised.\<close>

theorem facade_rejects_generated_data:
  assumes "fst (create_test_data cwd g fs) = 0" "fs (cwd @ ''/tiny_llama_cpp/data'') = Some Directory"
    and "CHR 0x00 \<notin> set cwd" "length cwd \<le> 1000"
    and "\<not> api_initialized st" "model_dim (config (api_model st)) = 512"
  shows "initialize (snd (create_test_data cwd g fs)) j (cwd @ ''/tiny_llama_cpp/data'') st
           = (Inl FileIOError, st\<lparr>api_initialized := False\<rparr>)"
proof -
  let ?fs = "snd (create_test_data cwd g fs)"
  note f = create_test_data_files [OF assms(1)]
  obtain m' where t: "load_tokenizer (file_text ?fs (cwd @ ''/tiny_llama_cpp/data/vocab.txt''))
      (file_text ?fs (cwd @ ''/tiny_llama_cpp/data/merges.txt'')) (api_model st) = Inr m'"
    using load_tokenizer_some f(2,3) by (fastforce simp: file_text_def file_bytes_def)
  have "model_dim (config m') \<noteq> 64"
    using t assms(6) by (auto simp: load_tokenizer_def split: sum.splits)
  then have w: "load_model_weights (file_bytes ?fs (cwd @ ''/tiny_llama_cpp/data/weights.bin'')) j m' = Inl FileIOError"
    using f(1) data_weights_wrong_dim by (simp add: file_bytes_def)
  show ?thesis
    using assms(2-5) f t w
    by (simp add: initialize_def initialize_with_config_def validate_directory_path_def validate_file_path_def
        file_exists_def is_directory_def max_string_length_def rethrow_as_def)
qed

theorem facade_rejects_generated_data_witness:
  "fst (create_test_data ''/w'' (\<lambda>_. 0) ((\<lambda>_. None)(''/w/tiny_llama_cpp/data'' \<mapsto> Directory))) = 0
   \<and> ((\<lambda>_. None)(''/w/tiny_llama_cpp/data'' \<mapsto> Directory)) (''/w'' @ ''/tiny_llama_cpp/data'') = Some Directory
   \<and> CHR 0x00 \<notin> set ''/w'' \<and> length ''/w'' \<le> 1000
   \<and> \<not> api_initialized \<lparr>api_model = \<lparr>tokenizer = tokenizer_new, embedding_weights = matrix_new 0 0,
          position_embeddings = matrix_new 0 0, transformer_blocks = [], output_projection = matrix_new 0 0,
          config = default_config_f32, temperature = 0\<rparr>, api_initialized = False\<rparr>
   \<and> model_dim (config (api_model \<lparr>api_model = \<lparr>tokenizer = tokenizer_new, embedding_weights = matrix_new 0 0,
          position_embeddings = matrix_new 0 0, transformer_blocks = [], output_projection = matrix_new 0 0,
          config = default_config_f32, temperature = 0\<rparr>, api_initialized = False\<rparr>)) = 512
   \<and> initialize (snd (create_test_data ''/w'' (\<lambda>_. 0) ((\<lambda>_. None)(''/w/tiny_llama_cpp/data'' \<mapsto> Directory)))) 0
       (''/w'' @ ''/tiny_llama_cpp/data'')
       \<lparr>api_model = \<lparr>tokenizer = tokenizer_new, embedding_weights = matrix_new 0 0,
          position_embeddings = matrix_new 0 0, transformer_blocks = [], output_projection = matrix_new 0 0,
          config = default_config_f32, temperature = 0\<rparr>, api_initialized = False\<rparr>
     = (Inl FileIOError, \<lparr>api_model = \<lparr>tokenizer = tokenizer_new, embedding_weights = matrix_new 0 0,
          position_embeddings = matrix_new 0 0, transformer_blocks = [], output_projection = matrix_new 0 0,
          config = default_config_f32, temperature = 0\<rparr>, api_initialized = False\<rparr>)"
proof -
  have h: "fst (create_test_data ''/w'' (\<lambda>_. 0) ((\<lambda>_. None)(''/w/tiny_llama_cpp/data'' \<mapsto> Directory))) = 0"
    by (simp add: create_test_data_def Let_def)
  show ?thesis
    using facade_rejects_generated_data [OF h, where j = 0 and st = "\<lparr>api_model = \<lparr>tokenizer = tokenizer_new,
          embedding_weights = matrix_new 0 0, position_embeddings = matrix_new 0 0, transformer_blocks = [],
          output_projection = matrix_new 0 0, config = default_config_f32, temperature = 0\<rparr>,
          api_initialized = False\<rparr>"] h
    by (simp add: default_config_f32_def default_config_def map_config_def)
qed

end
