(* ===== verification/Facade_Spec.thy ===== *)
theory Facade_Spec
  imports Facade
begin

text \<open>The initialisation state machine the specification states for the model
  and its facade: an object is \<^emph>\<open>Uninitialized\<close> or \<^emph>\<open>Ready\<close>; only a successful
  initialisation call moves it from the first to the second, and none moves it
  back; a second initialisation is refused, and the calls that need the model
  fail before it is ready. The facade's \<open>api_step\<close> refines this machine through
  the abstraction \<open>phase_of\<close>, with a call's success as the step's label.\<close>

section \<open>The abstract machine\<close>

datatype init_phase = Uninitialized | Ready

text \<open>The calls that read the model or its tokenizer.\<close>

fun needs_model :: "api_call \<Rightarrow> bool" where
  "needs_model (Generate p n) = True"
| "needs_model (TokenizeToStrings s) = True"
| "needs_model (TokenizeToIds s) = True"
| "needs_model (Detokenize ids) = True"
| "needs_model GetVocabSize = True"
| "needs_model c = False"

inductive spec_step :: "init_phase \<Rightarrow> api_call \<Rightarrow> bool \<Rightarrow> init_phase \<Rightarrow> bool" where
  init_ok: "is_init_call c \<Longrightarrow> spec_step Uninitialized c True Ready"
| init_fail: "is_init_call c \<Longrightarrow> spec_step Uninitialized c False Uninitialized"
| reinit: "is_init_call c \<Longrightarrow> spec_step Ready c False Ready"
| query_uninit: "needs_model c \<Longrightarrow> spec_step Uninitialized c False Uninitialized"
| query_ready: "needs_model c \<Longrightarrow> spec_step Ready c ok Ready"
| other: "\<not> is_init_call c \<Longrightarrow> \<not> needs_model c \<Longrightarrow> spec_step p c ok p"

code_pred spec_step .

inductive_cases spec_step_ReadyE: "spec_step Ready c ok p'"

definition phase_of :: "tiny_llama \<Rightarrow> init_phase" where
  "phase_of st = (if api_initialized st then Ready else Uninitialized)"

section \<open>Lemmas\<close>

lemma isl_rmap [simp]: "isl (rmap f r) = isl r"
  by (cases r) (simp_all add: rmap_def)

lemma isl_rethrow_as [simp]: "isl (rethrow_as e r) = isl r"
  by (simp add: rethrow_as_def split: sum.split error.split)

lemma initialize_with_config_phase:
  "api_initialized st \<Longrightarrow> snd (initialize_with_config fs j a b c st) = st \<and> isl (fst (initialize_with_config fs j a b c st))"
  "\<not> api_initialized st \<Longrightarrow>
     api_initialized (snd (initialize_with_config fs j a b c st)) \<longleftrightarrow> \<not> isl (fst (initialize_with_config fs j a b c st))"
  by (simp_all add: initialize_with_config_def split: sum.split)

lemma initialize_phase:
  "api_initialized st \<Longrightarrow> snd (initialize fs j p st) = st \<and> isl (fst (initialize fs j p st))"
  "\<not> api_initialized st \<Longrightarrow> api_initialized (snd (initialize fs j p st)) \<longleftrightarrow> \<not> isl (fst (initialize fs j p st))"
  by (simp_all add: initialize_def Let_def initialize_with_config_phase split: sum.split)

lemma query_uninit_fails:
  "\<not> api_initialized st \<Longrightarrow> needs_model c \<Longrightarrow> isl (fst (api_step fs j c st)) \<and> snd (api_step fs j c st) = st"
  by (cases c) (simp_all add: generate_def tokenize_to_strings_def tokenize_to_ids_def detokenize_def
      get_vocab_size_def rmap_def)

lemma non_init_step_keeps_flag:
  "\<not> is_init_call c \<Longrightarrow> api_initialized (snd (api_step fs j c st)) = api_initialized st"
  by (cases c) (auto simp: set_temperature_def split: sum.splits)

section \<open>Refinement\<close>

text \<open>Claim C37: every call on the facade, in every state and against every
  file system, is a step of the specification's initialisation machine from
  the phase of the object before the call to its phase after it, labelled by
  whether the call returned normally; and \<open>is_ready()\<close> reports the phase.
  In particular a model query before initialisation fails: on an object that
  is not initialised \<open>get_vocab_size()\<close> throws \<open>ModelException\<close>
  (\<open>tiny_llama.cpp\<close> lines 373 to 375). \<open>src/tests/test_tiny_llama_api.cpp\<close>
  (lines 209 to 210 and 496 to 497) expects it to return 0 there instead.\<close>

theorem api_step_refines_spec:
  "spec_step (phase_of st) c (\<not> isl (fst (api_step fs j c st))) (phase_of (snd (api_step fs j c st)))
   \<and> fst (api_step fs j IsReady st) = Inr (VBool (phase_of st = Ready))
   \<and> fst (api_step fs j GetVocabSize (st\<lparr>api_initialized := False\<rparr>)) = Inl ModelError"
proof -
  have "spec_step (phase_of st) c (\<not> isl (fst (api_step fs j c st))) (phase_of (snd (api_step fs j c st)))"
  proof (cases "is_init_call c")
    case True
    show ?thesis
    proof (cases "api_initialized st")
      case i: True
      then have "snd (api_step fs j c st) = st \<and> isl (fst (api_step fs j c st))"
        using True by (cases c) (simp_all add: initialize_phase(1) initialize_with_config_phase(1))
      then show ?thesis using i True by (auto simp: phase_of_def intro: spec_step.reinit)
    next
      case u: False
      have "api_initialized (snd (api_step fs j c st)) \<longleftrightarrow> \<not> isl (fst (api_step fs j c st))"
        using True u by (cases c) (simp_all add: initialize_phase(2) initialize_with_config_phase(2))
      then show ?thesis
        using True u by (cases "isl (fst (api_step fs j c st))")
          (auto simp: phase_of_def intro: spec_step.init_ok spec_step.init_fail)
    qed
  next
    case False
    show ?thesis
    proof (cases "needs_model c")
      case q: True
      show ?thesis
      proof (cases "api_initialized st")
        case True
        then show ?thesis
          using False q non_init_step_keeps_flag [OF False] by (simp add: phase_of_def spec_step.query_ready)
      next
        case u: False
        then show ?thesis
          using q query_uninit_fails [OF u q] by (simp add: phase_of_def spec_step.query_uninit)
      qed
    next
      case o: False
      then show ?thesis
        using False non_init_step_keeps_flag [OF False] by (simp add: phase_of_def spec_step.other)
    qed
  qed
  then show ?thesis by (simp add: phase_of_def is_ready_def get_vocab_size_def rmap_def)
qed

end
