(* ===== verification/Examples.thy ===== *)
theory Examples
  imports Tokenizer_Tests
begin

text \<open>The example programs of \<open>src/examples\<close>: \<open>tokenizer_demo.cpp\<close>, the two
  programs of \<open>basic_usage.cpp\<close> and \<open>advanced_usage.cpp\<close>. A program is a
  function of the file system it starts on, returning its exit code, what it
  wrote to \<open>std::cout\<close> and to \<open>std::cerr\<close>, and the file system it leaves. \<open>std::endl\<close> is a newline;
  numbers are printed by \<open>to_string\<close>. Exceptions the program catches print
  their \<open>what()\<close>: \<open>mexn\<close> gives the payload of the exception each class stands
  for, as in \<open>initialize_exn\<close>.\<close>

section \<open>Output\<close>

definition endl :: string where
  "endl = [CHR 0x0A]"

text \<open>\<open>for (i ...) { std::cout << f(x[i]); if (i < size - 1) std::cout << ", "; }\<close>\<close>

fun print_list :: "('a \<Rightarrow> string) \<Rightarrow> 'a list \<Rightarrow> string" where
  "print_list f [] = []"
| "print_list f [x] = f x"
| "print_list f (x # xs) = f x @ '', '' @ print_list f xs"

text \<open>The handler of a \<open>catch (const TinyLlamaException&)\<close> followed by a
  \<open>catch (const std::exception&)\<close>.\<close>

definition report_exception :: "(error \<Rightarrow> tl_exception) \<Rightarrow> error \<Rightarrow> string" where
  "report_exception mexn e =
     (if derives_from (class_of e) TinyLlamaExc then ''TinyLlama error: '' @ what (mexn e) @ endl
      else ''Error: '' @ exn_message (mexn e) @ endl)"

section \<open>tokenizer_demo.cpp\<close>

definition demo_vocab_text :: string where
  "demo_vocab_text =
     write_lines [''<unk>'', ''<pad>'', ''<bos>'', ''<eos>'', ''hello'', ''world'', ''this'', ''is'', ''a'',
       ''test'', ''of'', ''the'', ''tokenizer'', ''system'', ''working'', ''correctly'', ''with'', ''some'',
       ''example'', ''text'']"

definition demo_merges_text :: string where
  "demo_merges_text = write_lines [''#version: 0.2'', ''h e'', ''l l'', ''t h'', ''i s'', ''o f'', ''th e'', ''is a'']"

definition create_demo_files :: "file_system \<Rightarrow> file_system" where
  "create_demo_files fs =
     create_test_file ''demo_merges.txt'' demo_merges_text (create_test_file ''demo_vocab.txt'' demo_vocab_text fs)"

definition cleanup_demo_files :: "file_system \<Rightarrow> file_system" where
  "cleanup_demo_files fs = remove_test_file ''demo_merges.txt'' (remove_test_file ''demo_vocab.txt'' fs)"

definition demo_text :: string where
  "demo_text = ''Hello World! This is a TEST.''"

text \<open>The check mark the source prints, as the bytes of its literal.\<close>

definition demo_check_mark :: string where
  "demo_check_mark = [CHR 0xC3, CHR 0xA2, CHR 0xC5, CHR 0x93, CHR 0xE2, CHR 0x80, CHR 0xA6]"

text \<open>What the demo prints once the tokenizer is loaded (lines 48 to 118).\<close>

definition demo_report :: "bpe_tokenizer \<Rightarrow> string" where
  "demo_report t =
     (let preprocessed = preprocess_text demo_text;
          token_strings = encode_to_strings t demo_text;
          token_ids = encode t demo_text;
          decoded = decode t token_ids;
          v = vocab t;
          empty_tokens = encode t [];
          single_char = encode t ''a'';
          unknown_tokens = encode t ''unknownword'';
          test_vocab = vocab_new;
          (new_token_id, test_vocab1) = add_token ''new_token'' test_vocab;
          unknown_id = get_token_id test_vocab1 ''definitely_unknown''
      in ''   Vocabulary size: '' @ to_string (int (tokenizer_vocab_size t)) @ endl
         @ ''   Original text: \"'' @ demo_text @ ''\"'' @ endl
         @ ''   Preprocessed: \"'' @ preprocessed @ ''\"'' @ endl
         @ ''   Token strings: '' @ print_list (\<lambda>s. ''\"'' @ s @ ''\"'') token_strings @ endl
         @ ''   Token IDs: '' @ print_list to_string token_ids @ endl
         @ ''   Decoded text: \"'' @ decoded @ ''\"'' @ endl
         @ ''   Special tokens - UNK: '' @ to_string (unk_token_id v) @ '', PAD: '' @ to_string (pad_token_id v)
           @ '', BOS: '' @ to_string (bos_token_id v) @ '', EOS: '' @ to_string (eos_token_id v) @ endl
         @ endl @ ''2. Testing edge cases:'' @ endl
         @ ''   Empty string tokens: '' @ to_string (int (length empty_tokens)) @ '' tokens'' @ endl
         @ ''   Single char 'a' tokens: '' @ to_string (int (length single_char)) @ '' tokens'' @ endl
         @ ''   Unknown word tokens: '' @ to_string (int (length unknown_tokens)) @ '' tokens'' @ endl
         @ endl @ ''3. Testing vocabulary operations:'' @ endl
         @ ''   Initial vocab size: '' @ to_string (int (vocabulary_size test_vocab)) @ endl
         @ ''   Added 'new_token' with ID: '' @ to_string new_token_id @ endl
         @ ''   New vocab size: '' @ to_string (int (vocabulary_size test_vocab1)) @ endl
         @ ''   Token 'new_token' has ID: '' @ to_string (get_token_id test_vocab1 ''new_token'') @ endl
         @ ''   ID '' @ to_string new_token_id @ '' maps to token: \"'' @ get_token test_vocab1 new_token_id
           @ ''\"'' @ endl
         @ ''   Unknown token ID: '' @ to_string unknown_id @ '' (should be UNK ID: ''
           @ to_string (unk_token_id test_vocab1) @ '')'' @ endl
         @ endl @ demo_check_mark @ '' Tokenizer API demo completed successfully!'' @ endl)"

definition tokenizer_demo_main :: "(error \<Rightarrow> tl_exception) \<Rightarrow> file_system \<Rightarrow> int \<times> string \<times> string \<times> file_system" where
  "tokenizer_demo_main mexn fs0 =
     (let out = ''=== Tokenizer API Demo ==='' @ endl @ endl @ ''1. Testing standalone BPE tokenizer:'' @ endl;
          fs1 = create_demo_files fs0
      in case rbind (load_vocab (file_text fs1 ''demo_vocab.txt'') tokenizer_new)
                (load_merges (file_text fs1 ''demo_merges.txt'')) of
           Inl e \<Rightarrow> (1, out, report_exception mexn e, cleanup_demo_files fs1)
         | Inr t \<Rightarrow> (0, out @ demo_report t, [], cleanup_demo_files fs1))"

section \<open>basic_usage.cpp\<close>

text \<open>The first program (lines 5 to 27): a \<open>TinyLlama\<close> is constructed and
  asked whether it is ready.\<close>

definition basic_usage_main :: "(real \<Rightarrow> 32 word) \<Rightarrow> (nat \<Rightarrow> real) \<Rightarrow> (error \<Rightarrow> tl_exception) \<Rightarrow> int \<times> string \<times> string" where
  "basic_usage_main fl rnd mexn =
     (let out = ''Tiny Llama C++ Basic Usage Example'' @ endl
      in case tiny_llama_new fl rnd of
           Inl e \<Rightarrow> (1, out, report_exception mexn e)
         | Inr llama \<Rightarrow>
             (0, out @ ''TinyLlama instance created successfully'' @ endl
                 @ ''Is ready: '' @ (if is_ready llama then ''Yes'' else ''No'') @ endl
                 @ ''Basic usage example completed (stub implementation)'' @ endl, []))"

section \<open>advanced_usage.cpp\<close>

text \<open>A \<open>TinyLlama\<close> is constructed and a \<open>ModelConfig\<close>, whose fields are set
  to their default values, printed.\<close>

definition advanced_usage_main :: "(real \<Rightarrow> 32 word) \<Rightarrow> (nat \<Rightarrow> real) \<Rightarrow> (error \<Rightarrow> tl_exception) \<Rightarrow> int \<times> string \<times> string" where
  "advanced_usage_main fl rnd mexn =
     (let out = ''Tiny Llama C++ Advanced Usage Example'' @ endl
      in case tiny_llama_new fl rnd of
           Inl e \<Rightarrow> (1, out, report_exception mexn e)
         | Inr llama \<Rightarrow>
             let cfg = default_config\<lparr>model_dim := 512, num_layers := 6, model_config.num_heads := 8,
                         max_sequence_length := 1024\<rparr>
             in (0, out @ ''Model configuration:'' @ endl
                   @ ''  Model dimension: '' @ to_string (int (model_dim cfg)) @ endl
                   @ ''  Number of layers: '' @ to_string (int (num_layers cfg)) @ endl
                   @ ''  Number of heads: '' @ to_string (int (model_config.num_heads cfg)) @ endl
                   @ ''  Max sequence length: '' @ to_string (int (max_sequence_length cfg)) @ endl
                   @ ''Advanced usage example completed (stub implementation)'' @ endl, []))"

section \<open>basic_usage.cpp: the weight loading demo\<close>

text \<open>\<open>TinyLlamaModel()\<close>: the model of the default configuration, stored in
  floats as the facade's constructor stores it.\<close>

definition tinyllama_model :: "(real \<Rightarrow> 32 word) \<Rightarrow> (nat \<Rightarrow> real) \<Rightarrow> 32 word tl_model result" where
  "tinyllama_model fl rnd =
     rbind (model_new default_config rnd) (\<lambda>m.
       Inr ((map_model fl m)\<lparr>config := default_config_f32, temperature := float_1\<rparr>))"

text \<open>The handlers of the second program: \<open>FileIOException\<close>, then
  \<open>ModelException\<close>, then any \<open>std::exception\<close>.\<close>

definition report_weights_exception :: "(error \<Rightarrow> tl_exception) \<Rightarrow> error \<Rightarrow> string" where
  "report_weights_exception mexn e =
     (if e = FileIOError then ''File I/O Error: '' @ what (mexn e) @ endl
      else if e = ModelError then ''Model Error: '' @ what (mexn e) @ endl
      else ''Error: '' @ (if derives_from (class_of e) TinyLlamaExc then what (mexn e) else exn_message (mexn e))
        @ endl)"

text \<open>The second program (lines 34 to 100): a default model, its configuration
  printed, \<open>save_model_weights("demo_weights.bin")\<close>, the size of the file,
  a second default model (its own random weights \<open>rnd2\<close>) loading the file,
  the configurations compared, the file removed. The write fails when the path
  names a directory.\<close>

definition weights_demo_main ::
  "(real \<Rightarrow> 32 word) \<Rightarrow> (nat \<Rightarrow> real) \<Rightarrow> (nat \<Rightarrow> real) \<Rightarrow> nat \<Rightarrow> (error \<Rightarrow> tl_exception) \<Rightarrow> file_system
   \<Rightarrow> int \<times> string \<times> string \<times> file_system" where
  "weights_demo_main fl rnd rnd2 j mexn fs =
     (let weights_file = ''demo_weights.bin'';
          out0 = ''=== Tiny Llama Weight Loading Demo ==='' @ endl
            @ ''Creating model with default configuration...'' @ endl
      in case tinyllama_model fl rnd of
           Inl e \<Rightarrow> (1, out0, report_weights_exception mexn e, fs)
         | Inr model \<Rightarrow>
      let c = config model;
          out1 = out0 @ ''Model Configuration:'' @ endl
            @ ''  Model dimension: '' @ to_string (int (model_dim c)) @ endl
            @ ''  Number of layers: '' @ to_string (int (num_layers c)) @ endl
            @ ''  Number of heads: '' @ to_string (int (num_heads c)) @ endl
            @ ''  FFN hidden dimension: '' @ to_string (int (ffn_hidden_dim c)) @ endl
            @ ''  Max sequence length: '' @ to_string (int (max_sequence_length c)) @ endl
            @ ''  Vocabulary size: '' @ to_string (int (vocab_size c)) @ endl
            @ endl @ ''Saving model weights to: '' @ weights_file @ endl
      in case save_model_weights (fs weights_file \<noteq> Some Directory) model of
           Inl e \<Rightarrow> (1, out1, report_weights_exception mexn e, fs)
         | Inr bs \<Rightarrow>
      let fs1 = fs(weights_file \<mapsto> RegularFile bs);
          out2 = out1 @ (case file_bytes fs1 weights_file of
                           None \<Rightarrow> []
                         | Some b \<Rightarrow> ''Weight file size: '' @ to_string (int (length b)) @ '' bytes'' @ endl)
            @ endl @ ''Creating new model and loading weights...'' @ endl
      in case rbind (tinyllama_model fl rnd2) (load_model_weights (file_bytes fs1 weights_file) j) of
           Inl e \<Rightarrow> (1, out2, report_weights_exception mexn e, fs1)
         | Inr model2 \<Rightarrow>
      let lc = config model2;
          config_matches = (model_dim lc = model_dim c \<and> num_layers lc = num_layers c
            \<and> num_heads lc = num_heads c \<and> ffn_hidden_dim lc = ffn_hidden_dim c
            \<and> max_sequence_length lc = max_sequence_length c \<and> vocab_size lc = vocab_size c)
      in (0, out2 @ ''Weights loaded successfully!'' @ endl
              @ ''Configuration verification: '' @ (if config_matches then ''PASSED'' else ''FAILED'') @ endl
              @ endl @ ''Demo completed successfully!'' @ endl,
          [], remove_test_file weights_file fs1))"

section \<open>Lemmas on the examples\<close>

lemma demo_files:
  assumes "fs ''demo_vocab.txt'' \<noteq> Some Directory" "fs ''demo_merges.txt'' \<noteq> Some Directory"
  shows "file_text (create_demo_files fs) ''demo_vocab.txt'' = Some demo_vocab_text"
    "file_text (create_demo_files fs) ''demo_merges.txt'' = Some demo_merges_text"
    "cleanup_demo_files (create_demo_files fs) = fs(''demo_vocab.txt'' := None, ''demo_merges.txt'' := None)"
  using assms
  by (simp_all add: create_demo_files_def cleanup_demo_files_def create_test_file_def temp_file_reads
      remove_test_file_def fun_upd_twist)

lemma demo_loaded:
  "(case rbind (load_vocab (Some demo_vocab_text) tokenizer_new) (load_merges (Some demo_merges_text)) of
      Inl _ \<Rightarrow> None | Inr t \<Rightarrow> Some (demo_report t))
   = Some (''   Vocabulary size: 20'' @ endl
       @ ''   Original text: \"Hello World! This is a TEST.\"'' @ endl
       @ ''   Preprocessed: \"hello world! this is a test.\"'' @ endl
       @ ''   Token strings: \"he\", \"ll\", \"o\", \" \", \"w\", \"o\", \"r\", \"l\", \"d\", \"!\", \" \", \"th\", \"is\", \" \", \"is\", \" \", \"a\", \" \", \"t\", \"e\", \"s\", \"t\", \".\"'' @ endl
       @ ''   Token IDs: 0, 0, 0, 0, 0, 0, 0, 0, 0, 0, 0, 0, 7, 0, 7, 0, 8, 0, 0, 0, 0, 0, 0'' @ endl
       @ ''   Decoded text: \"<unk><unk><unk><unk><unk><unk><unk><unk><unk><unk><unk><unk>is<unk>is<unk>a<unk><unk><unk><unk><unk><unk>\"'' @ endl
       @ ''   Special tokens - UNK: 0, PAD: 1, BOS: 2, EOS: 3'' @ endl
       @ endl
       @ ''2. Testing edge cases:'' @ endl
       @ ''   Empty string tokens: 0 tokens'' @ endl
       @ ''   Single char 'a' tokens: 1 tokens'' @ endl
       @ ''   Unknown word tokens: 11 tokens'' @ endl
       @ endl
       @ ''3. Testing vocabulary operations:'' @ endl
       @ ''   Initial vocab size: 4'' @ endl
       @ ''   Added 'new_token' with ID: 4'' @ endl
       @ ''   New vocab size: 5'' @ endl
       @ ''   Token 'new_token' has ID: 4'' @ endl
       @ ''   ID 4 maps to token: \"new_token\"'' @ endl
       @ ''   Unknown token ID: 0 (should be UNK ID: 0)'' @ endl
       @ endl
       @ demo_check_mark @ '' Tokenizer API demo completed successfully!'' @ endl)"
  by code_simp

lemma tiny_llama_new_model:
  "tiny_llama_new fl rnd = rmap (\<lambda>m. \<lparr>api_model = m, api_initialized = False\<rparr>) (tinyllama_model fl rnd)"
  by (cases "model_new default_config rnd") (simp_all add: tiny_llama_new_def tinyllama_model_def rmap_def)

lemma tinyllama_model_ok:
  "\<exists>m. tinyllama_model fl rnd = Inr m \<and> wf_model m \<and> config m = default_config_f32"
proof -
  obtain st where st: "tiny_llama_new fl rnd = Inr st"
    using tiny_llama_new_ok by blast
  then have "api_inv st" by (rule api_inv_new)
  moreover have "tinyllama_model fl rnd = Inr (api_model st)"
    using st by (cases "tinyllama_model fl rnd") (auto simp: tiny_llama_new_model rmap_def)
  ultimately show ?thesis by (auto simp: api_inv_def)
qed

lemma length_concat_replicate: "length (concat (replicate n xs)) = n * length xs"
  by (induction n) simp_all

lemma length_write_table:
  "wf_matrix m \<Longrightarrow> 4 * (m_rows m * m_cols m) < size_t_limit \<Longrightarrow> length (write_table m) = 16 + 4 * (m_rows m * m_cols m)"
  by (simp add: write_table_def wf_matrix_def)

lemma saved_default_length:
  assumes "save_model_weights True m = Inr bs" "wf_model m" "config m = default_config_f32"
  shows "length bs = 208778164"
proof -
  have w: "wf_matrix (embedding_weights m)" "m_rows (embedding_weights m) = 32000" "m_cols (embedding_weights m) = 512"
    "wf_matrix (position_embeddings m)" "m_rows (position_embeddings m) = 1024" "m_cols (position_embeddings m) = 512"
    "wf_matrix (output_projection m)" "m_rows (output_projection m) = 512" "m_cols (output_projection m) = 32000"
    using assms(2,3) by (simp_all add: wf_model_def Let_def)
  have l: "length (save_layer_bytes default_config_f32) = 12601488"
    by (simp add: save_layer_bytes_def dummy_table_def dummy_vector_def size_t_limit_def length_concat_replicate)
  show ?thesis
    using w l by (simp add: save_model_bytes [OF assms(1)] assms(3) length_write_table size_t_limit_def
        length_concat_replicate)
qed
lemma to_string_numerals:
  "to_string 512 = ''512''" "to_string 6 = ''6''" "to_string 8 = ''8''" "to_string 2048 = ''2048''"
  "to_string 1024 = ''1024''" "to_string 32000 = ''32000''" "to_string 208778164 = ''208778164''"
  by (simp add: to_string_def digits.simps; code_simp)+

lemma codec_fits_default: "codec_fits default_config_f32"
  by (simp add: codec_fits_def)

lemma weights_demo_run:
  assumes "fs ''demo_weights.bin'' \<noteq> Some Directory"
  shows "weights_demo_main fl rnd rnd2 j mexn fs =
    (0, ''=== Tiny Llama Weight Loading Demo ==='' @ endl @ ''Creating model with default configuration...'' @ endl
        @ ''Model Configuration:'' @ endl @ ''  Model dimension: 512'' @ endl @ ''  Number of layers: 6'' @ endl
        @ ''  Number of heads: 8'' @ endl @ ''  FFN hidden dimension: 2048'' @ endl
        @ ''  Max sequence length: 1024'' @ endl @ ''  Vocabulary size: 32000'' @ endl
        @ endl @ ''Saving model weights to: demo_weights.bin'' @ endl
        @ ''Weight file size: 208778164 bytes'' @ endl
        @ endl @ ''Creating new model and loading weights...'' @ endl
        @ ''Weights loaded successfully!'' @ endl @ ''Configuration verification: PASSED'' @ endl
        @ endl @ ''Demo completed successfully!'' @ endl,
     [], fs(''demo_weights.bin'' := None))"
proof -
  obtain m where m: "tinyllama_model fl rnd = Inr m" "wf_model m" "config m = default_config_f32"
    using tinyllama_model_ok by blast
  obtain m2 where m2: "tinyllama_model fl rnd2 = Inr m2" "wf_model m2" "config m2 = default_config_f32"
    using tinyllama_model_ok by blast
  have "\<exists>bs. save_model_weights True m = Inr bs"
    by (simp add: save_model_weights_def Let_def)
  then obtain bs where bs: "save_model_weights True m = Inr bs" ..
  have len: "length bs = 208778164"
    using saved_default_length [OF bs m(2,3)] .
  have blocks: "length (transformer_blocks m2) = num_layers (config m)"
    using m2(2,3) m(3) by (simp add: wf_model_def Let_def)
  have cf: "codec_fits (config m)" using m(3) codec_fits_default by simp
  have cc: "config m2 = config m" using m(3) m2(3) by simp
  obtain m3 where m3: "load_model_weights (Some bs) j m2 = Inr m3" "config m3 = config m2"
    using load_saved_model [OF bs m(2) cf cc blocks] by simp
  have f: "file_bytes (fs(''demo_weights.bin'' \<mapsto> RegularFile bs)) ''demo_weights.bin'' = Some bs"
    "remove_test_file ''demo_weights.bin'' (fs(''demo_weights.bin'' \<mapsto> RegularFile bs)) = fs(''demo_weights.bin'' := None)"
    by (simp_all add: file_bytes_def remove_test_file_def)
  have c: "model_dim (config m) = 512" "num_layers (config m) = 6" "model_config.num_heads (config m) = 8"
    "ffn_hidden_dim (config m) = 2048" "max_sequence_length (config m) = 1024" "vocab_size (config m) = 32000"
    using m(3) by simp_all
  show ?thesis
    unfolding weights_demo_main_def Let_def
    using m(1) m2(1) bs len m3 assms f c cc
    by (simp add: to_string_numerals)
qed

lemma basic_usage_run:
  "basic_usage_main fl rnd mexn =
    (0, ''Tiny Llama C++ Basic Usage Example'' @ endl @ ''TinyLlama instance created successfully'' @ endl
        @ ''Is ready: No'' @ endl @ ''Basic usage example completed (stub implementation)'' @ endl, [])"
  using tiny_llama_new_ok [of fl rnd] by (auto simp: basic_usage_main_def is_ready_def)

lemma advanced_usage_run:
  "advanced_usage_main fl rnd mexn =
    (0, ''Tiny Llama C++ Advanced Usage Example'' @ endl @ ''Model configuration:'' @ endl
        @ ''  Model dimension: 512'' @ endl @ ''  Number of layers: 6'' @ endl @ ''  Number of heads: 8'' @ endl
        @ ''  Max sequence length: 1024'' @ endl @ ''Advanced usage example completed (stub implementation)'' @ endl,
     [])"
  using tiny_llama_new_ok [of fl rnd]
  by (auto simp: advanced_usage_main_def default_config_def to_string_numerals)

lemma tokenizer_demo_run:
  assumes "fs ''demo_vocab.txt'' \<noteq> Some Directory" "fs ''demo_merges.txt'' \<noteq> Some Directory"
  shows "tokenizer_demo_main mexn fs =
    (0, ''=== Tokenizer API Demo ==='' @ endl
       @ endl
       @ ''1. Testing standalone BPE tokenizer:'' @ endl
       @ ''   Vocabulary size: 20'' @ endl
       @ ''   Original text: \"Hello World! This is a TEST.\"'' @ endl
       @ ''   Preprocessed: \"hello world! this is a test.\"'' @ endl
       @ ''   Token strings: \"he\", \"ll\", \"o\", \" \", \"w\", \"o\", \"r\", \"l\", \"d\", \"!\", \" \", \"th\", \"is\", \" \", \"is\", \" \", \"a\", \" \", \"t\", \"e\", \"s\", \"t\", \".\"'' @ endl
       @ ''   Token IDs: 0, 0, 0, 0, 0, 0, 0, 0, 0, 0, 0, 0, 7, 0, 7, 0, 8, 0, 0, 0, 0, 0, 0'' @ endl
       @ ''   Decoded text: \"<unk><unk><unk><unk><unk><unk><unk><unk><unk><unk><unk><unk>is<unk>is<unk>a<unk><unk><unk><unk><unk><unk>\"'' @ endl
       @ ''   Special tokens - UNK: 0, PAD: 1, BOS: 2, EOS: 3'' @ endl
       @ endl
       @ ''2. Testing edge cases:'' @ endl
       @ ''   Empty string tokens: 0 tokens'' @ endl
       @ ''   Single char 'a' tokens: 1 tokens'' @ endl
       @ ''   Unknown word tokens: 11 tokens'' @ endl
       @ endl
       @ ''3. Testing vocabulary operations:'' @ endl
       @ ''   Initial vocab size: 4'' @ endl
       @ ''   Added 'new_token' with ID: 4'' @ endl
       @ ''   New vocab size: 5'' @ endl
       @ ''   Token 'new_token' has ID: 4'' @ endl
       @ ''   ID 4 maps to token: \"new_token\"'' @ endl
       @ ''   Unknown token ID: 0 (should be UNK ID: 0)'' @ endl
       @ endl
       @ demo_check_mark @ '' Tokenizer API demo completed successfully!'' @ endl,
     [], fs(''demo_vocab.txt'' := None, ''demo_merges.txt'' := None))"
  using demo_loaded demo_files [OF assms]
  by (simp add: tokenizer_demo_main_def Let_def split: sum.splits)

section \<open>Properties of the examples\<close>

text \<open>Claim C38: the example programs run as follows, on any file system where
  the names of the files they write are not directories. \<open>tokenizer_demo\<close>
  exits with 0, writes nothing to \<open>std::cerr\<close>, removes the two files it
  created, and prints exactly the text below: the demo's merges build \<open>he\<close>,
  \<open>ll\<close> and \<open>th\<close>, which its vocabulary lacks, so 19 of the 23 tokens of its
  sample sentence are \<open><unk>\<close> and the decoded text does not restore the
  sentence; the program still reports success. The first program of
  \<open>basic_usage.cpp\<close> reports a new \<open>TinyLlama\<close> as not ready. The second saves
  the default model's weights into a file of 208778164 bytes, loads them into a
  second default model, finds the configurations equal and removes the file,
  whatever random weights the two models were built with. \<open>advanced_usage.cpp\<close>
  prints the default dimensions it sets. The file size contradicts
  \<open>src/data/WEIGHT_FORMAT.md\<close> (lines 96 to 104), which estimates the file of
  the default configuration at about 156MB: its per-layer figure of about 4MB
  counts only the four attention matrices, but each layer also holds the two
  \<open>512 x 2048\<close> network matrices, so a layer takes 12601488 bytes and the file
  208778164.\<close>

theorem example_programs_output:
  assumes "fs ''demo_vocab.txt'' \<noteq> Some Directory" "fs ''demo_merges.txt'' \<noteq> Some Directory"
    and "fs ''demo_weights.bin'' \<noteq> Some Directory"
  shows "tokenizer_demo_main mexn fs =
    (0, ''=== Tokenizer API Demo ==='' @ endl
       @ endl
       @ ''1. Testing standalone BPE tokenizer:'' @ endl
       @ ''   Vocabulary size: 20'' @ endl
       @ ''   Original text: \"Hello World! This is a TEST.\"'' @ endl
       @ ''   Preprocessed: \"hello world! this is a test.\"'' @ endl
       @ ''   Token strings: \"he\", \"ll\", \"o\", \" \", \"w\", \"o\", \"r\", \"l\", \"d\", \"!\", \" \", \"th\", \"is\", \" \", \"is\", \" \", \"a\", \" \", \"t\", \"e\", \"s\", \"t\", \".\"'' @ endl
       @ ''   Token IDs: 0, 0, 0, 0, 0, 0, 0, 0, 0, 0, 0, 0, 7, 0, 7, 0, 8, 0, 0, 0, 0, 0, 0'' @ endl
       @ ''   Decoded text: \"<unk><unk><unk><unk><unk><unk><unk><unk><unk><unk><unk><unk>is<unk>is<unk>a<unk><unk><unk><unk><unk><unk>\"'' @ endl
       @ ''   Special tokens - UNK: 0, PAD: 1, BOS: 2, EOS: 3'' @ endl
       @ endl
       @ ''2. Testing edge cases:'' @ endl
       @ ''   Empty string tokens: 0 tokens'' @ endl
       @ ''   Single char 'a' tokens: 1 tokens'' @ endl
       @ ''   Unknown word tokens: 11 tokens'' @ endl
       @ endl
       @ ''3. Testing vocabulary operations:'' @ endl
       @ ''   Initial vocab size: 4'' @ endl
       @ ''   Added 'new_token' with ID: 4'' @ endl
       @ ''   New vocab size: 5'' @ endl
       @ ''   Token 'new_token' has ID: 4'' @ endl
       @ ''   ID 4 maps to token: \"new_token\"'' @ endl
       @ ''   Unknown token ID: 0 (should be UNK ID: 0)'' @ endl
       @ endl
       @ demo_check_mark @ '' Tokenizer API demo completed successfully!'' @ endl,
     [], fs(''demo_vocab.txt'' := None, ''demo_merges.txt'' := None))
   \<and> basic_usage_main fl rnd mexn =
    (0, ''Tiny Llama C++ Basic Usage Example'' @ endl @ ''TinyLlama instance created successfully'' @ endl
        @ ''Is ready: No'' @ endl @ ''Basic usage example completed (stub implementation)'' @ endl, [])
   \<and> advanced_usage_main fl rnd mexn =
    (0, ''Tiny Llama C++ Advanced Usage Example'' @ endl @ ''Model configuration:'' @ endl
        @ ''  Model dimension: 512'' @ endl @ ''  Number of layers: 6'' @ endl @ ''  Number of heads: 8'' @ endl
        @ ''  Max sequence length: 1024'' @ endl @ ''Advanced usage example completed (stub implementation)'' @ endl,
     [])
   \<and> weights_demo_main fl rnd rnd2 j mexn fs =
    (0, ''=== Tiny Llama Weight Loading Demo ==='' @ endl @ ''Creating model with default configuration...'' @ endl
        @ ''Model Configuration:'' @ endl @ ''  Model dimension: 512'' @ endl @ ''  Number of layers: 6'' @ endl
        @ ''  Number of heads: 8'' @ endl @ ''  FFN hidden dimension: 2048'' @ endl
        @ ''  Max sequence length: 1024'' @ endl @ ''  Vocabulary size: 32000'' @ endl
        @ endl @ ''Saving model weights to: demo_weights.bin'' @ endl
        @ ''Weight file size: 208778164 bytes'' @ endl
        @ endl @ ''Creating new model and loading weights...'' @ endl
        @ ''Weights loaded successfully!'' @ endl @ ''Configuration verification: PASSED'' @ endl
        @ endl @ ''Demo completed successfully!'' @ endl,
     [], fs(''demo_weights.bin'' := None))"
  using tokenizer_demo_run [where fs = fs, OF assms(1,2)] basic_usage_run advanced_usage_run weights_demo_run [where fs = fs, OF assms(3)]
  by simp

theorem example_programs_output_witness:
  "fst (tokenizer_demo_main (\<lambda>k. tinyllama_exception k [] [] [] 0) (\<lambda>_. None)) = 0
   \<and> fst (basic_usage_main (\<lambda>_. 0) (\<lambda>_. 0) (\<lambda>k. tinyllama_exception k [] [] [] 0)) = 0
   \<and> fst (advanced_usage_main (\<lambda>_. 0) (\<lambda>_. 0) (\<lambda>k. tinyllama_exception k [] [] [] 0)) = 0
   \<and> fst (weights_demo_main (\<lambda>_. 0) (\<lambda>_. 0) (\<lambda>_. 0) 0 (\<lambda>k. tinyllama_exception k [] [] [] 0) (\<lambda>_. None)) = 0"
  using example_programs_output [of "\<lambda>_. None" "\<lambda>k. tinyllama_exception k [] [] [] 0" "\<lambda>_. 0" "\<lambda>_. 0"
      "\<lambda>_. 0" 0]
  by simp

end
