(* ===== verification/Spec2Isabelle.thy ===== *)
theory Spec2Isabelle
  imports Layer_Files Tests Tokenizer_Tests Test_Data Facade_Spec Examples
begin

text \<open>
  \<^bold>\<open>A verification library for tiny_llama.\<close>

  tiny_llama is a small C++ transformer language model. Its parts, bottom-up:
  the numeric containers \<open>Matrix<T>\<close> and \<open>Tensor<T>\<close> (\<open>src/src/matrix.cpp\<close>,
  \<open>src/unnamed/part_008\<close>); the attention engine \<open>MultiHeadAttention\<close>
  (\<open>part_008\<close>); the feed-forward network and the transformer block
  (\<open>src/src/tiny_llama.cpp\<close> from line 388); the vocabulary and BPE tokenizer
  (\<open>src/src/tokenizer.cpp\<close>); the model orchestrator \<open>TinyLlamaModel\<close>
  (\<open>part_009\<close>), which owns the tokenizer, the tables and the blocks and runs
  the forward pass and the generation loop, and reads and writes the binary
  weight file; and the public facade \<open>TinyLlama\<close> (\<open>tiny_llama.cpp\<close> lines
  1 to 386, \<open>part_006\<close>), which validates user input and orchestrates
  initialisation. Each part is one theory; a theory imports the theories of the
  parts it calls.

  \<^item> \<open>Prelude\<close>: the error datatype (one constructor per exception class of
    \<open>exceptions.hpp\<close>, plus \<open>std::out_of_range\<close> and \<open>std::invalid_argument\<close>),
    results \<open>error + 'a\<close> chained by \<open>rbind\<close>, \<open>size_t\<close> arithmetic modulo
    \<open>2 ^ 64\<close> (\<open>size_mul\<close>, \<open>size_add\<close>), \<open>std::vector::resize\<close>,
    \<open>std::max_element\<close> and the float exponential with underflow to 0.
  \<^item> \<open>Matrix\<close>: \<open>Matrix<T>\<close> as a record of a row-major buffer and its dimensions,
    every operator with its exceptions, and \<open>Tensor<T>\<close> with
    \<open>compute_index\<close>. Lemmas: the product is the sum of products and fails
    exactly on a dimension mismatch; \<open>compute_index\<close> is the row-major offset.
  \<^item> \<open>Attention\<close>, \<open>FFN\<close>, \<open>Block\<close>: construction and forward passes on \<open>real\<close>
    values; the shape lemmas that make every forward pass of a well-formed
    block succeed, and the causality of a masked attention row.
  \<^item> \<open>Tokenizer\<close>: the vocabulary file loader, the merges loader, preprocessing,
    word splitting, the BPE merge loop (a \<open>function\<close> terminating on the word
    length), encode and decode. Lemmas: encoding preserves the text up to
    whitespace normalisation, decode inverts encode on known tokens, and a
    vocabulary line with an explicit id overwrites that id without a check and
    leaves the ids it skips holding the empty string.
  \<^item> \<open>Model\<close>: \<open>TinyLlamaModel\<close>: constructor, forward pass, temperature softmax,
    greedy sampling, the generation loop and \<open>generate_text\<close>.
  \<^item> \<open>Bytes\<close>: little-endian byte encodings, input streams without exceptions
    (a short read clears \<open>good()\<close>; a scalar read past the end keeps the
    indeterminate bytes of its uninitialised local, the stream's \<open>s_junk\<close>), and
    \<open>Matrix::load_from_file\<close> and \<open>save_to_file\<close>.
  \<^item> \<open>Codec\<close>: \<open>load_model_weights\<close> with its three layer loaders and
    \<open>save_model_weights\<close>, on a model whose floats are their 32-bit patterns.
  \<^item> \<open>Loading\<close>: a successful load keeps every table and layer at the
    configured shape and leaves a non-empty vocabulary; generation on a
    well-formed model runs to completion when the prompt's ids are in range.
  \<^item> \<open>Facade\<close>: IEEE-754 binary32 decoding, the validation helpers, every public
    operation of \<open>TinyLlama\<close> as a function of the state and of a file system
    (paths to files or directories), the datatype \<open>api_call\<close> of calls with the
    step function \<open>api_step\<close>, and the inductive set \<open>api_reachable\<close> of states
    reachable from the constructor by any sequence of calls.
  \<^item> \<open>Exceptions\<close>: the class hierarchy of \<open>exceptions.hpp\<close> under
    \<open>std::exception\<close> as the inductive relation \<open>derives_from\<close>, the payload
    record of \<open>TinyLlamaException\<close> (message, context, file, line) with the
    constructor of each subclass and \<open>what()\<close>, and the facade's validation
    helpers, \<open>initialize\<close> and \<open>initialize_with_config\<close> with the exception
    each throw site builds through \<open>TINY_LLAMA_THROW\<close> (\<open>__FILE__\<close> is the
    parameter \<open>src\<close>; \<open>__LINE__\<close> the line of the macro's first line). Lemmas:
    every failure \<open>api_step\<close> returns is of a class deriving from
    \<open>TinyLlamaException\<close>; the payload version of \<open>initialize\<close> agrees with
    the one on classes used everywhere else; the text \<open>what()\<close> gives.
  \<^item> \<open>Facade_Spec\<close>: the initialisation state machine of the specification
    (Uninitialized and Ready) as an inductive relation labelled by a call's
    success, and the refinement lemma that every \<open>api_step\<close> is one of its
    steps through the abstraction \<open>phase_of\<close>.
  \<^item> \<open>Layer_Files\<close>: the per-component weight files
    (\<open>MultiHeadAttention::load_weights\<close>, \<open>FeedForwardNetwork::load_weights\<close>,
    \<open>TransformerBlock::load_weights\<close>), each as its outcome paired with the
    object it leaves behind, since they replace members before later checks
    can throw. Lemmas: the layout each file is read in, and that a block load
    that fails on its network file keeps the attention matrices it loaded.
  \<^item> \<open>Tests\<close>: the API error-handling test program \<open>src/unnamed/part_002\<close> in
    its two versions (lines 1 to 330 and 330 to 674): the helpers that create and
    remove files as updates of the file system, \<open>EXPECT_EXCEPTION\<close> and
    \<open>EXPECT_NO_EXCEPTION\<close> as checks of a result, each test as the list of its
    checks against the facade, and \<open>main\<close> as the first failing check;
    \<open>test_exception_context\<close> inspects the payload of the exception
    \<open>initialize("")\<close> throws. Lemmas: the revised program passes, the first one
    aborts at its double-initialisation check, which of its other checks fail,
    and the text \<open>what()\<close> gives for the inspected exception.
  \<^item> \<open>Tokenizer_Tests\<close>: the Vocabulary and BPETokenizer unit tests
    (\<open>src/unnamed/part_000\<close>) over the same file system, each test as the list
    of its asserts on the tokenizer model. Lemma: every assert of both test
    drivers holds. The closed computations are evaluated by \<open>code_simp\<close>.
  \<^item> \<open>Test_Data\<close>: the program that writes the integration-test data
    (\<open>src/unnamed/part_001\<close>): the weight file with the drawn values as a
    parameter, the vocabulary and merges files. Lemmas: the vocabulary it writes
    has 128 tokens where its configuration says 100, a model of that
    configuration fails on a prompt whose word merges into an id past 100, and
    the facade's \<open>initialize\<close> cannot load the directory it fills.
  \<^item> \<open>Examples\<close>: the example programs \<open>src/examples/tokenizer_demo.cpp\<close> and
    the two programs of \<open>src/examples/basic_usage.cpp\<close> and
    \<open>advanced_usage.cpp\<close>, each as a function of
    the file system returning its exit code, its \<open>std::cout\<close> and
    \<open>std::cerr\<close> text and the file system it leaves. Lemma: the exact output
    of each, including the size of the weight file the default model writes.

  \<^bold>\<open>What the theorems show.\<close> Functional correctness of the matrix product,
  tensor indexing, softmax and greedy sampling; causality of the attention mask;
  that a freshly built model runs the forward pass on every valid input; the
  error of each guard; round trips (matrix files, the weight file, which
  restores the tables but writes fixed data for every layer, and encode/decode);
  termination of the BPE loop; and for the facade an invariant of all reachable
  states (default configuration, well-formed shapes, non-empty vocabulary), the
  one-way initialisation state machine (only a successful initialisation call
  sets the flag, and it is never cleared) and the refinement of the
  specification's machine by every call, that initialisation can always
  succeed, the exact conditions of \<open>generate\<close>'s configuration errors and of its
  success, that the stored temperature never affects generation, and that every
  exception escaping the facade is a \<open>TinyLlamaException\<close>. For the test
  programs and examples: which of their checks pass, and what they print.

  \<^bold>\<open>Bounds and fuel.\<close> No model needs fuel: the generation loop is structural
  recursion on \<open>max_tokens\<close>, the BPE loop terminates because each merge
  shortens the word, and every other loop is a fold over a list. Integer fields
  of C++ type \<open>int\<close> are naturals checked below \<open>2 ^ 31\<close> where the file
  format needs it (\<open>codec_fits\<close>); \<open>size_t\<close> products wrap modulo \<open>2 ^ 64\<close>,
  and \<open>config_fits\<close> states when they do not.

  \<^bold>\<open>Not modelled.\<close> Floating-point rounding: forward passes compute on reals
  (the facade reads its stored floats through \<open>f32_real\<close>, with non-finite
  values read as 0), and the floats the constructor computes from \<open>rand()\<close> are
  a parameter. The partly loaded model a failed \<open>initialize\<close> leaves behind:
  the facade keeps the model of before the call, while the code keeps whatever
  the loaders replaced before the failure. No query sees the difference, since
  every query needs the initialised flag, which a failure clears; but a later
  initialisation starts from it: \<open>Vocabulary::load_from_file\<close> begins with the
  special-token ids of the vocabulary it replaces (\<open>tokenizer.cpp\<close> lines 32 to
  35). So what the model says of a successful initialisation that follows a
  failed one may differ from the code in where the special tokens are placed;
  no property here states where they are after such a sequence. The payload of
  the exceptions thrown below the facade (by the tokenizer, the model and the
  matrices): their class is modelled, their message is a parameter
  (\<open>mexn\<close>). The README (\<open>part_004\<close>), which is documentation; the class
  declaration of \<open>TinyLlama\<close> (\<open>part_006\<close>) only as the operations it
  declares (\<open>api_call\<close>). Directories
  as containers (the file system maps full paths, so \<open>rmdir\<close> of a non-empty
  directory is not refused), and file I/O beyond the contents of the files.
\<close>

end
